(* ===== verification/Prelude.thy ===== *)
theory Prelude
  imports Main "HOL-Library.Sublist"
begin

section \<open>Shared vocabulary: errors, time, strings\<close>

text \<open>
  What the components share: the types that stand for Go's built-in data (byte strings, error
  values, instants and durations), the string helpers of the Go standard library that the
  sources call, and the generic lemmas and theorem collections the component theories use.

  Go's \<open>string\<close> and \<open>[]byte\<close> are both sequences of bytes; an Isabelle \<^typ>\<open>char\<close> is a
  byte, so both are \<^typ>\<open>string\<close>. Go's \<open>int\<close> and \<open>int64\<close> are \<^typ>\<open>int\<close>, with the
  64-bit range checked wherever a value can leave it.
\<close>

named_theorems go_defs \<open>definitions of small helpers that component proofs unfold\<close>

type_synonym bytes = string

subsection \<open>Error values\<close>

text \<open>
  A Go \<open>error\<close>: a message, a message wrapped around a cause (\<open>errors.Wrap\<close>, \<open>fmt.Errorf\<close>
  with \<open>%w\<close>), one of the sentinel values the sources compare with \<open>errors.Is\<close>, or an error
  that carries a code (the methods \<open>Code() string\<close> of \<open>RunnerError\<close> and
  \<open>ArtifactValidationError\<close>, the reason of a Kubernetes status).
\<close>

datatype k8s_reason = BadRequest | Forbidden | Invalid | NotFound | Unauthorized
  | AlreadyExists | OtherReason

datatype goerr =
    ErrNew string
  | ErrWrap string goerr
  | ErrNoCommand
  | ErrConflict
  | ErrJobNotFound
  | ErrK8sActionForbidden
  | ErrTimeout
  | ErrDeadlineExceeded
  | ErrCanceled
  | ErrNotExist
  | ErrIO
  | ErrK8s k8s_reason string
  | ErrCoded string string

type_synonym 'a result = "goerr + 'a"

fun err_text :: "goerr \<Rightarrow> string" where
  "err_text (ErrNew m) = m"
| "err_text (ErrWrap m e) = m @ '': '' @ err_text e"
| "err_text ErrNoCommand = ''no runner command available''"
| "err_text ErrConflict = ''Message already handled''"
| "err_text ErrJobNotFound = ''job not found''"
| "err_text ErrK8sActionForbidden = ''kubernetes action forbidden''"
| "err_text ErrTimeout = ''nats: timeout''"
| "err_text ErrDeadlineExceeded = ''context deadline exceeded''"
| "err_text ErrCanceled = ''context canceled''"
| "err_text ErrNotExist = ''file does not exist''"
| "err_text ErrIO = ''input/output error''"
| "err_text (ErrK8s r m) = m"
| "err_text (ErrCoded c m) = m"

text \<open>\<open>errors.Is\<close>: the target is the error itself or one of its causes.\<close>

fun errors_is :: "goerr \<Rightarrow> goerr \<Rightarrow> bool" where
  "errors_is (ErrWrap m e) t = (ErrWrap m e = t \<or> errors_is e t)"
| "errors_is e t = (e = t)"

text \<open>\<open>errors.As\<close> with an interface that has \<open>Code() string\<close>: the first code on the chain.\<close>

fun err_code :: "goerr \<Rightarrow> string option" where
  "err_code (ErrCoded c m) = Some c"
| "err_code (ErrWrap m e) = err_code e"
| "err_code e = None"

fun k8s_reason_of :: "goerr \<Rightarrow> k8s_reason option" where
  "k8s_reason_of (ErrK8s r m) = Some r"
| "k8s_reason_of (ErrWrap m e) = k8s_reason_of e"
| "k8s_reason_of e = None"

subsection \<open>Instants and durations\<close>

text \<open>
  \<open>time.Time\<close> is a number of nanoseconds since the Unix epoch, \<open>time.Duration\<close> a number of
  nanoseconds. The zero value of \<open>time.Time\<close> is the first instant of year 1.
\<close>

type_synonym gtime = int
type_synonym duration = int

definition second :: duration where
  "second = 1000000000"

definition time_zero :: gtime where
  "time_zero = - 62135596800 * second"

definition is_zero :: "gtime \<Rightarrow> bool" where
  "is_zero t \<longleftrightarrow> t = time_zero"

definition time_unix :: "int \<Rightarrow> gtime" where
  "time_unix s = s * second"

definition unix_of :: "gtime \<Rightarrow> int" where
  "unix_of t = t div second"

text \<open>\<open>t.Truncate(time.Second)\<close>: the start of the second that contains \<open>t\<close>.\<close>

definition truncate_second :: "gtime \<Rightarrow> gtime" where
  "truncate_second t = (t div second) * second"

declare second_def [go_defs] time_unix_def [go_defs] unix_of_def [go_defs]
  truncate_second_def [go_defs] is_zero_def [go_defs]

text \<open>\<open>u.Sub(t)\<close> saturates at the limits of a 64-bit duration.\<close>

definition time_sub :: "gtime \<Rightarrow> gtime \<Rightarrow> duration" where
  "time_sub u t = max (- (2 ^ 63)) (min (2 ^ 63 - 1) (u - t))"

lemma second_pos [simp]: "0 < second"
  by (simp add: second_def)

lemma unix_of_time_unix [simp]: "unix_of (time_unix s) = s"
  by (simp add: go_defs)

lemma time_unix_of_truncate: "time_unix (unix_of t) = truncate_second t"
  by (simp add: go_defs)

lemma truncate_second_le: "truncate_second t \<le> t"
  using mult_div_mod_eq [of second t] pos_mod_sign [of second t]
  by (simp add: truncate_second_def mult.commute) (simp add: second_def)

lemma truncate_second_gt: "t < truncate_second t + second"
  using mult_div_mod_eq [of second t] pos_mod_bound [of second t]
  by (simp add: truncate_second_def mult.commute) (simp add: second_def)

lemma unix_of_add_seconds [simp]: "unix_of (t + k * second) = unix_of t + k"
  by (simp add: unix_of_def second_def)

lemma time_unix_mono: "time_unix a < time_unix b \<longleftrightarrow> a < b"
  by (simp add: go_defs)

subsection \<open>64-bit integers\<close>

definition fits_int64 :: "int \<Rightarrow> bool" where
  "fits_int64 i \<longleftrightarrow> - (2 ^ 63) \<le> i \<and> i < 2 ^ 63"

definition fits_uint64 :: "int \<Rightarrow> bool" where
  "fits_uint64 i \<longleftrightarrow> 0 \<le> i \<and> i < 2 ^ 64"

text \<open>A signed 64-bit result: what is left after wrap-around.\<close>

definition wrap_int64 :: "int \<Rightarrow> int" where
  "wrap_int64 i = (i + 2 ^ 63) mod 2 ^ 64 - 2 ^ 63"

lemma wrap_int64_fits [simp]: "fits_int64 (wrap_int64 i)"
proof -
  have "(0::int) \<le> (i + 2 ^ 63) mod 2 ^ 64" and "(i + 2 ^ 63) mod 2 ^ 64 < (2 ^ 64 :: int)"
    by simp_all
  then show ?thesis by (simp add: fits_int64_def wrap_int64_def)
qed

lemma wrap_int64_id [simp]: "fits_int64 i \<Longrightarrow> wrap_int64 i = i"
  by (simp add: fits_int64_def wrap_int64_def)

subsection \<open>Transition systems\<close>

text \<open>The states a step relation reaches from its initial states, and the contract of an
  invariant: it holds initially and every step keeps it.\<close>

inductive reach :: "('s \<Rightarrow> bool) \<Rightarrow> ('s \<Rightarrow> 's \<Rightarrow> bool) \<Rightarrow> 's \<Rightarrow> bool" for I S where
  reach_init: "I s \<Longrightarrow> reach I S s"
| reach_step: "reach I S s \<Longrightarrow> S s s' \<Longrightarrow> reach I S s'"

locale transition_invariant =
  fixes initial :: "'s \<Rightarrow> bool" and step :: "'s \<Rightarrow> 's \<Rightarrow> bool" and inv :: "'s \<Rightarrow> bool"
  assumes initial_inv: "initial s \<Longrightarrow> inv s"
    and step_inv: "step s s' \<Longrightarrow> inv s \<Longrightarrow> inv s'"
begin

lemma reach_inv: "reach initial step s \<Longrightarrow> inv s"
  by (induction rule: reach.induct) (auto intro: initial_inv step_inv)

lemma steps_inv: "step\<^sup>*\<^sup>* s s' \<Longrightarrow> inv s \<Longrightarrow> inv s'"
  by (induction rule: rtranclp_induct) (auto intro: step_inv)

end

end
