(* ===== verification/Strings.thy ===== *)
theory Strings
  imports Prelude
begin

section \<open>The string functions of the Go standard library\<close>

text \<open>
  The functions of \<open>strings\<close>, \<open>bytes\<close> and \<open>fmt\<close> that the sources call, on byte strings:
  splitting and joining on a separator byte, trimming, fields, case folding, prefixes and
  suffixes, and the decimal and hexadecimal notation of numbers. White space and letter case
  are those of ASCII: no identifier the program compares contains other letters.
\<close>

subsection \<open>Splitting and joining\<close>

text \<open>\<open>strings.Split(s, sep)\<close> for a one-byte separator.\<close>

fun split_char :: "char \<Rightarrow> string \<Rightarrow> string list" where
  "split_char c [] = [[]]"
| "split_char c (x # xs) =
     (if x = c then [] # split_char c xs
      else (case split_char c xs of [] \<Rightarrow> [[x]] | y # ys \<Rightarrow> (x # y) # ys))"

text \<open>\<open>strings.Join(parts, sep)\<close> for a one-byte separator.\<close>

fun join_char :: "char \<Rightarrow> string list \<Rightarrow> string" where
  "join_char c [] = []"
| "join_char c [x] = x"
| "join_char c (x # y # ys) = x @ c # join_char c (y # ys)"

lemma split_char_not_Nil [simp]: "split_char c s \<noteq> []"
  by (induction s) (auto split: list.splits)

lemma join_split [simp]: "join_char c (split_char c s) = s"
proof (induction s)
  case (Cons x xs)
  obtain y ys where "split_char c xs = y # ys"
    by (cases "split_char c xs") auto
  with Cons.IH show ?case by (cases ys) auto
qed simp

lemma split_char_no_sep [simp]: "c \<notin> set s \<Longrightarrow> split_char c s = [s]"
  by (induction s) auto

lemma split_char_append:
  "c \<notin> set s \<Longrightarrow> split_char c (s @ c # t) = s # split_char c t"
  by (induction s) auto

lemma split_join [simp]:
  "xs \<noteq> [] \<Longrightarrow> \<forall>x\<in>set xs. c \<notin> set x \<Longrightarrow> split_char c (join_char c xs) = xs"
  by (induction c xs rule: join_char.induct) (auto simp: split_char_append)

lemma split_char_parts: "x \<in> set (split_char c s) \<Longrightarrow> c \<notin> set x"
  by (induction s arbitrary: x) (auto split: if_splits list.splits)

text \<open>A separator that occurs in neither left part determines both parts.\<close>

lemma append_sep_inject:
  assumes "c \<notin> set a" and "c \<notin> set a'" and "a @ c # b = a' @ c # b'"
  shows "a = a' \<and> b = b'"
  using assms
proof (induction a arbitrary: a')
  case Nil
  then show ?case by (cases a') auto
next
  case (Cons x xs)
  then show ?case by (cases a') auto
qed

subsection \<open>White space, trimming, fields\<close>

definition is_space :: "char \<Rightarrow> bool" where
  "is_space c \<longleftrightarrow> c \<in> {CHR 0x09, CHR 0x0A, CHR 0x0B, CHR 0x0C, CHR 0x0D, CHR 0x20}"

definition trim_space :: "string \<Rightarrow> string" where
  "trim_space s = rev (dropWhile is_space (rev (dropWhile is_space s)))"

text \<open>\<open>strings.Trim(s, cutset)\<close> for a one-byte cutset.\<close>

definition trim_char :: "char \<Rightarrow> string \<Rightarrow> string" where
  "trim_char c s = rev (dropWhile (\<lambda>x. x = c) (rev (dropWhile (\<lambda>x. x = c) s)))"

text \<open>\<open>strings.TrimRight(s, c)\<close> for a one-byte cutset.\<close>

definition trim_right_char :: "char \<Rightarrow> string \<Rightarrow> string" where
  "trim_right_char c s = rev (dropWhile (\<lambda>x. x = c) (rev s))"

lemma trim_right_char_last: "trim_right_char c s \<noteq> [] \<Longrightarrow> last (trim_right_char c s) \<noteq> c"
  using hd_dropWhile [of "\<lambda>x. x = c" "rev s"]
  by (auto simp: trim_right_char_def last_rev)

text \<open>\<open>strings.Fields(s)\<close>: the maximal runs of non-space bytes.\<close>

function fields :: "string \<Rightarrow> string list" where
  "fields s = (case dropWhile is_space s of [] \<Rightarrow> []
     | c # r \<Rightarrow> takeWhile (\<lambda>x. \<not> is_space x) (c # r)
                # fields (dropWhile (\<lambda>x. \<not> is_space x) (c # r)))"
  by pat_completeness auto
termination
proof (relation "measure length", simp)
  fix s c r
  assume a: "dropWhile is_space s = c # r"
  then have nsp: "\<not> is_space c"
    using hd_dropWhile [of is_space s] by auto
  have "length (dropWhile (\<lambda>x. \<not> is_space x) (c # r)) \<le> length r"
    using nsp length_dropWhile_le [of "\<lambda>x. \<not> is_space x" r] by simp
  moreover have "length (c # r) \<le> length s"
    using a length_dropWhile_le [of is_space s] by simp
  ultimately show "(dropWhile (\<lambda>x. \<not> is_space x) (c # r), s) \<in> measure length"
    by simp
qed

declare fields.simps [simp del]

lemma fields_word:
  assumes "w \<noteq> []" and "\<forall>x\<in>set w. \<not> is_space x"
  shows "fields w = [w]"
proof -
  obtain c r where w: "w = c # r" using assms(1) by (cases w) auto
  have d: "dropWhile (\<lambda>x. \<not> is_space x) (c # r) = []"
    using assms(2) w by (auto simp: dropWhile_eq_Nil_conv)
  have t: "takeWhile (\<lambda>x. \<not> is_space x) (c # r) = c # r"
    using assms(2) w by (simp add: takeWhile_eq_all_conv)
  have "dropWhile is_space w = c # r" using assms(2) w by simp
  moreover have "fields [] = []" by (simp add: fields.simps)
  ultimately show ?thesis using d t w by (subst fields.simps) simp
qed

lemma fields_two:
  assumes "v \<noteq> []" "\<forall>x\<in>set v. \<not> is_space x" "w \<noteq> []" "\<forall>x\<in>set w. \<not> is_space x"
  shows "fields (v @ CHR 0x20 # w) = [v, w]"
proof -
  obtain c r where v: "v = c # r" using assms(1) by (cases v) auto
  have sp: "is_space CHR 0x20" by (simp add: is_space_def)
  have d: "dropWhile (\<lambda>x. \<not> is_space x) (v @ CHR 0x20 # w) = CHR 0x20 # w"
    using assms(2) sp by (simp add: dropWhile_append)
  have t: "takeWhile (\<lambda>x. \<not> is_space x) (v @ CHR 0x20 # w) = v"
    using assms(2) sp by (simp add: takeWhile_append)
  have s: "fields (CHR 0x20 # w) = fields w"
    by (subst (1 2) fields.simps) (simp add: sp)
  have "dropWhile is_space (v @ CHR 0x20 # w) = c # (r @ CHR 0x20 # w)"
    using assms(2) v by simp
  then have "fields (v @ CHR 0x20 # w) =
      takeWhile (\<lambda>x. \<not> is_space x) (v @ CHR 0x20 # w)
      # fields (dropWhile (\<lambda>x. \<not> is_space x) (v @ CHR 0x20 # w))"
    using v by (subst fields.simps) simp
  then show ?thesis using d t s fields_word [OF assms(3,4)] by simp
qed

subsection \<open>Letter case\<close>

definition to_lower :: "char \<Rightarrow> char" where
  "to_lower c = (let n = of_char c :: nat in if 65 \<le> n \<and> n \<le> 90 then char_of (n + 32) else c)"

definition equal_fold :: "string \<Rightarrow> string \<Rightarrow> bool" where
  "equal_fold s t \<longleftrightarrow> map to_lower s = map to_lower t"

lemma equal_fold_refl [simp]: "equal_fold s s"
  by (simp add: equal_fold_def)

lemma equal_fold_sym: "equal_fold s t \<longleftrightarrow> equal_fold t s"
  by (auto simp: equal_fold_def)

subsection \<open>Searching\<close>

text \<open>\<open>strings.LastIndex(s, c)\<close> for one byte, as the split it is used for: what is before the
  last occurrence and what is after it.\<close>

fun last_cut :: "char \<Rightarrow> string \<Rightarrow> (string \<times> string) option" where
  "last_cut c [] = None"
| "last_cut c (x # xs) = (case last_cut c xs of
       Some (a, b) \<Rightarrow> Some (x # a, b)
     | None \<Rightarrow> if x = c then Some ([], xs) else None)"

lemma last_cut_None [simp]: "last_cut c s = None \<longleftrightarrow> c \<notin> set s"
  by (induction s) (auto split: option.splits)

lemma last_cut_Some: "last_cut c s = Some (a, b) \<Longrightarrow> s = a @ c # b \<and> c \<notin> set b"
proof (induction s arbitrary: a)
  case (Cons x xs)
  show ?case
  proof (cases "last_cut c xs")
    case None
    with Cons.prems show ?thesis by (auto split: if_splits)
  next
    case (Some p)
    with Cons.prems Cons.IH show ?thesis by (cases p) auto
  qed
qed simp

end
