(* ===== verification/Encoding.thy ===== *)
theory Encoding
  imports Strings
begin

section \<open>Number notation and the hex and base64 encodings\<close>

text \<open>
  \<open>strconv.FormatUint/ParseUint\<close>, \<open>fmt\<close>'s \<open>%d\<close> and \<open>%020d\<close>, \<open>encoding/hex\<close> and the two
  encodings of \<open>encoding/base64\<close> the sources use: \<open>RawURLEncoding\<close> (URL alphabet, no padding)
  and \<open>StdEncoding\<close> (standard alphabet, padded). As in Go, decoding skips carriage returns and
  line feeds, and leftover bits of the last group are not required to be zero.
\<close>

subsection \<open>Decimal notation\<close>

definition digit_char :: "nat \<Rightarrow> char" where
  "digit_char d = char_of (48 + d)"

definition digit_val :: "char \<Rightarrow> nat option" where
  "digit_val c = (let n = of_char c in if 48 \<le> n \<and> n \<le> 57 then Some (n - 48) else None)"

definition is_digit :: "char \<Rightarrow> bool" where
  "is_digit c \<longleftrightarrow> digit_val c \<noteq> None"

fun nat_str :: "nat \<Rightarrow> string" where
  "nat_str n = (if n < 10 then [digit_char n] else nat_str (n div 10) @ [digit_char (n mod 10)])"

declare nat_str.simps [simp del]

fun digits_val :: "nat \<Rightarrow> string \<Rightarrow> nat option" where
  "digits_val acc [] = Some acc"
| "digits_val acc (c # cs) =
     (case digit_val c of None \<Rightarrow> None | Some d \<Rightarrow> digits_val (acc * 10 + d) cs)"

text \<open>The value of a non-empty run of digits.\<close>

definition parse_nat :: "string \<Rightarrow> nat option" where
  "parse_nat s = (if s = [] then None else digits_val 0 s)"

definition int_str :: "int \<Rightarrow> string" where
  "int_str i = (if i < 0 then CHR ''-'' # nat_str (nat (- i)) else nat_str (nat i))"

definition parse_int :: "string \<Rightarrow> int option" where
  "parse_int s =
     (if s \<noteq> [] \<and> hd s = CHR ''-'' then map_option (\<lambda>n. - int n) (parse_nat (tl s))
      else map_option int (parse_nat s))"

text \<open>\<open>%020d\<close>: decimal digits, padded with zeros on the left to twenty places.\<close>

definition pad20 :: "string \<Rightarrow> string" where
  "pad20 s = replicate (20 - length s) (CHR ''0'') @ s"

lemma digit_val_char [simp]: "d < 10 \<Longrightarrow> digit_val (digit_char d) = Some d"
  by (simp add: digit_val_def digit_char_def)

lemma digit_char_0: "digit_char 0 = CHR ''0''"
proof -
  have "(of_char (digit_char 0) :: nat) = of_char (CHR ''0'')" by (simp add: digit_char_def)
  then show ?thesis by (simp only: of_char_eq_iff)
qed

lemma digits_val_append:
  "digits_val acc (s @ t) = (case digits_val acc s of None \<Rightarrow> None | Some v \<Rightarrow> digits_val v t)"
  by (induction s arbitrary: acc) (auto split: option.splits)

lemma nat_str_not_Nil [simp]: "nat_str n \<noteq> []"
  by (subst nat_str.simps) simp

lemma nat_str_digits: "c \<in> set (nat_str n) \<Longrightarrow> \<exists>d<10. c = digit_char d"
proof (induction n rule: nat_str.induct)
  case (1 n)
  show ?case
  proof (cases "n < 10")
    case True
    with "1.prems" show ?thesis by (auto simp: nat_str.simps [of n])
  next
    case False
    with "1.prems" have "c \<in> set (nat_str (n div 10)) \<or> c = digit_char (n mod 10)"
      by (auto simp: nat_str.simps [of n])
    with False "1.IH" show ?thesis by (auto intro: exI [of _ "n mod 10"])
  qed
qed

lemma nat_str_is_digit [simp]: "c \<in> set (nat_str n) \<Longrightarrow> is_digit c"
  by (auto dest!: nat_str_digits simp: is_digit_def)

lemma digits_val_nat_str [simp]: "digits_val 0 (nat_str n) = Some n"
proof (induction n rule: nat_str.induct)
  case (1 n)
  show ?case
  proof (cases "n < 10")
    case True
    then show ?thesis by (simp add: nat_str.simps [of n])
  next
    case False
    with "1.IH" show ?thesis by (simp add: nat_str.simps [of n] digits_val_append)
  qed
qed

lemma parse_nat_str [simp]: "parse_nat (nat_str n) = Some n"
  by (simp add: parse_nat_def)

lemma nat_str_inject [simp]: "nat_str m = nat_str n \<longleftrightarrow> m = n"
  by (metis option.inject parse_nat_str)

lemma minus_not_digit [simp]: "digit_val CHR ''-'' = None"
  by (simp add: digit_val_def)

lemma nat_str_not_minus: "nat_str n \<noteq> CHR ''-'' # r"
  by (metis is_digit_def list.set_intros(1) minus_not_digit nat_str_is_digit)

lemma parse_int_str [simp]: "parse_int (int_str i) = Some i"
proof (cases "i < 0")
  case True
  then show ?thesis by (simp add: int_str_def parse_int_def)
next
  case False
  have "parse_int (nat_str n) = Some (int n)" for n
    using nat_str_not_minus [of n "tl (nat_str n)"]
    by (metis (no_types, lifting) list.collapse option.simps(9) parse_int_def parse_nat_str)
  with False show ?thesis by (simp add: int_str_def)
qed

text \<open>The number of digits grows with the number.\<close>

lemma nat_str_length: "n < 10 ^ k \<Longrightarrow> 0 < k \<Longrightarrow> length (nat_str n) \<le> k"
proof (induction n arbitrary: k rule: nat_str.induct)
  case (1 n)
  show ?case
  proof (cases "n < 10")
    case True
    with "1.prems" show ?thesis by (simp add: nat_str.simps [of n])
  next
    case False
    with "1.prems" obtain j where j: "k = Suc j" "0 < j" by (cases k; cases "k - 1") auto
    with "1.prems" have "n div 10 < 10 ^ j" by (simp add: less_mult_imp_div_less mult.commute)
    with "1.IH" False j show ?thesis by (simp add: nat_str.simps [of n])
  qed
qed

lemma pad20_length [simp]: "length s \<le> 20 \<Longrightarrow> length (pad20 s) = 20"
  by (simp add: pad20_def)

lemma digits_val_zeros [simp]: "digits_val 0 (replicate k CHR ''0'' @ s) = digits_val 0 s"
  by (induction k) (simp_all add: digit_val_def)

lemma pad20_value: "digits_val 0 (pad20 (nat_str n)) = Some n"
  by (simp add: pad20_def)

subsection \<open>Hexadecimal\<close>

definition hex_char :: "nat \<Rightarrow> char" where
  "hex_char d = (if d < 10 then char_of (48 + d) else char_of (87 + d))"

definition hex_val :: "char \<Rightarrow> nat option" where
  "hex_val c = (let n = of_char c in
     if 48 \<le> n \<and> n \<le> 57 then Some (n - 48)
     else if 97 \<le> n \<and> n \<le> 102 then Some (n - 87)
     else if 65 \<le> n \<and> n \<le> 70 then Some (n - 55) else None)"

definition hex_encode :: "bytes \<Rightarrow> string" where
  "hex_encode bs = concat (map (\<lambda>b. let n = of_char b in [hex_char (n div 16), hex_char (n mod 16)]) bs)"

text \<open>\<open>strconv.Quote\<close>, the verb \<open>%q\<close>: quotes, backslashes and control bytes are escaped. Bytes above
  127 belong to printable characters and stay.\<close>

definition quote_char :: "char \<Rightarrow> string" where
  "quote_char c = (if c = CHR 0x22 \<or> c = CHR 0x5C then [CHR 0x5C, c]
     else if c = CHR 0x07 then [CHR 0x5C, CHR ''a''] else if c = CHR 0x08 then [CHR 0x5C, CHR ''b'']
     else if c = CHR 0x09 then [CHR 0x5C, CHR ''t''] else if c = CHR 0x0A then [CHR 0x5C, CHR ''n'']
     else if c = CHR 0x0B then [CHR 0x5C, CHR ''v''] else if c = CHR 0x0C then [CHR 0x5C, CHR ''f'']
     else if c = CHR 0x0D then [CHR 0x5C, CHR ''r'']
     else if of_char c < (32::nat) \<or> c = CHR 0x7F then CHR 0x5C # CHR ''x'' # hex_encode [c] else [c])"

definition go_quote :: "string \<Rightarrow> string" where
  "go_quote s = CHR 0x22 # concat (map quote_char s) @ [CHR 0x22]"

fun hex_decode :: "string \<Rightarrow> bytes option" where
  "hex_decode [] = Some []"
| "hex_decode [c] = None"
| "hex_decode (c # d # r) = (case (hex_val c, hex_val d, hex_decode r) of
     (Some h, Some l, Some bs) \<Rightarrow> Some (char_of (h * 16 + l) # bs) | _ \<Rightarrow> None)"

lemma of_char_lt_256: "(of_char c :: nat) < 256"
  by simp

lemma hex_val_char [simp]: "d < 16 \<Longrightarrow> hex_val (hex_char d) = Some d"
  by (auto simp: hex_val_def hex_char_def)

lemma hex_decode_encode [simp]: "hex_decode (hex_encode bs) = Some bs"
proof (induction bs)
  case (Cons b bs)
  have "(of_char b :: nat) div 16 < 16"
    using of_char_lt_256 [of b] by (simp add: less_mult_imp_div_less)
  with Cons.IH show ?case by (simp add: hex_encode_def Let_def)
qed (simp add: hex_encode_def)

lemma hex_encode_length [simp]: "length (hex_encode bs) = 2 * length bs"
  by (induction bs) (auto simp: hex_encode_def Let_def)

subsection \<open>Base64\<close>

text \<open>Alphabets: the character of a six-bit value and its inverse.\<close>

definition std_char :: "nat \<Rightarrow> char" where
  "std_char n = (if n < 26 then char_of (65 + n) else if n < 52 then char_of (71 + n)
     else if n < 62 then char_of (n - 4) else if n = 62 then CHR ''+'' else CHR ''/'')"

definition std_val :: "char \<Rightarrow> nat option" where
  "std_val c = (let n = of_char c in
     if 65 \<le> n \<and> n \<le> 90 then Some (n - 65) else if 97 \<le> n \<and> n \<le> 122 then Some (n - 71)
     else if 48 \<le> n \<and> n \<le> 57 then Some (n + 4)
     else if c = CHR ''+'' then Some 62 else if c = CHR ''/'' then Some 63 else None)"

definition url_char :: "nat \<Rightarrow> char" where
  "url_char n = (if n = 62 then CHR ''-'' else if n = 63 then CHR ''_'' else std_char n)"

definition url_val :: "char \<Rightarrow> nat option" where
  "url_val c = (if c = CHR ''-'' then Some 62 else if c = CHR ''_'' then Some 63
     else if c = CHR ''+'' \<or> c = CHR ''/'' then None else std_val c)"

text \<open>Encoding without padding: three bytes become four characters, a rest of one or two bytes
  becomes two or three characters.\<close>

fun b64_raw :: "(nat \<Rightarrow> char) \<Rightarrow> bytes \<Rightarrow> string" where
  "b64_raw f [] = []"
| "b64_raw f [a] = (let x = of_char a in [f (x div 4), f (x mod 4 * 16)])"
| "b64_raw f [a, b] = (let x = of_char a; y = of_char b in
     [f (x div 4), f (x mod 4 * 16 + y div 16), f (y mod 16 * 4)])"
| "b64_raw f (a # b # c # r) = (let x = of_char a; y = of_char b; z = of_char c in
     [f (x div 4), f (x mod 4 * 16 + y div 16), f (y mod 16 * 4 + z div 64), f (z mod 64)]
     @ b64_raw f r)"

text \<open>Decoding six-bit values: a rest of two or three values gives one or two bytes, a rest of
  one value is a corrupt input.\<close>

fun b64_values :: "nat list \<Rightarrow> bytes option" where
  "b64_values [] = Some []"
| "b64_values [p] = None"
| "b64_values [p, q] = Some [char_of (p * 4 + q div 16)]"
| "b64_values [p, q, r] = Some [char_of (p * 4 + q div 16), char_of (q mod 16 * 16 + r div 4)]"
| "b64_values (p # q # r # s # vs) =
     map_option (\<lambda>bs. char_of (p * 4 + q div 16) # char_of (q mod 16 * 16 + r div 4)
       # char_of (r mod 4 * 64 + s) # bs) (b64_values vs)"

fun all_values :: "(char \<Rightarrow> nat option) \<Rightarrow> string \<Rightarrow> nat list option" where
  "all_values v [] = Some []"
| "all_values v (c # cs) = (case (v c, all_values v cs) of
     (Some n, Some ns) \<Rightarrow> Some (n # ns) | _ \<Rightarrow> None)"

definition no_newlines :: "string \<Rightarrow> string" where
  "no_newlines s = filter (\<lambda>c. c \<noteq> CHR 0x0A \<and> c \<noteq> CHR 0x0D) s"

definition b64_raw_decode :: "(char \<Rightarrow> nat option) \<Rightarrow> string \<Rightarrow> bytes option" where
  "b64_raw_decode v s = Option.bind (all_values v (no_newlines s)) b64_values"

text \<open>\<open>base64.RawURLEncoding\<close>.\<close>

definition rawurl_encode :: "bytes \<Rightarrow> string" where
  "rawurl_encode bs = b64_raw url_char bs"

definition rawurl_decode :: "string \<Rightarrow> bytes option" where
  "rawurl_decode s = b64_raw_decode url_val s"

text \<open>\<open>base64.StdEncoding\<close>: the encoding is filled with \<open>=\<close> up to a multiple of four characters;
  decoding wants whole groups of four, the last of which may end in one or two \<open>=\<close>.\<close>

definition std_encode :: "bytes \<Rightarrow> string" where
  "std_encode bs = (let s = b64_raw std_char bs in s @ replicate ((4 - length s mod 4) mod 4) (CHR ''=''))"

definition std_decode :: "string \<Rightarrow> bytes option" where
  "std_decode s = (let t = no_newlines s; body = takeWhile (\<lambda>c. c \<noteq> CHR ''='') t;
       pad = drop (length body) t in
     if length t mod 4 = 0 \<and> length pad \<le> 2 \<and> (\<forall>c\<in>set pad. c = CHR ''='')
        \<and> (pad \<noteq> [] \<longrightarrow> length body mod 4 = 4 - length pad)
     then Option.bind (all_values std_val body) b64_values else None)"

text \<open>A codec: what is encoded can be decoded.\<close>

locale byte_codec =
  fixes enc :: "bytes \<Rightarrow> string" and dec :: "string \<Rightarrow> bytes option"
  assumes dec_enc: "dec (enc bs) = Some bs"
begin

lemma enc_inject: "enc a = enc b \<longleftrightarrow> a = b"
  by (metis dec_enc option.inject)

lemma dec_enc_eq_Some: "dec (enc a) = Some b \<longleftrightarrow> a = b"
  by (auto simp: dec_enc)

end

lemma triple_induct [case_names Nil One Two Triple]:
  "P [] \<Longrightarrow> (\<And>a. P [a]) \<Longrightarrow> (\<And>a b. P [a, b]) \<Longrightarrow> (\<And>a b c r. P r \<Longrightarrow> P (a # b # c # r)) \<Longrightarrow> P xs"
  by induction_schema (pat_completeness, lexicographic_order)

lemma six_bits [simp]:
  "x < 256 \<Longrightarrow> x div 4 < (64::nat)" "x mod 4 * 16 < (64::nat)"
  "y < 256 \<Longrightarrow> x mod 4 * 16 + y div 16 < (64::nat)" "y mod 16 * 4 < (64::nat)"
  "z < 256 \<Longrightarrow> y mod 16 * 4 + z div 64 < (64::nat)"
  by linarith+

lemma regroup:
  fixes x y z :: nat
  assumes "y < 256" and "z < 256"
  shows "x div 4 * 4 + (x mod 4 * 16) div 16 = x"
    and "x div 4 * 4 + (x mod 4 * 16 + y div 16) div 16 = x"
    and "(x mod 4 * 16 + y div 16) mod 16 * 16 + (y mod 16 * 4) div 4 = y"
    and "(x mod 4 * 16 + y div 16) mod 16 * 16 + (y mod 16 * 4 + z div 64) div 4 = y"
    and "(y mod 16 * 4 + z div 64) mod 4 * 64 + z mod 64 = z"
proof -
  have y: "y div 16 < 16" and z: "z div 64 < 4"
    using assms by linarith+
  have a: "(x mod 4 * 16 + y div 16) div 16 = x mod 4" and b: "(x mod 4 * 16 + y div 16) mod 16 = y div 16"
    using y by simp_all
  have c: "(y mod 16 * 4 + z div 64) div 4 = y mod 16" and d: "(y mod 16 * 4 + z div 64) mod 4 = z div 64"
    using z by simp_all
  show "x div 4 * 4 + (x mod 4 * 16) div 16 = x" by simp
  show "x div 4 * 4 + (x mod 4 * 16 + y div 16) div 16 = x" by (simp only: a div_mult_mod_eq)
  have e: "(y mod 16 * 4) div 4 = y mod 16" by simp
  show "(x mod 4 * 16 + y div 16) mod 16 * 16 + (y mod 16 * 4) div 4 = y"
    by (simp only: b e div_mult_mod_eq)
  show "(x mod 4 * 16 + y div 16) mod 16 * 16 + (y mod 16 * 4 + z div 64) div 4 = y"
    by (simp only: b c div_mult_mod_eq)
  show "(y mod 16 * 4 + z div 64) mod 4 * 64 + z mod 64 = z" by (simp only: d div_mult_mod_eq)
qed

text \<open>An alphabet: 64 characters with their values, none of them a line break or a pad.\<close>

locale b64_alphabet =
  fixes f :: "nat \<Rightarrow> char" and v :: "char \<Rightarrow> nat option"
  assumes char_value: "n < 64 \<Longrightarrow> v (f n) = Some n"
    and no_value: "c \<in> {CHR 0x0A, CHR 0x0D, CHR ''=''} \<Longrightarrow> v c = None"
begin

lemma ex_char: "n < 64 \<Longrightarrow> \<exists>m<64. f n = f m"
  by blast

lemma raw_chars: "c \<in> set (b64_raw f bs) \<Longrightarrow> \<exists>n<64. c = f n"
  by (induction bs rule: triple_induct) (auto simp: Let_def intro: ex_char)

lemma raw_has_value:
  assumes "c \<in> set (b64_raw f bs)"
  shows "v c \<noteq> None"
proof -
  obtain n where "n < 64" "c = f n" using raw_chars [OF assms] by blast
  then show ?thesis using char_value [of n] by simp
qed

lemma raw_plain:
  assumes "c \<in> set (b64_raw f bs)"
  shows "c \<notin> {CHR 0x0A, CHR 0x0D, CHR ''=''}"
proof
  assume "c \<in> {CHR 0x0A, CHR 0x0D, CHR ''=''}"
  then have "v c = None" by (rule no_value)
  with raw_has_value [OF assms] show False by simp
qed

lemma raw_no_newlines: "no_newlines (b64_raw f bs) = b64_raw f bs"
proof -
  have "c \<noteq> CHR 0x0A \<and> c \<noteq> CHR 0x0D" if "c \<in> set (b64_raw f bs)" for c
    using raw_plain [OF that] by simp
  then show ?thesis unfolding no_newlines_def by (intro filter_True ballI)
qed

lemma raw_values: "Option.bind (all_values v (b64_raw f bs)) b64_values = Some bs"
proof (induction bs rule: triple_induct)
  case (One a)
  then show ?case using regroup(1) [where x = "of_char a" and y = 0 and z = 0] by (simp add: Let_def char_value)
next
  case (Two a b)
  then show ?case
    using regroup(2,3) [where x = "of_char a" and y = "of_char b" and z = 0] by (simp add: Let_def char_value)
next
  case (Triple a b d r)
  then obtain ns where "all_values v (b64_raw f r) = Some ns" "b64_values ns = Some r"
    by (cases "all_values v (b64_raw f r)") auto
  then show ?case
    using regroup(2,4) [where x = "of_char a" and y = "of_char b" and z = "of_char d"]
      regroup(5) [where y = "of_char b" and z = "of_char d"]
    by (simp add: Let_def char_value)
qed simp

lemma raw_decode: "b64_raw_decode v (b64_raw f bs) = Some bs"
  by (simp add: b64_raw_decode_def raw_no_newlines raw_values)

lemma raw_length: "length (b64_raw f bs) = (4 * length bs + 2) div 3"
  by (induction bs rule: triple_induct) (auto simp: Let_def)

end

lemma std_val_char: "n < 64 \<Longrightarrow> std_val (std_char n) = Some n"
  by (auto simp: std_val_def std_char_def Let_def)

lemma url_val_char: "n < 64 \<Longrightarrow> url_val (url_char n) = Some n"
proof -
  assume n: "n < 64"
  show ?thesis
  proof (cases "n < 62")
    case True
    have "std_val (std_char n) = Some n" using n by (rule std_val_char)
    moreover have "std_val CHR ''-'' = None" "std_val CHR ''_'' = None"
      "std_val CHR ''+'' = Some 62" "std_val CHR ''/'' = Some 63"
      by (simp_all add: std_val_def)
    ultimately have "std_char n \<notin> {CHR ''-'', CHR ''_'', CHR ''+'', CHR ''/''}"
      using True by auto
    with True show ?thesis using std_val_char [OF n] by (simp add: url_val_def url_char_def)
  next
    case False
    with n have "n = 62 \<or> n = 63" by arith
    then show ?thesis by (auto simp: url_val_def url_char_def)
  qed
qed

interpretation std: b64_alphabet std_char std_val
  by unfold_locales (auto simp: std_val_char, auto simp: std_val_def)

interpretation url: b64_alphabet url_char url_val
  by unfold_locales (auto simp: url_val_char, auto simp: url_val_def std_val_def)

interpretation rawurl: byte_codec rawurl_encode rawurl_decode
  by unfold_locales (simp add: rawurl_encode_def rawurl_decode_def url.raw_decode)

lemma rawurl_no_dot: "CHR ''.'' \<notin> set (rawurl_encode bs)"
  using url.raw_has_value [of "CHR ''.''" bs]
  by (auto simp: rawurl_encode_def url_val_def std_val_def)

lemma std_pad_length:
  fixes n :: nat
  defines "k \<equiv> (4 * n + 2) div 3"
  shows "(4 - k mod 4) mod 4 \<le> 2" and "(k + (4 - k mod 4) mod 4) mod 4 = 0"
    and "(4 - k mod 4) mod 4 \<noteq> 0 \<Longrightarrow> k mod 4 = 4 - (4 - k mod 4) mod 4"
proof -
  have "k = n div 3 * 4 + (4 * (n mod 3) + 2) div 3"
    using div_mult_mod_eq [of n 3] unfolding k_def by linarith
  moreover have "n mod 3 = 0 \<or> n mod 3 = 1 \<or> n mod 3 = 2" by linarith
  ultimately have "k = n div 3 * 4 \<or> k = n div 3 * 4 + 2 \<or> k = n div 3 * 4 + 3" by auto
  then have m: "k mod 4 = 0 \<or> k mod 4 = 2 \<or> k mod 4 = 3"
    by (elim disjE) (simp_all only: mod_mult_self3 mod_mult_self2_is_0, simp_all)
  then show "(4 - k mod 4) mod 4 \<le> 2"
    and "(4 - k mod 4) mod 4 \<noteq> 0 \<Longrightarrow> k mod 4 = 4 - (4 - k mod 4) mod 4" by auto
  show "(k + (4 - k mod 4) mod 4) mod 4 = 0"
    using m by (auto simp: mod_add_left_eq [of k 4, symmetric])
qed

lemma std_decode_encode: "std_decode (std_encode bs) = Some bs"
proof -
  let ?s = "b64_raw std_char bs" and ?e = "CHR ''=''"
  define k where "k = (4 - length ?s mod 4) mod 4"
  have noeq: "\<forall>c\<in>set ?s. c \<noteq> ?e" using std.raw_plain by blast
  have tw: "takeWhile (\<lambda>c. c \<noteq> ?e) (?s @ replicate k ?e) = ?s"
    using noeq by (cases k) (simp_all add: takeWhile_append takeWhile_eq_all_conv)
  have nn: "no_newlines (?s @ replicate k ?e) = ?s @ replicate k ?e"
    using std.raw_no_newlines [of bs] by (simp add: no_newlines_def filter_replicate)
  have "k \<le> 2" "(length ?s + k) mod 4 = 0" "k \<noteq> 0 \<Longrightarrow> length ?s mod 4 = 4 - k"
    using std_pad_length [of "length bs"] unfolding k_def std.raw_length by blast+
  moreover have "std_encode bs = ?s @ replicate k ?e"
    by (simp add: std_encode_def Let_def k_def)
  ultimately show ?thesis
    unfolding std_decode_def Let_def by (simp add: nn tw std.raw_values)
qed

interpretation stdenc: byte_codec std_encode std_decode
  by unfold_locales (rule std_decode_encode)

interpretation hex: byte_codec hex_encode hex_decode
  by unfold_locales simp

subsection \<open>Path segments of a URL\<close>

text \<open>\<open>url.PathEscape\<close> and its inverse.\<close>

definition alnum :: "char \<Rightarrow> bool" where
  "alnum c \<longleftrightarrow> (let n = of_char c :: nat in
     (48 \<le> n \<and> n \<le> 57) \<or> (65 \<le> n \<and> n \<le> 90) \<or> (97 \<le> n \<and> n \<le> 122))"

definition path_safe :: "char \<Rightarrow> bool" where
  "path_safe c \<longleftrightarrow> alnum c \<or> c \<in> set ''-_.~$&+:=@''"

definition upper_hex :: "nat \<Rightarrow> char" where
  "upper_hex d = (if d < 10 then char_of (48 + d) else char_of (55 + d))"

definition escape_char :: "char \<Rightarrow> string" where
  "escape_char c = (if path_safe c then [c]
     else [CHR ''%'', upper_hex (of_char c div 16), upper_hex (of_char c mod 16)])"

definition path_escape :: "string \<Rightarrow> string" where
  "path_escape s = concat (map escape_char s)"

fun path_unescape :: "string \<Rightarrow> string option" where
  "path_unescape [] = Some []"
| "path_unescape (c # cs) =
     (if c = CHR ''%'' then (case cs of h # l # r \<Rightarrow> (case (hex_val h, hex_val l, path_unescape r) of
           (Some x, Some y, Some t) \<Rightarrow> Some (char_of (x * 16 + y) # t) | _ \<Rightarrow> None) | _ \<Rightarrow> None)
      else map_option ((#) c) (path_unescape cs))"

lemma hex_val_upper [simp]: "d < 16 \<Longrightarrow> hex_val (upper_hex d) = Some d"
  by (auto simp: hex_val_def upper_hex_def Let_def)

lemma path_safe_not_percent: "path_safe c \<Longrightarrow> c \<noteq> CHR ''%''"
  by (auto simp: path_safe_def alnum_def)

lemma path_unescape_escape_char:
  "path_unescape (escape_char c @ r) = map_option ((#) c) (path_unescape r)"
proof -
  have "(of_char c :: nat) div 16 < 16" using of_char_lt_256 [of c] by linarith
  then show ?thesis
    using path_safe_not_percent [of c] by (cases "path_unescape r") (auto simp: escape_char_def)
qed

lemma path_unescape_escape [simp]: "path_unescape (path_escape s) = Some s"
  by (induction s) (simp_all add: path_escape_def path_unescape_escape_char)

interpretation pathseg: byte_codec path_escape path_unescape
  by unfold_locales simp

lemma upper_hex_not_slash: "d < 16 \<Longrightarrow> upper_hex d \<noteq> CHR ''/''"
  using hex_val_upper [of d] by (auto simp: hex_val_def)

lemma path_escape_no_slash: "CHR ''/'' \<notin> set (path_escape s)"
proof -
  have "CHR ''/'' \<notin> set (escape_char c)" for c
  proof -
    have "(of_char c :: nat) div 16 < 16" using of_char_lt_256 [of c] by linarith
    then show ?thesis
      using upper_hex_not_slash [of "of_char c div 16"] upper_hex_not_slash [of "of_char c mod 16"]
      by (auto simp: escape_char_def path_safe_def alnum_def)
  qed
  then show ?thesis by (simp add: path_escape_def)
qed

end
