(* ===== verification/Json.thy ===== *)
theory Json
  imports Encoding
begin

section \<open>JSON as the Go standard library reads and writes it\<close>

text \<open>
  \<open>encoding/json\<close>: the values, the compact printer (\<open>json.Marshal\<close>, which also escapes the
  three HTML characters), the parser (\<open>json.Unmarshal\<close>), and the rules by which a struct is
  filled from an object: a key selects a field whatever its letter case, a later occurrence of
  a key overwrites an earlier one, \<open>null\<close> leaves a field alone, a value of another kind is an
  error. Object members keep the bytes of their value beside the value, for fields of type
  \<open>json.RawMessage\<close>.

  Parsing is by recursion with fuel; the fuel \<open>json_decode\<close> supplies is one more than the length
  of the input, and every nested call consumes at least one byte. Go's limit of ten thousand
  nested values is not modelled.
\<close>

datatype json =
    JNull
  | JBool bool
  | JNum string
  | JStr string
  | JArr "json list"
  | JObj "(string \<times> bytes \<times> json) list"

subsection \<open>Strings\<close>

abbreviation byte_in :: "nat \<Rightarrow> nat \<Rightarrow> char \<Rightarrow> bool" where
  "byte_in lo hi c \<equiv> lo \<le> of_char c \<and> of_char c \<le> hi"

text \<open>The number of bytes of the well-formed UTF-8 sequence a string starts with, 0 if it starts
  with none.\<close>

definition utf8_len :: "string \<Rightarrow> nat" where
  "utf8_len s = (case s of [] \<Rightarrow> 0 | a # r \<Rightarrow>
     if byte_in 0 0x7F a then 1
     else if byte_in 0xC2 0xDF a then (case r of b # _ \<Rightarrow> if byte_in 0x80 0xBF b then 2 else 0 | _ \<Rightarrow> 0)
     else if byte_in 0xE0 0xEF a then (case r of b # c # _ \<Rightarrow>
        if byte_in (if of_char a = (0xE0::nat) then 0xA0 else 0x80)
                   (if of_char a = (0xED::nat) then 0x9F else 0xBF) b \<and> byte_in 0x80 0xBF c
        then 3 else 0 | _ \<Rightarrow> 0)
     else if byte_in 0xF0 0xF4 a then (case r of b # c # d # _ \<Rightarrow>
        if byte_in (if of_char a = (0xF0::nat) then 0x90 else 0x80)
                   (if of_char a = (0xF4::nat) then 0x8F else 0xBF) b
           \<and> byte_in 0x80 0xBF c \<and> byte_in 0x80 0xBF d
        then 4 else 0 | _ \<Rightarrow> 0)
     else 0)"

definition utf8_encode :: "nat \<Rightarrow> bytes" where
  "utf8_encode r = (if r < 0x80 then [char_of r]
     else if r < 0x800 then [char_of (0xC0 + r div 64), char_of (0x80 + r mod 64)]
     else if r < 0x10000 then
       [char_of (0xE0 + r div 4096), char_of (0x80 + r div 64 mod 64), char_of (0x80 + r mod 64)]
     else [char_of (0xF0 + r div 262144), char_of (0x80 + r div 4096 mod 64),
           char_of (0x80 + r div 64 mod 64), char_of (0x80 + r mod 64)])"

definition rune_error :: bytes where
  "rune_error = utf8_encode 0xFFFD"

definition esc_ascii :: "char \<Rightarrow> string" where
  "esc_ascii c = (
     if c = CHR 0x22 then [CHR 0x5C, CHR 0x22] else if c = CHR 0x5C then [CHR 0x5C, CHR 0x5C]
     else if c = CHR 0x08 then [CHR 0x5C, CHR ''b''] else if c = CHR 0x0C then [CHR 0x5C, CHR ''f'']
     else if c = CHR 0x0A then [CHR 0x5C, CHR ''n''] else if c = CHR 0x0D then [CHR 0x5C, CHR ''r'']
     else if c = CHR 0x09 then [CHR 0x5C, CHR ''t'']
     else if byte_in 0 0x1F c \<or> c \<in> {CHR ''<'', CHR ''>'', CHR ''&''}
       then CHR 0x5C # ''u00'' @ [hex_char (of_char c div 16), hex_char (of_char c mod 16)]
     else [c])"

function json_escape :: "string \<Rightarrow> string" where
  "json_escape [] = []"
| "json_escape (c # cs) =
     (if byte_in 0 0x7F c then esc_ascii c @ json_escape cs
      else case utf8_len (c # cs) of
          0 \<Rightarrow> CHR 0x5C # ''ufffd'' @ json_escape cs
        | Suc n \<Rightarrow>
            (if take 3 (c # cs) = utf8_encode 0x2028 then CHR 0x5C # ''u2028''
             else if take 3 (c # cs) = utf8_encode 0x2029 then CHR 0x5C # ''u2029''
             else c # take n cs) @ json_escape (drop n cs))"
  by pat_completeness auto
termination
  by (relation "measure length") auto

definition json_quote :: "string \<Rightarrow> string" where
  "json_quote s = CHR 0x22 # json_escape s @ [CHR 0x22]"

definition unesc :: "char \<Rightarrow> char option" where
  "unesc e = (if e \<in> {CHR 0x22, CHR 0x5C, CHR ''/''} then Some e
     else if e = CHR ''b'' then Some (CHR 0x08) else if e = CHR ''f'' then Some (CHR 0x0C)
     else if e = CHR ''n'' then Some (CHR 0x0A) else if e = CHR ''r'' then Some (CHR 0x0D)
     else if e = CHR ''t'' then Some (CHR 0x09) else None)"

fun hex4 :: "string \<Rightarrow> nat option" where
  "hex4 (a # b # c # d # r) = (case (hex_val a, hex_val b, hex_val c, hex_val d) of
     (Some w, Some x, Some y, Some z) \<Rightarrow> Some (((w * 16 + x) * 16 + y) * 16 + z) | _ \<Rightarrow> None)"
| "hex4 _ = None"

text \<open>The code point of an escape whose four digits have been read: a high surrogate joins with
  the low surrogate escaped right after it; a lone surrogate is the replacement character. The
  number says how many bytes of the rest belong to the escape.\<close>

definition surrogate :: "nat \<Rightarrow> string \<Rightarrow> nat \<times> nat" where
  "surrogate u r =
     (if u < 0xD800 \<or> 0xDFFF < u then (u, 0)
      else case (if u < 0xDC00 \<and> take 2 r = [CHR 0x5C, CHR ''u''] then hex4 (drop 2 r) else None) of
          Some l \<Rightarrow> if 0xDC00 \<le> l \<and> l \<le> 0xDFFF
                    then (0x10000 + (u - 0xD800) * 1024 + (l - 0xDC00), 6) else (0xFFFD, 0)
        | None \<Rightarrow> (0xFFFD, 0))"

definition prepend :: "string \<Rightarrow> (string \<times> string) option \<Rightarrow> (string \<times> string) option" where
  "prepend p x = map_option (\<lambda>(s, r). (p @ s, r)) x"

text \<open>The rest of a string literal, after its opening quote: its value and what follows it.\<close>

function parse_str :: "string \<Rightarrow> (string \<times> string) option" where
  "parse_str [] = None"
| "parse_str (c # cs) =
     (if c = CHR 0x22 then Some ([], cs)
      else if c = CHR 0x5C then
        (case cs of [] \<Rightarrow> None
         | e # r \<Rightarrow> if e = CHR ''u'' then
             (case hex4 r of None \<Rightarrow> None
              | Some u \<Rightarrow> case surrogate u (drop 4 r) of (p, k) \<Rightarrow>
                  prepend (utf8_encode p) (parse_str (drop (4 + k) r)))
             else (case unesc e of None \<Rightarrow> None | Some d \<Rightarrow> prepend [d] (parse_str r)))
      else if byte_in 0 0x1F c then None
      else if byte_in 0 0x7F c then prepend [c] (parse_str cs)
      else case utf8_len (c # cs) of
          0 \<Rightarrow> prepend rune_error (parse_str cs)
        | Suc n \<Rightarrow> prepend (c # take n cs) (parse_str (drop n cs)))"
  by pat_completeness auto
termination
  by (relation "measure length") auto

subsection \<open>Numbers\<close>

definition num_digits :: "string \<Rightarrow> (string \<times> string) option" where
  "num_digits s = (let d = takeWhile is_digit s in if d = [] then None else Some (d, drop (length d) s))"

definition num_int :: "string \<Rightarrow> (string \<times> string) option" where
  "num_int s = (if s \<noteq> [] \<and> hd s = CHR ''0'' then Some ([hd s], tl s) else num_digits s)"

definition num_frac :: "string \<Rightarrow> (string \<times> string) option" where
  "num_frac s = (if s \<noteq> [] \<and> hd s = CHR ''.'' then prepend ''.'' (num_digits (tl s)) else Some ([], s))"

definition num_exp :: "string \<Rightarrow> (string \<times> string) option" where
  "num_exp s = (if s \<noteq> [] \<and> hd s \<in> {CHR ''e'', CHR ''E''} then
     (let t = tl s in if t \<noteq> [] \<and> hd t \<in> {CHR ''+'', CHR ''-''}
        then prepend [hd s, hd t] (num_digits (tl t)) else prepend [hd s] (num_digits t))
     else Some ([], s))"

text \<open>A number literal at the start of a string.\<close>

definition parse_num :: "string \<Rightarrow> (string \<times> string) option" where
  "parse_num s = (let neg = s \<noteq> [] \<and> hd s = CHR ''-'' in
     case num_int (if neg then tl s else s) of None \<Rightarrow> None
     | Some (i, r1) \<Rightarrow> (case num_frac r1 of None \<Rightarrow> None
     | Some (f, r2) \<Rightarrow> (case num_exp r2 of None \<Rightarrow> None
     | Some (e, r3) \<Rightarrow> Some ((if neg then ''-'' else []) @ i @ f @ e, r3))))"

subsection \<open>Values\<close>

definition json_ws :: "char \<Rightarrow> bool" where
  "json_ws c \<longleftrightarrow> c \<in> {CHR 0x20, CHR 0x09, CHR 0x0A, CHR 0x0D}"

abbreviation skip_ws :: "string \<Rightarrow> string" where
  "skip_ws \<equiv> dropWhile json_ws"

fun json_encode :: "json \<Rightarrow> string"
  and encode_elems :: "json list \<Rightarrow> string"
  and encode_members :: "(string \<times> bytes \<times> json) list \<Rightarrow> string" where
  "json_encode JNull = ''null''"
| "json_encode (JBool b) = (if b then ''true'' else ''false'')"
| "json_encode (JNum l) = l"
| "json_encode (JStr s) = json_quote s"
| "json_encode (JArr xs) = CHR ''['' # encode_elems xs @ '']''"
| "json_encode (JObj ms) = CHR ''{'' # encode_members ms @ ''}''"
| "encode_elems [] = []"
| "encode_elems [x] = json_encode x"
| "encode_elems (x # y # ys) = json_encode x @ CHR '','' # encode_elems (y # ys)"
| "encode_members [] = []"
| "encode_members [(k, w, v)] = json_quote k @ CHR '':'' # json_encode v"
| "encode_members ((k, w, v) # m # ms) =
     json_quote k @ CHR '':'' # json_encode v @ CHR '','' # encode_members (m # ms)"

fun parse_value :: "nat \<Rightarrow> string \<Rightarrow> (json \<times> string) option"
  and parse_elems :: "nat \<Rightarrow> string \<Rightarrow> (json list \<times> string) option"
  and parse_members :: "nat \<Rightarrow> string \<Rightarrow> ((string \<times> bytes \<times> json) list \<times> string) option" where
  "parse_value 0 s = None"
| "parse_value (Suc n) s = (case skip_ws s of [] \<Rightarrow> None
     | c # r \<Rightarrow>
        if c = CHR 0x22 then map_option (\<lambda>(t, r'). (JStr t, r')) (parse_str r)
        else if c = CHR ''{'' then
          (case skip_ws r of d # r' \<Rightarrow> if d = CHR ''}'' then Some (JObj [], r')
               else map_option (\<lambda>(ms, r''). (JObj ms, r'')) (parse_members n (d # r')) | [] \<Rightarrow> None)
        else if c = CHR ''['' then
          (case skip_ws r of d # r' \<Rightarrow> if d = CHR '']'' then Some (JArr [], r')
               else map_option (\<lambda>(xs, r''). (JArr xs, r'')) (parse_elems n (d # r')) | [] \<Rightarrow> None)
        else if take 4 (c # r) = ''null'' then Some (JNull, drop 3 r)
        else if take 4 (c # r) = ''true'' then Some (JBool True, drop 3 r)
        else if take 5 (c # r) = ''false'' then Some (JBool False, drop 4 r)
        else map_option (\<lambda>(l, r'). (JNum l, r')) (parse_num (c # r)))"
| "parse_elems 0 s = None"
| "parse_elems (Suc n) s = (case parse_value n s of None \<Rightarrow> None
     | Some (v, r) \<Rightarrow> (case skip_ws r of [] \<Rightarrow> None
     | c # r' \<Rightarrow> if c = CHR '']'' then Some ([v], r')
         else if c = CHR '','' then map_option (\<lambda>(vs, r''). (v # vs, r'')) (parse_elems n r')
         else None))"
| "parse_members 0 s = None"
| "parse_members (Suc n) s = (case skip_ws s of [] \<Rightarrow> None
     | q # r0 \<Rightarrow> if q \<noteq> CHR 0x22 then None else (case parse_str r0 of None \<Rightarrow> None
     | Some (k, r1) \<Rightarrow> (case skip_ws r1 of [] \<Rightarrow> None
     | col # r2 \<Rightarrow> if col \<noteq> CHR '':'' then None else
       (let s0 = skip_ws r2 in case parse_value n s0 of None \<Rightarrow> None
     | Some (v, r3) \<Rightarrow>
       (let m = (k, take (length s0 - length r3) s0, v) in
        case skip_ws r3 of [] \<Rightarrow> None
        | c # r4 \<Rightarrow> if c = CHR ''}'' then Some ([m], r4)
            else if c = CHR '','' then map_option (\<lambda>(ms, r5). (m # ms, r5)) (parse_members n r4)
            else None)))))"

text \<open>\<open>json.Unmarshal\<close> into a value: the whole input is one JSON value.\<close>

definition json_decode :: "string \<Rightarrow> json option" where
  "json_decode s = (case parse_value (Suc (length s)) s of
     Some (v, r) \<Rightarrow> if skip_ws r = [] then Some v else None | None \<Rightarrow> None)"

text \<open>\<open>json.NewDecoder(r).Decode\<close>: the first JSON value of the input; what follows it is not read.\<close>

definition json_decode_first :: "string \<Rightarrow> json option" where
  "json_decode_first s = map_option fst (parse_value (Suc (length s)) s)"

subsection \<open>Filling structs\<close>

text \<open>One field: every member whose key matches, in order, is stored into the field.\<close>

fun get_field :: "('a \<Rightarrow> bytes \<times> json \<Rightarrow> 'a option) \<Rightarrow> string
    \<Rightarrow> (string \<times> bytes \<times> json) list \<Rightarrow> 'a \<Rightarrow> 'a option" where
  "get_field d nm [] x = Some x"
| "get_field d nm ((k, v) # r) x =
     (if equal_fold k nm then (case d x v of None \<Rightarrow> None | Some y \<Rightarrow> get_field d nm r y)
      else get_field d nm r x)"

fun into_str :: "string \<Rightarrow> bytes \<times> json \<Rightarrow> string option" where
  "into_str x (w, JStr s) = Some s"
| "into_str x (w, JNull) = Some x"
| "into_str x _ = None"

fun into_num :: "(int \<Rightarrow> bool) \<Rightarrow> int \<Rightarrow> bytes \<times> json \<Rightarrow> int option" where
  "into_num ok x (w, JNum l) = (case parse_int l of Some i \<Rightarrow> if ok i then Some i else None | None \<Rightarrow> None)"
| "into_num ok x (w, JNull) = Some x"
| "into_num ok x _ = None"

fun into_bool_ptr :: "bool option \<Rightarrow> bytes \<times> json \<Rightarrow> bool option option" where
  "into_bool_ptr x (w, JBool b) = Some (Some b)"
| "into_bool_ptr x (w, JNull) = Some None"
| "into_bool_ptr x _ = None"

definition into_raw :: "bytes \<Rightarrow> bytes \<times> json \<Rightarrow> bytes option" where
  "into_raw x p = Some (fst p)"

text \<open>The members a struct is filled from: an object's; none when the value is \<open>null\<close>.\<close>

fun struct_members :: "json \<Rightarrow> (string \<times> bytes \<times> json) list option" where
  "struct_members (JObj ms) = Some ms"
| "struct_members JNull = Some []"
| "struct_members _ = None"

text \<open>A member as the printer makes it.\<close>

definition member :: "string \<Rightarrow> json \<Rightarrow> string \<times> bytes \<times> json" where
  "member k v = (k, json_encode v, v)"

text \<open>\<open>json.Marshal\<close> of a struct and the first half of \<open>json.Unmarshal\<close> into one.\<close>

definition encode_struct :: "(string \<times> bytes \<times> json) list \<Rightarrow> bytes" where
  "encode_struct ms = json_encode (JObj ms)"

definition decode_struct :: "bytes \<Rightarrow> (string \<times> bytes \<times> json) list option" where
  "decode_struct bs = Option.bind (json_decode bs) struct_members"

definition jint :: "int \<Rightarrow> json" where
  "jint i = JNum (int_str i)"

subsection \<open>Printing and parsing are inverse\<close>

text \<open>Values whose strings are ASCII, whose numbers are integers in plain notation, and whose
  members carry the bytes the printer writes: every value the sources marshal themselves.\<close>

definition ascii :: "string \<Rightarrow> bool" where
  "ascii s \<longleftrightarrow> (\<forall>c\<in>set s. byte_in 0 0x7F c)"

definition plain_int :: "string \<Rightarrow> bool" where
  "plain_int l \<longleftrightarrow> (case parse_int l of Some i \<Rightarrow> l = int_str i | None \<Rightarrow> False)"

fun json_wf :: "json \<Rightarrow> bool"
  and elems_wf :: "json list \<Rightarrow> bool"
  and members_wf :: "(string \<times> bytes \<times> json) list \<Rightarrow> bool" where
  "json_wf (JNum l) = plain_int l"
| "json_wf (JStr s) = ascii s"
| "json_wf (JArr xs) = elems_wf xs"
| "json_wf (JObj ms) = members_wf ms"
| "json_wf _ = True"
| "elems_wf [] = True"
| "elems_wf (x # xs) = (json_wf x \<and> elems_wf xs)"
| "members_wf [] = True"
| "members_wf ((k, w, v) # ms) = (ascii k \<and> w = json_encode v \<and> json_wf v \<and> members_wf ms)"

lemma prepend_simps [simp]:
  "prepend p None = None" "prepend p (Some (t, r)) = Some (p @ t, r)"
  by (simp_all add: prepend_def)

lemma utf8_encode_ascii: "byte_in 0 0x7F c \<Longrightarrow> utf8_encode (of_char c) = [c]"
  by (simp add: utf8_encode_def)

lemma hex4_ascii:
  assumes "byte_in 0 0x7F c"
  shows "hex4 (CHR ''0'' # CHR ''0'' # hex_char (of_char c div 16) # hex_char (of_char c mod 16) # r)
    = Some (of_char c)"
proof -
  have "hex_val CHR ''0'' = Some 0" by (simp add: hex_val_def)
  moreover have "(of_char c :: nat) div 16 < 16" using assms by linarith
  ultimately show ?thesis by simp
qed

lemma surrogate_small [simp]: "u < 0xD800 \<Longrightarrow> surrogate u r = (u, 0)"
  by (simp add: surrogate_def)

lemma parse_str_u:
  assumes "byte_in 0 0x7F c"
  shows "parse_str (CHR 0x5C # ''u00'' @ [hex_char (of_char c div 16), hex_char (of_char c mod 16)] @ r)
    = prepend [c] (parse_str r)"
  using assms hex4_ascii [OF assms, of r] utf8_encode_ascii [OF assms] by simp

lemma parse_str_esc:
  assumes "byte_in 0 0x7F c"
  shows "parse_str (esc_ascii c @ r) = prepend [c] (parse_str r)"
proof -
  let ?short = "{CHR 0x22, CHR 0x5C, CHR 0x08, CHR 0x0C, CHR 0x0A, CHR 0x0D, CHR 0x09}"
  let ?u = "byte_in 0 0x1F c \<or> c \<in> {CHR ''<'', CHR ''>'', CHR ''&''}"
  show ?thesis
  proof (cases "c \<in> ?short")
    case True
    then show ?thesis by (auto simp: esc_ascii_def unesc_def)
  next
    case short: False
    show ?thesis
    proof (cases ?u)
      case True
      then have "esc_ascii c = CHR 0x5C # ''u00'' @ [hex_char (of_char c div 16), hex_char (of_char c mod 16)]"
        using short by (simp add: esc_ascii_def)
      then show ?thesis using parse_str_u [OF assms, of r] by simp
    next
      case False
      then show ?thesis using short assms by (simp add: esc_ascii_def)
    qed
  qed
qed

lemma parse_str_escape:
  "ascii s \<Longrightarrow> parse_str (json_escape s @ CHR 0x22 # r) = Some (s, r)"
proof (induction s)
  case (Cons c cs)
  then have "byte_in 0 0x7F c" and "ascii cs" by (simp_all add: ascii_def)
  with Cons.IH show ?case using parse_str_esc [of c "json_escape cs @ CHR 0x22 # r"] by simp
qed simp

text \<open>What may follow a number so that its literal ends there.\<close>

definition num_stop :: "string \<Rightarrow> bool" where
  "num_stop r \<longleftrightarrow> r = [] \<or> (\<not> is_digit (hd r) \<and> hd r \<notin> {CHR ''.'', CHR ''e'', CHR ''E''})"

lemma nat_str_hd: "0 < n \<Longrightarrow> hd (nat_str n) \<noteq> CHR ''0''"
proof (induction n rule: nat_str.induct)
  case (1 n)
  have d: "digit_char k = CHR ''0'' \<Longrightarrow> k < 10 \<Longrightarrow> k = 0" for k
  proof -
    assume k: "digit_char k = CHR ''0''" "k < 10"
    then have "digit_val CHR ''0'' = Some k" using digit_val_char [of k] by simp
    then show "k = 0" by (simp add: digit_val_def)
  qed
  show ?case
  proof (cases "n < 10")
    case True
    with "1.prems" d show ?thesis by (auto simp: nat_str.simps [of n])
  next
    case False
    with "1.IH" show ?thesis by (simp add: nat_str.simps [of n])
  qed
qed

lemma takeWhile_digits:
  assumes "num_stop r"
  shows "takeWhile is_digit (nat_str n @ r) = nat_str n"
proof -
  have "\<forall>c\<in>set (nat_str n). is_digit c" by simp
  moreover have "takeWhile is_digit r = []" using assms by (cases r) (auto simp: num_stop_def)
  ultimately show ?thesis by (simp add: takeWhile_append2)
qed

lemma num_int_nat: "num_stop r \<Longrightarrow> num_int (nat_str n @ r) = Some (nat_str n, r)"
proof (cases "n = 0")
  case True
  then show ?thesis by (simp add: num_int_def nat_str.simps [of 0] digit_char_0)
next
  case False
  assume r: "num_stop r"
  from False have "hd (nat_str n @ r) \<noteq> CHR ''0''" using nat_str_hd [of n] by simp
  then show ?thesis using takeWhile_digits [OF r, of n]
    by (simp add: num_int_def num_digits_def Let_def)
qed

lemma parse_num_int:
  assumes "num_stop r"
  shows "parse_num (int_str i @ r) = Some (int_str i, r)"
proof -
  have fe: "num_frac r = Some ([], r)" "num_exp r = Some ([], r)"
    using assms by (auto simp: num_stop_def num_frac_def num_exp_def)
  have "hd (nat_str n @ r) \<noteq> CHR ''-''" for n
    using nat_str_not_minus [of n "tl (nat_str n)"] by (cases "nat_str n") auto
  then show ?thesis
    using num_int_nat [OF assms] fe by (simp add: parse_num_def int_str_def Let_def)
qed

text \<open>The first byte of a printed value selects the same branch of the parser.\<close>

lemma digit_bytes: "is_digit c \<Longrightarrow> 48 \<le> (of_char c :: nat) \<and> (of_char c :: nat) \<le> 57"
  by (auto simp: is_digit_def digit_val_def Let_def split: if_splits)

lemma int_str_hd: "\<exists>c t. int_str i = c # t \<and> (c = CHR ''-'' \<or> is_digit c)"
proof -
  have "\<exists>c t. nat_str n = c # t \<and> is_digit c" for n
    using nat_str_is_digit [of "hd (nat_str n)" n] by (cases "nat_str n") auto
  then obtain c t where "nat_str (nat i) = c # t" "is_digit c" by blast
  then show ?thesis unfolding int_str_def by (cases "i < 0") auto
qed

lemma digit_not:
  assumes "c = CHR ''-'' \<or> is_digit c"
  shows "\<not> json_ws c" "c \<notin> {CHR 0x22, CHR ''{'', CHR ''['', CHR '']'', CHR ''n'', CHR ''t'', CHR ''f''}"
  using assms digit_bytes [of c] by (auto simp: json_ws_def)

lemma parse_value_int:
  assumes "num_stop r"
  shows "parse_value (Suc n) (int_str i @ r) = Some (JNum (int_str i), r)"
proof -
  obtain c t where c: "int_str i = c # t" "c = CHR ''-'' \<or> is_digit c"
    using int_str_hd [of i] by blast
  have "parse_num (c # t @ r) = Some (int_str i, r)"
    using parse_num_int [OF assms, of i] c(1) by simp
  then show ?thesis using c(1) digit_not [OF c(2)] by simp
qed

lemma json_encode_hd:
  assumes "json_wf v"
  shows "\<exists>c t. json_encode v = c # t \<and> \<not> json_ws c \<and> c \<noteq> CHR '']''"
proof (cases v)
  case (JNum l)
  then obtain i where "l = int_str i"
    using assms by (auto simp: plain_int_def split: option.splits)
  with JNum show ?thesis using int_str_hd [of i] digit_not by fastforce
qed (auto simp: json_ws_def json_quote_def)

lemma encode_members_hd: "ms \<noteq> [] \<Longrightarrow> \<exists>t. encode_members ms = CHR 0x22 # t"
  by (cases ms rule: encode_members.cases) (auto simp: json_quote_def)

lemma encode_elems_hd:
  assumes "xs \<noteq> []" and "elems_wf xs"
  shows "\<exists>c t. encode_elems xs = c # t \<and> \<not> json_ws c \<and> c \<noteq> CHR '']''"
  using assms json_encode_hd by (cases xs rule: encode_elems.cases) fastforce+

lemma json_wf_num_stop [simp]: "num_stop (CHR '','' # r)" "num_stop (CHR '']'' # r)" "num_stop (CHR ''}'' # r)"
  by (simp_all add: num_stop_def is_digit_def digit_val_def)

lemma json_ws_punct [simp]:
  "\<not> json_ws CHR '',''" "\<not> json_ws CHR '']''" "\<not> json_ws CHR ''}''" "\<not> json_ws CHR '':''"
  "\<not> json_ws CHR 0x22" "\<not> json_ws CHR ''{''" "\<not> json_ws CHR ''[''"
  by (simp_all add: json_ws_def)

lemma parse_value_quote:
  "ascii t \<Longrightarrow> parse_value (Suc n) (json_quote t @ r) = Some (JStr t, r)"
  using parse_str_escape [of t r] by (simp add: json_quote_def)

lemma take_encode [simp]: "take (length (a @ r) - length r) (a @ r) = a"
  by simp

lemma skip_ws_encode: "json_wf v \<Longrightarrow> skip_ws (json_encode v @ r) = json_encode v @ r"
  using json_encode_hd [of v] by auto

lemma parse_elems_step:
  assumes "parse_value n s = Some (v, CHR '']'' # r)"
  shows "parse_elems (Suc n) s = Some ([v], r)"
  using assms by simp

lemma parse_elems_more:
  assumes "parse_value n s = Some (v, CHR '','' # t)" and "parse_elems n t = Some (vs, r)"
  shows "parse_elems (Suc n) s = Some (v # vs, r)"
  using assms by simp

lemma parse_member_value:
  assumes "ascii k" and "json_wf v" and "parse_value n (json_encode v @ t) = Some (v, t)"
  shows "parse_members (Suc n) (json_quote k @ CHR '':'' # json_encode v @ t) =
    (case skip_ws t of [] \<Rightarrow> None
     | c # r \<Rightarrow> if c = CHR ''}'' then Some ([(k, json_encode v, v)], r)
         else if c = CHR '','' then
           map_option (\<lambda>(ms, r'). ((k, json_encode v, v) # ms, r')) (parse_members n r)
         else None)"
  using assms parse_str_escape [OF assms(1), of "CHR '':'' # json_encode v @ t"]
  by (cases "skip_ws t")
    (simp_all add: json_quote_def skip_ws_encode Let_def del: dropWhile_eq_Nil_conv)

lemma roundtrip_parse:
  "json_wf v \<Longrightarrow> num_stop r \<Longrightarrow> length (json_encode v) < n
     \<Longrightarrow> parse_value n (json_encode v @ r) = Some (v, r)"
  "elems_wf xs \<Longrightarrow> xs \<noteq> [] \<Longrightarrow> length (encode_elems xs) + 1 < n
     \<Longrightarrow> parse_elems n (encode_elems xs @ CHR '']'' # r) = Some (xs, r)"
  "members_wf ms \<Longrightarrow> ms \<noteq> [] \<Longrightarrow> length (encode_members ms) + 1 < n
     \<Longrightarrow> parse_members n (encode_members ms @ CHR ''}'' # r) = Some (ms, r)"
proof (induction v and xs and ms arbitrary: r n and r n and r n
    rule: json_encode_encode_elems_encode_members.induct)
  case 1
  then show ?case by (cases n) (auto simp: json_ws_def)
next
  case (2 b)
  then show ?case by (cases n) (auto simp: json_ws_def)
next
  case (3 l)
  then show ?case
    by (cases n) (auto simp: plain_int_def parse_value_int simp del: parse_value.simps(2) split: option.splits)
next
  case (4 s)
  then show ?case by (cases n) (auto simp: parse_value_quote simp del: parse_value.simps(2))
next
  case (5 xs)
  obtain m where n: "n = Suc m" "length (encode_elems xs) + 1 < m" using "5.prems" by (cases n) auto
  show ?case
  proof (cases "xs = []")
    case True
    with n show ?thesis by simp
  next
    case False
    then obtain c t where c: "encode_elems xs = c # t" "\<not> json_ws c" "c \<noteq> CHR '']''"
      using encode_elems_hd "5.prems"(1) by (metis json_wf.simps(3))
    have "parse_elems m (encode_elems xs @ CHR '']'' # r) = Some (xs, r)"
      using "5.IH" [of m r] "5.prems"(1) False n(2) by simp
    with c n show ?thesis by simp
  qed
next
  case (6 ms)
  obtain m where n: "n = Suc m" "length (encode_members ms) + 1 < m" using "6.prems" by (cases n) auto
  show ?case
  proof (cases "ms = []")
    case True
    with n show ?thesis by simp
  next
    case False
    then obtain t where t: "encode_members ms = CHR 0x22 # t" using encode_members_hd by blast
    have "parse_members m (encode_members ms @ CHR ''}'' # r) = Some (ms, r)"
      using "6.IH" [of m r] "6.prems"(1) False n(2) by simp
    with t n show ?thesis by simp
  qed
next
  case 7
  then show ?case by simp
next
  case (8 x)
  obtain m where n: "n = Suc m" "length (json_encode x) < m" using "8.prems" by (cases n) auto
  show ?case
    using parse_elems_step [of m "json_encode x @ CHR '']'' # r" x r] "8.IH" "8.prems"(1) n
    by (simp del: parse_elems.simps)
next
  case (9 x y ys)
  let ?t = "encode_elems (y # ys) @ CHR '']'' # r"
  obtain m where n: "n = Suc m" "length (json_encode x) < m" "length (encode_elems (y # ys)) + 1 < m"
    using "9.prems" json_encode_hd [of x] by (cases n) auto
  have "parse_value m (json_encode x @ CHR '','' # ?t) = Some (x, CHR '','' # ?t)"
    using "9.IH"(1) "9.prems"(1) n(2) by simp
  moreover have "parse_elems m ?t = Some (y # ys, r)"
    using "9.IH"(2) "9.prems"(1) n(3) by (simp del: parse_elems.simps)
  ultimately show ?case using n(1) parse_elems_more by (simp del: parse_elems.simps)
next
  case 10
  then show ?case by simp
next
  case (11 k w v)
  obtain m where n: "n = Suc m" "length (json_encode v) < m" using "11.prems" by (cases n) auto
  then show ?case
    using "11.IH" "11.prems"(1) parse_member_value [of k v m "CHR ''}'' # r"]
    by (simp del: parse_members.simps)
next
  case (12 k w v m ms)
  let ?t = "encode_members (m # ms) @ CHR ''}'' # r"
  obtain j where n: "n = Suc j" "length (json_encode v) < j" "length (encode_members (m # ms)) + 1 < j"
    using "12.prems" by (cases n) (auto simp: json_quote_def)
  have "parse_members j ?t = Some (m # ms, r)"
    using "12.IH"(2) "12.prems"(1) n(3) by (simp del: parse_members.simps)
  then show ?case
    using "12.IH"(1) "12.prems"(1) n parse_member_value [of k v j "CHR '','' # ?t"]
    by (simp del: parse_members.simps)
qed

lemma json_decode_encode: "json_wf v \<Longrightarrow> json_decode (json_encode v) = Some v"
  using roundtrip_parse(1) [of v "[]" "Suc (length (json_encode v))"]
  by (simp add: json_decode_def num_stop_def del: parse_value.simps)

lemma json_decode_first_encode: "json_wf v \<Longrightarrow> json_decode_first (json_encode v) = Some v"
  using roundtrip_parse(1) [of v "[]" "Suc (length (json_encode v))"]
  by (simp add: json_decode_first_def num_stop_def del: parse_value.simps)

text \<open>Facts for the structs the sources marshal.\<close>

lemma ascii_append [simp]: "ascii (s @ t) \<longleftrightarrow> ascii s \<and> ascii t"
  by (auto simp: ascii_def)

lemma ascii_Nil [simp]: "ascii []"
  by (simp add: ascii_def)

lemma ascii_Cons [simp]: "ascii (c # s) \<longleftrightarrow> of_char c \<le> (0x7F::nat) \<and> ascii s"
  by (simp add: ascii_def)

lemma hex_char_ascii: "of_char (hex_char d) \<le> (0x7F::nat)" if "d < 16"
  using that by (simp add: hex_char_def)

lemma hex_encode_ascii [simp]: "ascii (hex_encode bs)"
proof (induction bs)
  case (Cons b bs)
  have "(of_char b :: nat) div 16 < 16" using of_char_lt_256 [of b] by linarith
  with Cons.IH show ?case by (simp add: hex_encode_def Let_def hex_char_ascii)
qed (simp add: hex_encode_def)

lemma hex_char_plain:
  assumes "d < 16"
  shows "hex_char d \<notin> {CHR 0x22, CHR 0x5C, CHR ''<'', CHR ''>'', CHR ''&'', CHR 0xE2, CHR ''/'', CHR ''.''}"
  using hex_val_char [OF assms] by (auto simp: hex_val_def)

lemma hex_encode_plain: "c \<in> set (hex_encode bs) \<Longrightarrow> c \<noteq> CHR ''/'' \<and> c \<noteq> CHR ''.''"
proof (induction bs)
  case (Cons b bs)
  have "(of_char b :: nat) div 16 < 16" using of_char_lt_256 [of b] by linarith
  then have "hex_char (of_char b div 16) \<notin> {CHR ''/'', CHR ''.''}" "hex_char (of_char b mod 16) \<notin> {CHR ''/'', CHR ''.''}"
    using hex_char_plain [of "of_char b div 16"] hex_char_plain [of "of_char b mod 16"] by simp_all
  moreover have "c = hex_char (of_char b div 16) \<or> c = hex_char (of_char b mod 16) \<or> c \<in> set (hex_encode bs)"
    using Cons.prems by (auto simp: hex_encode_def Let_def)
  ultimately show ?case using Cons.IH by auto
qed (simp add: hex_encode_def)

lemma plain_int_str [simp]: "plain_int (int_str i)"
  by (simp add: plain_int_def)

lemma members_wf_member [simp]:
  "members_wf (member k v # ms) \<longleftrightarrow> ascii k \<and> json_wf v \<and> members_wf ms"
  by (simp add: member_def)

lemma json_wf_jint [simp]: "json_wf (jint i)"
  by (simp add: jint_def)

lemma decode_encode_struct [simp]:
  "members_wf ms \<Longrightarrow> decode_struct (encode_struct ms) = Some ms"
  using json_decode_encode [of "JObj ms"] by (simp add: decode_struct_def encode_struct_def)

lemma get_field_member:
  "get_field d nm (member k v # r) x =
     (if equal_fold k nm then (case d x (json_encode v, v) of None \<Rightarrow> None | Some y \<Rightarrow> get_field d nm r y)
      else get_field d nm r x)"
  by (simp add: member_def)

lemma into_num_jint [simp]: "into_num ok x (w, jint i) = (if ok i then Some i else None)"
  by (simp add: jint_def)

end
