(* ===== verification/Crypto.thy ===== *)
theory Crypto
  imports Encoding
begin

section \<open>The cryptographic primitives the program calls\<close>

text \<open>
  Ed25519, SHA-256, AES-GCM and the PEM, PKCS#8 and PKIX containers are not modelled: they are
  the fields of a record that every definition using them takes as an argument. What the
  program relies on is stated about that record, where a theorem needs it: a signature made
  with a private key verifies under its public key, and what was sealed can be opened.
\<close>

datatype parsed_key = Ed25519Key bytes | OtherKey

record crypto =
  ed_public :: "bytes \<Rightarrow> bytes"
  ed_sign :: "bytes \<Rightarrow> bytes \<Rightarrow> bytes"
  ed_verify :: "bytes \<Rightarrow> bytes \<Rightarrow> bytes \<Rightarrow> bool"
  sha256 :: "bytes \<Rightarrow> bytes"
  pem_decode :: "bytes \<Rightarrow> (string \<times> bytes) option"
  parse_pkcs8 :: "bytes \<Rightarrow> goerr + parsed_key"
  parse_pkix :: "bytes \<Rightarrow> goerr + parsed_key"

definition ed25519_correct :: "crypto \<Rightarrow> bool" where
  "ed25519_correct cr \<longleftrightarrow> (\<forall>k m. ed_verify cr (ed_public cr k) m (ed_sign cr k m))"

record aead =
  NonceSize :: nat
  aead_seal :: "bytes \<Rightarrow> bytes \<Rightarrow> bytes"
  aead_open :: "bytes \<Rightarrow> bytes \<Rightarrow> bytes option"

definition aead_correct :: "aead \<Rightarrow> bool" where
  "aead_correct a \<longleftrightarrow> (\<forall>n p. length n = NonceSize a \<longrightarrow> aead_open a n (aead_seal a n p) = Some p)"

text \<open>A transparent instance, in which nothing is hidden and both laws hold: for evaluating the
  definitions on concrete inputs.\<close>

definition test_crypto :: crypto where
  "test_crypto = \<lparr>ed_public = (\<lambda>k. k), ed_sign = (\<lambda>k m. k @ m), ed_verify = (\<lambda>k m s. s = k @ m),
     sha256 = (\<lambda>m. m),
     pem_decode = (\<lambda>s. case s of [] \<Rightarrow> None
       | c # r \<Rightarrow> Some (if c = CHR ''s'' then ''PRIVATE KEY'' else ''PUBLIC KEY'', r)),
     parse_pkcs8 = (\<lambda>b. Inr (Ed25519Key b)), parse_pkix = (\<lambda>b. Inr (Ed25519Key b))\<rparr>"

definition test_aead :: aead where
  "test_aead = \<lparr>NonceSize = 2, aead_seal = (\<lambda>n p. n @ p),
     aead_open = (\<lambda>n c. if take (length n) c = n then Some (drop (length n) c) else None)\<rparr>"

lemma test_crypto_correct [simp]: "ed25519_correct test_crypto"
  by (simp add: ed25519_correct_def test_crypto_def)

lemma test_aead_correct [simp]: "aead_correct test_aead"
  by (simp add: aead_correct_def test_aead_def)

end
