(* ===== verification/Auth.thy ===== *)
theory Auth
  imports Json Crypto
begin

section \<open>Agent tokens (internal/gatewayapi/auth.go)\<close>

text \<open>
  The short-lived JWT with which the agent authenticates at the gateway: \<open>SignAgentToken\<close> on the
  agent's side, \<open>VerifyAgentToken\<close> on the gateway's. A nil error is \<^const>\<open>None\<close>.
\<close>

definition AuthorizationAudience :: string where
  "AuthorizationAudience = ''platform-orchestrator-runner-gateway''"

definition agentTokenLifetime :: duration where
  "agentTokenLifetime = 5 * 60 * second"

definition clockSkew :: duration where
  "clockSkew = 30 * second"

record agentTokenHeader =
  Algorithm :: string
  HType :: string
  KeyID :: string

record agentTokenClaims =
  Audience :: string
  TOrganizationID :: string
  TRunnerID :: string
  IssuedAt :: int
  TExpiresAt :: int

definition marshal_header :: "agentTokenHeader \<Rightarrow> bytes" where
  "marshal_header h = encode_struct [member ''alg'' (JStr (Algorithm h)),
     member ''typ'' (JStr (HType h)), member ''kid'' (JStr (KeyID h))]"

definition unmarshal_header :: "bytes \<Rightarrow> agentTokenHeader option" where
  "unmarshal_header bs = (case decode_struct bs of None \<Rightarrow> None
     | Some ms \<Rightarrow> (case (get_field into_str ''alg'' ms [], get_field into_str ''typ'' ms [],
                       get_field into_str ''kid'' ms []) of
         (Some a, Some t, Some k) \<Rightarrow> Some \<lparr>Algorithm = a, HType = t, KeyID = k\<rparr>
       | _ \<Rightarrow> None))"

definition marshal_claims :: "agentTokenClaims \<Rightarrow> bytes" where
  "marshal_claims c = encode_struct [member ''aud'' (JStr (Audience c)),
     member ''org_id'' (JStr (TOrganizationID c)), member ''runner_id'' (JStr (TRunnerID c)),
     member ''iat'' (jint (IssuedAt c)), member ''exp'' (jint (TExpiresAt c))]"

definition unmarshal_claims :: "bytes \<Rightarrow> agentTokenClaims option" where
  "unmarshal_claims bs = (case decode_struct bs of None \<Rightarrow> None
     | Some ms \<Rightarrow> (case (get_field into_str ''aud'' ms [], get_field into_str ''org_id'' ms [],
           get_field into_str ''runner_id'' ms [], get_field (into_num fits_int64) ''iat'' ms 0,
           get_field (into_num fits_int64) ''exp'' ms 0) of
         (Some a, Some g, Some r, Some i, Some e) \<Rightarrow>
           Some \<lparr>Audience = a, TOrganizationID = g, TRunnerID = r, IssuedAt = i, TExpiresAt = e\<rparr>
       | _ \<Rightarrow> None))"

definition parsePrivateKey :: "crypto \<Rightarrow> bytes \<Rightarrow> bytes result" where
  "parsePrivateKey cr privateKeyPEM = (case pem_decode cr privateKeyPEM of
     None \<Rightarrow> Inl (ErrNew ''private key is not a PKCS#8 PEM private key'')
   | Some (ty, bs) \<Rightarrow>
       if ty \<noteq> ''PRIVATE KEY'' then Inl (ErrNew ''private key is not a PKCS#8 PEM private key'')
       else (case parse_pkcs8 cr bs of
           Inl e \<Rightarrow> Inl (ErrWrap ''parse private key'' e)
         | Inr (Ed25519Key k) \<Rightarrow> Inr k
         | Inr OtherKey \<Rightarrow> Inl (ErrNew ''private key is not Ed25519'')))"

definition parsePublicKey :: "crypto \<Rightarrow> bytes \<Rightarrow> bytes result" where
  "parsePublicKey cr publicKeyPEM = (case pem_decode cr publicKeyPEM of
     None \<Rightarrow> Inl (ErrNew ''public key is not a PKIX PEM public key'')
   | Some (ty, bs) \<Rightarrow>
       if ty \<noteq> ''PUBLIC KEY'' then Inl (ErrNew ''public key is not a PKIX PEM public key'')
       else (case parse_pkix cr bs of
           Inl e \<Rightarrow> Inl (ErrWrap ''parse public key'' e)
         | Inr (Ed25519Key k) \<Rightarrow> Inr k
         | Inr OtherKey \<Rightarrow> Inl (ErrNew ''public key is not Ed25519'')))"

definition SignAgentToken :: "crypto \<Rightarrow> bytes \<Rightarrow> string \<Rightarrow> string \<Rightarrow> gtime \<Rightarrow> string result" where
  "SignAgentToken cr privateKeyPEM organizationID runnerID now =
     (case parsePrivateKey cr privateKeyPEM of Inl e \<Rightarrow> Inl e
      | Inr privateKey \<Rightarrow>
        if organizationID = [] \<or> runnerID = []
        then Inl (ErrNew ''organization and runner IDs are required'')
        else
          let fingerprint = sha256 cr (ed_public cr privateKey);
              header = marshal_header \<lparr>Algorithm = ''EdDSA'', HType = ''JWT'', KeyID = hex_encode fingerprint\<rparr>;
              issuedAt = truncate_second now;
              claims = marshal_claims \<lparr>Audience = AuthorizationAudience, TOrganizationID = organizationID,
                TRunnerID = runnerID, IssuedAt = unix_of issuedAt,
                TExpiresAt = unix_of (issuedAt + agentTokenLifetime)\<rparr>;
              unsigned = rawurl_encode header @ ''.'' @ rawurl_encode claims;
              signature = ed_sign cr privateKey unsigned
          in Inr (unsigned @ ''.'' @ rawurl_encode signature))"

definition VerifyAgentToken ::
    "crypto \<Rightarrow> string \<Rightarrow> bytes \<Rightarrow> string \<Rightarrow> string \<Rightarrow> gtime \<Rightarrow> goerr option" where
  "VerifyAgentToken cr token publicKeyPEM organizationID runnerID now =
     (case parsePublicKey cr publicKeyPEM of Inl e \<Rightarrow> Some e
      | Inr publicKey \<Rightarrow>
     (case split_char CHR ''.'' token of
        [part0, part1, part2] \<Rightarrow>
     (case rawurl_decode part0 of None \<Rightarrow> Some (ErrNew ''token header is not valid base64url'')
      | Some headerBytes \<Rightarrow>
     (case unmarshal_header headerBytes of None \<Rightarrow> Some (ErrNew ''token header is not valid JSON'')
      | Some header \<Rightarrow>
      if Algorithm header \<noteq> ''EdDSA'' \<or> HType header \<noteq> ''JWT''
      then Some (ErrNew ''token must use EdDSA JWT signing'') else
     (case rawurl_decode part1 of None \<Rightarrow> Some (ErrNew ''token claims are not valid base64url'')
      | Some claimsBytes \<Rightarrow>
     (case unmarshal_claims claimsBytes of None \<Rightarrow> Some (ErrNew ''token claims are not valid JSON'')
      | Some claims \<Rightarrow>
     (case rawurl_decode part2 of None \<Rightarrow> Some (ErrNew ''token signature is not valid base64url'')
      | Some signature \<Rightarrow>
      if \<not> ed_verify cr publicKey (part0 @ ''.'' @ part1) signature
      then Some (ErrNew ''token signature is invalid'')
      else if Audience claims \<noteq> AuthorizationAudience \<or> TOrganizationID claims \<noteq> organizationID
        \<or> TRunnerID claims \<noteq> runnerID
      then Some (ErrNew ''token identity or audience does not match the request'')
      else let issuedAt = time_unix (IssuedAt claims); expiresAt = time_unix (TExpiresAt claims) in
        if time_sub expiresAt issuedAt \<noteq> agentTokenLifetime
        then Some (ErrNew ''token lifetime is invalid'')
        else if now + clockSkew < issuedAt then Some (ErrNew ''token is not valid yet'')
        else if \<not> now - clockSkew < expiresAt then Some (ErrNew ''token has expired'')
        else None)))))
      | _ \<Rightarrow> Some (ErrNew ''token must contain three segments'')))"

subsection \<open>The claims survive encoding\<close>

lemma unmarshal_marshal_header:
  "ascii (Algorithm h) \<Longrightarrow> ascii (HType h) \<Longrightarrow> ascii (KeyID h)
     \<Longrightarrow> unmarshal_header (marshal_header h) = Some h"
  by (simp add: unmarshal_header_def marshal_header_def get_field_member
      equal_fold_def to_lower_def)

lemma unmarshal_marshal_claims:
  "ascii (Audience c) \<Longrightarrow> ascii (TOrganizationID c) \<Longrightarrow> ascii (TRunnerID c)
     \<Longrightarrow> fits_int64 (IssuedAt c) \<Longrightarrow> fits_int64 (TExpiresAt c)
     \<Longrightarrow> unmarshal_claims (marshal_claims c) = Some c"
  by (simp add: unmarshal_claims_def marshal_claims_def get_field_member
      equal_fold_def to_lower_def)

subsection \<open>What an accepted token is\<close>

text \<open>The token is three segments; the signature is over the first two; the claims name the
  identity and a window around the gateway's clock.\<close>

definition token_accepted ::
    "crypto \<Rightarrow> string \<Rightarrow> bytes \<Rightarrow> agentTokenClaims \<Rightarrow> gtime \<Rightarrow> bool" where
  "token_accepted cr token pk c now \<longleftrightarrow> (\<exists>p0 p1 p2 sig.
     split_char CHR ''.'' token = [p0, p1, p2] \<and> rawurl_decode p2 = Some sig
     \<and> ed_verify cr pk (p0 @ ''.'' @ p1) sig
     \<and> Option.bind (rawurl_decode p1) unmarshal_claims = Some c
     \<and> Audience c = AuthorizationAudience \<and> TExpiresAt c = IssuedAt c + 300
     \<and> time_unix (IssuedAt c) - clockSkew \<le> now
     \<and> now < time_unix (TExpiresAt c) + clockSkew)"

lemma time_sub_lifetime:
  "time_sub (time_unix e) (time_unix i) = agentTokenLifetime \<longleftrightarrow> e = i + 300"
  by (auto simp: time_sub_def agentTokenLifetime_def time_unix_def second_def)

lemma VerifyAgentToken_None:
  assumes "VerifyAgentToken cr token pub org run now = None"
  shows "\<exists>pk c. parsePublicKey cr pub = Inr pk \<and> token_accepted cr token pk c now
    \<and> TOrganizationID c = org \<and> TRunnerID c = run"
proof -
  obtain pk where pk: "parsePublicKey cr pub = Inr pk"
    using assms by (auto simp: VerifyAgentToken_def split: sum.splits)
  obtain p0 p1 p2 where sp: "split_char CHR ''.'' token = [p0, p1, p2]"
    using assms pk by (auto simp: VerifyAgentToken_def split: list.splits)
  note rest = assms [unfolded VerifyAgentToken_def pk sp, simplified]
  obtain hb h where h: "rawurl_decode p0 = Some hb" "unmarshal_header hb = Some h"
    using rest by (auto split: option.splits)
  obtain cb c where c: "rawurl_decode p1 = Some cb" "unmarshal_claims cb = Some c"
    using rest h by (auto split: option.splits if_splits)
  obtain sig where sig: "rawurl_decode p2 = Some sig"
    using rest h c by (auto split: option.splits if_splits)
  have facts: "ed_verify cr pk (p0 @ ''.'' @ p1) sig" "Audience c = AuthorizationAudience"
      "TOrganizationID c = org" "TRunnerID c = run"
      "time_sub (time_unix (TExpiresAt c)) (time_unix (IssuedAt c)) = agentTokenLifetime"
      "\<not> now + clockSkew < time_unix (IssuedAt c)" "now - clockSkew < time_unix (TExpiresAt c)"
    using rest h c sig by (auto simp: Let_def split: if_splits)
  then have "token_accepted cr token pk c now"
    unfolding token_accepted_def time_sub_lifetime
    using sp c sig by (intro exI [of _ p0] exI [of _ p1] exI [of _ p2] exI [of _ sig]) auto
  with pk facts show ?thesis by blast
qed

lemma token_accepted_unique:
  "token_accepted cr token pk c now \<Longrightarrow> token_accepted cr token pk' c' now' \<Longrightarrow> c = c'"
  by (auto simp: token_accepted_def)

lemma SignAgentToken_verifies:
  assumes cr: "ed25519_correct cr"
    and keys: "parsePrivateKey cr priv = Inr k" "parsePublicKey cr pub = Inr (ed_public cr k)"
    and ids: "org \<noteq> []" "run \<noteq> []" "ascii org" "ascii run"
    and range: "fits_int64 (unix_of now)" "fits_int64 (unix_of now + 300)"
    and clock: "truncate_second now \<le> t + clockSkew"
      "t - clockSkew < truncate_second now + agentTokenLifetime"
  shows "\<exists>tok. SignAgentToken cr priv org run now = Inr tok
    \<and> VerifyAgentToken cr tok pub org run t = None"
proof -
  define h where "h = \<lparr>Algorithm = ''EdDSA'', HType = ''JWT'', KeyID = hex_encode (sha256 cr (ed_public cr k))\<rparr>"
  define c where "c = \<lparr>Audience = AuthorizationAudience, TOrganizationID = org, TRunnerID = run,
    IssuedAt = unix_of now, TExpiresAt = unix_of now + 300\<rparr>"
  let ?p0 = "rawurl_encode (marshal_header h)" and ?p1 = "rawurl_encode (marshal_claims c)"
  let ?sig = "ed_sign cr k (?p0 @ ''.'' @ ?p1)"
  let ?tok = "?p0 @ ''.'' @ ?p1 @ ''.'' @ rawurl_encode ?sig"
  have unix: "unix_of (truncate_second now) = unix_of now"
    "unix_of (truncate_second now + agentTokenLifetime) = unix_of now + 300"
    unfolding time_unix_of_truncate [symmetric] agentTokenLifetime_def
    using unix_of_add_seconds [of "time_unix (unix_of now)" 300] by simp_all
  have sign: "SignAgentToken cr priv org run now = Inr ?tok"
    using keys ids unix by (simp add: SignAgentToken_def Let_def h_def c_def)
  have "split_char CHR ''.'' ?tok = [?p0, ?p1, rawurl_encode ?sig]"
    by (simp add: split_char_append rawurl_no_dot)
  moreover have "unmarshal_header (marshal_header h) = Some h"
    by (rule unmarshal_marshal_header) (simp_all add: h_def)
  moreover have "unmarshal_claims (marshal_claims c) = Some c"
    using ids range by (intro unmarshal_marshal_claims) (simp_all add: c_def AuthorizationAudience_def)
  moreover have "ed_verify cr (ed_public cr k) (?p0 @ ''.'' @ ?p1) ?sig"
    using cr by (simp add: ed25519_correct_def)
  moreover have "time_unix (IssuedAt c) = truncate_second now"
    "time_unix (TExpiresAt c) = truncate_second now + agentTokenLifetime"
    by (simp_all add: c_def time_unix_of_truncate time_unix_def agentTokenLifetime_def
        truncate_second_def unix_of_def algebra_simps)
  moreover have "time_sub (time_unix (TExpiresAt c)) (time_unix (IssuedAt c)) = agentTokenLifetime"
    by (simp add: time_sub_lifetime c_def)
  ultimately have "VerifyAgentToken cr ?tok pub org run t = None"
    using keys clock
    by (simp add: VerifyAgentToken_def Let_def rawurl.dec_enc h_def [symmetric]) (simp add: h_def c_def)
  with sign show ?thesis by blast
qed

text \<open>A token is one word, so the gateway finds it behind the scheme of the header.\<close>

lemma rawurl_no_space: "c \<in> set (rawurl_encode bs) \<Longrightarrow> \<not> is_space c"
  using url.raw_has_value [of c bs]
  by (auto simp: rawurl_encode_def is_space_def url_val_def std_val_def)

lemma bearer_fields:
  assumes "SignAgentToken cr priv org run now = Inr tok"
  shows "Strings.fields (''Bearer '' @ tok) = [''Bearer'', tok]"
proof -
  obtain a b c where t: "tok = rawurl_encode a @ ''.'' @ rawurl_encode b @ ''.'' @ rawurl_encode c"
    using assms by (auto simp: SignAgentToken_def Let_def split: sum.splits if_splits)
  have "\<forall>x\<in>set tok. \<not> is_space x" using rawurl_no_space unfolding t by (auto simp: is_space_def)
  moreover have "tok \<noteq> []" by (simp add: t)
  ultimately have "Strings.fields (''Bearer'' @ CHR 0x20 # tok) = [''Bearer'', tok]"
    by (intro fields_two) (simp_all add: is_space_def)
  then show ?thesis by simp
qed

lemmas test_instance = parsePrivateKey_def parsePublicKey_def test_crypto_def go_defs
  clockSkew_def agentTokenLifetime_def fits_int64_def

lemma test_token:
  "\<exists>tok. VerifyAgentToken test_crypto tok ''pkey'' ''my-org'' ''runner-one'' (67 * second) = None"
proof -
  have "\<exists>tok. SignAgentToken test_crypto ''skey'' ''my-org'' ''runner-one'' (7 * second) = Inr tok
      \<and> VerifyAgentToken test_crypto tok ''pkey'' ''my-org'' ''runner-one'' (67 * second) = None"
    by (rule SignAgentToken_verifies [where k = "''key''", OF test_crypto_correct])
      (simp_all add: test_instance)
  then show ?thesis by blast
qed

subsection \<open>Properties\<close>

text \<open>C3: a token the agent signs is accepted by the gateway for the same organization and runner
  at every instant of the five-minute window, widened by the clock skew on both sides.\<close>

theorem sign_then_verify:
  assumes "ed25519_correct cr"
    and "parsePrivateKey cr priv = Inr k" and "parsePublicKey cr pub = Inr (ed_public cr k)"
    and "org \<noteq> []" and "run \<noteq> []" and "ascii org" and "ascii run"
    and "fits_int64 (unix_of now)" and "fits_int64 (unix_of now + 300)"
    and "truncate_second now \<le> t + clockSkew"
    and "t - clockSkew < truncate_second now + agentTokenLifetime"
  shows "\<exists>tok. SignAgentToken cr priv org run now = Inr tok
    \<and> VerifyAgentToken cr tok pub org run t = None"
  using assms by (rule SignAgentToken_verifies)

theorem sign_then_verify_witness:
  "\<exists>tok. SignAgentToken test_crypto ''skey'' ''my-org'' ''runner-one'' (7 * second) = Inr tok
    \<and> VerifyAgentToken test_crypto tok ''pkey'' ''my-org'' ''runner-one'' (67 * second) = None"
  by (rule sign_then_verify [where k = "''key''", OF test_crypto_correct])
    (simp_all add: test_instance)

text \<open>C4: a token the gateway accepts carries a valid signature of the resolved key over its first
  two segments, names exactly the organization and the runner of the request, was issued at
  most 30 seconds in the future, and expires 300 seconds after it was issued, at most 30
  seconds in the past.\<close>

theorem verify_sound:
  assumes "VerifyAgentToken cr token pub org run now = None"
  shows "\<exists>pk c. parsePublicKey cr pub = Inr pk \<and> token_accepted cr token pk c now
    \<and> TOrganizationID c = org \<and> TRunnerID c = run"
  using assms by (rule VerifyAgentToken_None)

theorem verify_sound_witness:
  "\<exists>tok pk c. VerifyAgentToken test_crypto tok ''pkey'' ''my-org'' ''runner-one'' (67 * second) = None
    \<and> parsePublicKey test_crypto ''pkey'' = Inr pk \<and> token_accepted test_crypto tok pk c (67 * second)
    \<and> TOrganizationID c = ''my-org'' \<and> TRunnerID c = ''runner-one''"
  using test_token verify_sound by blast

text \<open>One token authenticates one runner: if the gateway accepts the same token for two
  requests, both are for the same organization and runner, whatever keys were resolved, and the
  two requests are less than six minutes apart.\<close>

theorem token_binds_runner:
  assumes "VerifyAgentToken cr token pub org run now = None"
    and "VerifyAgentToken cr token pub' org' run' now' = None"
  shows "org' = org \<and> run' = run \<and> now' - now < 360 * second"
proof -
  obtain pk c pk' c' where "token_accepted cr token pk c now" "TOrganizationID c = org" "TRunnerID c = run"
    "token_accepted cr token pk' c' now'" "TOrganizationID c' = org'" "TRunnerID c' = run'"
    using assms [THEN VerifyAgentToken_None] by blast
  moreover from this have "c = c'" using token_accepted_unique by blast
  ultimately show ?thesis
    by (auto simp: token_accepted_def clockSkew_def time_unix_def algebra_simps)
qed

theorem token_binds_runner_witness:
  "\<exists>tok. VerifyAgentToken test_crypto tok ''pkey'' ''my-org'' ''runner-one'' (67 * second) = None
    \<and> ''my-org'' = ''my-org'' \<and> ''runner-one'' = ''runner-one'' \<and> 67 * second - 67 * second < 360 * second"
  using test_token token_binds_runner by blast

end
