(* ===== verification/Receipt.thy ===== *)
theory Receipt
  imports Json Crypto
begin

section \<open>Delivery receipts (internal/gateway/receipt.go)\<close>

text \<open>
  A receipt is the gateway's own state, handed to the agent in sealed form: which command of
  which runner was delivered, under which acknowledgement subject, and until when. The nonce
  comes from the system's random source, whose outcome is an argument of \<open>seal\<close>.
\<close>

record receiptClaims =
  ROrganizationID :: string
  RRunnerID :: string
  RCommandID :: string
  RAckSubject :: string
  RStreamSequence :: int
  RExpiresAt :: int

definition marshal_receipt :: "receiptClaims \<Rightarrow> bytes" where
  "marshal_receipt c = encode_struct [member ''organization_id'' (JStr (ROrganizationID c)),
     member ''runner_id'' (JStr (RRunnerID c)), member ''command_id'' (JStr (RCommandID c)),
     member ''ack_subject'' (JStr (RAckSubject c)),
     member ''stream_sequence'' (jint (RStreamSequence c)), member ''expires_at'' (jint (RExpiresAt c))]"

definition unmarshal_receipt :: "bytes \<Rightarrow> receiptClaims option" where
  "unmarshal_receipt bs = (case decode_struct bs of None \<Rightarrow> None
     | Some ms \<Rightarrow> (case (get_field into_str ''organization_id'' ms [], get_field into_str ''runner_id'' ms [],
           get_field into_str ''command_id'' ms [], get_field into_str ''ack_subject'' ms [],
           get_field (into_num fits_uint64) ''stream_sequence'' ms 0,
           get_field (into_num fits_int64) ''expires_at'' ms 0) of
         (Some g, Some r, Some c, Some a, Some q, Some e) \<Rightarrow>
           Some \<lparr>ROrganizationID = g, RRunnerID = r, RCommandID = c, RAckSubject = a,
             RStreamSequence = q, RExpiresAt = e\<rparr>
       | _ \<Rightarrow> None))"

text \<open>The block cipher of a key in Galois/counter mode is the argument \<open>gcm\<close>.\<close>

definition newReceiptCipher :: "(bytes \<Rightarrow> aead) \<Rightarrow> bytes \<Rightarrow> aead result" where
  "newReceiptCipher gcm key =
     (if length key \<noteq> 32 then Inl (ErrNew ''gateway receipt key must contain exactly 32 bytes'')
      else Inr (gcm key))"

definition seal :: "aead \<Rightarrow> bytes result \<Rightarrow> receiptClaims \<Rightarrow> string result" where
  "seal a random claims = (case random of Inl e \<Rightarrow> Inl e
     | Inr nonce \<Rightarrow> Inr (rawurl_encode (nonce @ aead_seal a nonce (marshal_receipt claims))))"

definition open_receipt :: "aead \<Rightarrow> string \<Rightarrow> gtime \<Rightarrow> receiptClaims result" where
  "open_receipt a receipt now = (case rawurl_decode receipt of
     None \<Rightarrow> Inl (ErrNew ''delivery receipt is not valid base64url'')
   | Some sealed \<Rightarrow>
     if length sealed < NonceSize a then Inl (ErrNew ''delivery receipt is truncated'')
     else (case aead_open a (take (NonceSize a) sealed) (drop (NonceSize a) sealed) of
        None \<Rightarrow> Inl (ErrNew ''delivery receipt authentication failed'')
      | Some plaintext \<Rightarrow> (case unmarshal_receipt plaintext of
           None \<Rightarrow> Inl (ErrNew ''decode delivery receipt'')
         | Some claims \<Rightarrow>
           if ROrganizationID claims = [] \<or> RRunnerID claims = [] \<or> RCommandID claims = []
              \<or> RAckSubject claims = [] \<or> RStreamSequence claims = 0
           then Inl (ErrNew ''delivery receipt is missing required claims'')
           else if \<not> now < time_unix (RExpiresAt claims)
           then Inl (ErrNew ''delivery receipt has expired'')
           else Inr claims)))"

text \<open>The claims the gateway seals: complete, within the range of their types, ASCII.\<close>

definition receipt_wf :: "receiptClaims \<Rightarrow> bool" where
  "receipt_wf c \<longleftrightarrow> ROrganizationID c \<noteq> [] \<and> RRunnerID c \<noteq> [] \<and> RCommandID c \<noteq> [] \<and> RAckSubject c \<noteq> []
     \<and> ascii (ROrganizationID c) \<and> ascii (RRunnerID c) \<and> ascii (RCommandID c) \<and> ascii (RAckSubject c)
     \<and> 0 < RStreamSequence c \<and> fits_uint64 (RStreamSequence c) \<and> fits_int64 (RExpiresAt c)"

lemma unmarshal_marshal_receipt: "receipt_wf c \<Longrightarrow> unmarshal_receipt (marshal_receipt c) = Some c"
  by (simp add: unmarshal_receipt_def marshal_receipt_def receipt_wf_def get_field_member
      equal_fold_def to_lower_def)

lemma open_seal:
  assumes "aead_correct a" and "length nonce = NonceSize a" and "receipt_wf c"
    and "now < time_unix (RExpiresAt c)"
  shows "\<exists>r. seal a (Inr nonce) c = Inr r \<and> open_receipt a r now = Inr c"
  using assms unmarshal_marshal_receipt [OF assms(3)]
  by (simp add: seal_def open_receipt_def rawurl.dec_enc aead_correct_def receipt_wf_def)

lemma open_receipt_Inr:
  assumes "open_receipt a r now = Inr c"
  shows "ROrganizationID c \<noteq> []" "RRunnerID c \<noteq> []" "RCommandID c \<noteq> []" "RAckSubject c \<noteq> []"
    "RStreamSequence c \<noteq> 0" "now < time_unix (RExpiresAt c)"
  using assms by (auto simp: open_receipt_def split: option.splits if_splits)

subsection \<open>Properties\<close>

text \<open>C5: a receipt the gateway seals opens to exactly the claims that were sealed, at every
  instant before its expiry.\<close>

theorem receipt_roundtrip:
  assumes "aead_correct a" and "length nonce = NonceSize a" and "receipt_wf c"
    and "now < time_unix (RExpiresAt c)"
  shows "\<exists>r. seal a (Inr nonce) c = Inr r \<and> open_receipt a r now = Inr c"
  using assms by (rule open_seal)

definition test_claims :: receiptClaims where
  "test_claims = \<lparr>ROrganizationID = ''org'', RRunnerID = ''runner'', RCommandID = ''create-job:d:1'',
     RAckSubject = ''$JS.ACK.commands.runner.1.1.1.0.0'', RStreamSequence = 42, RExpiresAt = 90\<rparr>"

theorem receipt_roundtrip_witness:
  "\<exists>r. seal test_aead (Inr ''ab'') test_claims = Inr r \<and> open_receipt test_aead r 0 = Inr test_claims"
  by (rule receipt_roundtrip [OF test_aead_correct])
    (simp_all add: test_claims_def receipt_wf_def test_aead_def fits_int64_def fits_uint64_def go_defs)

end
