(* ===== verification/Keys.thy ===== *)
theory Keys
  imports Json
begin

section \<open>Public key resolution (internal/gateway/keys.go)\<close>

text \<open>
  The gateway verifies an agent's token with the runner's public key. The key comes from a
  file (one runner only) or from the control plane, whose answers are kept for a limited time.
  The control plane is the argument \<open>fetch\<close>: the outcome of the GET request for an endpoint.
\<close>

record StaticPublicKeyResolver =
  SOrganizationID :: string
  SRunnerID :: string
  SPublicKey :: bytes

definition static_Resolve :: "StaticPublicKeyResolver \<Rightarrow> string \<Rightarrow> string \<Rightarrow> bytes result" where
  "static_Resolve r organizationID runnerID =
     (if organizationID \<noteq> SOrganizationID r \<or> runnerID \<noteq> SRunnerID r \<or> SPublicKey r = []
      then Inl (ErrNew ''runner public key is not configured'') else Inr (SPublicKey r))"

definition NewStaticPublicKeyResolver ::
    "(string \<Rightarrow> bytes result) \<Rightarrow> string \<Rightarrow> string \<Rightarrow> string \<Rightarrow> StaticPublicKeyResolver result" where
  "NewStaticPublicKeyResolver read_file organizationID runnerID publicKeyFile =
     (case read_file publicKeyFile of
        Inl e \<Rightarrow> Inl (ErrWrap ''read static runner public key'' e)
      | Inr key \<Rightarrow> Inr \<lparr>SOrganizationID = organizationID, SRunnerID = runnerID, SPublicKey = key\<rparr>)"

record cachedPublicKey =
  ckey :: bytes
  cexpiresAt :: gtime

record controlPlanePublicKeyResolver =
  baseURL :: string
  ttl :: duration
  cache :: "string \<Rightarrow> cachedPublicKey option"

record parsed_url =
  Scheme :: string
  Host :: string
  URLString :: string

text \<open>\<open>url.Parse\<close> is the argument \<open>parse\<close>: the scheme, the host and the normal form of a URL.\<close>

definition NewControlPlanePublicKeyResolver ::
    "(string \<Rightarrow> parsed_url result) \<Rightarrow> string \<Rightarrow> duration \<Rightarrow> controlPlanePublicKeyResolver result" where
  "NewControlPlanePublicKeyResolver parse base ttl0 =
     (case parse (trim_right_char CHR ''/'' base) of
        Inl e \<Rightarrow> Inl (ErrNew ''control-plane URL must be an absolute HTTP or HTTPS URL'')
      | Inr u \<Rightarrow>
        if Scheme u = [] \<or> Host u = []
        then Inl (ErrNew ''control-plane URL must be an absolute HTTP or HTTPS URL'')
        else if Scheme u \<noteq> ''http'' \<and> Scheme u \<noteq> ''https''
        then Inl (ErrNew ''control-plane URL must use HTTP or HTTPS'')
        else Inr \<lparr>baseURL = URLString u, ttl = (if ttl0 \<le> 0 then 60 * second else ttl0), cache = Map.empty\<rparr>)"

definition cacheKey :: "string \<Rightarrow> string \<Rightarrow> string" where
  "cacheKey organizationID runnerID = organizationID @ CHR 0x00 # runnerID"

definition endpoint :: "controlPlanePublicKeyResolver \<Rightarrow> string \<Rightarrow> string \<Rightarrow> string" where
  "endpoint r organizationID runnerID = baseURL r @ ''/internal/orgs/'' @ path_escape organizationID
     @ ''/runners/'' @ path_escape runnerID"

text \<open>The answer: the body's member \<open>runner_configuration\<close>, itself an object with a type and a
  key. The body is read up to one mebibyte.\<close>

definition runner_configuration :: "bytes \<Rightarrow> (string \<times> string) result" where
  "runner_configuration body =
     (case Option.bind (json_decode_first (take 1048576 body)) struct_members of
        None \<Rightarrow> Inl (ErrNew ''decode runner'')
      | Some ms \<Rightarrow> (case get_field into_raw ''runner_configuration'' ms [] of
          None \<Rightarrow> Inl (ErrNew ''decode runner'')
        | Some raw \<Rightarrow> (case decode_struct raw of
            None \<Rightarrow> Inl (ErrNew ''decode runner configuration'')
          | Some cs \<Rightarrow> (case (get_field into_str ''type'' cs [], get_field into_str ''key'' cs []) of
              (Some t, Some k) \<Rightarrow> Inr (t, k)
            | _ \<Rightarrow> Inl (ErrNew ''decode runner configuration'')))))"

definition fetched_key :: "(nat \<times> bytes) result \<Rightarrow> bytes result" where
  "fetched_key answer = (case answer of
     Inl e \<Rightarrow> Inl (ErrWrap ''fetch runner public key'' e)
   | Inr (status, body) \<Rightarrow>
     if status \<noteq> 200 then Inl (ErrNew ''fetch runner public key: control plane returned an error'')
     else (case runner_configuration body of Inl e \<Rightarrow> Inl e
       | Inr (t, k) \<Rightarrow> if t \<noteq> ''kubernetes-agent'' \<or> k = []
           then Inl (ErrNew ''runner is not a Kubernetes agent with a public key'') else Inr k))"

text \<open>The critical section before the request, and the one after it. Between the two the lock is
  free, so resolutions of several requests interleave.\<close>

definition cached :: "controlPlanePublicKeyResolver \<Rightarrow> string \<Rightarrow> string \<Rightarrow> gtime \<Rightarrow> bytes option" where
  "cached r organizationID runnerID now = (case cache r (cacheKey organizationID runnerID) of
     Some c \<Rightarrow> if now < cexpiresAt c then Some (ckey c) else None
   | None \<Rightarrow> None)"

definition remember :: "controlPlanePublicKeyResolver \<Rightarrow> string \<Rightarrow> string \<Rightarrow> bytes \<Rightarrow> gtime
    \<Rightarrow> controlPlanePublicKeyResolver" where
  "remember r organizationID runnerID key now = r\<lparr>cache := (cache r)(cacheKey organizationID runnerID
     \<mapsto> \<lparr>ckey = key, cexpiresAt = now + ttl r\<rparr>)\<rparr>"

definition Resolve :: "(string \<Rightarrow> (nat \<times> bytes) result) \<Rightarrow> controlPlanePublicKeyResolver \<Rightarrow> string \<Rightarrow> string
    \<Rightarrow> gtime \<Rightarrow> bytes result \<times> controlPlanePublicKeyResolver" where
  "Resolve fetch r organizationID runnerID now = (case cached r organizationID runnerID now of
     Some key \<Rightarrow> (Inr key, r)
   | None \<Rightarrow> (case fetched_key (fetch (endpoint r organizationID runnerID)) of
       Inl e \<Rightarrow> (Inl e, r)
     | Inr key \<Rightarrow> (Inr key, remember r organizationID runnerID key now)))"

subsection \<open>Interleaved resolutions\<close>

text \<open>
  Several requests resolve keys at the same time. The state is the shared resolver, the clock,
  the resolutions that have read the clock and are about to take the lock, those that wait for the
  control plane (each with the instant it read) and, as history, what the control plane has served
  and when. Any time may pass between any two of these steps. Identities reach the
  resolver only after the subject of the runner has been built from them, which admits no NUL
  byte in the organization.
\<close>

record resolver_sys =
  res :: controlPlanePublicKeyResolver
  clock :: gtime
  entered :: "(string \<times> string \<times> gtime) list"
  waiting :: "(string \<times> string \<times> gtime) list"
  served :: "(gtime \<times> string \<times> string \<times> bytes) list"

inductive resolver_step :: "resolver_sys \<Rightarrow> resolver_sys \<Rightarrow> bool" where
  tick: "clock s \<le> t \<Longrightarrow> resolver_step s (s\<lparr>clock := t\<rparr>)"
| enter: "CHR 0x00 \<notin> set g \<Longrightarrow> resolver_step s (s\<lparr>entered := (g, r, clock s) # entered s\<rparr>)"
| hit: "(g, r, t0) \<in> set (entered s) \<Longrightarrow> cached (res s) g r t0 = Some k \<Longrightarrow>
    resolver_step s (s\<lparr>entered := remove1 (g, r, t0) (entered s)\<rparr>)"
| miss: "(g, r, t0) \<in> set (entered s) \<Longrightarrow> cached (res s) g r t0 = None \<Longrightarrow>
    resolver_step s (s\<lparr>entered := remove1 (g, r, t0) (entered s), waiting := (g, r, t0) # waiting s\<rparr>)"
| failed: "fetched_key answer = Inl e \<Longrightarrow>
    resolver_step s (s\<lparr>waiting := remove1 (g, r, t0) (waiting s)\<rparr>)"
| answered: "(g, r, t0) \<in> set (waiting s) \<Longrightarrow> fetched_key answer = Inr k \<Longrightarrow>
    resolver_step s (s\<lparr>res := remember (res s) g r k t0, waiting := remove1 (g, r, t0) (waiting s),
      served := (clock s, g, r, k) # served s\<rparr>)"

definition resolver_initial :: "resolver_sys \<Rightarrow> bool" where
  "resolver_initial s \<longleftrightarrow> cache (res s) = Map.empty \<and> entered s = [] \<and> waiting s = [] \<and> served s = []"

definition resolver_inv :: "resolver_sys \<Rightarrow> bool" where
  "resolver_inv s \<longleftrightarrow>
     (\<forall>g r t0. (g, r, t0) \<in> set (entered s) \<union> set (waiting s) \<longrightarrow> t0 \<le> clock s \<and> CHR 0x00 \<notin> set g) \<and>
     (\<forall>t g r k. (t, g, r, k) \<in> set (served s) \<longrightarrow> t \<le> clock s \<and> CHR 0x00 \<notin> set g) \<and>
     (\<forall>key c. cache (res s) key = Some c \<longrightarrow> (\<exists>t g r. (t, g, r, ckey c) \<in> set (served s)
        \<and> key = cacheKey g r \<and> cexpiresAt c \<le> t + ttl (res s)))"

lemma cacheKey_inject:
  "CHR 0x00 \<notin> set g \<Longrightarrow> CHR 0x00 \<notin> set g' \<Longrightarrow> cacheKey g r = cacheKey g' r' \<longleftrightarrow> g = g' \<and> r = r'"
  using append_sep_inject [of "CHR 0x00" g g' r r'] by (auto simp: cacheKey_def)

lemma remember_simps [simp]:
  "ttl (remember s g r k t) = ttl s"
  "cache (remember s g r k t) = (cache s)(cacheKey g r \<mapsto> \<lparr>ckey = k, cexpiresAt = t + ttl s\<rparr>)"
  by (simp_all add: remember_def)

lemma resolver_step_inv:
  assumes "resolver_step s s'" and inv: "resolver_inv s"
  shows "resolver_inv s'"
  using assms(1)
proof cases
  case (tick t)
  with inv show ?thesis unfolding resolver_inv_def by fastforce
next
  case (enter g r)
  with inv show ?thesis unfolding resolver_inv_def by auto
next
  case (hit g r t0 k)
  with inv show ?thesis unfolding resolver_inv_def by (auto dest: set_remove1_subset [THEN subsetD])
next
  case (miss g r t0)
  with inv show ?thesis unfolding resolver_inv_def by (auto dest: set_remove1_subset [THEN subsetD])
next
  case (failed answer e g r t0)
  with inv show ?thesis unfolding resolver_inv_def by (auto dest: set_remove1_subset [THEN subsetD])
next
  case (answered g r t0 answer k)
  have w: "t0 \<le> clock s" "CHR 0x00 \<notin> set g" using inv answered(2) unfolding resolver_inv_def by auto
  have c: "\<exists>t g' r'. (t, g', r', ckey c) \<in> set (served s') \<and> key = cacheKey g' r' \<and> cexpiresAt c \<le> t + ttl (res s')"
    if "cache (res s') key = Some c" for key c
  proof (cases "key = cacheKey g r")
    case True
    with that answered(1) have "c = \<lparr>ckey = k, cexpiresAt = t0 + ttl (res s)\<rparr>" by simp
    with True answered(1) w(1) show ?thesis by (intro exI [of _ "clock s"] exI [of _ g] exI [of _ r]) simp
  next
    case False
    with that answered(1) have "cache (res s) key = Some c" by simp
    then obtain t g' r' where "(t, g', r', ckey c) \<in> set (served s)" "key = cacheKey g' r'"
        "cexpiresAt c \<le> t + ttl (res s)"
      using inv unfolding resolver_inv_def by blast
    with answered(1) show ?thesis by auto
  qed
  have "clock s' = clock s" "served s' = (clock s, g, r, k) # served s"
      "waiting s' = remove1 (g, r, t0) (waiting s)" "entered s' = entered s"
    using answered(1) by simp_all
  moreover have "(g', r', t) \<in> set (entered s) \<union> set (remove1 (g, r, t0) (waiting s)) \<Longrightarrow> t \<le> clock s \<and> CHR 0x00 \<notin> set g'" for g' r' t
    using inv set_remove1_subset [of "(g, r, t0)" "waiting s"] unfolding resolver_inv_def by blast
  ultimately show ?thesis using inv w c unfolding resolver_inv_def by auto
qed

interpretation resolver: transition_invariant resolver_initial resolver_step resolver_inv
proof unfold_locales
  show "resolver_inv s" if "resolver_initial s" for s
    using that unfolding resolver_initial_def resolver_inv_def by simp
  show "resolver_inv s'" if "resolver_step s s'" "resolver_inv s" for s s'
    using that by (rule resolver_step_inv)
qed

subsection \<open>Properties\<close>

text \<open>C6: however resolutions interleave, a key that a resolution takes from the cache was served by the
  control plane for exactly this organization and runner, less than the cache's lifetime before the
  instant that the resolution read, now or earlier. A key the control plane has withdrawn therefore
  authenticates no request that begins after that time.\<close>

theorem cached_key_fresh:
  assumes "reach resolver_initial resolver_step s" and "cached (res s) g r t0 = Some k" and "CHR 0x00 \<notin> set g"
  shows "\<exists>t. (t, g, r, k) \<in> set (served s) \<and> t \<le> clock s \<and> t0 < t + ttl (res s)"
proof -
  have inv: "resolver_inv s" using assms(1) by (rule resolver.reach_inv)
  obtain c where c: "cache (res s) (cacheKey g r) = Some c" "t0 < cexpiresAt c" "ckey c = k"
    using assms(2) by (auto simp: cached_def split: option.splits if_splits)
  then obtain t g' r' where t: "(t, g', r', k) \<in> set (served s)" "cacheKey g r = cacheKey g' r'"
      "cexpiresAt c \<le> t + ttl (res s)"
    using inv unfolding resolver_inv_def by blast
  have t': "t \<le> clock s" "CHR 0x00 \<notin> set g'" using inv t(1) unfolding resolver_inv_def by blast+
  have "g' = g" "r' = r" using t(2) cacheKey_inject [OF assms(3) t'(2)] by simp_all
  then show ?thesis using c(2) t t'(1) by auto
qed

text \<open>A run: the control plane is asked for the key of runner \<open>r\<close>, answers, and the answer is
  served from the cache ten seconds later.\<close>

definition demo_resolver :: controlPlanePublicKeyResolver where
  "demo_resolver = \<lparr>baseURL = ''https://cp'', ttl = 60 * second, cache = Map.empty\<rparr>"

definition demo_configuration :: bytes where
  "demo_configuration = ''{\"type\":\"kubernetes-agent\",\"key\":\"pem\"}''"

definition demo_answer :: bytes where
  "demo_answer = ''{\"runner_configuration\":'' @ demo_configuration @ ''}''"

definition demo_start :: resolver_sys where
  "demo_start = \<lparr>res = demo_resolver, clock = 0, entered = [], waiting = [], served = []\<rparr>"

definition demo_cached :: resolver_sys where
  "demo_cached = \<lparr>res = remember demo_resolver ''o'' ''r'' ''pem'' 0, clock = 10 * second, entered = [(''o'', ''r'', 10 * second)], waiting = [],
     served = [(0, ''o'', ''r'', ''pem'')]\<rparr>"

lemma demo_decode: "json_decode_first demo_answer =
    Some (JObj [(''runner_configuration'', demo_configuration,
      JObj [(''type'', ''\"kubernetes-agent\"'', JStr ''kubernetes-agent''), (''key'', ''\"pem\"'', JStr ''pem'')])])"
  by code_simp

lemma demo_fetched: "fetched_key (Inr (200, demo_answer)) = Inr ''pem''"
proof -
  have "take 1048576 demo_answer = demo_answer"
    by (rule take_all) (simp add: demo_answer_def demo_configuration_def)
  moreover have "decode_struct demo_configuration = Some [(''type'', ''\"kubernetes-agent\"'', JStr ''kubernetes-agent''),
      (''key'', ''\"pem\"'', JStr ''pem'')]"
    by code_simp
  ultimately show ?thesis
    by (simp add: fetched_key_def runner_configuration_def demo_decode into_raw_def equal_fold_def to_lower_def)
qed

lemma demo_reach: "reach resolver_initial resolver_step demo_cached"
proof -
  let ?s0 = "demo_start\<lparr>entered := (''o'', ''r'', clock demo_start) # entered demo_start\<rparr>"
  let ?s1 = "?s0\<lparr>entered := remove1 (''o'', ''r'', 0) (entered ?s0), waiting := (''o'', ''r'', 0) # waiting ?s0\<rparr>"
  let ?s2 = "?s1\<lparr>res := remember (res ?s1) ''o'' ''r'' ''pem'' 0,
    waiting := remove1 (''o'', ''r'', 0) (waiting ?s1), served := (clock ?s1, ''o'', ''r'', ''pem'') # served ?s1\<rparr>"
  let ?s3 = "?s2\<lparr>clock := 10 * second\<rparr>"
  let ?s4 = "?s3\<lparr>entered := (''o'', ''r'', clock ?s3) # entered ?s3\<rparr>"
  have "reach resolver_initial resolver_step demo_start"
    by (rule reach_init) (simp add: resolver_initial_def demo_start_def demo_resolver_def)
  then have "reach resolver_initial resolver_step ?s0" by (rule reach_step) (rule enter, simp)
  then have "reach resolver_initial resolver_step ?s1"
    by (rule reach_step) (rule miss, simp_all add: cached_def demo_start_def demo_resolver_def)
  then have "reach resolver_initial resolver_step ?s2"
    by (rule reach_step) (rule answered [OF _ demo_fetched], simp add: demo_start_def)
  then have "reach resolver_initial resolver_step ?s3"
    by (rule reach_step) (rule tick, simp add: demo_start_def second_def)
  then have "reach resolver_initial resolver_step ?s4" by (rule reach_step) (rule enter, simp)
  then show ?thesis by (simp add: demo_start_def demo_cached_def)
qed

theorem cached_key_fresh_witness:
  "cached (res demo_cached) ''o'' ''r'' (clock demo_cached) = Some ''pem'' \<and>
   (\<exists>t. (t, ''o'', ''r'', ''pem'') \<in> set (served demo_cached) \<and> t \<le> clock demo_cached
      \<and> clock demo_cached < t + ttl (res demo_cached))"
proof -
  have "cached (res demo_cached) ''o'' ''r'' (clock demo_cached) = Some ''pem''"
    by (simp add: cached_def demo_cached_def demo_resolver_def second_def)
  with cached_key_fresh [OF demo_reach this] show ?thesis by simp
qed

end
