(* ===== verification/Rfc3339.thy ===== *)
theory Rfc3339
  imports Strings Encoding "HOL-Library.Monad_Syntax"
begin

section \<open>Timestamps in text (time.RFC3339Nano)\<close>

text \<open>
  The text form of an instant that the message headers and the JSON bodies carry: the calendar
  date of the Gregorian calendar, the time of day, the fraction of the second with trailing
  zeros removed, and the zone. Instants are printed in UTC; the parser takes any offset.
\<close>

subsection \<open>The calendar\<close>

definition leap :: "int \<Rightarrow> bool" where
  "leap y \<longleftrightarrow> y mod 4 = 0 \<and> (y mod 100 \<noteq> 0 \<or> y mod 400 = 0)"

definition month_len :: "int \<Rightarrow> nat \<Rightarrow> nat" where
  "month_len y m = (if m = 2 then if leap y then 29 else 28
     else if m = 4 \<or> m = 6 \<or> m = 9 \<or> m = 11 then 30 else 31)"

text \<open>Days before the first of January of a year, and before the first of a month in its year;
  the first of January of year 1 is day 0.\<close>

definition days_before_year :: "int \<Rightarrow> int" where
  "days_before_year y = (let z = y - 1 in 365 * z + z div 4 - z div 100 + z div 400)"

fun days_before_month :: "int \<Rightarrow> nat \<Rightarrow> nat" where
  "days_before_month y 0 = 0"
| "days_before_month y (Suc m) = (if m = 0 then 0 else days_before_month y m + month_len y m)"

definition day_number :: "int \<Rightarrow> nat \<Rightarrow> nat \<Rightarrow> int" where
  "day_number y m d = days_before_year y + int (days_before_month y m) + int d - 1"

function year_from :: "int \<Rightarrow> int \<Rightarrow> int" where
  "year_from n y = (if days_before_year (y + 1) \<le> n then year_from n (y + 1) else y)"
  by auto

lemma div_pred:
  fixes y k :: int
  assumes "0 < k"
  shows "(y - 1) div k = y div k - (if y mod k = 0 then 1 else 0)"
proof (cases "y mod k = 0")
  case True
  then have "y - 1 = k * (y div k - 1) + (k - 1)" using mult_div_mod_eq [of k y] by (simp add: algebra_simps)
  with assms True show ?thesis by (simp add: int_div_pos_eq [of "y - 1" k "y div k - 1" "k - 1"])
next
  case False
  then have "0 \<le> y mod k - 1" "y mod k - 1 < k" using assms pos_mod_bound [of k y] pos_mod_sign [of k y] by linarith+
  moreover have "y - 1 = k * (y div k) + (y mod k - 1)" using mult_div_mod_eq [of k y] by linarith
  ultimately show ?thesis using False by (simp add: int_div_pos_eq [of "y - 1" k "y div k" "y mod k - 1"])
qed

lemma days_before_year_Suc: "days_before_year (y + 1) = days_before_year y + (if leap y then 366 else 365)"
proof -
  have "y mod 400 = 0 \<Longrightarrow> y mod 100 = 0" "y mod 100 = 0 \<Longrightarrow> y mod 4 = 0" by presburger+
  then show ?thesis by (simp add: days_before_year_def leap_def div_pred)
qed

lemma days_before_year_mono: "y < y' \<Longrightarrow> days_before_year (y + 1) \<le> days_before_year y'"
proof (induction "nat (y' - y - 1)" arbitrary: y')
  case 0
  then have "y' = y + 1" by simp
  then show ?case by simp
next
  case (Suc k)
  then have "days_before_year (y + 1) \<le> days_before_year (y' - 1)" by simp
  with days_before_year_Suc [of "y' - 1"] show ?case by (simp split: if_splits)
qed

termination year_from
proof (relation "measure (\<lambda>(n, y). nat (n + 1 - days_before_year y))")
  show "((n, y + 1), n, y) \<in> measure (\<lambda>(n, y). nat (n + 1 - days_before_year y))"
    if "days_before_year (y + 1) \<le> n" for n y
    using that days_before_year_Suc [of y] by (simp split: if_splits)
qed simp

declare year_from.simps [simp del]

definition year_of :: "int \<Rightarrow> int" where
  "year_of n = year_from n ((if n < 0 then n div 365 else n div 366) + 1)"

lemma year_from_spec:
  "days_before_year y \<le> n \<Longrightarrow> days_before_year (year_from n y) \<le> n \<and> n < days_before_year (year_from n y + 1)"
  by (induction n y rule: year_from.induct) (subst (1 2) year_from.simps, auto)

lemma year_of_spec: "days_before_year (year_of n) \<le> n \<and> n < days_before_year (year_of n + 1)"
  unfolding year_of_def
proof (rule year_from_spec)
  have q: "365 * (n div 365) \<le> n" "366 * (n div 366) \<le> n"
    by simp_all
  have n: "z div 4 - z div 100 + z div 400 \<le> 0" if "z < 0" for z :: int
  proof -
    have "z div 400 < 0" using that by (simp add: pos_imp_zdiv_neg_iff)
    moreover have "z div 4 \<le> z div 100" using that by (intro zdiv_mono2_neg) simp_all
    ultimately show ?thesis by linarith
  qed
  have p: "z div 4 - z div 100 + z div 400 \<le> z" if "0 \<le> z" for z :: int
  proof -
    have "z div 400 \<le> z div 100" using that by (intro zdiv_mono2) simp_all
    moreover have "z div 4 \<le> z div 1" using that by (intro zdiv_mono2) simp_all
    ultimately show ?thesis unfolding div_by_1 by linarith
  qed
  show "days_before_year ((if n < 0 then n div 365 else n div 366) + 1) \<le> n"
  proof (cases "n < 0")
    case True
    then have "n div 365 < 0" by (simp add: pos_imp_zdiv_neg_iff)
    from n [OF this] True q(1) show ?thesis unfolding days_before_year_def Let_def by simp
  next
    case False
    then have "0 \<le> n div 366" by (simp add: pos_imp_zdiv_nonneg_iff)
    from p [OF this] False q(2) show ?thesis unfolding days_before_year_def Let_def by simp
  qed
qed

lemma year_of_unique:
  assumes "days_before_year y \<le> n" and "n < days_before_year (y + 1)"
  shows "year_of n = y"
  using assms year_of_spec [of n] days_before_year_mono [of y "year_of n"]
    days_before_year_mono [of "year_of n" y] by linarith

lemma month_len_bounds: "28 \<le> month_len y m" "month_len y m \<le> 31"
  by (auto simp: month_len_def)

fun month_from :: "int \<Rightarrow> nat \<Rightarrow> nat \<Rightarrow> nat \<Rightarrow> nat \<times> nat" where
  "month_from y d m 0 = (m, d + 1)"
| "month_from y d m (Suc k) = (if d < month_len y m then (m, d + 1) else month_from y (d - month_len y m) (m + 1) k)"

text \<open>Year, month and day of a day number.\<close>

definition civil :: "int \<Rightarrow> int \<times> nat \<times> nat" where
  "civil n = (let y = year_of n; (m, d) = month_from y (nat (n - days_before_year y)) 1 11 in (y, m, d))"

definition date_ok :: "int \<Rightarrow> nat \<Rightarrow> nat \<Rightarrow> bool" where
  "date_ok y m d \<longleftrightarrow> 1 \<le> m \<and> m \<le> 12 \<and> 1 \<le> d \<and> d \<le> month_len y m"

lemma days_before_month_13: "days_before_month y 13 = (if leap y then 366 else 365)"
  by (simp add: eval_nat_numeral month_len_def)

lemma month_from_spec:
  assumes "1 \<le> m" and "m + k = 12" and "days_before_month y m + d < days_before_month y 13"
    and "month_from y d m k = (m', d')"
  shows "date_ok y m' d' \<and> days_before_month y m' + d' = days_before_month y m + d + 1"
  using assms
proof (induction y d m k rule: month_from.induct)
  case (1 y d m)
  moreover from this have "m = 12" by simp
  moreover have "days_before_month y 13 = days_before_month y 12 + month_len y 12"
    by (simp add: eval_nat_numeral)
  ultimately show ?case by (auto simp: date_ok_def)
next
  case (2 y d m k)
  show ?case
  proof (cases "d < month_len y m")
    case True
    with 2 show ?thesis by (auto simp: date_ok_def)
  next
    case False
    with 2 show ?thesis by simp
  qed
qed

lemma civil_day_number:
  assumes "civil n = (y, m, d)"
  shows "date_ok y m d" "day_number y m d = n" "y = year_of n"
proof -
  let ?r = "nat (n - days_before_year (year_of n))"
  have y: "y = year_of n" and md: "month_from y ?r 1 11 = (m, d)"
    using assms by (auto simp: civil_def Let_def split: prod.splits)
  have r: "days_before_year y \<le> n" "days_before_month y 1 + ?r < days_before_month y 13"
    using year_of_spec [of n] days_before_year_Suc [of "year_of n"] y
    by (auto simp: days_before_month_13 simp del: days_before_month.simps split: if_splits)
       (simp_all)
  have "date_ok y m d \<and> days_before_month y m + d = days_before_month y 1 + ?r + 1"
    using md r(2) by (intro month_from_spec) simp_all
  then have d: "date_ok y m d" "int (days_before_month y m + d) = int (days_before_month y 1 + ?r + 1)"
    by presburger+
  then show "date_ok y m d" "day_number y m d = n" "y = year_of n"
    using r(1) y by (simp_all add: day_number_def)
qed

subsection \<open>Printing\<close>

text \<open>The lowest \<open>k\<close> decimal digits of a number.\<close>

fun fixed_digits :: "nat \<Rightarrow> nat \<Rightarrow> string" where
  "fixed_digits 0 n = []"
| "fixed_digits (Suc k) n = fixed_digits k (n div 10) @ [digit_char (n mod 10)]"

definition unix_epoch_day :: int where
  "unix_epoch_day = 719162"

definition format_fraction :: "nat \<Rightarrow> string" where
  "format_fraction n = (if n = 0 then [] else CHR ''.'' # trim_right_char CHR ''0'' (fixed_digits 9 n))"

text \<open>\<open>Time.MarshalText\<close>: the instant in UTC; years beyond four digits have no text.\<close>

definition marshal_time :: "gtime \<Rightarrow> string option" where
  "marshal_time t = (let secs = t div second; s = nat (secs mod 86400);
       (y, m, d) = civil (secs div 86400 + unix_epoch_day) in
     if y < 0 \<or> 9999 < y then None
     else Some (fixed_digits 4 (nat y) @ CHR ''-'' # fixed_digits 2 m @ CHR ''-'' # fixed_digits 2 d
       @ CHR ''T'' # fixed_digits 2 (s div 3600) @ CHR '':'' # fixed_digits 2 (s div 60 mod 60)
       @ CHR '':'' # fixed_digits 2 (s mod 60) @ format_fraction (nat (t mod second)) @ ''Z''))"

subsection \<open>Parsing\<close>

definition take_num :: "nat \<Rightarrow> string \<Rightarrow> (nat \<times> string) option" where
  "take_num k s = (if length s < k then None
     else map_option (\<lambda>n. (n, drop k s)) (digits_val 0 (take k s)))"

definition expect :: "char \<Rightarrow> string \<Rightarrow> string option" where
  "expect c s = (case s of [] \<Rightarrow> None | x # r \<Rightarrow> if x = c then Some r else None)"

text \<open>The hour may have one digit only.\<close>

definition take_hour :: "string \<Rightarrow> (nat \<times> string) option" where
  "take_hour s = (if 2 \<le> length s \<and> is_digit (s ! 1) then take_num 2 s else take_num 1 s)"

definition take_fraction :: "string \<Rightarrow> (nat \<times> string) option" where
  "take_fraction s = (case s of
     c # x # r \<Rightarrow> if (c = CHR ''.'' \<or> c = CHR '','') \<and> is_digit x
        then (let ds = takeWhile is_digit (x # r); nine = take 9 ds in
          map_option (\<lambda>n. (n, dropWhile is_digit (x # r))) (digits_val 0 (nine @ replicate (9 - length nine) CHR ''0'')))
        else Some (0, s)
   | _ \<Rightarrow> Some (0, s))"

text \<open>The offset of the zone in seconds east of UTC.\<close>

definition take_zone :: "string \<Rightarrow> (int \<times> string) option" where
  "take_zone s = (case s of [] \<Rightarrow> None
   | c # r \<Rightarrow> if c = CHR ''Z'' then Some (0, r)
     else if c = CHR ''+'' \<or> c = CHR ''-'' then do {
       (h, r) \<leftarrow> take_num 2 r; r \<leftarrow> expect CHR '':'' r; (m, r) \<leftarrow> take_num 2 r;
       if h \<le> 24 \<and> m \<le> 60 then Some ((if c = CHR ''-'' then - 1 else 1) * ((int h * 60 + int m) * 60), r) else None }
     else None)"

text \<open>\<open>time.Parse(time.RFC3339Nano, s)\<close>.\<close>

definition parse_time :: "string \<Rightarrow> gtime option" where
  "parse_time s = do {
     (y, s) \<leftarrow> take_num 4 s; s \<leftarrow> expect CHR ''-'' s; (mo, s) \<leftarrow> take_num 2 s; s \<leftarrow> expect CHR ''-'' s;
     (d, s) \<leftarrow> take_num 2 s; s \<leftarrow> expect CHR ''T'' s; (h, s) \<leftarrow> take_hour s; s \<leftarrow> expect CHR '':'' s;
     (mi, s) \<leftarrow> take_num 2 s; s \<leftarrow> expect CHR '':'' s; (sec, s) \<leftarrow> take_num 2 s;
     (ns, s) \<leftarrow> take_fraction s; (off, s) \<leftarrow> take_zone s;
     if s = [] \<and> date_ok (int y) mo d \<and> h < 24 \<and> mi < 60 \<and> sec < 60
     then Some (((day_number (int y) mo d - unix_epoch_day) * 86400
        + int h * 3600 + int mi * 60 + int sec - off) * second + int ns)
     else None }"

lemma fixed_digits_length [simp]: "length (fixed_digits k n) = k"
  by (induction k n rule: fixed_digits.induct) simp_all

lemma fixed_digits_val: "n < 10 ^ k \<Longrightarrow> digits_val 0 (fixed_digits k n) = Some n"
proof (induction k n rule: fixed_digits.induct)
  case (2 k n)
  then have "n div 10 < 10 ^ k" by (simp add: less_mult_imp_div_less mult.commute)
  with 2 show ?case by (simp add: digits_val_append)
qed simp

lemma fixed_digits_digit: "c \<in> set (fixed_digits k n) \<Longrightarrow> is_digit c"
  by (induction k n rule: fixed_digits.induct) (auto simp: is_digit_def)

lemma take_num_fixed [simp]: "n < 10 ^ k \<Longrightarrow> take_num k (fixed_digits k n @ r) = Some (n, r)"
  by (simp add: take_num_def fixed_digits_val)

lemma expect_Cons [simp]: "expect c (c # r) = Some r"
  by (simp add: expect_def)

lemma take_hour_fixed [simp]: "n < 100 \<Longrightarrow> take_hour (fixed_digits 2 n @ r) = Some (n, r)"
  by (simp add: take_hour_def nth_append fixed_digits_digit numeral_2_eq_2 del: fixed_digits.simps)
     (metis One_nat_def Suc_1 fixed_digits_length fixed_digits_digit lessI nth_mem take_num_fixed power2_eq_square)

lemma trim_right_split: "\<exists>j. s = trim_right_char c s @ replicate j c"
proof -
  have "s = rev (dropWhile (\<lambda>x. x = c) (rev s)) @ rev (takeWhile (\<lambda>x. x = c) (rev s))"
    by (metis rev_append rev_rev_ident takeWhile_dropWhile_id)
  moreover have "rev (takeWhile (\<lambda>x. x = c) (rev s)) = replicate (length (takeWhile (\<lambda>x. x = c) (rev s))) c"
    using set_takeWhileD [of _ "\<lambda>x. x = c" "rev s"] by (intro replicate_eqI) auto
  ultimately show ?thesis by (metis trim_right_char_def)
qed

lemma zero_digits: "digits_val 0 (replicate j CHR ''0'') = Some 0"
  using digits_val_zeros [of j "[]"] by simp

lemma take_fraction_digits:
  assumes "ds \<noteq> []" and "\<forall>c\<in>set ds. is_digit c" and "length ds \<le> 9"
  shows "take_fraction (CHR ''.'' # ds @ ''Z'') =
    map_option (\<lambda>n. (n, ''Z'')) (digits_val 0 (ds @ replicate (9 - length ds) CHR ''0''))"
proof -
  have z: "\<not> is_digit CHR ''Z''" by (simp add: is_digit_def digit_val_def)
  obtain x r where x: "ds = x # r" using assms(1) by (cases ds) auto
  have "takeWhile is_digit (ds @ ''Z'') = ds" "dropWhile is_digit (ds @ ''Z'') = ''Z''"
    using assms(2) z by (simp_all add: takeWhile_append dropWhile_append)
  moreover have "take_fraction (CHR ''.'' # ds @ ''Z'') =
      (let nine = take 9 (takeWhile is_digit (ds @ ''Z'')) in map_option (\<lambda>n. (n, dropWhile is_digit (ds @ ''Z'')))
        (digits_val 0 (nine @ replicate (9 - length nine) CHR ''0'')))"
    using assms(2) unfolding x take_fraction_def Let_def append_Cons list.case by (simp only: if_True list.set_intros) simp
  ultimately show ?thesis using assms(3) by (simp only: Let_def take_all)
qed

lemma take_fraction_format:
  assumes "n < 10 ^ 9"
  shows "take_fraction (format_fraction n @ ''Z'') = Some (n, ''Z'')"
proof (cases "n = 0")
  case True
  then show ?thesis by (simp add: format_fraction_def take_fraction_def)
next
  case False
  let ?ds = "trim_right_char CHR ''0'' (fixed_digits 9 n)"
  obtain j where j: "fixed_digits 9 n = ?ds @ replicate j CHR ''0''" using trim_right_split by blast
  have v: "digits_val 0 (?ds @ replicate j CHR ''0'') = Some n" using fixed_digits_val [OF assms] j by simp
  have "?ds \<noteq> []" using v zero_digits [of j] False by auto
  have dig: "\<forall>c\<in>set ?ds. is_digit c" using fixed_digits_digit [of _ 9 n] j by (metis Un_iff set_append)
  have len: "length ?ds + j = 9" using j fixed_digits_length [of 9 n] by (metis length_append length_replicate)
  have "j = 9 - length ?ds" using len by simp
  then show ?thesis using take_fraction_digits [OF \<open>?ds \<noteq> []\<close> dig] v len False
    by (simp add: format_fraction_def del: fixed_digits.simps digits_val.simps)
qed

lemma zone_utc: "take_zone ''Z'' = Some (0, [])"
  by (simp add: take_zone_def)

lemma seconds_of_day: "s div 3600 * 3600 + s div 60 mod 60 * 60 + s mod 60 = (s::nat)"
proof -
  have "s div 60 div 60 = s div 3600" by (simp add: div_mult2_eq [of s 60 60, symmetric])
  then show ?thesis using mult_div_mod_eq [of 60 s] mult_div_mod_eq [of 60 "s div 60"] by linarith
qed

lemma month_len_lt: "d \<le> month_len y m \<Longrightarrow> d < 100"
  using month_len_bounds(2) [of y m] by simp

lemma parse_marshal_time:
  assumes "marshal_time t = Some s"
  shows "parse_time s = Some t"
proof -
  define secs where "secs = t div second"
  define k where "k = nat (secs mod 86400)"
  define ns where "ns = nat (t mod second)"
  obtain y m d where c: "civil (secs div 86400 + unix_epoch_day) = (y, m, d)"
    by (cases "civil (secs div 86400 + unix_epoch_day)") auto
  have y: "0 \<le> y" "y \<le> 9999" and s: "s = fixed_digits 4 (nat y) @ CHR ''-'' # fixed_digits 2 m @ CHR ''-'' # fixed_digits 2 d
       @ CHR ''T'' # fixed_digits 2 (k div 3600) @ CHR '':'' # fixed_digits 2 (k div 60 mod 60)
       @ CHR '':'' # fixed_digits 2 (k mod 60) @ format_fraction ns @ ''Z''"
    using assms c by (auto simp: marshal_time_def Let_def secs_def k_def ns_def split: if_splits)
  have k: "k < 86400" "int k = secs mod 86400" by (simp_all add: k_def nat_less_iff)
  have ns: "ns < 10 ^ 9" "int ns = t mod second" by (simp_all add: ns_def second_def nat_less_iff)
  note dn = civil_day_number [OF c]
  have b: "nat y < 10000" "m < 100" "d < 100" "k div 3600 < 24" "k div 60 mod 60 < 60" "k mod 60 < 60"
    using y dn(1) month_len_lt [of d y m] k(1) by (simp_all add: date_ok_def less_mult_imp_div_less)
  have sod: "int (k div 3600) * 3600 + int (k div 60 mod 60) * 60 + int (k mod 60) = int k"
    using arg_cong [OF seconds_of_day [of k], of int] by (simp only: of_nat_add of_nat_mult of_nat_numeral)
  have "(day_number y m d - unix_epoch_day) * 86400 + int (k div 3600) * 3600 + int (k div 60 mod 60) * 60
      + int (k mod 60) = secs div 86400 * 86400 + (int (k div 3600) * 3600 + int (k div 60 mod 60) * 60 + int (k mod 60))"
    by (simp only: dn(2) add.assoc add_diff_cancel_right')
  also have "\<dots> = secs" unfolding sod k(2) by (rule div_mult_mod_eq)
  finally have "(day_number y m d - unix_epoch_day) * 86400 + int (k div 3600) * 3600
      + int (k div 60 mod 60) * 60 + int (k mod 60) = secs" .
  moreover have "secs * second + int ns = t" using ns(2) by (simp add: secs_def)
  ultimately show ?thesis
    using b y dn(1) unfolding s
    by (simp add: parse_time_def take_fraction_format [OF ns(1)] zone_utc del: fixed_digits.simps)
qed

end
