(* ===== verification/Protocol.thy ===== *)
theory Protocol
  imports Json Rfc3339
begin

section \<open>The bodies of the gateway's protocol (internal/gatewayapi/types.go)\<close>

text \<open>
  The requests and the response that the runner's client and the gateway exchange, with the way
  each side prints and reads them. The gateway reads requests strictly: a member that names no
  field is an error. The client reads the response leniently.
\<close>

definition DeploymentTokenHeader :: string where
  "DeploymentTokenHeader = ''X-Deployment-Token''"

record CommandResponse =
  Command :: bytes
  Receipt :: string
  Attempt :: int
  LeaseExpiresAt :: gtime

record ReceiptRequest =
  AckReceipt :: string

record RetryRequest =
  RetryReceipt :: string
  DelaySeconds :: int

record RejectRequest =
  RejectedReceipt :: string
  Reason :: string

subsection \<open>Requests\<close>

definition marshal_ReceiptRequest :: "ReceiptRequest \<Rightarrow> bytes" where
  "marshal_ReceiptRequest r = encode_struct [member ''receipt'' (JStr (AckReceipt r))]"

definition marshal_RetryRequest :: "RetryRequest \<Rightarrow> bytes" where
  "marshal_RetryRequest r = encode_struct [member ''receipt'' (JStr (RetryReceipt r)),
     member ''delay_seconds'' (jint (DelaySeconds r))]"

definition marshal_RejectRequest :: "RejectRequest \<Rightarrow> bytes" where
  "marshal_RejectRequest r = encode_struct [member ''receipt'' (JStr (RejectedReceipt r)),
     member ''reason'' (JStr (Reason r))]"

text \<open>\<open>decoder.DisallowUnknownFields\<close>, then the first value of at most \<open>limit\<close> bytes of the body.\<close>

definition known_members :: "string list \<Rightarrow> (string \<times> bytes \<times> json) list \<Rightarrow> bool" where
  "known_members names ms \<longleftrightarrow> (\<forall>m\<in>set ms. \<exists>n\<in>set names. equal_fold (fst m) n)"

definition strict_members :: "string list \<Rightarrow> nat \<Rightarrow> bytes \<Rightarrow> (string \<times> bytes \<times> json) list option" where
  "strict_members names limit body = (case Option.bind (json_decode_first (take limit body)) struct_members of
     None \<Rightarrow> None | Some ms \<Rightarrow> if known_members names ms then Some ms else None)"

definition decode_ReceiptRequest :: "nat \<Rightarrow> bytes \<Rightarrow> ReceiptRequest option" where
  "decode_ReceiptRequest limit body = do {
     ms \<leftarrow> strict_members [''receipt''] limit body;
     r \<leftarrow> get_field into_str ''receipt'' ms [];
     Some \<lparr>AckReceipt = r\<rparr> }"

definition decode_RetryRequest :: "nat \<Rightarrow> bytes \<Rightarrow> RetryRequest option" where
  "decode_RetryRequest limit body = do {
     ms \<leftarrow> strict_members [''receipt'', ''delay_seconds''] limit body;
     r \<leftarrow> get_field into_str ''receipt'' ms [];
     d \<leftarrow> get_field (into_num fits_int64) ''delay_seconds'' ms 0;
     Some \<lparr>RetryReceipt = r, DelaySeconds = d\<rparr> }"

definition decode_RejectRequest :: "nat \<Rightarrow> bytes \<Rightarrow> RejectRequest option" where
  "decode_RejectRequest limit body = do {
     ms \<leftarrow> strict_members [''receipt'', ''reason''] limit body;
     r \<leftarrow> get_field into_str ''receipt'' ms [];
     x \<leftarrow> get_field into_str ''reason'' ms [];
     Some \<lparr>RejectedReceipt = r, Reason = x\<rparr> }"

lemma strict_members_encode:
  assumes "members_wf ms" and "known_members names ms" and "length (encode_struct ms) \<le> limit"
  shows "strict_members names limit (encode_struct ms) = Some ms"
  using assms json_decode_first_encode [of "JObj ms"] by (simp add: strict_members_def encode_struct_def)

lemma known_members_simps [simp]:
  "known_members names []"
  "known_members names (member k v # ms) \<longleftrightarrow> (\<exists>n\<in>set names. equal_fold k n) \<and> known_members names ms"
  by (auto simp: known_members_def member_def)

lemma decode_marshal_ReceiptRequest:
  "ascii (AckReceipt r) \<Longrightarrow> length (marshal_ReceiptRequest r) \<le> limit
     \<Longrightarrow> decode_ReceiptRequest limit (marshal_ReceiptRequest r) = Some r"
  by (simp add: decode_ReceiptRequest_def marshal_ReceiptRequest_def strict_members_encode get_field_member)

lemma decode_marshal_RetryRequest:
  "ascii (RetryReceipt r) \<Longrightarrow> fits_int64 (DelaySeconds r) \<Longrightarrow> length (marshal_RetryRequest r) \<le> limit
     \<Longrightarrow> decode_RetryRequest limit (marshal_RetryRequest r) = Some r"
  by (simp add: decode_RetryRequest_def marshal_RetryRequest_def strict_members_encode get_field_member
      equal_fold_def to_lower_def)

lemma decode_marshal_RejectRequest:
  "ascii (RejectedReceipt r) \<Longrightarrow> ascii (Reason r) \<Longrightarrow> length (marshal_RejectRequest r) \<le> limit
     \<Longrightarrow> decode_RejectRequest limit (marshal_RejectRequest r) = Some r"
  by (simp add: decode_RejectRequest_def marshal_RejectRequest_def strict_members_encode get_field_member
      equal_fold_def to_lower_def)

subsection \<open>The response\<close>

text \<open>
  \<open>json.RawMessage\<close> is printed without white space between tokens and with \<open><\<close>, \<open>>\<close>, \<open>&\<close> and the
  two line separators of Unicode escaped; the flag says whether the next byte is inside a
  string, or right after a backslash inside one.
\<close>

datatype lex_mode = Outside | InString | AfterBackslash

definition next_mode :: "lex_mode \<Rightarrow> char \<Rightarrow> lex_mode" where
  "next_mode q c = (case q of
     Outside \<Rightarrow> if c = CHR 0x22 then InString else Outside
   | InString \<Rightarrow> if c = CHR 0x22 then Outside else if c = CHR 0x5C then AfterBackslash else InString
   | AfterBackslash \<Rightarrow> InString)"

fun json_compact :: "lex_mode \<Rightarrow> bytes \<Rightarrow> bytes" where
  "json_compact q [] = []"
| "json_compact q (c # r) =
     (if q = Outside \<and> json_ws c then json_compact q r
      else if c = CHR ''<'' \<or> c = CHR ''>'' \<or> c = CHR ''&''
      then [CHR 0x5C] @ ''u00'' @ [hex_char (of_char c div 16), hex_char (of_char c mod 16)] @ json_compact (next_mode q c) r
      else if c = CHR 0xE2 \<and> take 2 r = [CHR 0x80, CHR 0xA8] then [CHR 0x5C] @ ''u2028'' @ json_compact q (drop 2 r)
      else if c = CHR 0xE2 \<and> take 2 r = [CHR 0x80, CHR 0xA9] then [CHR 0x5C] @ ''u2029'' @ json_compact q (drop 2 r)
      else c # json_compact (next_mode q c) r)"

text \<open>\<open>json.NewEncoder(w).Encode(response)\<close>. A lease that ends after year 9999 has no encoding, and
  the encoder writes nothing.\<close>

definition encode_CommandResponse :: "CommandResponse \<Rightarrow> bytes" where
  "encode_CommandResponse r = (case marshal_time (LeaseExpiresAt r) of None \<Rightarrow> []
     | Some t \<Rightarrow> ''{\"command\":'' @ (if Command r = [] then ''null'' else json_compact Outside (Command r))
         @ '',\"receipt\":'' @ json_quote (Receipt r) @ '',\"attempt\":'' @ int_str (Attempt r)
         @ '',\"lease_expires_at\":'' @ json_quote t @ ''}'' @ [CHR 0x0A])"

fun into_time :: "gtime \<Rightarrow> bytes \<times> json \<Rightarrow> gtime option" where
  "into_time x (w, JStr s) = parse_time s"
| "into_time x (w, JNull) = Some x"
| "into_time x _ = None"

definition decode_CommandResponse :: "nat \<Rightarrow> bytes \<Rightarrow> CommandResponse option" where
  "decode_CommandResponse limit body = do {
     v \<leftarrow> json_decode_first (take limit body);
     ms \<leftarrow> struct_members v;
     c \<leftarrow> get_field into_raw ''command'' ms [];
     r \<leftarrow> get_field into_str ''receipt'' ms [];
     a \<leftarrow> get_field (into_num fits_uint64) ''attempt'' ms 0;
     l \<leftarrow> get_field into_time ''lease_expires_at'' ms time_zero;
     Some \<lparr>Command = c, Receipt = r, Attempt = a, LeaseExpiresAt = l\<rparr> }"

text \<open>A response whose command is printed in the plain form arrives as it was sent, with the
  command in its compact form.\<close>

lemma marshal_time_ascii: "marshal_time t = Some s \<Longrightarrow> ascii s"
proof -
  have d: "ascii (fixed_digits k n)" for k n
    using fixed_digits_digit [of _ k n] digit_bytes by (force simp: ascii_def)
  then have "ascii (trim_right_char CHR ''0'' (fixed_digits k n))" for k n
    using trim_right_split [of "fixed_digits k n" "CHR ''0''"] by (metis ascii_append)
  then have "ascii (format_fraction n)" for n by (simp add: format_fraction_def del: fixed_digits.simps)
  with d show "marshal_time t = Some s \<Longrightarrow> ascii s"
    by (auto simp: marshal_time_def Let_def simp del: fixed_digits.simps split: prod.splits if_splits)
qed

definition response_members :: "json \<Rightarrow> CommandResponse \<Rightarrow> string \<Rightarrow> (string \<times> bytes \<times> json) list" where
  "response_members v r t = [member ''command'' v, member ''receipt'' (JStr (Receipt r)),
     member ''attempt'' (jint (Attempt r)), member ''lease_expires_at'' (JStr t)]"

lemma encode_response_members:
  assumes "json_compact Outside (Command r) = json_encode v" and "json_wf v" and "marshal_time (LeaseExpiresAt r) = Some t"
  shows "encode_CommandResponse r = json_encode (JObj (response_members v r t)) @ [CHR 0x0A]"
proof -
  have "Command r \<noteq> []" using assms(1) json_encode_hd [OF assms(2)] by auto
  moreover have "json_quote ''command'' = ''\"command\"''" "json_quote ''receipt'' = ''\"receipt\"''"
      "json_quote ''attempt'' = ''\"attempt\"''" "json_quote ''lease_expires_at'' = ''\"lease_expires_at\"''"
    by code_simp+
  ultimately show ?thesis using assms
    by (simp add: encode_CommandResponse_def response_members_def member_def jint_def)
qed

lemma decode_encode_CommandResponse:
  assumes "json_compact Outside (Command r) = json_encode v" and "json_wf v" and "marshal_time (LeaseExpiresAt r) = Some t"
    and "ascii (Receipt r)" and "fits_uint64 (Attempt r)" and "length (encode_CommandResponse r) \<le> limit"
  shows "decode_CommandResponse limit (encode_CommandResponse r) = Some (r\<lparr>Command := json_encode v\<rparr>)"
proof -
  let ?v = "JObj (response_members v r t)"
  have wf: "json_wf ?v" using assms(2,4) marshal_time_ascii [OF assms(3)] by (simp add: response_members_def)
  have e: "encode_CommandResponse r = json_encode ?v @ [CHR 0x0A]"
    using assms(1-3) by (rule encode_response_members)
  have "json_decode_first (encode_CommandResponse r) = Some ?v"
    unfolding json_decode_first_def e
    using roundtrip_parse(1) [OF wf, of "[CHR 0x0A]" "Suc (length (json_encode ?v @ [CHR 0x0A]))"]
    by (simp add: num_stop_def is_digit_def digit_val_def del: parse_value.simps json_encode.simps)
  moreover have "parse_time t = Some (LeaseExpiresAt r)" using assms(3) by (rule parse_marshal_time)
  ultimately show ?thesis using assms(5,6)
    by (simp add: decode_CommandResponse_def response_members_def get_field_member equal_fold_def to_lower_def
        into_raw_def)
qed

end
