(* ===== verification/Messaging.thy ===== *)
theory Messaging
  imports Json Rfc3339
begin

section \<open>Messages and envelopes\<close>

text \<open>
  The message types of the shared library \<open>hmessaging\<close> and the operations the program uses of it
  and of the NATS client. Both libraries are outside the repository: their operations are the
  fields of records, which the definitions that call them take as arguments. The NATS servers
  and everything else outside the process are a state of an arbitrary type \<open>'w\<close>.
\<close>

type_synonym Header = "(string \<times> string list) list"

record Message =
  MID :: string
  MSubject :: string
  MData :: bytes
  MHeader :: Header
  MCreatedAt :: gtime
  MExpiresAt :: gtime

record CommandEnvelope =
  CProtocolVersion :: string
  CCommandID :: string
  COrganizationID :: string
  CRunnerID :: string
  CDeploymentID :: string
  CType :: string
  CCreatedAt :: gtime
  CExpiresAt :: gtime
  CPayload :: bytes

record EventEnvelope =
  EProtocolVersion :: string
  EEventID :: string
  ECommandID :: string
  EOrganizationID :: string
  ERunnerID :: string
  EDeploymentID :: string
  EType :: string
  ECreatedAt :: gtime
  EPayload :: bytes

text \<open>The configuration of a job is kept as \<open>json.Marshal\<close> prints it; nil is \<^const>\<open>None\<close>.\<close>

record CreateJobCommand =
  JobID :: string
  JNamespace :: string
  Configuration :: "bytes option"

record hmessaging =
  ProtocolVersionV1 :: string
  CommandTypeCreateJob :: string
  RunnerCommandsStreamName :: string
  HeaderMessageID :: string
  HeaderCreatedAt :: string
  HeaderExpiresAt :: string
  RunnerCommandSubject :: "string \<Rightarrow> string \<Rightarrow> string result"
  RunnerEventSubject :: "string \<Rightarrow> string \<Rightarrow> string \<Rightarrow> string result"
  DeadLetterSubject :: "string \<Rightarrow> string result"
  Validate :: "Message \<Rightarrow> goerr option"
  header_get :: "Header \<Rightarrow> string \<Rightarrow> string"
  header_set :: "Header \<Rightarrow> string \<Rightarrow> string \<Rightarrow> Header"
  unmarshal_command :: "bytes \<Rightarrow> CommandEnvelope result"
  unmarshal_event :: "bytes \<Rightarrow> EventEnvelope result"
  marshal_event :: "EventEnvelope \<Rightarrow> bytes result"
  unmarshal_create_job :: "bytes \<Rightarrow> CreateJobCommand result"
  marshal_message :: "Message \<Rightarrow> bytes result"
  unmarshal_message :: "bytes \<Rightarrow> Message result"

subsection \<open>The NATS client\<close>

record msg_metadata =
  MetaTimestamp :: gtime
  MetaStream :: string
  MetaSequence :: int
  MetaNumDelivered :: int

text \<open>A message as a subscription hands it out. \<open>Metadata\<close> parses its reply subject, which fails for a
  message that did not come from a stream.\<close>

record nats_msg =
  NSubject :: string
  NReply :: string
  NData :: bytes
  NHeader :: Header
  NMetadata :: "msg_metadata result"

record raw_msg =
  RawSubject :: string
  RawData :: bytes
  RawHeader :: Header
  RawTime :: gtime

record subscription_options =
  BindStream :: string
  AckWait :: duration
  MaxDeliver :: int

text \<open>A context is the timeout a handler adds to the context of its request, if it adds one.\<close>

type_synonym ctx = "duration option"

record 'w nats =
  open_jetstream :: "'w \<Rightarrow> goerr option \<times> 'w"
  ensure_standard_streams :: "'w \<Rightarrow> goerr option \<times> 'w"
  pull_subscribe :: "string \<Rightarrow> string \<Rightarrow> subscription_options \<Rightarrow> 'w \<Rightarrow> nat result \<times> 'w"
  sub_fetch :: "nat \<Rightarrow> duration \<Rightarrow> 'w \<Rightarrow> nats_msg result \<times> 'w"
  msg_ack :: "nats_msg \<Rightarrow> 'w \<Rightarrow> goerr option \<times> 'w"
  msg_nak :: "nats_msg \<Rightarrow> duration \<Rightarrow> 'w \<Rightarrow> goerr option \<times> 'w"
  msg_term :: "nats_msg \<Rightarrow> 'w \<Rightarrow> goerr option \<times> 'w"
  js_publish :: "Message \<Rightarrow> 'w \<Rightarrow> goerr option \<times> 'w"
  conn_publish :: "string \<Rightarrow> bytes \<Rightarrow> 'w \<Rightarrow> goerr option \<times> 'w"
  flush_timeout :: "duration \<Rightarrow> 'w \<Rightarrow> goerr option \<times> 'w"
  get_msg :: "string \<Rightarrow> int \<Rightarrow> 'w \<Rightarrow> raw_msg result \<times> 'w"
  open_store :: "string \<Rightarrow> 'w \<Rightarrow> goerr option \<times> 'w"
  obj_get :: "string \<Rightarrow> string \<Rightarrow> 'w \<Rightarrow> (bytes \<times> goerr option) result \<times> 'w"
  obj_put :: "string \<Rightarrow> string \<Rightarrow> bytes \<times> goerr option \<Rightarrow> 'w \<Rightarrow> int result \<times> 'w"
  obj_delete :: "string \<Rightarrow> string \<Rightarrow> 'w \<Rightarrow> goerr option \<times> 'w"
  until_deadline :: "ctx \<Rightarrow> 'w \<Rightarrow> duration option"
  ctx_err :: "'w \<Rightarrow> goerr option"

subsection \<open>Readers\<close>

text \<open>
  An \<open>io.Reader\<close>: the pieces in which its bytes arrive, and how it ends (\<^const>\<open>None\<close> for end of
  file). A read into a buffer of \<open>n\<close> bytes takes at most one piece.
\<close>

datatype reader = Reader (chunks: "bytes list") (fate: "goerr option")

datatype read_status = Continue | EOF | Failed goerr

fun read_into :: "nat \<Rightarrow> reader \<Rightarrow> bytes \<times> read_status \<times> reader" where
  "read_into n (Reader [] e) = ([], case e of None \<Rightarrow> EOF | Some x \<Rightarrow> Failed x, Reader [] e)"
| "read_into n (Reader (c # cs) e) = (if length c \<le> n then (c, Continue, Reader cs e)
     else (take n c, Continue, Reader (drop n c # cs) e))"

definition all_bytes :: "reader \<Rightarrow> bytes" where
  "all_bytes r = concat (chunks r)"

text \<open>\<open>io.ReadAll(io.LimitReader(r, n))\<close>: an error counts only when it comes before the limit.\<close>

definition read_all_limit :: "nat \<Rightarrow> reader \<Rightarrow> bytes result" where
  "read_all_limit n r = (if length (all_bytes r) < n then (case fate r of
     Some e \<Rightarrow> Inl e | None \<Rightarrow> Inr (all_bytes r)) else Inr (take n (all_bytes r)))"

lemma all_bytes_simps [simp]: "all_bytes (Reader [] e) = []" "all_bytes (Reader (c # cs) e) = c @ all_bytes (Reader cs e)"
  by (simp_all add: all_bytes_def)

lemma read_into_bytes:
  "read_into n r = (bs, st, r') \<Longrightarrow> all_bytes r = bs @ all_bytes r' \<and> length bs \<le> n \<and> fate r' = fate r"
  by (induction n r rule: read_into.induct) (auto split: if_splits)

lemma read_into_end: "read_into n r = (bs, st, r') \<Longrightarrow> st \<noteq> Continue \<Longrightarrow> bs = [] \<and> all_bytes r = [] \<and> r' = r"
  by (induction n r rule: read_into.induct) (auto split: if_splits)

subsection \<open>A transparent instance\<close>

text \<open>For evaluating the definitions on concrete inputs: envelopes are printed as fields between
  bars, and the world is the list of what was sent, the latest first.\<close>

definition test_command :: "CommandEnvelope \<Rightarrow> bytes" where
  "test_command c = join_char CHR ''|'' [CProtocolVersion c, CCommandID c, COrganizationID c, CRunnerID c,
     CDeploymentID c, CType c, CPayload c]"

definition test_messaging :: hmessaging where
  "test_messaging = \<lparr>ProtocolVersionV1 = ''v1'', CommandTypeCreateJob = ''create-job'',
     RunnerCommandsStreamName = ''COMMANDS'', HeaderMessageID = ''id'', HeaderCreatedAt = ''created'',
     HeaderExpiresAt = ''expires'',
     RunnerCommandSubject = (\<lambda>g r. if g = [] \<or> r = [] then Inl (ErrNew ''token'') else Inr (g @ ''.'' @ r @ ''.commands'')),
     RunnerEventSubject = (\<lambda>g r t. if g = [] \<or> r = [] \<or> t = [] then Inl (ErrNew ''token'') else Inr (g @ ''.'' @ r @ ''.events.'' @ t)),
     DeadLetterSubject = (\<lambda>s. if s = [] then Inl (ErrNew ''subject'') else Inr (''dlq.'' @ s)),
     Validate = (\<lambda>m. if MID m = [] then Some (ErrNew ''message ID is required'') else None),
     header_get = (\<lambda>h k. case map_of h k of Some (v # _) \<Rightarrow> v | _ \<Rightarrow> []),
     header_set = (\<lambda>h k v. (k, [v]) # h),
     unmarshal_command = (\<lambda>bs. case split_char CHR ''|'' bs of
        [v, c, g, r, d, t, p] \<Rightarrow> Inr \<lparr>CProtocolVersion = v, CCommandID = c, COrganizationID = g, CRunnerID = r,
           CDeploymentID = d, CType = t, CCreatedAt = 0, CExpiresAt = time_zero, CPayload = p\<rparr>
      | _ \<Rightarrow> Inl (ErrNew ''invalid character'')),
     unmarshal_event = (\<lambda>bs. case split_char CHR ''|'' bs of
        [v, i, c, g, r, d, t, p] \<Rightarrow> Inr \<lparr>EProtocolVersion = v, EEventID = i, ECommandID = c, EOrganizationID = g,
           ERunnerID = r, EDeploymentID = d, EType = t, ECreatedAt = 0, EPayload = p\<rparr>
      | _ \<Rightarrow> Inl (ErrNew ''invalid character'')),
     marshal_event = (\<lambda>e. Inr (join_char CHR ''|'' [EProtocolVersion e, EEventID e, ECommandID e,
        EOrganizationID e, ERunnerID e, EDeploymentID e, EType e, EPayload e])),
     unmarshal_create_job = (\<lambda>bs. case split_char CHR '','' bs of
        [j, n] \<Rightarrow> Inr \<lparr>JobID = j, JNamespace = n, Configuration = Some ''{}''\<rparr> | _ \<Rightarrow> Inl (ErrNew ''invalid character'')),
     marshal_message = (\<lambda>m. Inr (join_char CHR ''|'' [MID m, MSubject m, MData m])),
     unmarshal_message = (\<lambda>bs. case split_char CHR ''|'' bs of
        [i, s, d] \<Rightarrow> Inr \<lparr>MID = i, MSubject = s, MData = d, MHeader = [], MCreatedAt = 0, MExpiresAt = time_zero\<rparr>
      | _ \<Rightarrow> Inl (ErrNew ''invalid character''))\<rparr>"

type_synonym sent = "(string \<times> bytes) list"

definition test_nats :: "sent nats" where
  "test_nats = \<lparr>open_jetstream = (\<lambda>w. (None, w)), ensure_standard_streams = (\<lambda>w. (None, w)),
     pull_subscribe = (\<lambda>_ _ _ w. (Inr 0, w)), sub_fetch = (\<lambda>_ _ w. (Inl ErrTimeout, w)),
     msg_ack = (\<lambda>m w. (None, (NReply m, ''+ACK'') # w)), msg_nak = (\<lambda>m _ w. (None, (NReply m, ''-NAK'') # w)),
     msg_term = (\<lambda>m w. (None, (NReply m, ''+TERM'') # w)),
     js_publish = (\<lambda>m w. (None, (MSubject m, MData m) # w)), conn_publish = (\<lambda>s p w. (None, (s, p) # w)),
     flush_timeout = (\<lambda>_ w. (None, w)), get_msg = (\<lambda>_ _ w. (Inl ErrNotExist, w)), open_store = (\<lambda>_ w. (None, w)),
     obj_get = (\<lambda>_ _ w. (Inl ErrNotExist, w)), obj_put = (\<lambda>_ _ x w. (Inr (int (length (fst x))), w)),
     obj_delete = (\<lambda>_ _ w. (None, w)), until_deadline = (\<lambda>_ _. None), ctx_err = (\<lambda>_. None)\<rparr>"

end
