(* ===== verification/Transport.thy ===== *)
theory Transport
  imports Messaging Crypto
begin

section \<open>NATS transport (internal/natstransport/transport.go)\<close>

text \<open>
  Connection settings, the validating publisher and the pull consumers. The files a connection
  reads and the parsing of certificates are arguments of \<open>Connect\<close>.
\<close>

definition defaultAckWait :: duration where
  "defaultAckWait = 2 * 60 * second"

definition defaultMaxDeliver :: int where
  "defaultMaxDeliver = 10"

record Config =
  URL :: string
  Token :: string
  CredentialsFile :: string
  CAFile :: string
  ClientCertFile :: string
  ClientKeyFile :: string
  ConnName :: string
  ConnectTimeout :: duration

record tls_config =
  RootCAs :: "bytes option"
  Certificates :: "(bytes \<times> bytes) list"

record ConnectionConfig =
  URLs :: "string list"
  CCName :: string
  CCToken :: string
  CCCredentialsFile :: string
  TLSConfig :: "tls_config option"
  CCConnectTimeout :: duration
  ReconnectWait :: duration
  MaxReconnects :: int

record tls_files =
  read_file :: "string \<Rightarrow> bytes result"
  has_pem_certificate :: "bytes \<Rightarrow> bool"
  load_key_pair :: "string \<Rightarrow> string \<Rightarrow> (bytes \<times> bytes) result"

definition connection_roots :: "tls_files \<Rightarrow> string \<Rightarrow> bytes option result" where
  "connection_roots fs file = (if file = [] then Inr None
     else (case read_file fs file of Inl e \<Rightarrow> Inl (ErrWrap ''read NATS CA'' e)
       | Inr ca \<Rightarrow> if has_pem_certificate fs ca then Inr (Some ca)
           else Inl (ErrNew ''NATS_CA_FILE does not contain a PEM certificate'')))"

definition connection_certificates :: "tls_files \<Rightarrow> string \<Rightarrow> string \<Rightarrow> (bytes \<times> bytes) list result" where
  "connection_certificates fs cert key = (if cert = [] \<and> key = [] then Inr []
     else if cert = [] \<or> key = []
     then Inl (ErrNew ''both NATS_CLIENT_CERT_FILE and NATS_CLIENT_KEY_FILE are required for mTLS'')
     else (case load_key_pair fs cert key of Inl e \<Rightarrow> Inl (ErrWrap ''load NATS client certificate'' e)
       | Inr c \<Rightarrow> Inr [c]))"

definition connection_config :: "tls_files \<Rightarrow> Config \<Rightarrow> ConnectionConfig result" where
  "connection_config fs config =
     (if trim_space (URL config) = [] then Inl (ErrNew ''NATS_URL must not be empty'')
      else (case connection_roots fs (CAFile config) of Inl e \<Rightarrow> Inl e
        | Inr roots \<Rightarrow> (case connection_certificates fs (ClientCertFile config) (ClientKeyFile config) of
            Inl e \<Rightarrow> Inl e
          | Inr certs \<Rightarrow> Inr \<lparr>URLs = split_char CHR '','' (URL config), CCName = ConnName config,
              CCToken = Token config, CCCredentialsFile = CredentialsFile config,
              TLSConfig = (if CAFile config \<noteq> [] \<or> ClientCertFile config \<noteq> [] \<or> ClientKeyFile config \<noteq> []
                then Some \<lparr>RootCAs = roots, Certificates = certs\<rparr> else None),
              CCConnectTimeout = (if ConnectTimeout config \<le> 0 then 10 * second else ConnectTimeout config),
              ReconnectWait = second, MaxReconnects = - 1\<rparr>)))"

definition Connect :: "tls_files \<Rightarrow> (ConnectionConfig \<Rightarrow> 'w \<Rightarrow> goerr option \<times> 'w) \<Rightarrow> Config \<Rightarrow> 'w \<Rightarrow> goerr option \<times> 'w" where
  "Connect fs hnats_connect config w = (case connection_config fs config of
     Inl e \<Rightarrow> (Some e, w) | Inr c \<Rightarrow> hnats_connect c w)"

subsection \<open>Publisher\<close>

definition NewPublisher :: "'w nats \<Rightarrow> 'w \<Rightarrow> goerr option \<times> 'w" where
  "NewPublisher ns w = (case open_jetstream ns w of
     (Some e, w) \<Rightarrow> (Some (ErrWrap ''create JetStream publisher'' e), w) | (None, w) \<Rightarrow> (None, w))"

definition publish :: "hmessaging \<Rightarrow> 'w nats \<Rightarrow> Message \<Rightarrow> 'w \<Rightarrow> goerr option \<times> 'w" where
  "publish hm ns message w = (case Validate hm message of
     Some e \<Rightarrow> (Some e, w) | None \<Rightarrow> js_publish ns message w)"

subsection \<open>Consumers\<close>

record 'w Delivery =
  DMessage :: Message
  DAttempts :: int
  DAckSubject :: string
  DStreamSequence :: int
  Ack :: "'w \<Rightarrow> goerr option \<times> 'w"
  Nak :: "duration \<Rightarrow> 'w \<Rightarrow> goerr option \<times> 'w"
  Term :: "'w \<Rightarrow> goerr option \<times> 'w"

text \<open>A delivery made outside a consumer has no acknowledgement subject and no sequence.\<close>

definition NewDelivery :: "Message \<Rightarrow> int \<Rightarrow> ('w \<Rightarrow> goerr option \<times> 'w) \<Rightarrow> (duration \<Rightarrow> 'w \<Rightarrow> goerr option \<times> 'w)
    \<Rightarrow> ('w \<Rightarrow> goerr option \<times> 'w) \<Rightarrow> 'w Delivery" where
  "NewDelivery message attempts ack nak term = \<lparr>DMessage = message, DAttempts = attempts, DAckSubject = [],
     DStreamSequence = 0, Ack = ack, Nak = nak, Term = term\<rparr>"

text \<open>A consumer is its subscription, named by a number.\<close>

type_synonym Consumer = nat

definition durableName :: "crypto \<Rightarrow> string \<Rightarrow> string \<Rightarrow> string" where
  "durableName cr organizationID runnerID =
     ''runner-'' @ hex_encode (take 12 (sha256 cr (organizationID @ CHR 0x00 # runnerID)))"

definition NewRunnerConsumer :: "crypto \<Rightarrow> hmessaging \<Rightarrow> 'w nats \<Rightarrow> string \<Rightarrow> string \<Rightarrow> bool \<Rightarrow> 'w \<Rightarrow> Consumer result \<times> 'w" where
  "NewRunnerConsumer cr hm ns organizationID runnerID bootstrapStreams w =
     (case RunnerCommandSubject hm organizationID runnerID of Inl e \<Rightarrow> (Inl e, w)
      | Inr subject \<Rightarrow>
     (case (if bootstrapStreams then
          (case open_jetstream ns w of
             (Some e, w) \<Rightarrow> (Some (ErrWrap ''create JetStream consumer'' e), w)
           | (None, w) \<Rightarrow> ensure_standard_streams ns w)
        else (None, w)) of
        (Some e, w) \<Rightarrow> (Inl e, w)
      | (None, w) \<Rightarrow>
     (case open_jetstream ns w of
        (Some e, w) \<Rightarrow> (Inl (ErrWrap ''create legacy JetStream consumer adapter'' e), w)
      | (None, w) \<Rightarrow>
     (case pull_subscribe ns subject (durableName cr organizationID runnerID)
         \<lparr>BindStream = RunnerCommandsStreamName hm, AckWait = defaultAckWait, MaxDeliver = defaultMaxDeliver\<rparr> w of
        (Inl e, w) \<Rightarrow> (Inl (ErrWrap ''create runner command consumer'' e), w)
      | (Inr c, w) \<Rightarrow> (Inr c, w)))))"

definition NewBoundConsumer :: "'w nats \<Rightarrow> string \<Rightarrow> string \<Rightarrow> string \<Rightarrow> 'w \<Rightarrow> Consumer result \<times> 'w" where
  "NewBoundConsumer ns stream subject durable w =
     (if stream = [] \<or> subject = [] \<or> durable = []
      then (Inl (ErrNew ''stream, subject, and durable consumer name are required''), w)
      else (case open_jetstream ns w of
        (Some e, w) \<Rightarrow> (Inl (ErrWrap ''create JetStream consumer'' e), w)
      | (None, w) \<Rightarrow>
     (case pull_subscribe ns subject durable
         \<lparr>BindStream = stream, AckWait = defaultAckWait, MaxDeliver = defaultMaxDeliver\<rparr> w of
        (Inl e, w) \<Rightarrow> (Inl (ErrWrap (''bind durable consumer '' @ go_quote durable @ '' on stream '' @ go_quote stream) e), w)
      | (Inr c, w) \<Rightarrow> (Inr c, w))))"

text \<open>The message a delivery carries, from the headers and the metadata of the stream: a header
  that is missing or cannot be parsed leaves the stream's own value.\<close>

definition stream_message_id :: "string \<Rightarrow> int \<Rightarrow> string" where
  "stream_message_id stream sequence = ''stream:'' @ stream @ '':'' @ int_str sequence"

definition fetched_message :: "hmessaging \<Rightarrow> nats_msg \<Rightarrow> msg_metadata \<Rightarrow> Message" where
  "fetched_message hm m meta =
     (let created = header_get hm (NHeader m) (HeaderCreatedAt hm);
          expires = header_get hm (NHeader m) (HeaderExpiresAt hm);
          messageID = header_get hm (NHeader m) (HeaderMessageID hm)
      in \<lparr>MID = (if messageID = [] then stream_message_id (MetaStream meta) (MetaSequence meta) else messageID),
          MSubject = NSubject m, MData = NData m, MHeader = NHeader m,
          MCreatedAt = (if created = [] then MetaTimestamp meta
            else (case parse_time created of Some t \<Rightarrow> t | None \<Rightarrow> MetaTimestamp meta)),
          MExpiresAt = (if expires = [] then time_zero
            else (case parse_time expires of Some t \<Rightarrow> t | None \<Rightarrow> time_zero))\<rparr>)"

definition fetch_timeout :: "'w nats \<Rightarrow> ctx \<Rightarrow> 'w \<Rightarrow> duration" where
  "fetch_timeout ns c w = (case until_deadline ns c w of Some d \<Rightarrow> min d (5 * second) | None \<Rightarrow> 5 * second)"

definition Fetch :: "hmessaging \<Rightarrow> 'w nats \<Rightarrow> ctx \<Rightarrow> Consumer \<Rightarrow> 'w \<Rightarrow> 'w Delivery result \<times> 'w" where
  "Fetch hm ns cx c w = (case sub_fetch ns c (fetch_timeout ns cx w) w of
     (Inl e, w) \<Rightarrow> (Inl e, w)
   | (Inr m, w) \<Rightarrow> (case NMetadata m of Inl e \<Rightarrow> (Inl e, w)
      | Inr meta \<Rightarrow> (Inr \<lparr>DMessage = fetched_message hm m meta, DAttempts = MetaNumDelivered meta,
          DAckSubject = NReply m, DStreamSequence = MetaSequence meta,
          Ack = msg_ack ns m, Nak = msg_nak ns m, Term = msg_term ns m\<rparr>, w)))"

subsection \<open>Facts\<close>

lemma connection_config_tls:
  assumes "connection_config fs config = Inr c"
  shows "TLSConfig c = None \<longleftrightarrow> CAFile config = [] \<and> ClientCertFile config = [] \<and> ClientKeyFile config = []"
    and "(ClientCertFile config = []) = (ClientKeyFile config = [])"
    and "0 < CCConnectTimeout c" and "URLs c \<noteq> []"
  using assms by (auto simp: connection_config_def connection_certificates_def split: if_splits sum.splits)

lemma publish_invalid: "Validate hm m = Some e \<Longrightarrow> publish hm ns m w = (Some e, w)"
  by (simp add: publish_def)

text \<open>The expiry a publisher writes into the header in the standard form arrives unchanged.\<close>

lemma fetched_expiry:
  assumes "header_get hm (NHeader m) (HeaderExpiresAt hm) = s" and "marshal_time t = Some s"
  shows "MExpiresAt (fetched_message hm m meta) = t"
proof -
  have "s \<noteq> []" using assms(2) by (auto simp: marshal_time_def Let_def split: prod.splits if_splits)
  then show ?thesis using assms(1) parse_marshal_time [OF assms(2)] by (simp add: fetched_message_def Let_def)
qed

lemma fetched_id_nonempty: "MID (fetched_message hm m meta) \<noteq> []"
  by (simp add: fetched_message_def Let_def stream_message_id_def)

end
