(* ===== verification/Backend.thy ===== *)
theory Backend
  imports Transport
begin

section \<open>The gateway's backend (internal/gateway/backend.go)\<close>

text \<open>
  The interface \<open>Backend\<close> is a record of operations over an arbitrary state \<open>'b\<close>; the NATS backend
  is one such record, whose state is the cache of consumers and the world. The content of a log
  is what its reader yields: the bytes, and the error that ended them, if any.
\<close>

definition runnerBundlesBucket :: string where
  "runnerBundlesBucket = ''PO_RUNNER_BUNDLES''"

definition runnerLogsBucket :: string where
  "runnerLogsBucket = ''PO_RUNNER_LOGS''"

record CommandDelivery =
  BMessage :: Message
  BAttempts :: int
  BAckSubject :: string
  BStreamSequence :: int

type_synonym content = "bytes \<times> goerr option"

record 'b Backend =
  FetchCommand :: "ctx \<Rightarrow> string \<Rightarrow> string \<Rightarrow> 'b \<Rightarrow> CommandDelivery result \<times> 'b"
  Acknowledge :: "ctx \<Rightarrow> string \<Rightarrow> 'b \<Rightarrow> goerr option \<times> 'b"
  Retry :: "ctx \<Rightarrow> string \<Rightarrow> duration \<Rightarrow> 'b \<Rightarrow> goerr option \<times> 'b"
  Reject :: "ctx \<Rightarrow> CommandDelivery \<Rightarrow> goerr \<Rightarrow> 'b \<Rightarrow> goerr option \<times> 'b"
  RejectReceipt :: "ctx \<Rightarrow> string \<Rightarrow> int \<Rightarrow> goerr \<Rightarrow> 'b \<Rightarrow> goerr option \<times> 'b"
  GetBundle :: "string \<Rightarrow> 'b \<Rightarrow> content result \<times> 'b"
  PutLog :: "string \<Rightarrow> content \<Rightarrow> 'b \<Rightarrow> int result \<times> 'b"
  DeleteLog :: "string \<Rightarrow> 'b \<Rightarrow> goerr option \<times> 'b"
  Publish :: "Message \<Rightarrow> 'b \<Rightarrow> goerr option \<times> 'b"

record 'w NATSBackend =
  consumers :: "string \<Rightarrow> Consumer option"
  world :: 'w

text \<open>Running an operation of the NATS client on the backend's state.\<close>

definition on_world :: "('w \<Rightarrow> 'a \<times> 'w) \<Rightarrow> 'w NATSBackend \<Rightarrow> 'a \<times> 'w NATSBackend" where
  "on_world f b = (case f (world b) of (x, w) \<Rightarrow> (x, b\<lparr>world := w\<rparr>))"

definition NewNATSBackend :: "'w nats \<Rightarrow> bool \<Rightarrow> 'w \<Rightarrow> 'w NATSBackend result \<times> 'w" where
  "NewNATSBackend ns connected w =
     (if \<not> connected then (Inl (ErrNew ''NATS connection is required''), w)
      else (case NewPublisher ns w of (Some e, w) \<Rightarrow> (Inl e, w)
      | (None, w) \<Rightarrow> (case open_jetstream ns w of
          (Some e, w) \<Rightarrow> (Inl (ErrWrap ''open JetStream context'' e), w)
      | (None, w) \<Rightarrow> (case open_store ns runnerBundlesBucket w of
          (Some e, w) \<Rightarrow> (Inl (ErrWrap ''bind runner bundle Object Store'' e), w)
      | (None, w) \<Rightarrow> (case open_store ns runnerLogsBucket w of
          (Some e, w) \<Rightarrow> (Inl (ErrWrap ''bind runner log Object Store'' e), w)
      | (None, w) \<Rightarrow> (Inr \<lparr>consumers = Map.empty, world = w\<rparr>, w))))))"

definition no_command :: "goerr \<Rightarrow> bool" where
  "no_command e \<longleftrightarrow> errors_is e ErrTimeout \<or> errors_is e ErrDeadlineExceeded \<or> errors_is e ErrCanceled"

definition nats_FetchCommand :: "crypto \<Rightarrow> hmessaging \<Rightarrow> 'w nats \<Rightarrow> ctx \<Rightarrow> string \<Rightarrow> string \<Rightarrow> 'w NATSBackend
    \<Rightarrow> CommandDelivery result \<times> 'w NATSBackend" where
  "nats_FetchCommand cr hm ns cx organizationID runnerID b =
     (let cacheKey = organizationID @ CHR 0x00 # runnerID in
      case (case consumers b cacheKey of
          Some c \<Rightarrow> (Inr c, b)
        | None \<Rightarrow> (case on_world (NewRunnerConsumer cr hm ns organizationID runnerID False) b of
            (Inl e, b) \<Rightarrow> (Inl e, b)
          | (Inr c, b) \<Rightarrow> (case consumers b cacheKey of
              Some c' \<Rightarrow> (Inr c', b)
            | None \<Rightarrow> (Inr c, b\<lparr>consumers := (consumers b)(cacheKey \<mapsto> c)\<rparr>)))) of
        (Inl e, b) \<Rightarrow> (Inl e, b)
      | (Inr c, b) \<Rightarrow> (case on_world (Fetch hm ns cx c) b of
          (Inl e, b) \<Rightarrow> (Inl (if no_command e then ErrNoCommand else e), b)
        | (Inr d, b) \<Rightarrow> (Inr \<lparr>BMessage = DMessage d, BAttempts = DAttempts d, BAckSubject = DAckSubject d,
            BStreamSequence = DStreamSequence d\<rparr>, b)))"

definition publishAcknowledgement :: "'w nats \<Rightarrow> ctx \<Rightarrow> string \<Rightarrow> bytes \<Rightarrow> 'w \<Rightarrow> goerr option \<times> 'w" where
  "publishAcknowledgement ns c subject payload w =
     (if subject = [] then (Some (ErrNew ''JetStream acknowledgement subject is empty''), w)
      else (case conn_publish ns subject payload w of (Some e, w) \<Rightarrow> (Some e, w)
        | (None, w) \<Rightarrow>
          (let timeout = (case until_deadline ns c w of
               Some d \<Rightarrow> if d < 5 * second then d else 5 * second | None \<Rightarrow> 5 * second) in
           if timeout \<le> 0 then (ctx_err ns w, w) else flush_timeout ns timeout w)))"

definition nats_Acknowledge :: "'w nats \<Rightarrow> ctx \<Rightarrow> string \<Rightarrow> 'w \<Rightarrow> goerr option \<times> 'w" where
  "nats_Acknowledge ns c ackSubject = publishAcknowledgement ns c ackSubject ''+ACK''"

definition nak_payload :: "duration \<Rightarrow> bytes" where
  "nak_payload delay = (if 0 < delay then ''-NAK {\"delay\": '' @ int_str delay @ ''}'' else ''-NAK'')"

definition nats_Retry :: "'w nats \<Rightarrow> ctx \<Rightarrow> string \<Rightarrow> duration \<Rightarrow> 'w \<Rightarrow> goerr option \<times> 'w" where
  "nats_Retry ns c ackSubject delay = publishAcknowledgement ns c ackSubject (nak_payload delay)"

definition dead_letter :: "hmessaging \<Rightarrow> string \<Rightarrow> Message \<Rightarrow> goerr \<Rightarrow> Message" where
  "dead_letter hm subject m cause = m\<lparr>MID := MID m @ '':gateway-dlq'', MSubject := subject, MExpiresAt := time_zero,
     MHeader := header_set hm (MHeader m) ''Po-Dead-Letter-Reason'' (err_text cause)\<rparr>"

definition nats_Reject :: "hmessaging \<Rightarrow> 'w nats \<Rightarrow> ctx \<Rightarrow> CommandDelivery \<Rightarrow> goerr \<Rightarrow> 'w \<Rightarrow> goerr option \<times> 'w" where
  "nats_Reject hm ns c delivery cause w = (case DeadLetterSubject hm (MSubject (BMessage delivery)) of
     Inl e \<Rightarrow> (Some e, w)
   | Inr subject \<Rightarrow> (case publish hm ns (dead_letter hm subject (BMessage delivery) cause) w of
       (Some e, w) \<Rightarrow> (Some e, w)
     | (None, w) \<Rightarrow> publishAcknowledgement ns c (BAckSubject delivery) ''+TERM'' w))"

definition nats_RejectReceipt :: "hmessaging \<Rightarrow> 'w nats \<Rightarrow> ctx \<Rightarrow> string \<Rightarrow> int \<Rightarrow> goerr \<Rightarrow> 'w \<Rightarrow> goerr option \<times> 'w" where
  "nats_RejectReceipt hm ns c ackSubject streamSequence cause w =
     (case get_msg ns (RunnerCommandsStreamName hm) streamSequence w of
        (Inl e, w) \<Rightarrow> (Some (ErrWrap ''load rejected runner command'' e), w)
      | (Inr raw, w) \<Rightarrow>
        (let messageID = header_get hm (RawHeader raw) (HeaderMessageID hm) in
         nats_Reject hm ns c
           \<lparr>BMessage = \<lparr>MID = (if messageID = [] then stream_message_id (RunnerCommandsStreamName hm) streamSequence
               else messageID), MSubject = RawSubject raw, MData = RawData raw, MHeader = RawHeader raw,
               MCreatedAt = RawTime raw, MExpiresAt = time_zero\<rparr>,
             BAttempts = 0, BAckSubject = ackSubject, BStreamSequence = streamSequence\<rparr> cause w))"

definition nats_GetBundle :: "'w nats \<Rightarrow> string \<Rightarrow> 'w \<Rightarrow> content result \<times> 'w" where
  "nats_GetBundle ns key = obj_get ns runnerBundlesBucket key"

definition nats_PutLog :: "'w nats \<Rightarrow> string \<Rightarrow> content \<Rightarrow> 'w \<Rightarrow> int result \<times> 'w" where
  "nats_PutLog ns key content = obj_put ns runnerLogsBucket key content"

definition nats_DeleteLog :: "'w nats \<Rightarrow> string \<Rightarrow> 'w \<Rightarrow> goerr option \<times> 'w" where
  "nats_DeleteLog ns key = obj_delete ns runnerLogsBucket key"

definition nats_backend :: "crypto \<Rightarrow> hmessaging \<Rightarrow> 'w nats \<Rightarrow> 'w NATSBackend Backend" where
  "nats_backend cr hm ns = \<lparr>FetchCommand = nats_FetchCommand cr hm ns,
     Acknowledge = (\<lambda>c a. on_world (nats_Acknowledge ns c a)),
     Retry = (\<lambda>c a d. on_world (nats_Retry ns c a d)),
     Reject = (\<lambda>c d e. on_world (nats_Reject hm ns c d e)),
     RejectReceipt = (\<lambda>c a q e. on_world (nats_RejectReceipt hm ns c a q e)),
     GetBundle = (\<lambda>k. on_world (nats_GetBundle ns k)), PutLog = (\<lambda>k x. on_world (nats_PutLog ns k x)),
     DeleteLog = (\<lambda>k. on_world (nats_DeleteLog ns k)), Publish = (\<lambda>m. on_world (publish hm ns m))\<rparr>"

definition decodeCommandEnvelope :: "hmessaging \<Rightarrow> Message \<Rightarrow> CommandEnvelope result" where
  "decodeCommandEnvelope hm message = unmarshal_command hm (MData message)"

subsection \<open>Properties\<close>

text \<open>The operations that consult the cache alone leave it as it is; a fetch adds at most the
  consumer of its own runner and keeps every other.\<close>

lemma fetch_keeps_consumers:
  assumes "nats_FetchCommand cr hm ns cx g r b = (x, b')" and "consumers b k = Some c"
  shows "consumers b' k = Some c"
  using assms by (auto simp: nats_FetchCommand_def on_world_def Let_def split: option.splits prod.splits sum.splits if_splits)

text \<open>C7: a rejected command is never lost. When a rejection succeeds, the dead letter, which carries
  the command's data and the reason, was stored first and the delivery was terminated
  afterwards; when storing fails, the rejection fails with that error and nothing is sent to the
  acknowledgement subject, so the command is delivered again.\<close>

theorem reject_stores_dead_letter_first:
  assumes "nats_Reject hm ns c d cause w = (result, w')"
  shows "(result = None \<longrightarrow> (\<exists>subject w1 w2. DeadLetterSubject hm (MSubject (BMessage d)) = Inr subject
            \<and> Validate hm (dead_letter hm subject (BMessage d) cause) = None
            \<and> js_publish ns (dead_letter hm subject (BMessage d) cause) w = (None, w1)
            \<and> conn_publish ns (BAckSubject d) ''+TERM'' w1 = (None, w2)))
       \<and> (\<forall>subject e w1. DeadLetterSubject hm (MSubject (BMessage d)) = Inr subject
            \<and> Validate hm (dead_letter hm subject (BMessage d) cause) = None
            \<and> js_publish ns (dead_letter hm subject (BMessage d) cause) w = (Some e, w1) \<longrightarrow> result = Some e \<and> w' = w1)
       \<and> (\<forall>subject. MData (dead_letter hm subject (BMessage d) cause) = MData (BMessage d))"
  using assms
  by (auto simp: nats_Reject_def publish_def publishAcknowledgement_def dead_letter_def
      split: option.splits prod.splits sum.splits if_splits)

definition demo_delivery :: CommandDelivery where
  "demo_delivery = \<lparr>BMessage = \<lparr>MID = ''m'', MSubject = ''o.r.commands'', MData = ''junk'', MHeader = [],
     MCreatedAt = 0, MExpiresAt = time_zero\<rparr>, BAttempts = 1, BAckSubject = ''ack'', BStreamSequence = 7\<rparr>"

theorem reject_stores_dead_letter_first_witness:
  "nats_Reject test_messaging test_nats None demo_delivery (ErrNew ''bad'') [] =
     (None, [(''ack'', ''+TERM''), (''dlq.o.r.commands'', ''junk'')]) \<and>
   (\<exists>w1 w2. js_publish test_nats (dead_letter test_messaging ''dlq.o.r.commands'' (BMessage demo_delivery) (ErrNew ''bad'')) [] = (None, w1)
      \<and> conn_publish test_nats ''ack'' ''+TERM'' w1 = (None, w2))"
proof -
  have "nats_Reject test_messaging test_nats None demo_delivery (ErrNew ''bad'') [] =
      (None, [(''ack'', ''+TERM''), (''dlq.o.r.commands'', ''junk'')])"
    by (simp add: nats_Reject_def publish_def publishAcknowledgement_def dead_letter_def demo_delivery_def
        test_messaging_def test_nats_def second_def)
  with reject_stores_dead_letter_first [OF this] show ?thesis
    by (simp add: demo_delivery_def test_messaging_def)
qed

end
