(* ===== verification/Server.thy ===== *)
theory Server
  imports Auth Receipt Keys Protocol Backend
begin

section \<open>The gateway (internal/gateway/server.go)\<close>

text \<open>
  The HTTP handlers of the gateway. The state \<open>'b\<close> holds whatever the backend, the key resolver, the
  clock and the random source keep: they are the operations of the record \<open>Server\<close>. A handler maps
  a request and this state to a response and the next state. Libraries outside the repository
  are in \<open>gwlib\<close>.
\<close>

record gwlib =
  hm :: hmessaging
  cr :: crypto
  uuid_ok :: "string \<Rightarrow> bool"

definition defaultFetchWait :: duration where
  "defaultFetchWait = 25 * second"

definition deliveryLease :: duration where
  "deliveryLease = 90 * second"

definition maxResultBytes :: int where
  "maxResultBytes = 4 * 2 ^ 20"

definition defaultMaxLogBytes :: int where
  "defaultMaxLogBytes = 16 * 2 ^ 20"

record 'b ServerConfig =
  cfgBasePath :: string
  cfgBackend :: "'b Backend option"
  cfgPublicKeys :: "(string \<Rightarrow> string \<Rightarrow> 'b \<Rightarrow> bytes result \<times> 'b) option"
  cfgReceiptKey :: bytes
  cfgRunnerTokenSalt :: string
  cfgFetchWait :: duration
  cfgMaxLogBytes :: int
  cfgNow :: "('b \<Rightarrow> gtime) option"

record 'b Server =
  basePath :: string
  backend :: "'b Backend"
  publicKeys :: "string \<Rightarrow> string \<Rightarrow> 'b \<Rightarrow> bytes result \<times> 'b"
  receipts :: aead
  runnerTokenSalt :: string
  fetchWait :: duration
  maxLogBytes :: int
  now :: "'b \<Rightarrow> gtime"

text \<open>\<open>time.Now\<close> and the cipher constructor are arguments.\<close>

definition NewServer :: "('b \<Rightarrow> gtime) \<Rightarrow> (bytes \<Rightarrow> aead) \<Rightarrow> 'b ServerConfig \<Rightarrow> 'b Server result" where
  "NewServer time_now gcm config = (case (cfgBackend config, cfgPublicKeys config) of
     (Some b, Some keys) \<Rightarrow>
       (case newReceiptCipher gcm (cfgReceiptKey config) of Inl e \<Rightarrow> Inl e
        | Inr cipher \<Rightarrow>
          if cfgRunnerTokenSalt config = [] then Inl (ErrNew ''runner token salt is required'')
          else let base = trim_right_char CHR ''/'' (cfgBasePath config) in
            if base \<noteq> [] \<and> hd base \<noteq> CHR ''/''
            then Inl (ErrNew ''gateway base path must be empty or start with a slash'')
            else Inr \<lparr>basePath = base, backend = b, publicKeys = keys, receipts = cipher,
              runnerTokenSalt = cfgRunnerTokenSalt config,
              fetchWait = (if cfgFetchWait config \<le> 0 then defaultFetchWait else cfgFetchWait config),
              maxLogBytes = (if cfgMaxLogBytes config \<le> 0 then defaultMaxLogBytes else cfgMaxLogBytes config),
              now = (case cfgNow config of None \<Rightarrow> time_now | Some f \<Rightarrow> f)\<rparr>)
   | _ \<Rightarrow> Inl (ErrNew ''gateway backend and public key resolver are required''))"

subsection \<open>Requests and responses\<close>

record http_request =
  Method :: string
  UrlPath :: string
  PathValues :: "(string \<times> string) list"
  AuthorizationHeader :: string
  TokenHeader :: string
  Body :: reader

definition PathValue :: "http_request \<Rightarrow> string \<Rightarrow> string" where
  "PathValue q k = (case map_of (PathValues q) k of Some v \<Rightarrow> v | None \<Rightarrow> [])"

datatype body = NoBody | ErrorBody string | CommandBody CommandResponse | StreamBody bytes

record http_response =
  Status :: nat
  Headers :: "(string \<times> string) list"
  RespBody :: body

definition writeStatus :: "nat \<Rightarrow> http_response" where
  "writeStatus status = \<lparr>Status = status, Headers = [], RespBody = NoBody\<rparr>"

definition writeJSON :: "nat \<Rightarrow> body \<Rightarrow> http_response" where
  "writeJSON status b = \<lparr>Status = status, Headers = [(''Content-Type'', ''application/json'')], RespBody = b\<rparr>"

definition writeError :: "nat \<Rightarrow> string \<Rightarrow> http_response" where
  "writeError status message = writeJSON status (ErrorBody message)"

text \<open>The bytes of a response body.\<close>

definition body_bytes :: "body \<Rightarrow> bytes" where
  "body_bytes b = (case b of NoBody \<Rightarrow> [] | StreamBody bs \<Rightarrow> bs
     | ErrorBody m \<Rightarrow> encode_struct [member ''error'' (JStr m)] @ [CHR 0x0A]
     | CommandBody r \<Rightarrow> encode_CommandResponse r)"

lemmas response_defs = writeStatus_def writeJSON_def writeError_def

subsection \<open>Authentication\<close>

definition authenticateAgent :: "gwlib \<Rightarrow> 'b Server \<Rightarrow> http_request \<Rightarrow> 'b
    \<Rightarrow> (http_response + string \<times> string) \<times> 'b" where
  "authenticateAgent lib s q b =
     (let organizationID = PathValue q ''organizationID''; runnerID = PathValue q ''runnerID'' in
      case RunnerCommandSubject (hm lib) organizationID runnerID of
        Inl e \<Rightarrow> (Inl (writeError 400 ''runner identity is invalid''), b)
      | Inr _ \<Rightarrow> (case Strings.fields (AuthorizationHeader q) of
          [scheme, token] \<Rightarrow>
            if \<not> equal_fold scheme ''Bearer''
            then (Inl (writeError 401 ''Bearer authorization is required''), b)
            else (case publicKeys s organizationID runnerID b of
                (Inl e, b) \<Rightarrow> (Inl (writeError 401 ''runner authorization is invalid''), b)
              | (Inr publicKey, b) \<Rightarrow>
                if VerifyAgentToken (cr lib) token publicKey organizationID runnerID (now s b) \<noteq> None
                then (Inl (writeError 401 ''runner authorization is invalid''), b)
                else (Inr (organizationID, runnerID), b))
        | _ \<Rightarrow> (Inl (writeError 401 ''Bearer authorization is required''), b)))"

text \<open>\<open>fmt.Fprint\<close> writes its string operands without anything between them.\<close>

definition deploymentToken :: "crypto \<Rightarrow> string \<Rightarrow> string \<Rightarrow> string \<Rightarrow> string" where
  "deploymentToken c secret organizationID deploymentID =
     rawurl_encode (sha256 c (secret @ organizationID @ deploymentID))"

definition authenticateDeployment :: "gwlib \<Rightarrow> 'b Server \<Rightarrow> http_request
    \<Rightarrow> http_response + string \<times> string \<times> string" where
  "authenticateDeployment lib s q =
     (let organizationID = PathValue q ''organizationID''; runnerID = PathValue q ''runnerID'';
          deploymentID = PathValue q ''deploymentID'' in
      case RunnerEventSubject (hm lib) organizationID runnerID ''deployment-result'' of
        Inl e \<Rightarrow> Inl (writeError 400 ''runner identity is invalid'')
      | Inr _ \<Rightarrow>
        if \<not> uuid_ok lib deploymentID then Inl (writeError 400 ''deployment ID must be a UUID'')
        else if deploymentToken (cr lib) (runnerTokenSalt s) organizationID deploymentID \<noteq> TokenHeader q
        then Inl (writeError 401 ''deployment authorization is invalid'')
        else Inr (organizationID, runnerID, deploymentID))"

subsection \<open>Commands\<close>

datatype next_step = Deliver CommandEnvelope | Refuse goerr string

text \<open>What is to be done with a fetched command: the guard of the loop in \<open>nextCommand\<close>. A refused
  command comes with the message for the case that refusing fails.\<close>

definition inspect_command :: "gwlib \<Rightarrow> string \<Rightarrow> string \<Rightarrow> CommandDelivery \<Rightarrow> gtime \<Rightarrow> next_step" where
  "inspect_command lib organizationID runnerID delivery t =
     (case decodeCommandEnvelope (hm lib) (BMessage delivery) of
        Inl e \<Rightarrow> Refuse e ''reject invalid runner command''
      | Inr envelope \<Rightarrow>
        if COrganizationID envelope \<noteq> organizationID \<or> CRunnerID envelope \<noteq> runnerID \<or> CCommandID envelope = []
        then Refuse (ErrNew ''command envelope identity does not match the authenticated runner'')
               ''reject invalid runner command''
        else if \<not> is_zero (CExpiresAt envelope) \<and> \<not> t < CExpiresAt envelope
        then Refuse (ErrNew ''command expired before delivery'') ''reject expired runner command''
        else Deliver envelope)"

text \<open>The receipt and the response for a command that is delivered at the instant \<open>t\<close>.\<close>

definition delivery_claims :: "string \<Rightarrow> string \<Rightarrow> CommandEnvelope \<Rightarrow> CommandDelivery \<Rightarrow> gtime \<Rightarrow> receiptClaims" where
  "delivery_claims organizationID runnerID envelope delivery t =
     \<lparr>ROrganizationID = organizationID, RRunnerID = runnerID, RCommandID = CCommandID envelope,
      RAckSubject = BAckSubject delivery, RStreamSequence = BStreamSequence delivery,
      RExpiresAt = unix_of (t + deliveryLease)\<rparr>"

definition deliver :: "'b Server \<Rightarrow> bytes result \<Rightarrow> string \<Rightarrow> string \<Rightarrow> CommandEnvelope \<Rightarrow> CommandDelivery \<Rightarrow> gtime
    \<Rightarrow> http_response" where
  "deliver s nonce organizationID runnerID envelope delivery t =
     (case seal (receipts s) nonce (delivery_claims organizationID runnerID envelope delivery t) of
        Inl e \<Rightarrow> writeError 500 ''create delivery receipt''
      | Inr receipt \<Rightarrow> writeJSON 200 (CommandBody \<lparr>Command = MData (BMessage delivery), Receipt = receipt,
          Attempt = BAttempts delivery, LeaseExpiresAt = t + deliveryLease\<rparr>))"

text \<open>The loop. The random source that makes the nonce is the argument \<open>rnd\<close>. The loop runs as long
  as the backend hands out commands that are refused, so it has fuel.\<close>

fun command_loop :: "gwlib \<Rightarrow> ('b \<Rightarrow> bytes result) \<Rightarrow> 'b Server \<Rightarrow> string \<Rightarrow> string \<Rightarrow> nat \<Rightarrow> 'b
    \<Rightarrow> (http_response \<times> 'b) option" where
  "command_loop lib rnd s organizationID runnerID 0 b = None"
| "command_loop lib rnd s organizationID runnerID (Suc n) b =
     (case FetchCommand (backend s) (Some (fetchWait s)) organizationID runnerID b of
        (Inl e, b) \<Rightarrow> Some (if errors_is e ErrNoCommand then writeStatus 204
          else writeError 503 ''fetch runner command'', b)
      | (Inr delivery, b) \<Rightarrow> (case inspect_command lib organizationID runnerID delivery (now s b) of
          Refuse cause message \<Rightarrow> (case Reject (backend s) (Some (fetchWait s)) delivery cause b of
              (Some e, b) \<Rightarrow> Some (writeError 503 message, b)
            | (None, b) \<Rightarrow> command_loop lib rnd s organizationID runnerID n b)
        | Deliver envelope \<Rightarrow> Some (deliver s (rnd b) organizationID runnerID envelope delivery (now s b), b)))"

definition nextCommand :: "gwlib \<Rightarrow> ('b \<Rightarrow> bytes result) \<Rightarrow> 'b Server \<Rightarrow> nat \<Rightarrow> http_request \<Rightarrow> 'b
    \<Rightarrow> (http_response \<times> 'b) option" where
  "nextCommand lib rnd s fuel q b = (case authenticateAgent lib s q b of
     (Inl r, b) \<Rightarrow> Some (r, b)
   | (Inr (organizationID, runnerID), b) \<Rightarrow> command_loop lib rnd s organizationID runnerID fuel b)"

text \<open>The check that a receipt belongs to the request: the runner and the command of its path.\<close>

definition receipt_claims :: "'b Server \<Rightarrow> http_request \<Rightarrow> string \<Rightarrow> string \<Rightarrow> string \<Rightarrow> 'b \<Rightarrow> receiptClaims option" where
  "receipt_claims s q organizationID runnerID receipt b = (case open_receipt (receipts s) receipt (now s b) of
     Inl e \<Rightarrow> None
   | Inr claims \<Rightarrow> if ROrganizationID claims \<noteq> organizationID \<or> RRunnerID claims \<noteq> runnerID
         \<or> RCommandID claims \<noteq> PathValue q ''commandID'' then None else Some claims)"

definition rejectCommand :: "gwlib \<Rightarrow> 'b Server \<Rightarrow> http_request \<Rightarrow> 'b \<Rightarrow> http_response \<times> 'b" where
  "rejectCommand lib s q b = (case authenticateAgent lib s q b of (Inl r, b) \<Rightarrow> (r, b)
   | (Inr (organizationID, runnerID), b) \<Rightarrow>
     (case decode_RejectRequest 8192 (all_bytes (Body q)) of
        None \<Rightarrow> (writeError 400 ''request body is invalid'', b)
      | Some body \<Rightarrow> (case receipt_claims s q organizationID runnerID (RejectedReceipt body) b of
          None \<Rightarrow> (writeError 400 ''delivery receipt is invalid for this command'', b)
        | Some claims \<Rightarrow>
          if Reason body = [] \<or> 4096 < length (Reason body)
          then (writeError 400 ''rejection reason must contain between 1 and 4096 bytes'', b)
          else (case RejectReceipt (backend s) None (RAckSubject claims) (RStreamSequence claims) (ErrNew (Reason body)) b of
              (Some e, b) \<Rightarrow> (writeError 503 ''persist rejected command'', b)
            | (None, b) \<Rightarrow> (writeStatus 204, b)))))"

text \<open>The body of an acknowledgement or of a retry: the receipt and the delay.\<close>

definition receipt_body :: "bool \<Rightarrow> bytes \<Rightarrow> http_response + string \<times> duration" where
  "receipt_body retry body = (if retry
     then (case decode_RetryRequest 4096 body of
         None \<Rightarrow> Inl (writeError 400 ''request body is invalid'')
       | Some r \<Rightarrow> if DelaySeconds r < 0 \<or> 60 < DelaySeconds r
           then Inl (writeError 400 ''retry delay must be between 0 and 60 seconds'')
           else Inr (RetryReceipt r, DelaySeconds r * second))
     else (case decode_ReceiptRequest 4096 body of
         None \<Rightarrow> Inl (writeError 400 ''request body is invalid'')
       | Some r \<Rightarrow> Inr (AckReceipt r, 0)))"

definition handleReceipt :: "gwlib \<Rightarrow> 'b Server \<Rightarrow> bool \<Rightarrow> http_request \<Rightarrow> 'b \<Rightarrow> http_response \<times> 'b" where
  "handleReceipt lib s retry q b = (case authenticateAgent lib s q b of (Inl r, b) \<Rightarrow> (r, b)
   | (Inr (organizationID, runnerID), b) \<Rightarrow> (case receipt_body retry (all_bytes (Body q)) of
       Inl r \<Rightarrow> (r, b)
     | Inr (receipt, delay) \<Rightarrow> (case receipt_claims s q organizationID runnerID receipt b of
         None \<Rightarrow> (writeError 400 ''delivery receipt is invalid for this command'', b)
       | Some claims \<Rightarrow>
         (case (if retry then Retry (backend s) None (RAckSubject claims) delay b
                else Acknowledge (backend s) None (RAckSubject claims) b) of
            (Some e, b) \<Rightarrow> (writeError 503 ''persist command acknowledgement'', b)
          | (None, b) \<Rightarrow> (writeStatus 204, b)))))"

definition acknowledgeCommand :: "gwlib \<Rightarrow> 'b Server \<Rightarrow> http_request \<Rightarrow> 'b \<Rightarrow> http_response \<times> 'b" where
  "acknowledgeCommand lib s = handleReceipt lib s False"

definition retryCommand :: "gwlib \<Rightarrow> 'b Server \<Rightarrow> http_request \<Rightarrow> 'b \<Rightarrow> http_response \<times> 'b" where
  "retryCommand lib s = handleReceipt lib s True"

subsection \<open>Events and results\<close>

definition event_message :: "EventEnvelope \<Rightarrow> string \<Rightarrow> bytes \<Rightarrow> Message" where
  "event_message event subject data = \<lparr>MID = EEventID event, MSubject = subject, MData = data, MHeader = [],
     MCreatedAt = ECreatedAt event, MExpiresAt = time_zero\<rparr>"

definition postEvent :: "gwlib \<Rightarrow> 'b Server \<Rightarrow> http_request \<Rightarrow> 'b \<Rightarrow> http_response \<times> 'b" where
  "postEvent lib s q b = (case authenticateAgent lib s q b of (Inl r, b) \<Rightarrow> (r, b)
   | (Inr (organizationID, runnerID), b) \<Rightarrow> (case read_all_limit (nat (maxResultBytes + 1)) (Body q) of
       Inl e \<Rightarrow> (writeError 400 ''runner event exceeds the configured limit'', b)
     | Inr body \<Rightarrow> if int (length body) > maxResultBytes
       then (writeError 400 ''runner event exceeds the configured limit'', b)
       else (case unmarshal_event (hm lib) body of
         Inl e \<Rightarrow> (writeError 400 ''runner event identity or payload is invalid'', b)
       | Inr event \<Rightarrow>
         if EEventID event = [] \<or> EOrganizationID event \<noteq> organizationID \<or> ERunnerID event \<noteq> runnerID
         then (writeError 400 ''runner event identity or payload is invalid'', b)
         else (case RunnerEventSubject (hm lib) organizationID runnerID (EType event) of
             Inl e \<Rightarrow> (writeError 400 ''runner event type is invalid'', b)
           | Inr subject \<Rightarrow> (case Publish (backend s) (event_message event subject body) b of
               (Some e, b) \<Rightarrow> (writeError 503 ''persist runner event'', b)
             | (None, b) \<Rightarrow> (writeStatus 202, b))))))"

definition gateway_event :: "gwlib \<Rightarrow> string \<Rightarrow> string \<Rightarrow> string \<Rightarrow> string \<Rightarrow> gtime \<Rightarrow> bytes \<Rightarrow> EventEnvelope" where
  "gateway_event lib organizationID runnerID deploymentID eventType t payload =
     \<lparr>EProtocolVersion = ProtocolVersionV1 (hm lib), EEventID = deploymentID @ '':'' @ eventType, ECommandID = [],
      EOrganizationID = organizationID, ERunnerID = runnerID, EDeploymentID = deploymentID, EType = eventType,
      ECreatedAt = t, EPayload = payload\<rparr>"

definition postResults :: "gwlib \<Rightarrow> 'b Server \<Rightarrow> http_request \<Rightarrow> 'b \<Rightarrow> http_response \<times> 'b" where
  "postResults lib s q b = (case authenticateDeployment lib s q of Inl r \<Rightarrow> (r, b)
   | Inr (organizationID, runnerID, deploymentID) \<Rightarrow>
     (case read_all_limit (nat (maxResultBytes + 1)) (Body q) of
        Inl e \<Rightarrow> (writeError 400 ''deployment result must be valid bounded JSON'', b)
      | Inr body \<Rightarrow> if int (length body) > maxResultBytes \<or> json_decode body = None
        then (writeError 400 ''deployment result must be valid bounded JSON'', b)
        else let event = gateway_event lib organizationID runnerID deploymentID ''deployment-result'' (now s b) body in
          (case marshal_event (hm lib) event of
             Inl e \<Rightarrow> (writeError 500 ''encode deployment result'', b)
           | Inr data \<Rightarrow> (case RunnerEventSubject (hm lib) organizationID runnerID (EType event) of
               Inl e \<Rightarrow> (writeError 400 ''runner identity is invalid'', b)
             | Inr subject \<Rightarrow> (case Publish (backend s) (event_message event subject data) b of
                 (Some e, b) \<Rightarrow> (writeError 503 ''persist deployment result'', b)
               | (None, b) \<Rightarrow> (writeStatus 202, b))))))"

subsection \<open>Bundles and logs\<close>

definition getBundle :: "gwlib \<Rightarrow> 'b Server \<Rightarrow> http_request \<Rightarrow> 'b \<Rightarrow> http_response \<times> 'b" where
  "getBundle lib s q b = (case authenticateDeployment lib s q of Inl r \<Rightarrow> (r, b)
   | Inr (organizationID, runnerID, deploymentID) \<Rightarrow>
     (case GetBundle (backend s) (organizationID @ ''/'' @ deploymentID) b of
        (Inl e, b) \<Rightarrow> (writeError 404 ''deployment bundle is not available'', b)
      | (Inr (content, e), b) \<Rightarrow> (\<lparr>Status = 200, Headers = [(''Content-Type'', ''application/gzip''),
          (''Cache-Control'', ''no-store'')], RespBody = StreamBody content\<rparr>, b)))"

record boundedReader =
  under :: reader
  remaining :: int
  exceeded :: bool

text \<open>\<open>boundedReader.Read\<close>: when the last permitted byte has been read, one more is probed for.\<close>

definition bounded_Read :: "nat \<Rightarrow> boundedReader \<Rightarrow> bytes \<times> read_status \<times> boundedReader" where
  "bounded_Read n r = (if remaining r \<le> 0 then ([], EOF, r\<lparr>exceeded := True\<rparr>)
     else (case read_into (if remaining r < int n then nat (remaining r) else n) (under r) of
       (bs, st, u) \<Rightarrow>
         let left = remaining r - int (length bs) in
         if left = 0 then (case read_into 1 u of (p, _, u') \<Rightarrow>
             (bs, st, \<lparr>under = u', remaining = left, exceeded = exceeded r \<or> p \<noteq> []\<rparr>))
         else (bs, st, \<lparr>under = u, remaining = left, exceeded = exceeded r\<rparr>)))"

text \<open>Reading until the end, with buffers of \<open>n\<close> bytes, the way the object store reads a log. The
  hash sees the same bytes.\<close>

fun drain :: "nat \<Rightarrow> nat \<Rightarrow> boundedReader \<Rightarrow> (bytes \<times> goerr option \<times> boundedReader) option" where
  "drain 0 n r = None"
| "drain (Suc k) n r = (case bounded_Read n r of
     (bs, EOF, r) \<Rightarrow> Some (bs, None, r)
   | (bs, Failed e, r) \<Rightarrow> Some (bs, Some e, r)
   | (bs, Continue, r) \<Rightarrow> map_option (\<lambda>(cs, e, r). (bs @ cs, e, r)) (drain k n r))"

definition log_payload :: "string \<Rightarrow> int \<Rightarrow> bytes \<Rightarrow> bytes" where
  "log_payload key sz digest = encode_struct [member ''bucket'' (JStr runnerLogsBucket), member ''key'' (JStr key),
     member ''sha256'' (JStr (hex_encode digest)), member ''size'' (jint sz)]"

text \<open>The marshalling errors of the event are ignored in the source: the data is then empty.\<close>

definition marshalled :: "bytes result \<Rightarrow> bytes" where
  "marshalled r = (case r of Inl e \<Rightarrow> [] | Inr bs \<Rightarrow> bs)"

definition announce_log :: "gwlib \<Rightarrow> 'b Server \<Rightarrow> string \<Rightarrow> string \<Rightarrow> string \<Rightarrow> string \<Rightarrow> int \<Rightarrow> bytes \<Rightarrow> 'b \<Rightarrow> http_response \<times> 'b" where
  "announce_log lib s organizationID runnerID deploymentID key sz content b =
     (let event = gateway_event lib organizationID runnerID deploymentID ''log-object-ready'' (now s b)
            (log_payload key sz (sha256 (cr lib) content));
          data = marshalled (marshal_event (hm lib) event) in
      case RunnerEventSubject (hm lib) organizationID runnerID (EType event) of
        Inl e \<Rightarrow> (writeError 400 ''runner identity is invalid'', snd (DeleteLog (backend s) key b))
      | Inr subject \<Rightarrow> (case Publish (backend s) (event_message event subject data) b of
          (Some e, b) \<Rightarrow> (writeError 503 ''persist log reference'', b)
        | (None, b) \<Rightarrow> (writeStatus 202, b)))"

definition putLogs :: "gwlib \<Rightarrow> 'b Server \<Rightarrow> nat \<Rightarrow> nat \<Rightarrow> http_request \<Rightarrow> 'b \<Rightarrow> (http_response \<times> 'b) option" where
  "putLogs lib s fuel chunk q b = (case authenticateDeployment lib s q of Inl r \<Rightarrow> Some (r, b)
   | Inr (organizationID, runnerID, deploymentID) \<Rightarrow>
     let environmentID = PathValue q ''environmentID'' in
     if \<not> uuid_ok lib environmentID then Some (writeError 400 ''environment ID must be a UUID'', b)
     else let key = environmentID @ ''/'' @ deploymentID in
       (case drain fuel chunk \<lparr>under = Body q, remaining = wrap_int64 (maxLogBytes s + 1), exceeded = False\<rparr> of
          None \<Rightarrow> None
        | Some (content, fault, limited) \<Rightarrow>
          (case PutLog (backend s) key (content, fault) b of
             (Inl e, b) \<Rightarrow> Some (writeError 503 ''persist encrypted logs'', b)
           | (Inr sz, b) \<Rightarrow>
             if sz > maxLogBytes s \<or> exceeded limited
             then Some (writeError 413 ''encrypted logs exceed the configured limit'', snd (DeleteLog (backend s) key b))
             else Some (announce_log lib s organizationID runnerID deploymentID key sz content b))))"

subsection \<open>Routing\<close>

text \<open>
  The patterns of \<open>Handler\<close>, in the order of the source. The multiplexer matches the segments of the
  escaped path one by one, redirects a path that is not in its cleaned form, answers 405 when
  only the method differs and 404 otherwise; a GET pattern also takes HEAD.
\<close>

datatype seg = Lit string | Wild string

datatype endpoint = Healthz | Next | AckC | RetryC | RejectC | Events | Bundle | Results | Logs

definition runner_segs :: "seg list" where
  "runner_segs = [Lit ''v1'', Lit ''orgs'', Wild ''organizationID'', Lit ''runners'', Wild ''runnerID'']"

definition routes :: "(string \<times> seg list \<times> endpoint) list" where
  "routes = [
     (''GET'', [Lit ''healthz''], Healthz),
     (''POST'', runner_segs @ [Lit ''commands'', Lit ''next''], Next),
     (''POST'', runner_segs @ [Lit ''commands'', Wild ''commandID'', Lit ''ack''], AckC),
     (''POST'', runner_segs @ [Lit ''commands'', Wild ''commandID'', Lit ''retry''], RetryC),
     (''POST'', runner_segs @ [Lit ''commands'', Wild ''commandID'', Lit ''reject''], RejectC),
     (''POST'', runner_segs @ [Lit ''events''], Events),
     (''GET'', runner_segs @ [Lit ''deployments'', Wild ''deploymentID'', Lit ''bundle''], Bundle),
     (''POST'', runner_segs @ [Lit ''deployments'', Wild ''deploymentID'', Lit ''results''], Results),
     (''PUT'', runner_segs @ [Lit ''environments'', Wild ''environmentID'', Lit ''deployments'', Wild ''deploymentID'',
        Lit ''logs''], Logs)]"

fun match_segs :: "seg list \<Rightarrow> string list \<Rightarrow> (string \<times> string) list option" where
  "match_segs [] [] = Some []"
| "match_segs (Lit l # ps) (x # xs) = (if path_unescape x = Some l then match_segs ps xs else None)"
| "match_segs (Wild w # ps) (x # xs) = (case (path_unescape x, match_segs ps xs) of
     (Some v, Some r) \<Rightarrow> Some ((w, v) # r) | _ \<Rightarrow> None)"
| "match_segs _ _ = None"

definition path_segs :: "string \<Rightarrow> string list" where
  "path_segs path = tl (split_char CHR ''/'' path)"

definition clean_path :: "string \<Rightarrow> bool" where
  "clean_path path \<longleftrightarrow> path \<noteq> [] \<and> hd path = CHR ''/'' \<and>
     (\<forall>x\<in>set (path_segs path). x \<noteq> ''.'' \<and> x \<noteq> ''..'') \<and> (\<forall>x\<in>set (butlast (path_segs path)). x \<noteq> [])"

definition base_segs :: "string \<Rightarrow> seg list" where
  "base_segs base = map Lit (path_segs base)"

definition method_ok :: "string \<Rightarrow> string \<Rightarrow> bool" where
  "method_ok pattern m \<longleftrightarrow> m = pattern \<or> pattern = ''GET'' \<and> m = ''HEAD''"

definition find_route :: "string \<Rightarrow> http_request \<Rightarrow> ((string \<times> string) list \<times> endpoint) option" where
  "find_route base q = (case filter (\<lambda>(m, ps, e). method_ok m (Method q)
       \<and> match_segs (base_segs base @ ps) (path_segs (UrlPath q)) \<noteq> None) routes of
     [] \<Rightarrow> None
   | (m, ps, e) # _ \<Rightarrow> map_option (\<lambda>vs. (vs, e)) (match_segs (base_segs base @ ps) (path_segs (UrlPath q))))"

definition Handler :: "gwlib \<Rightarrow> ('b \<Rightarrow> bytes result) \<Rightarrow> 'b Server \<Rightarrow> nat \<Rightarrow> nat \<Rightarrow> http_request \<Rightarrow> 'b
    \<Rightarrow> (http_response \<times> 'b) option" where
  "Handler lib rnd s fuel chunk q b =
     (if \<not> clean_path (UrlPath q) then Some (writeStatus 301, b)
      else case find_route (basePath s) q of
        None \<Rightarrow> Some (writeStatus (if \<exists>(m, ps, e)\<in>set routes.
            match_segs (base_segs (basePath s) @ ps) (path_segs (UrlPath q)) \<noteq> None then 405 else 404), b)
      | Some (vs, e) \<Rightarrow>
        (let q = q\<lparr>PathValues := vs\<rparr> in
         case e of
           Healthz \<Rightarrow> Some (writeStatus 204, b)
         | Next \<Rightarrow> nextCommand lib rnd s fuel q b
         | AckC \<Rightarrow> Some (acknowledgeCommand lib s q b)
         | RetryC \<Rightarrow> Some (retryCommand lib s q b)
         | RejectC \<Rightarrow> Some (rejectCommand lib s q b)
         | Events \<Rightarrow> Some (postEvent lib s q b)
         | Bundle \<Rightarrow> Some (getBundle lib s q b)
         | Results \<Rightarrow> Some (postResults lib s q b)
         | Logs \<Rightarrow> putLogs lib s fuel chunk q b))"

subsection \<open>Authentication facts\<close>

lemma authenticateAgent_Inr:
  assumes "authenticateAgent lib s q b = (Inr (g, r), b')"
  shows "g = PathValue q ''organizationID''" "r = PathValue q ''runnerID''"
    and "\<exists>scheme token key. Strings.fields (AuthorizationHeader q) = [scheme, token]
      \<and> publicKeys s g r b = (Inr key, b') \<and> VerifyAgentToken (cr lib) token key g r (now s b') = None"
    and "\<exists>subject. RunnerCommandSubject (hm lib) g r = Inr subject"
  using assms by (auto simp: authenticateAgent_def Let_def split: sum.splits list.splits if_splits prod.splits)

lemma authenticateAgent_Inl:
  assumes "authenticateAgent lib s q b = (Inl resp, b')"
  shows "Status resp = 400 \<or> Status resp = 401"
    and "b' = b \<or> b' = snd (publicKeys s (PathValue q ''organizationID'') (PathValue q ''runnerID'') b)"
  using assms by (auto simp: authenticateAgent_def Let_def response_defs split: sum.splits list.splits if_splits prod.splits)

lemma authenticateDeployment_Inr:
  assumes "authenticateDeployment lib s q = Inr (g, r, d)"
  shows "g = PathValue q ''organizationID''" "r = PathValue q ''runnerID''" "d = PathValue q ''deploymentID''"
    and "TokenHeader q = deploymentToken (cr lib) (runnerTokenSalt s) g d" "uuid_ok lib d"
    and "\<exists>subject. RunnerEventSubject (hm lib) g r ''deployment-result'' = Inr subject"
  using assms by (auto simp: authenticateDeployment_def Let_def split: sum.splits if_splits)

lemma authenticateDeployment_Inl:
  "authenticateDeployment lib s q = Inl resp \<Longrightarrow> Status resp = 400 \<or> Status resp = 401"
  by (auto simp: authenticateDeployment_def Let_def response_defs split: sum.splits if_splits)

lemma authenticate_signed:
  assumes "ed25519_correct (cr lib)"
    and "parsePrivateKey (cr lib) priv = Inr k" and "parsePublicKey (cr lib) pub = Inr (ed_public (cr lib) k)"
    and "g \<noteq> []" "r \<noteq> []" "ascii g" "ascii r"
    and "fits_int64 (unix_of t)" "fits_int64 (unix_of t + 300)"
    and "truncate_second t \<le> now s b' + clockSkew" "now s b' - clockSkew < truncate_second t + agentTokenLifetime"
    and "SignAgentToken (cr lib) priv g r t = Inr tok" and "AuthorizationHeader q = ''Bearer '' @ tok"
    and "PathValue q ''organizationID'' = g" "PathValue q ''runnerID'' = r"
    and "RunnerCommandSubject (hm lib) g r = Inr subject" and "publicKeys s g r b = (Inr pub, b')"
  shows "authenticateAgent lib s q b = (Inr (g, r), b')"
proof -
  have "VerifyAgentToken (cr lib) tok pub g r (now s b') = None"
    using SignAgentToken_verifies [OF assms(1-11)] assms(12) by auto
  then show ?thesis using bearer_fields [OF assms(12)] assms(13-17)
    by (simp add: authenticateAgent_def Let_def)
qed

subsection \<open>The bounded reader\<close>

lemma read_into_status:
  "read_into n r = (bs, st, r') \<Longrightarrow> (st = EOF \<longrightarrow> fate r = None) \<and> (st = Failed x \<longrightarrow> fate r = Some x)"
  by (induction n r rule: read_into.induct) (auto split: option.splits if_splits)

definition weight :: "reader \<Rightarrow> nat" where
  "weight r = sum_list (map (\<lambda>c. Suc (length c)) (chunks r))"

lemma read_into_weight:
  "0 < n \<Longrightarrow> read_into n r = (bs, st, r') \<Longrightarrow> weight r' \<le> weight r \<and> (st = Continue \<longrightarrow> weight r' < weight r)"
  by (induction n r rule: read_into.induct) (auto simp: weight_def split: if_splits option.splits)

text \<open>One read: the bytes come off the front, and the budget shrinks by as many.\<close>

lemma bounded_Read_step:
  assumes "bounded_Read n r = (bs, st, r')" and "0 < remaining r"
  shows "int (length bs) \<le> remaining r" and "remaining r' = remaining r - int (length bs)"
    and "take (length bs) (all_bytes (under r)) = bs"
    and "0 < remaining r' \<Longrightarrow> all_bytes (under r') = drop (length bs) (all_bytes (under r)) \<and> exceeded r' = exceeded r"
    and "0 < remaining r' \<Longrightarrow> fate (under r') = fate (under r)"
    and "st \<noteq> Continue \<Longrightarrow> bs = [] \<and> all_bytes (under r) = [] \<and> exceeded r' = exceeded r"
    and "st = EOF \<Longrightarrow> fate (under r) = None" and "st = Failed x \<Longrightarrow> fate (under r) = Some x"
proof -
  let ?m = "if remaining r < int n then nat (remaining r) else n"
  obtain u where u: "read_into ?m (under r) = (bs, st, u)"
    using assms by (auto simp: bounded_Read_def Let_def split: prod.splits if_splits)
  note b = read_into_bytes [OF u] and e = read_into_end [OF u]
  have m: "int ?m \<le> remaining r" using assms(2) by auto
  show l: "int (length bs) \<le> remaining r" using b m by linarith
  show rm: "remaining r' = remaining r - int (length bs)"
    using assms u by (auto simp: bounded_Read_def Let_def split: prod.splits if_splits)
  show "take (length bs) (all_bytes (under r)) = bs" using b by simp
  show "all_bytes (under r') = drop (length bs) (all_bytes (under r)) \<and> exceeded r' = exceeded r" if "0 < remaining r'"
    using that assms u rm b by (auto simp: bounded_Read_def Let_def split: prod.splits if_splits)
  show "fate (under r') = fate (under r)" if "0 < remaining r'"
    using that assms u rm b by (auto simp: bounded_Read_def Let_def split: prod.splits if_splits)
  show "st = EOF \<Longrightarrow> fate (under r) = None" "st = Failed x \<Longrightarrow> fate (under r) = Some x"
    using read_into_status [OF u] by simp_all
  show "bs = [] \<and> all_bytes (under r) = [] \<and> exceeded r' = exceeded r" if "st \<noteq> Continue"
    using e [OF that] assms u by (auto simp: bounded_Read_def Let_def)
qed

lemma bounded_Read_exhausted: "remaining r \<le> 0 \<Longrightarrow> bounded_Read n r = ([], EOF, r\<lparr>exceeded := True\<rparr>)"
  by (simp add: bounded_Read_def)

lemma bounded_Read_weight:
  assumes "bounded_Read n r = (bs, Continue, r')" and "0 < n"
  shows "weight (under r') < weight (under r)"
proof -
  have p: "0 < remaining r" using assms(1) by (auto simp: bounded_Read_def split: if_splits)
  let ?m = "if remaining r < int n then nat (remaining r) else n"
  obtain u where u: "read_into ?m (under r) = (bs, Continue, u)"
    using assms p by (auto simp: bounded_Read_def Let_def split: prod.splits if_splits)
  have "weight u < weight (under r)" using read_into_weight [OF _ u] p assms(2) by (simp split: if_splits)
  moreover have "under r' = u \<or> (\<exists>p st. read_into 1 u = (p, st, under r'))"
    using assms(1) u p by (auto simp: bounded_Read_def Let_def split: prod.splits if_splits)
  ultimately show ?thesis using read_into_weight [of 1 u] by force
qed

text \<open>Reading to the end ends, and yields the first \<open>remaining\<close> bytes, whatever the pieces in which
  they arrive and the size of the buffer.\<close>

lemma drain_ends: "0 < n \<Longrightarrow> weight (under r) + 1 < k \<Longrightarrow> \<exists>x. drain k n r = Some x"
proof (induction k arbitrary: r)
  case (Suc k)
  obtain bs st r' where b: "bounded_Read n r = (bs, st, r')" by (cases "bounded_Read n r") auto
  show ?case
  proof (cases st)
    case Continue
    then have "weight (under r') < weight (under r)" using bounded_Read_weight b Suc.prems(1) by blast
    with Suc obtain x where "drain k n r' = Some x" by fastforce
    with b Continue show ?thesis by (cases x) simp
  qed (use b in simp_all)
qed simp

lemma drain_spec:
  assumes "drain k n r = Some (cs, e, r')" and "0 < remaining r"
  shows "cs = take (nat (remaining r)) (all_bytes (under r))
    \<and> (if int (length (all_bytes (under r))) < remaining r then e = fate (under r) \<and> exceeded r' = exceeded r
       else e = None \<and> exceeded r')"
  using assms
proof (induction k arbitrary: r cs)
  case (Suc k)
  obtain bs st r1 where b: "bounded_Read n r = (bs, st, r1)" by (cases "bounded_Read n r") auto
  note step = bounded_Read_step [OF b Suc.prems(2)]
  show ?case
  proof (cases "st = Continue")
    case False
    then show ?thesis using step b Suc.prems by (cases st) auto
  next
    case True
    then obtain cs1 where d: "drain k n r1 = Some (cs1, e, r')" "cs = bs @ cs1"
      using Suc.prems(1) b by auto
    show ?thesis
    proof (cases "0 < remaining r1")
      case True
      then have L: "all_bytes (under r) = bs @ all_bytes (under r1)" "exceeded r1 = exceeded r" "fate (under r1) = fate (under r)"
        using step(3,4,5) by (metis append_take_drop_id)+
      have "nat (remaining r1) = nat (remaining r) - length bs" using step(2) by linarith
      moreover have "length bs \<le> nat (remaining r)" using step(1) by linarith
      ultimately show ?thesis using Suc.IH [OF d(1) True] L step(2) d(2) by (auto split: if_splits)
    next
      case False
      then have "drain k n r1 = Some ([], None, r1\<lparr>exceeded := True\<rparr>)"
        using d(1) by (cases k) (simp_all add: bounded_Read_exhausted)
      then have "cs = bs" "e = None" "exceeded r'" using d by auto
      moreover have "length bs = nat (remaining r)" using step(1,2) False by linarith
      moreover have "length bs \<le> length (all_bytes (under r))" using step(3) by (metis length_take min.cobounded1)
      ultimately show ?thesis using step(3) Suc.prems(2) by auto
    qed
  qed
qed simp

subsection \<open>The command loop\<close>

lemma inspect_Deliver:
  assumes "inspect_command lib g r d t = Deliver env"
  shows "unmarshal_command (hm lib) (MData (BMessage d)) = Inr env" "COrganizationID env = g" "CRunnerID env = r"
    "CCommandID env \<noteq> []" "is_zero (CExpiresAt env) \<or> t < CExpiresAt env"
  using assms by (auto simp: inspect_command_def decodeCommandEnvelope_def split: sum.splits if_splits)

text \<open>The states between which the loop fetches a command, refuses it and has it rejected.\<close>

inductive refused_until :: "gwlib \<Rightarrow> 'b Server \<Rightarrow> string \<Rightarrow> string \<Rightarrow> 'b \<Rightarrow> 'b \<Rightarrow> bool" for lib s g r where
  none: "refused_until lib s g r b b"
| one: "FetchCommand (backend s) (Some (fetchWait s)) g r b = (Inr d, b1) \<Longrightarrow>
    inspect_command lib g r d (now s b1) = Refuse cause message \<Longrightarrow>
    Reject (backend s) (Some (fetchWait s)) d cause b1 = (None, b2) \<Longrightarrow>
    refused_until lib s g r b2 b3 \<Longrightarrow> refused_until lib s g r b b3"

text \<open>Whatever the loop refuses on the way, a command in its response is the one it fetched last, inspected
  and delivered at one instant.\<close>

lemma command_loop_delivers:
  assumes "command_loop lib rnd s g r n b = Some (resp, b')" and "RespBody resp = CommandBody c"
  shows "\<exists>b2 d env nonce. refused_until lib s g r b b2 \<and> FetchCommand (backend s) (Some (fetchWait s)) g r b2 = (Inr d, b')
    \<and> inspect_command lib g r d (now s b') = Deliver env \<and> Command c = MData (BMessage d)
    \<and> Attempt c = BAttempts d \<and> LeaseExpiresAt c = now s b' + deliveryLease
    \<and> rnd b' = Inr nonce \<and> seal (receipts s) (Inr nonce) (delivery_claims g r env d (now s b')) = Inr (Receipt c)
    \<and> Status resp = 200"
  using assms
proof (induction lib rnd s g r n b rule: command_loop.induct)
  case (2 lib rnd s g r n b)
  obtain x b1 where f: "FetchCommand (backend s) (Some (fetchWait s)) g r b = (x, b1)" by fastforce
  show ?case
  proof (cases x)
    case (Inl e)
    with 2 f show ?thesis by (auto simp: response_defs split: if_splits)
  next
    case (Inr d)
    show ?thesis
    proof (cases "inspect_command lib g r d (now s b1)")
      case (Deliver env)
      with 2(2) f Inr have r: "resp = deliver s (rnd b1) g r env d (now s b1)" "b' = b1" by auto
      show ?thesis
      proof (cases "rnd b1")
        case (Inl e)
        with r 2(3) show ?thesis by (simp add: deliver_def seal_def response_defs)
      next
        case (Inr nonce)
        with r 2(3) Deliver f \<open>x = Inr d\<close> show ?thesis
          by (intro exI [of _ b] exI [of _ d] exI [of _ env] exI [of _ nonce])
             (auto simp: deliver_def response_defs refused_until.none split: sum.splits)
      qed
    next
      case (Refuse cause message)
      obtain y b2 where rj: "Reject (backend s) (Some (fetchWait s)) d cause b1 = (y, b2)" by fastforce
      show ?thesis
      proof (cases y)
        case None
        then have "command_loop lib rnd s g r n b2 = Some (resp, b')" using 2(2) f Inr Refuse rj by simp
        from 2(1) [OF f [symmetric] Inr Refuse rj [symmetric] None this 2(3)]
        show ?thesis using refused_until.one [OF f [unfolded Inr] Refuse rj [unfolded None]] by blast
      qed (use 2(2,3) f Inr Refuse rj in \<open>auto simp: response_defs\<close>)
    qed
  qed
qed simp

text \<open>The loop ends when every command the backend hands out shortens what it has pending and a
  rejection adds nothing to it: more fuel than pending commands is enough.\<close>

lemma command_loop_ends:
  assumes fetch: "\<And>b d b'. FetchCommand (backend s) (Some (fetchWait s)) g r b = (Inr d, b') \<Longrightarrow> pending b' < pending b"
    and reject: "\<And>d e b b'. Reject (backend s) (Some (fetchWait s)) d e b = (None, b') \<Longrightarrow> pending b' \<le> pending b"
  shows "pending b < n \<Longrightarrow> \<exists>x. command_loop lib rnd s g r n b = Some x"
proof (induction n arbitrary: b)
  case (Suc n)
  obtain x b1 where f: "FetchCommand (backend s) (Some (fetchWait s)) g r b = (x, b1)" by fastforce
  show ?case
  proof (cases x)
    case (Inl e)
    with f show ?thesis by simp
  next
    case (Inr d)
    with f have lt: "pending b1 < pending b" using fetch by simp
    show ?thesis
    proof (cases "inspect_command lib g r d (now s b1)")
      case (Refuse cause message)
      obtain y b2 where y: "Reject (backend s) (Some (fetchWait s)) d cause b1 = (y, b2)" by fastforce
      show ?thesis
      proof (cases y)
        case None
        with y reject have "pending b2 \<le> pending b1" by simp
        with lt Suc.prems obtain z where "command_loop lib rnd s g r n b2 = Some z"
          using Suc.IH [of b2] by (auto simp: less_Suc_eq_le)
        with f Inr Refuse y None show ?thesis by simp
      qed (use f Inr Refuse y in simp)
    qed (use f Inr in simp)
  qed
qed simp

subsection \<open>Receipts\<close>

lemma receipt_claims_Some:
  assumes "receipt_claims s q g r receipt b = Some c"
  shows "open_receipt (receipts s) receipt (now s b) = Inr c" "ROrganizationID c = g" "RRunnerID c = r"
    "RCommandID c = PathValue q ''commandID''"
  using assms by (auto simp: receipt_claims_def split: sum.splits if_splits)

lemma receipt_body_bounds: "receipt_body retry body = Inr (receipt, delay) \<Longrightarrow> 0 \<le> delay \<and> delay \<le> 60 * second"
  by (auto simp: receipt_body_def second_def split: if_splits option.splits)

lemma receipt_body_Inl: "receipt_body retry body = Inl resp \<Longrightarrow> Status resp = 400"
  by (auto simp: receipt_body_def response_defs split: if_splits option.splits)

subsection \<open>A concrete gateway\<close>

text \<open>A backend that keeps a queue of deliveries and the list of what was sent, a fixed clock and
  one runner's key: the theorems below are applied to it.\<close>

type_synonym demo_state = "CommandDelivery list \<times> sent"

definition demo_backend :: "demo_state Backend" where
  "demo_backend = \<lparr>FetchCommand = (\<lambda>_ _ _ (ds, w). case ds of [] \<Rightarrow> (Inl ErrNoCommand, ([], w)) | d # r \<Rightarrow> (Inr d, (r, w))),
     Acknowledge = (\<lambda>_ a (ds, w). (None, (ds, (a, ''+ACK'') # w))),
     Retry = (\<lambda>_ a _ (ds, w). (None, (ds, (a, ''-NAK'') # w))),
     Reject = (\<lambda>_ d _ (ds, w). (None, (ds, (BAckSubject d, ''+TERM'') # w))),
     RejectReceipt = (\<lambda>_ a _ _ (ds, w). (None, (ds, (a, ''+TERM'') # w))),
     GetBundle = (\<lambda>_ b. (Inl ErrNotExist, b)), PutLog = (\<lambda>_ x b. (Inr (int (length (fst x))), b)),
     DeleteLog = (\<lambda>_ b. (None, b)), Publish = (\<lambda>m (ds, w). (None, (ds, (MSubject m, MData m) # w)))\<rparr>"

definition demo_server :: "demo_state Server" where
  "demo_server = \<lparr>basePath = [], backend = demo_backend, publicKeys = (\<lambda>_ _ b. (Inr ''pkey'', b)),
     receipts = test_aead, runnerTokenSalt = ''salt'', fetchWait = defaultFetchWait, maxLogBytes = 10,
     now = (\<lambda>_. 67 * second)\<rparr>"

definition demo_lib :: gwlib where
  "demo_lib = \<lparr>hm = test_messaging, cr = test_crypto, uuid_ok = (\<lambda>x. x \<noteq> [])\<rparr>"

definition demo_envelope :: CommandEnvelope where
  "demo_envelope = \<lparr>CProtocolVersion = ''v1'', CCommandID = ''cmd'', COrganizationID = ''o'', CRunnerID = ''r'',
     CDeploymentID = ''d'', CType = ''create-job'', CCreatedAt = 0, CExpiresAt = time_zero, CPayload = ''p''\<rparr>"

definition good_delivery :: CommandDelivery where
  "good_delivery = \<lparr>BMessage = \<lparr>MID = ''m'', MSubject = ''o.r.commands'', MData = test_command demo_envelope, MHeader = [],
     MCreatedAt = 0, MExpiresAt = time_zero\<rparr>, BAttempts = 2, BAckSubject = ''ack'', BStreamSequence = 7\<rparr>"

definition demo_token :: string where
  "demo_token = projr (SignAgentToken test_crypto ''skey'' ''o'' ''r'' (7 * second))"

definition demo_request :: "(string \<times> string) list \<Rightarrow> bytes \<Rightarrow> http_request" where
  "demo_request vs body = \<lparr>Method = ''POST'', UrlPath = ''/'',
     PathValues = [(''organizationID'', ''o''), (''runnerID'', ''r'')] @ vs,
     AuthorizationHeader = ''Bearer '' @ demo_token, TokenHeader = [], Body = Reader [body] None\<rparr>"

lemma demo_authenticated: "authenticateAgent demo_lib demo_server (demo_request vs body) b = (Inr (''o'', ''r''), b)"
proof -
  have "\<exists>t. SignAgentToken test_crypto ''skey'' ''o'' ''r'' (7 * second) = Inr t"
    by (simp add: SignAgentToken_def test_instance Let_def)
  then have t: "SignAgentToken test_crypto ''skey'' ''o'' ''r'' (7 * second) = Inr demo_token"
    by (auto simp: demo_token_def)
  show ?thesis
    by (rule authenticate_signed [where priv = "''skey''" and pub = "''pkey''" and k = "''key''" and t = "7 * second"
          and tok = demo_token and subject = "''o.r.commands''"])
      (simp_all add: demo_lib_def demo_server_def demo_request_def PathValue_def t, simp_all add: test_instance test_messaging_def)
qed

lemma demo_inspect: "inspect_command demo_lib ''o'' ''r'' good_delivery (67 * second) = Deliver demo_envelope"
  by (simp add: inspect_command_def decodeCommandEnvelope_def demo_lib_def test_messaging_def good_delivery_def
      demo_envelope_def test_command_def is_zero_def)

lemma demo_refuse: "inspect_command demo_lib ''o'' ''r'' demo_delivery (67 * second) =
    Refuse (ErrNew ''invalid character'') ''reject invalid runner command''"
  by (simp add: inspect_command_def decodeCommandEnvelope_def demo_lib_def test_messaging_def demo_delivery_def)

lemma demo_next:
  "nextCommand demo_lib (\<lambda>_. Inr ''ab'') demo_server 3 (demo_request [] []) ([demo_delivery, good_delivery], []) =
     Some (deliver demo_server (Inr ''ab'') ''o'' ''r'' demo_envelope good_delivery (67 * second), ([], [(''ack'', ''+TERM'')]))"
  using demo_inspect demo_refuse
  by (simp add: nextCommand_def demo_authenticated numeral_3_eq_3)
     (simp add: demo_server_def demo_backend_def, simp add: demo_delivery_def)

subsection \<open>Properties\<close>

text \<open>C8: a command the gateway hands out is addressed to exactly the runner whose token was verified
  for the request, names a command and had not expired at the instant of the delivery. It is the last
  one fetched for this runner, all before it having been refused and rejected; it comes unchanged,
  with its count of deliveries, a lease of 90 seconds and a receipt sealed over this very delivery:
  the identity, the command, the acknowledgement subject, the position in the stream and the end of
  the lease.\<close>

theorem delivered_command_authorized:
  assumes "nextCommand lib rnd s fuel q b = Some (resp, b')" and "RespBody resp = CommandBody c"
  shows "\<exists>g r d env nonce scheme token key b1 b2.
     g = PathValue q ''organizationID'' \<and> r = PathValue q ''runnerID''
     \<and> Strings.fields (AuthorizationHeader q) = [scheme, token] \<and> publicKeys s g r b = (Inr key, b1)
     \<and> VerifyAgentToken (cr lib) token key g r (now s b1) = None
     \<and> refused_until lib s g r b1 b2 \<and> FetchCommand (backend s) (Some (fetchWait s)) g r b2 = (Inr d, b')
     \<and> Command c = MData (BMessage d) \<and> Attempt c = BAttempts d
     \<and> unmarshal_command (hm lib) (Command c) = Inr env \<and> COrganizationID env = g \<and> CRunnerID env = r
     \<and> CCommandID env \<noteq> [] \<and> (is_zero (CExpiresAt env) \<or> now s b' < CExpiresAt env)
     \<and> Status resp = 200 \<and> LeaseExpiresAt c = now s b' + 90 * second \<and> rnd b' = Inr nonce
     \<and> seal (receipts s) (Inr nonce) \<lparr>ROrganizationID = g, RRunnerID = r, RCommandID = CCommandID env,
         RAckSubject = BAckSubject d, RStreamSequence = BStreamSequence d,
         RExpiresAt = unix_of (now s b' + 90 * second)\<rparr> = Inr (Receipt c)"
proof -
  obtain g r b1 where a: "authenticateAgent lib s q b = (Inr (g, r), b1)"
      and l: "command_loop lib rnd s g r fuel b1 = Some (resp, b')"
    using assms authenticateAgent_Inl [of lib s q b]
    by (auto simp: nextCommand_def authenticateAgent_def response_defs Let_def split: sum.splits prod.splits list.splits if_splits)
  obtain b2 d env nonce where f: "refused_until lib s g r b1 b2" "FetchCommand (backend s) (Some (fetchWait s)) g r b2 = (Inr d, b')"
      and i: "inspect_command lib g r d (now s b') = Deliver env"
      and c: "Command c = MData (BMessage d)" "Attempt c = BAttempts d" "LeaseExpiresAt c = now s b' + 90 * second" "rnd b' = Inr nonce"
        "Status resp = 200" "seal (receipts s) (Inr nonce) (delivery_claims g r env d (now s b')) = Inr (Receipt c)"
    using command_loop_delivers [OF l assms(2)] by (auto simp: deliveryLease_def)
  have "delivery_claims g r env d (now s b') = \<lparr>ROrganizationID = g, RRunnerID = r, RCommandID = CCommandID env,
      RAckSubject = BAckSubject d, RStreamSequence = BStreamSequence d, RExpiresAt = unix_of (now s b' + 90 * second)\<rparr>"
    by (simp add: delivery_claims_def deliveryLease_def)
  with f c inspect_Deliver [OF i] authenticateAgent_Inr [OF a] show ?thesis by metis
qed

theorem delivered_command_authorized_witness:
  "\<exists>resp c. nextCommand demo_lib (\<lambda>_. Inr ''ab'') demo_server 3 (demo_request [] []) ([demo_delivery, good_delivery], [])
       = Some (resp, ([], [(''ack'', ''+TERM'')])) \<and> RespBody resp = CommandBody c \<and> Status resp = 200"
proof -
  let ?resp = "deliver demo_server (Inr ''ab'') ''o'' ''r'' demo_envelope good_delivery (67 * second)"
  obtain c where c: "RespBody ?resp = CommandBody c"
    by (auto simp: deliver_def seal_def response_defs)
  from delivered_command_authorized [OF demo_next c] have "Status ?resp = 200" by blast
  with c demo_next show ?thesis by blast
qed

text \<open>C9: the request for the next command is always answered when what the backend holds is finite:
  every fetched command shortens it, rejecting one does not lengthen it, and then more rounds
  than commands are enough, whatever junk they contain.\<close>

theorem next_command_answers:
  assumes "\<And>g r b d b'. FetchCommand (backend s) (Some (fetchWait s)) g r b = (Inr d, b') \<Longrightarrow> pending b' < pending b"
    and "\<And>d e b b'. Reject (backend s) (Some (fetchWait s)) d e b = (None, b') \<Longrightarrow> pending b' \<le> pending b"
    and "pending (snd (authenticateAgent lib s q b)) < fuel"
  shows "\<exists>resp b'. nextCommand lib rnd s fuel q b = Some (resp, b')"
proof -
  obtain x b1 where a: "authenticateAgent lib s q b = (x, b1)" by fastforce
  show ?thesis
  proof (cases x)
    case (Inr p)
    obtain y where "command_loop lib rnd s (fst p) (snd p) fuel b1 = Some y"
      using command_loop_ends [of s "fst p" "snd p" pending b1 fuel lib rnd] assms a by auto
    with a Inr show ?thesis by (cases p; cases y) (simp add: nextCommand_def)
  qed (use a in \<open>simp add: nextCommand_def\<close>)
qed

theorem next_command_answers_witness:
  "\<exists>resp b'. nextCommand demo_lib (\<lambda>_. Inr ''ab'') demo_server 3 (demo_request [] []) ([demo_delivery, demo_delivery], []) = Some (resp, b')"
proof (rule next_command_answers [where pending = "\<lambda>(ds, w). length ds"])
  show "(case b' of (ds, w) \<Rightarrow> length ds) < (case b of (ds, w) \<Rightarrow> length ds)"
    if "FetchCommand (backend demo_server) (Some (fetchWait demo_server)) g r b = (Inr d, b')" for g r b d b'
    using that by (auto simp: demo_server_def demo_backend_def split: list.splits prod.splits)
  show "(case b' of (ds, w) \<Rightarrow> length ds) \<le> (case b of (ds, w) \<Rightarrow> length ds)"
    if "Reject (backend demo_server) (Some (fetchWait demo_server)) d e b = (None, b')" for d e b b'
    using that by (auto simp: demo_server_def demo_backend_def split: prod.splits)
qed (simp add: demo_authenticated)

text \<open>C10: an acknowledgement or a retry reaches the backend only when the runner's token was verified
  and the receipt opens, has not expired, and was sealed for this runner and for the command in
  the path; the subject used is the sealed one and the delay is between 0 and 60 seconds. In
  every other case the backend is not called and the answer is 400 or 401.\<close>

theorem receipt_action_authorized:
  assumes "handleReceipt lib s retry q b = (resp, b')"
  shows "(\<exists>g r b1 receipt claims delay err. authenticateAgent lib s q b = (Inr (g, r), b1)
       \<and> receipt_body retry (all_bytes (Body q)) = Inr (receipt, delay)
       \<and> open_receipt (receipts s) receipt (now s b1) = Inr claims
       \<and> ROrganizationID claims = g \<and> RRunnerID claims = r \<and> RCommandID claims = PathValue q ''commandID''
       \<and> now s b1 < time_unix (RExpiresAt claims) \<and> 0 \<le> delay \<and> delay \<le> 60 * second
       \<and> (if retry then Retry (backend s) None (RAckSubject claims) delay b1
          else Acknowledge (backend s) None (RAckSubject claims) b1) = (err, b')
       \<and> Status resp = (if err = None then 204 else 503))
     \<or> ((Status resp = 400 \<or> Status resp = 401)
       \<and> (b' = b \<or> b' = snd (publicKeys s (PathValue q ''organizationID'') (PathValue q ''runnerID'') b)))"
proof -
  obtain x b1 where a: "authenticateAgent lib s q b = (x, b1)" by fastforce
  show ?thesis
  proof (cases x)
    case (Inl r)
    with a assms authenticateAgent_Inl [of lib s q b r b1] show ?thesis by (simp add: handleReceipt_def)
  next
    case (Inr p)
    obtain g r where p: "p = (g, r)" by fastforce
    note auth = a [unfolded Inr p]
    have b1: "b1 = snd (publicKeys s (PathValue q ''organizationID'') (PathValue q ''runnerID'') b)"
      using authenticateAgent_Inr [OF auth] by auto
    show ?thesis
    proof (cases "receipt_body retry (all_bytes (Body q))")
      case (Inl e)
      with auth assms b1 receipt_body_Inl [OF Inl] show ?thesis by (simp add: handleReceipt_def)
    next
      case (Inr y)
      obtain receipt delay where y: "y = (receipt, delay)" by fastforce
      show ?thesis
      proof (cases "receipt_claims s q g r receipt b1")
        case None
        with auth assms Inr y b1 show ?thesis by (intro disjI2) (auto simp: handleReceipt_def response_defs)
      next
        case (Some claims)
        obtain err b2 where e: "(if retry then Retry (backend s) None (RAckSubject claims) delay b1
          else Acknowledge (backend s) None (RAckSubject claims) b1) = (err, b2)" by fastforce
        have "b' = b2" "Status resp = (if err = None then 204 else 503)"
          using assms auth Inr y Some e by (auto simp: handleReceipt_def response_defs split: option.splits)
        with auth Inr y e receipt_claims_Some [OF Some] receipt_body_bounds [of retry "all_bytes (Body q)" receipt delay]
          open_receipt_Inr(6) [of "receipts s" receipt "now s b1" claims]
        show ?thesis by (intro disjI1) fastforce
      qed
    qed
  qed
qed

definition demo_claims :: receiptClaims where
  "demo_claims = delivery_claims ''o'' ''r'' demo_envelope good_delivery (67 * second)"

definition demo_receipt :: string where
  "demo_receipt = projr (seal test_aead (Inr ''ab'') demo_claims)"

lemma demo_seal: "seal test_aead (Inr ''ab'') demo_claims = Inr demo_receipt"
  by (simp add: demo_receipt_def seal_def)

lemma demo_claims_wf: "receipt_wf demo_claims" "67 * second < time_unix (RExpiresAt demo_claims)"
  by (simp_all add: demo_claims_def delivery_claims_def receipt_wf_def demo_envelope_def good_delivery_def
      deliveryLease_def fits_int64_def fits_uint64_def go_defs)

lemma rawurl_ascii: "ascii (rawurl_encode bs)"
proof -
  have "of_char c \<le> (0x7F::nat)" if "c \<in> set (rawurl_encode bs)" for c
    using url.raw_has_value [of c bs] that
    by (auto simp: rawurl_encode_def url_val_def std_val_def Let_def split: if_splits)
  then show ?thesis by (simp add: ascii_def)
qed

lemma seal_ascii: "seal a (Inr nonce) c = Inr r \<Longrightarrow> ascii r"
  by (auto simp: seal_def rawurl_ascii)

lemma demo_receipt_length: "length (marshal_ReceiptRequest \<lparr>AckReceipt = demo_receipt\<rparr>) \<le> 4096"
  by code_simp

lemma demo_body: "receipt_body False (marshal_ReceiptRequest \<lparr>AckReceipt = demo_receipt\<rparr>) = Inr (demo_receipt, 0)"
proof -
  have "ascii demo_receipt" using demo_seal by (rule seal_ascii)
  then show ?thesis using demo_receipt_length decode_marshal_ReceiptRequest [of "\<lparr>AckReceipt = demo_receipt\<rparr>" 4096]
    by (simp add: receipt_body_def)
qed

lemma demo_open: "open_receipt test_aead demo_receipt (67 * second) = Inr demo_claims"
proof -
  have "length ''ab'' = NonceSize test_aead" by (simp add: test_aead_def)
  from open_seal [OF test_aead_correct this demo_claims_wf] demo_seal show ?thesis by auto
qed

theorem receipt_action_authorized_witness:
  "\<exists>resp. handleReceipt demo_lib demo_server False
      (demo_request [(''commandID'', ''cmd'')] (marshal_ReceiptRequest \<lparr>AckReceipt = demo_receipt\<rparr>)) ([], [])
     = (resp, ([], [(''ack'', ''+ACK'')])) \<and> Status resp = 204"
proof -
  let ?q = "demo_request [(''commandID'', ''cmd'')] (marshal_ReceiptRequest \<lparr>AckReceipt = demo_receipt\<rparr>)"
  have "receipt_body False (all_bytes (Body ?q)) = Inr (demo_receipt, 0)" by (simp add: demo_body demo_request_def)
  moreover have "receipt_claims demo_server ?q ''o'' ''r'' demo_receipt ([], []) = Some demo_claims"
    using demo_open by (simp add: receipt_claims_def demo_server_def demo_claims_def delivery_claims_def
        demo_envelope_def demo_request_def PathValue_def)
  ultimately have h: "handleReceipt demo_lib demo_server False ?q ([], []) = (writeStatus 204, ([], [(''ack'', ''+ACK'')]))"
    by (simp add: handleReceipt_def demo_authenticated) (simp add: demo_server_def demo_backend_def demo_claims_def
        delivery_claims_def good_delivery_def)
  from receipt_action_authorized [OF h] h show ?thesis by (simp add: response_defs)
qed

lemma deliver_acknowledge:
  assumes "aead_correct (receipts s)" and "length nonce = NonceSize (receipts s)"
    and "receipt_wf (delivery_claims g r env d t)"
    and "seal (receipts s) (Inr nonce) (delivery_claims g r env d t) = Inr receipt"
    and "authenticateAgent lib s q b = (Inr (g, r), b1)" and "PathValue q ''commandID'' = CCommandID env"
    and "all_bytes (Body q) = marshal_ReceiptRequest \<lparr>AckReceipt = receipt\<rparr>"
    and "length (marshal_ReceiptRequest \<lparr>AckReceipt = receipt\<rparr>) \<le> 4096"
    and "now s b1 < truncate_second (t + deliveryLease)"
  shows "acknowledgeCommand lib s q b = (case Acknowledge (backend s) None (BAckSubject d) b1 of
     (Some e, b2) \<Rightarrow> (writeError 503 ''persist command acknowledgement'', b2) | (None, b2) \<Rightarrow> (writeStatus 204, b2))"
proof -
  have "RExpiresAt (delivery_claims g r env d t) = unix_of (t + deliveryLease)" by (simp add: delivery_claims_def)
  then have o: "open_receipt (receipts s) receipt (now s b1) = Inr (delivery_claims g r env d t)"
    using open_seal [OF assms(1-3), of "now s b1"] assms(4,9) by (auto simp: time_unix_of_truncate)
  have "ascii receipt" using assms(4) by (rule seal_ascii)
  then have "receipt_body False (all_bytes (Body q)) = Inr (receipt, 0)"
    using assms(7,8) decode_marshal_ReceiptRequest [of "\<lparr>AckReceipt = receipt\<rparr>" 4096] by (simp add: receipt_body_def)
  then show ?thesis using assms(5,6) o
    by (simp add: acknowledgeCommand_def handleReceipt_def receipt_claims_def delivery_claims_def)
qed

text \<open>What the gateway delivers can be acknowledged: an authenticated request that returns the
  receipt for the delivered command before the lease ends acknowledges exactly the delivery the
  receipt was made for, and the answer tells whether the backend stored that.\<close>

theorem delivered_then_acknowledged:
  assumes "aead_correct (receipts s)" and "length nonce = NonceSize (receipts s)"
    and "receipt_wf (delivery_claims g r env d t)"
    and "seal (receipts s) (Inr nonce) (delivery_claims g r env d t) = Inr receipt"
    and "authenticateAgent lib s q b = (Inr (g, r), b1)" and "PathValue q ''commandID'' = CCommandID env"
    and "all_bytes (Body q) = marshal_ReceiptRequest \<lparr>AckReceipt = receipt\<rparr>"
    and "length (marshal_ReceiptRequest \<lparr>AckReceipt = receipt\<rparr>) \<le> 4096"
    and "now s b1 < truncate_second (t + deliveryLease)"
  shows "acknowledgeCommand lib s q b = (case Acknowledge (backend s) None (BAckSubject d) b1 of
     (Some e, b2) \<Rightarrow> (writeError 503 ''persist command acknowledgement'', b2) | (None, b2) \<Rightarrow> (writeStatus 204, b2))"
  using assms by (rule deliver_acknowledge)

theorem delivered_then_acknowledged_witness:
  "acknowledgeCommand demo_lib demo_server
      (demo_request [(''commandID'', ''cmd'')] (marshal_ReceiptRequest \<lparr>AckReceipt = demo_receipt\<rparr>)) ([], [])
     = (writeStatus 204, ([], [(''ack'', ''+ACK'')]))"
proof -
  let ?q = "demo_request [(''commandID'', ''cmd'')] (marshal_ReceiptRequest \<lparr>AckReceipt = demo_receipt\<rparr>)"
  have "acknowledgeCommand demo_lib demo_server ?q ([], []) =
      (case Acknowledge (backend demo_server) None (BAckSubject good_delivery) ([], []) of
         (Some e, b2) \<Rightarrow> (writeError 503 ''persist command acknowledgement'', b2) | (None, b2) \<Rightarrow> (writeStatus 204, b2))"
  proof (rule delivered_then_acknowledged [OF _ _ _ _ demo_authenticated])
    show "seal (receipts demo_server) (Inr ''ab'') (delivery_claims ''o'' ''r'' demo_envelope good_delivery (67 * second)) = Inr demo_receipt"
      using demo_seal by (simp add: demo_server_def demo_claims_def)
    show "receipt_wf (delivery_claims ''o'' ''r'' demo_envelope good_delivery (67 * second))"
      using demo_claims_wf by (simp add: demo_claims_def)
    show "length (marshal_ReceiptRequest \<lparr>AckReceipt = demo_receipt\<rparr>) \<le> 4096" by (rule demo_receipt_length)
  qed (simp_all add: demo_server_def demo_request_def PathValue_def demo_envelope_def test_aead_def [THEN arg_cong, of NonceSize]
      deliveryLease_def go_defs)
  then show ?thesis by (simp add: demo_server_def demo_backend_def good_delivery_def)
qed

text \<open>At the largest limit the budget of the reader wraps around: nothing is read, and every upload is
  refused.\<close>

lemma logs_refused_at_largest_limit:
  assumes "authenticateDeployment lib s q = Inr (g, r, d)" and "uuid_ok lib (PathValue q ''environmentID'')"
    and "maxLogBytes s = 2 ^ 63 - 1" and "PutLog (backend s) (PathValue q ''environmentID'' @ ''/'' @ d) ([], None) b = (Inr sz, b1)"
  shows "putLogs lib s (Suc fuel) chunk q b = Some (writeError 413 ''encrypted logs exceed the configured limit'',
    snd (DeleteLog (backend s) (PathValue q ''environmentID'' @ ''/'' @ d) b1))"
proof -
  have "wrap_int64 (maxLogBytes s + 1) \<le> 0" using assms(3) by (simp add: wrap_int64_def)
  then show ?thesis using assms(1,2,4) by (simp add: putLogs_def Let_def bounded_Read_exhausted)
qed

text \<open>C11: logs, for every limit below the largest 64-bit integer. The upload is read to its end in
  finitely many steps, whatever the pieces in which it arrives. At most one byte more than the limit
  is stored. A log within the limit is stored whole, with the error that broke the upload off if there
  was one, and announced; a longer one is deleted again and answered with 413, and never announced,
  whatever size the store reports.\<close>

theorem logs_bounded:
  assumes "authenticateDeployment lib s q = Inr (g, r, d)" and "uuid_ok lib (PathValue q ''environmentID'')"
    and "0 \<le> maxLogBytes s" and "maxLogBytes s < 2 ^ 63 - 1" and "0 < chunk" and "weight (Body q) + 1 < fuel"
  shows "putLogs lib s fuel chunk q b =
     (let key = PathValue q ''environmentID'' @ ''/'' @ d; body = all_bytes (Body q); within = int (length body) \<le> maxLogBytes s in
      case PutLog (backend s) key (take (nat (maxLogBytes s + 1)) body, if within then fate (Body q) else None) b of
        (Inl e, b1) \<Rightarrow> Some (writeError 503 ''persist encrypted logs'', b1)
      | (Inr sz, b1) \<Rightarrow>
        if within \<and> sz \<le> maxLogBytes s
        then Some (announce_log lib s g r d key sz body b1)
        else Some (writeError 413 ''encrypted logs exceed the configured limit'', snd (DeleteLog (backend s) key b1)))"
proof -
  let ?r = "\<lparr>under = Body q, remaining = maxLogBytes s + 1, exceeded = False\<rparr>"
  have w: "wrap_int64 (maxLogBytes s + 1) = maxLogBytes s + 1" using assms(3,4) by (simp add: fits_int64_def)
  obtain cs e r' where d: "drain fuel chunk ?r = Some (cs, e, r')"
    using drain_ends [of chunk ?r fuel] assms(5,6) by fastforce
  from drain_spec [OF d] assms(3)
  have "cs = take (nat (maxLogBytes s + 1)) (all_bytes (Body q))"
      "exceeded r' = (\<not> int (length (all_bytes (Body q))) \<le> maxLogBytes s)"
      "e = (if int (length (all_bytes (Body q))) \<le> maxLogBytes s then fate (Body q) else None)"
      "int (length (all_bytes (Body q))) \<le> maxLogBytes s \<Longrightarrow> cs = all_bytes (Body q)"
    by (auto split: if_splits)
  with assms(1,2) d show ?thesis
    by (auto simp: putLogs_def w Let_def split: prod.splits sum.splits)
qed

definition demo_upload :: "bytes list \<Rightarrow> http_request" where
  "demo_upload pieces = \<lparr>Method = ''PUT'', UrlPath = ''/'', PathValues = [(''organizationID'', ''o''), (''runnerID'', ''r''),
     (''deploymentID'', ''d''), (''environmentID'', ''e'')], AuthorizationHeader = [],
     TokenHeader = deploymentToken test_crypto ''salt'' ''o'' ''d'', Body = Reader pieces None\<rparr>"

lemma demo_upload_authenticated: "authenticateDeployment demo_lib demo_server (demo_upload pieces) = Inr (''o'', ''r'', ''d'')"
  by (simp add: authenticateDeployment_def demo_lib_def demo_server_def demo_upload_def PathValue_def test_messaging_def)

theorem logs_bounded_witness:
  "putLogs demo_lib demo_server 20 4 (demo_upload [''twelve'', ''-bytes'']) ([], []) =
     Some (writeError 413 ''encrypted logs exceed the configured limit'', ([], []))"
proof -
  let ?q = "demo_upload [''twelve'', ''-bytes'']"
  have "uuid_ok demo_lib (PathValue ?q ''environmentID'')" "0 \<le> maxLogBytes demo_server" "maxLogBytes demo_server < 2 ^ 63 - 1"
      "0 < (4::nat)" "weight (Body ?q) + 1 < 20"
    by (simp_all add: demo_lib_def demo_server_def demo_upload_def PathValue_def weight_def)
  from logs_bounded [OF demo_upload_authenticated this] show ?thesis
    by (simp add: demo_server_def demo_upload_def demo_backend_def PathValue_def Let_def)
qed

lemma read_all_limit_short:
  assumes "read_all_limit (nat (m + 1)) r = Inr body" and "int (length body) \<le> m"
  shows "body = all_bytes r"
  using assms by (auto simp: read_all_limit_def split: if_splits option.splits)

text \<open>C12: an event the gateway accepts is stored unchanged, within the size limit, on the subject of
  the verified runner, and names that same organization and runner: no runner can speak for
  another.\<close>

theorem accepted_event_identity:
  assumes "postEvent lib s q b = (resp, b')" and "Status resp = 202"
  shows "\<exists>g r b1 event subject. authenticateAgent lib s q b = (Inr (g, r), b1)
     \<and> unmarshal_event (hm lib) (all_bytes (Body q)) = Inr event \<and> EEventID event \<noteq> []
     \<and> EOrganizationID event = g \<and> ERunnerID event = r \<and> int (length (all_bytes (Body q))) \<le> maxResultBytes
     \<and> RunnerEventSubject (hm lib) g r (EType event) = Inr subject
     \<and> Publish (backend s) (event_message event subject (all_bytes (Body q))) b1 = (None, b')"
proof -
  obtain g r b1 where a: "authenticateAgent lib s q b = (Inr (g, r), b1)"
    using assms authenticateAgent_Inl [of lib s q b]
    by (auto simp: postEvent_def split: sum.splits prod.splits)
  obtain body where body: "read_all_limit (nat (maxResultBytes + 1)) (Body q) = Inr body" "int (length body) \<le> maxResultBytes"
    using assms a by (auto simp: postEvent_def response_defs split: sum.splits if_splits)
  have [simp]: "body = all_bytes (Body q)" using body by (rule read_all_limit_short)
  obtain event where "unmarshal_event (hm lib) body = Inr event" "EEventID event \<noteq> []"
      "EOrganizationID event = g" "ERunnerID event = r"
    using assms a body by (auto simp: postEvent_def response_defs split: sum.splits if_splits)
  moreover from this obtain subject where "RunnerEventSubject (hm lib) g r (EType event) = Inr subject"
      "Publish (backend s) (event_message event subject body) b1 = (None, b')"
    using assms a body by (auto simp: postEvent_def response_defs split: sum.splits if_splits option.splits prod.splits)
  ultimately show ?thesis using a body(2) by auto
qed

theorem accepted_event_identity_witness:
  "postEvent demo_lib demo_server (demo_request [] ''v1|id|c|o|r|d|t|p'') ([], []) =
      (writeStatus 202, ([], [(''o.r.events.t'', ''v1|id|c|o|r|d|t|p'')]))
   \<and> (\<exists>event. unmarshal_event test_messaging ''v1|id|c|o|r|d|t|p'' = Inr event \<and> ERunnerID event = ''r'')"
proof -
  have e: "postEvent demo_lib demo_server (demo_request [] ''v1|id|c|o|r|d|t|p'') ([], []) =
      (writeStatus 202, ([], [(''o.r.events.t'', ''v1|id|c|o|r|d|t|p'')]))"
    by (simp add: postEvent_def demo_authenticated)
       (simp add: demo_request_def read_all_limit_def maxResultBytes_def demo_lib_def test_messaging_def
        event_message_def demo_server_def demo_backend_def)
  have "hm demo_lib = test_messaging" "all_bytes (Body (demo_request vs body)) = body" for vs body
    by (simp_all add: demo_lib_def demo_request_def)
  with e accepted_event_identity [OF e] show ?thesis
    by (auto simp: response_defs demo_authenticated)
qed

end
