(* ===== verification/Client.thy ===== *)
theory Client
  imports Auth Keys Protocol Messaging Transport
begin

section \<open>The runner's gateway client (internal/gatewayapi/client.go)\<close>

text \<open>
  Each operation builds one HTTP request, sends it and checks the answer. Sending is the argument
  \<open>http_do\<close>: the network and the gateway behind it are a state of an arbitrary type \<open>'h\<close>. A value
  that the source marshals itself is given as the outcome of \<open>json.Marshal\<close>.
\<close>

definition maxBundleBytes :: int where
  "maxBundleBytes = 64 * 2 ^ 20"

record ClientConfig =
  CfgBaseURL :: string
  CfgOrganizationID :: string
  CfgRunnerID :: string
  CfgPrivateKey :: bytes
  CfgCAFile :: string
  CfgClientCertFile :: string
  CfgClientKeyFile :: string
  CfgTimeout :: duration

record Client =
  clientURL :: string
  organizationID :: string
  runnerID :: string
  privateKey :: bytes
  clientTLS :: tls_config
  clientTimeout :: duration

record client_request =
  ReqMethod :: string
  ReqURL :: string
  ReqHeaders :: "(string \<times> string) list"
  ReqContent :: reader

record client_response =
  StatusCode :: nat
  StatusText :: string
  Content :: reader

type_synonym 'h http = "client_request \<Rightarrow> 'h \<Rightarrow> client_response result \<times> 'h"

subsection \<open>Construction\<close>

text \<open>The certificates of the system are the argument \<open>system_pool\<close>; none when they cannot be read.\<close>

definition gatewayTLSConfig :: "tls_files \<Rightarrow> bytes option \<Rightarrow> ClientConfig \<Rightarrow> tls_config result" where
  "gatewayTLSConfig fs system_pool config =
     (case (if CfgCAFile config = [] then Inr None
        else (case read_file fs (CfgCAFile config) of
            Inl e \<Rightarrow> Inl (ErrWrap ''read runner gateway CA'' e)
          | Inr contents \<Rightarrow> if \<not> has_pem_certificate fs contents
              then Inl (ErrNew ''runner gateway CA file does not contain a PEM certificate'')
              else Inr (Some ((case system_pool of None \<Rightarrow> [] | Some p \<Rightarrow> p) @ contents)))) of
        Inl e \<Rightarrow> Inl e
      | Inr roots \<Rightarrow>
        if CfgClientCertFile config = [] \<and> CfgClientKeyFile config = []
        then Inr \<lparr>RootCAs = roots, Certificates = []\<rparr>
        else if CfgClientCertFile config = [] \<or> CfgClientKeyFile config = []
        then Inl (ErrNew ''both runner gateway client certificate and key files are required for mTLS'')
        else (case load_key_pair fs (CfgClientCertFile config) (CfgClientKeyFile config) of
            Inl e \<Rightarrow> Inl (ErrWrap ''load runner gateway client certificate'' e)
          | Inr c \<Rightarrow> Inr \<lparr>RootCAs = roots, Certificates = [c]\<rparr>))"

definition NewClient :: "(string \<Rightarrow> parsed_url result) \<Rightarrow> tls_files \<Rightarrow> bytes option \<Rightarrow> ClientConfig \<Rightarrow> Client result" where
  "NewClient parse fs system_pool config =
     (case parse (trim_right_char CHR ''/'' (CfgBaseURL config)) of
        Inl e \<Rightarrow> Inl (ErrNew ''runner gateway URL must be an absolute HTTP or HTTPS URL'')
      | Inr u \<Rightarrow>
        if Scheme u = [] \<or> Host u = []
        then Inl (ErrNew ''runner gateway URL must be an absolute HTTP or HTTPS URL'')
        else if Scheme u \<noteq> ''http'' \<and> Scheme u \<noteq> ''https''
        then Inl (ErrNew ''runner gateway URL must use HTTP or HTTPS'')
        else (case gatewayTLSConfig fs system_pool config of Inl e \<Rightarrow> Inl e
          | Inr t \<Rightarrow> Inr \<lparr>clientURL = URLString u, organizationID = CfgOrganizationID config,
              runnerID = CfgRunnerID config, privateKey = CfgPrivateKey config, clientTLS = t,
              clientTimeout = (if CfgTimeout config \<le> 0 then 40 * second else CfgTimeout config)\<rparr>))"

subsection \<open>Requests\<close>

definition runnerURL :: "Client \<Rightarrow> string \<Rightarrow> string" where
  "runnerURL c path = clientURL c @ ''/v1/orgs/'' @ path_escape (organizationID c)
     @ ''/runners/'' @ path_escape (runnerID c) @ path"

definition authorizeAgent :: "crypto \<Rightarrow> Client \<Rightarrow> gtime \<Rightarrow> client_request \<Rightarrow> client_request result" where
  "authorizeAgent cr c t q =
     (if privateKey c = [] then Inl (ErrNew ''runner private key is required for agent requests'')
      else (case SignAgentToken cr (privateKey c) (organizationID c) (runnerID c) t of Inl e \<Rightarrow> Inl e
        | Inr token \<Rightarrow> Inr (q\<lparr>ReqHeaders := ReqHeaders q @ [(''Authorization'', ''Bearer '' @ token)]\<rparr>)))"

definition responseError :: "string \<Rightarrow> client_response \<Rightarrow> goerr" where
  "responseError operation r = ErrNew (operation @ '': gateway returned '' @ StatusText r @ '': ''
     @ trim_space (take 4096 (all_bytes (Content r))))"

definition expectStatus :: "'h http \<Rightarrow> client_request \<Rightarrow> nat \<Rightarrow> string \<Rightarrow> 'h \<Rightarrow> goerr option \<times> 'h" where
  "expectStatus http_do q expected operation h = (case http_do q h of
     (Inl e, h) \<Rightarrow> (Some e, h)
   | (Inr r, h) \<Rightarrow> (if StatusCode r \<noteq> expected then Some (responseError operation r) else None, h))"

subsection \<open>Operations of the agent\<close>

definition NextCommand :: "crypto \<Rightarrow> 'h http \<Rightarrow> Client \<Rightarrow> gtime \<Rightarrow> 'h \<Rightarrow> CommandResponse result \<times> 'h" where
  "NextCommand cr http_do c t h =
     (case authorizeAgent cr c t \<lparr>ReqMethod = ''POST'', ReqURL = runnerURL c ''/commands/next'', ReqHeaders = [],
         ReqContent = Reader [] None\<rparr> of
        Inl e \<Rightarrow> (Inl e, h)
      | Inr q \<Rightarrow> (case http_do q h of (Inl e, h) \<Rightarrow> (Inl e, h)
        | (Inr r, h) \<Rightarrow>
          (if StatusCode r = 204 then Inl ErrNoCommand
           else if StatusCode r \<noteq> 200 then Inl (responseError ''fetch runner command'' r)
           else (case decode_CommandResponse (16 * 2 ^ 20) (all_bytes (Content r)) of
               None \<Rightarrow> Inl (ErrNew ''decode runner command'')
             | Some command \<Rightarrow> if Command command = [] \<or> Receipt command = []
                 then Inl (ErrNew ''runner command response is incomplete'') else Inr command), h)))"

definition commandAction :: "crypto \<Rightarrow> 'h http \<Rightarrow> Client \<Rightarrow> gtime \<Rightarrow> string \<Rightarrow> string \<Rightarrow> bytes \<Rightarrow> 'h \<Rightarrow> goerr option \<times> 'h" where
  "commandAction cr http_do c t commandID action contents h =
     (case authorizeAgent cr c t \<lparr>ReqMethod = ''POST'',
         ReqURL = runnerURL c (''/commands/'' @ path_escape commandID @ ''/'' @ action),
         ReqHeaders = [(''Content-Type'', ''application/json'')], ReqContent = Reader [contents] None\<rparr> of
        Inl e \<Rightarrow> (Some e, h)
      | Inr q \<Rightarrow> expectStatus http_do q 204 ''persist runner command action'' h)"

definition ClientAcknowledge :: "crypto \<Rightarrow> 'h http \<Rightarrow> Client \<Rightarrow> gtime \<Rightarrow> string \<Rightarrow> string \<Rightarrow> 'h \<Rightarrow> goerr option \<times> 'h" where
  "ClientAcknowledge cr http_do c t commandID receipt =
     commandAction cr http_do c t commandID ''ack'' (marshal_ReceiptRequest \<lparr>AckReceipt = receipt\<rparr>)"

text \<open>\<open>d.Round(time.Second)\<close> rounds half away from zero and saturates; the division truncates.\<close>

definition round_second :: "duration \<Rightarrow> duration" where
  "round_second d = (let r = \<bar>d\<bar> mod second; a = (if 2 * r < second then \<bar>d\<bar> - r else \<bar>d\<bar> + second - r);
       x = (if d < 0 then - a else a) in
     if fits_int64 x then x else if d < 0 then - (2 ^ 63) else 2 ^ 63 - 1)"

definition delay_seconds :: "duration \<Rightarrow> int" where
  "delay_seconds d = (let x = round_second d in sgn x * (\<bar>x\<bar> div second))"

definition ClientRetry :: "crypto \<Rightarrow> 'h http \<Rightarrow> Client \<Rightarrow> gtime \<Rightarrow> string \<Rightarrow> string \<Rightarrow> duration \<Rightarrow> 'h \<Rightarrow> goerr option \<times> 'h" where
  "ClientRetry cr http_do c t commandID receipt delay =
     commandAction cr http_do c t commandID ''retry''
       (marshal_RetryRequest \<lparr>RetryReceipt = receipt, DelaySeconds = delay_seconds delay\<rparr>)"

definition ClientReject :: "crypto \<Rightarrow> 'h http \<Rightarrow> Client \<Rightarrow> gtime \<Rightarrow> string \<Rightarrow> string \<Rightarrow> string \<Rightarrow> 'h \<Rightarrow> goerr option \<times> 'h" where
  "ClientReject cr http_do c t commandID receipt reason =
     commandAction cr http_do c t commandID ''reject'' (marshal_RejectRequest \<lparr>RejectedReceipt = receipt, Reason = reason\<rparr>)"

definition PublishEvent :: "crypto \<Rightarrow> hmessaging \<Rightarrow> 'h http \<Rightarrow> Client \<Rightarrow> gtime \<Rightarrow> EventEnvelope \<Rightarrow> 'h \<Rightarrow> goerr option \<times> 'h" where
  "PublishEvent cr hm http_do c t event h = (case marshal_event hm event of Inl e \<Rightarrow> (Some e, h)
   | Inr contents \<Rightarrow>
     (case authorizeAgent cr c t \<lparr>ReqMethod = ''POST'', ReqURL = runnerURL c ''/events'',
         ReqHeaders = [(''Content-Type'', ''application/json'')], ReqContent = Reader [contents] None\<rparr> of
        Inl e \<Rightarrow> (Some e, h)
      | Inr q \<Rightarrow> expectStatus http_do q 202 ''persist runner event'' h))"

subsection \<open>Operations of a job\<close>

definition ClientGetBundle :: "'h http \<Rightarrow> Client \<Rightarrow> string \<Rightarrow> string \<Rightarrow> 'h \<Rightarrow> bytes result \<times> 'h" where
  "ClientGetBundle http_do c deploymentID token h =
     (case http_do \<lparr>ReqMethod = ''GET'', ReqURL = runnerURL c (''/deployments/'' @ path_escape deploymentID @ ''/bundle''),
         ReqHeaders = [(DeploymentTokenHeader, token)], ReqContent = Reader [] None\<rparr> h of
        (Inl e, h) \<Rightarrow> (Inl e, h)
      | (Inr r, h) \<Rightarrow>
        (if StatusCode r \<noteq> 200 then Inl (responseError ''fetch deployment bundle'' r)
         else (case read_all_limit (nat (maxBundleBytes + 1)) (Content r) of Inl e \<Rightarrow> Inl e
           | Inr contents \<Rightarrow> if int (length contents) > maxBundleBytes
               then Inl (ErrNew ''deployment bundle exceeds the client limit'') else Inr contents), h))"

definition ClientPostResults :: "'h http \<Rightarrow> Client \<Rightarrow> string \<Rightarrow> string \<Rightarrow> bytes result \<Rightarrow> 'h \<Rightarrow> goerr option \<times> 'h" where
  "ClientPostResults http_do c deploymentID token results h = (case results of Inl e \<Rightarrow> (Some e, h)
   | Inr contents \<Rightarrow> expectStatus http_do
       \<lparr>ReqMethod = ''POST'', ReqURL = runnerURL c (''/deployments/'' @ path_escape deploymentID @ ''/results''),
        ReqHeaders = [(''Content-Type'', ''application/json''), (DeploymentTokenHeader, token)],
        ReqContent = Reader [contents] None\<rparr> 202 ''persist deployment result'' h)"

definition ClientPutLogs :: "'h http \<Rightarrow> Client \<Rightarrow> string \<Rightarrow> string \<Rightarrow> string \<Rightarrow> reader \<Rightarrow> 'h \<Rightarrow> goerr option \<times> 'h" where
  "ClientPutLogs http_do c environmentID deploymentID token content h = expectStatus http_do
     \<lparr>ReqMethod = ''PUT'', ReqURL = runnerURL c (''/environments/'' @ path_escape environmentID @ ''/deployments/''
        @ path_escape deploymentID @ ''/logs''),
      ReqHeaders = [(''Content-Type'', ''application/octet-stream''), (DeploymentTokenHeader, token)],
      ReqContent = content\<rparr> 202 ''persist encrypted deployment logs'' h"

subsection \<open>Facts\<close>

text \<open>A client is only made for an absolute URL, never half-configured for mutual TLS, and always
  with a time limit.\<close>

lemma NewClient_Inr:
  assumes "NewClient parse fs pool config = Inr c"
  shows "0 < clientTimeout c" "(CfgClientCertFile config = []) = (CfgClientKeyFile config = [])"
    "organizationID c = CfgOrganizationID config" "runnerID c = CfgRunnerID config"
  using assms by (auto simp: NewClient_def gatewayTLSConfig_def split: sum.splits if_splits)

lemma delay_seconds_whole: "0 \<le> k \<Longrightarrow> k * second < 2 ^ 63 \<Longrightarrow> delay_seconds (k * second) = k"
  by (simp add: delay_seconds_def round_second_def Let_def fits_int64_def second_def sgn_if)

lemma expectStatus_None:
  assumes "expectStatus http_do q n op h = (None, h')"
  shows "\<exists>r. http_do q h = (Inr r, h') \<and> StatusCode r = n"
  using assms by (auto simp: expectStatus_def split: sum.splits prod.splits if_splits)

end
