(* ===== verification/EndToEnd.thy ===== *)
theory EndToEnd
  imports Server Client
begin

section \<open>Client and gateway together\<close>

text \<open>
  The client's requests, carried to the gateway's handler: the HTTP connection strips the origin
  of the URL, hands method, path, headers and body to the handler, and brings its answer back.
\<close>

definition header_of :: "(string \<times> string) list \<Rightarrow> string \<Rightarrow> string" where
  "header_of hs k = (case map_of hs k of Some v \<Rightarrow> v | None \<Rightarrow> [])"

definition server_request :: "string \<Rightarrow> client_request \<Rightarrow> http_request" where
  "server_request origin q = \<lparr>Method = ReqMethod q, UrlPath = drop (length origin) (ReqURL q), PathValues = [],
     AuthorizationHeader = header_of (ReqHeaders q) ''Authorization'',
     TokenHeader = header_of (ReqHeaders q) DeploymentTokenHeader, Body = ReqContent q\<rparr>"

definition over_http :: "string \<Rightarrow> gwlib \<Rightarrow> ('b \<Rightarrow> bytes result) \<Rightarrow> 'b Server \<Rightarrow> nat \<Rightarrow> nat \<Rightarrow> 'b http" where
  "over_http origin lib rnd s fuel chunk q b = (case Handler lib rnd s fuel chunk (server_request origin q) b of
     None \<Rightarrow> (Inl ErrTimeout, b)
   | Some (resp, b) \<Rightarrow> (Inr \<lparr>StatusCode = Status resp, StatusText = nat_str (Status resp),
       Content = Reader [body_bytes (RespBody resp)] None\<rparr>, b))"

subsection \<open>Paths\<close>

text \<open>Identifiers that can be a segment of a path: not empty and neither of the two dot segments,
  which the multiplexer would clean away.\<close>

definition segment_ok :: "string \<Rightarrow> bool" where
  "segment_ok x \<longleftrightarrow> x \<noteq> [] \<and> x \<noteq> ''.'' \<and> x \<noteq> ''..''"

definition base_ok :: "string \<Rightarrow> bool" where
  "base_ok base \<longleftrightarrow> (base = [] \<or> hd base = CHR ''/'') \<and>
     (\<forall>x\<in>set (path_segs base). segment_ok x \<and> path_unescape x = Some x)"

lemma path_escape_segment:
  assumes "segment_ok x"
  shows "path_escape x \<noteq> []" "path_escape x \<noteq> ''.''" "path_escape x \<noteq> ''..''"
proof -
  have "path_unescape ''.'' = Some ''.''" "path_unescape ''..'' = Some ''..''" "path_unescape [] = Some []" by code_simp+
  then show "path_escape x \<noteq> []" "path_escape x \<noteq> ''.''" "path_escape x \<noteq> ''..''"
    using assms path_unescape_escape [of x] unfolding segment_ok_def by (metis option.inject)+
qed

lemma path_segs_append: "path_segs (base @ CHR ''/'' # rest) = path_segs base @ split_char CHR ''/'' rest"
proof -
  have "split_char c (a @ c # b) = split_char c a @ split_char c b" for c a b
    by (induction c a rule: split_char.induct) (auto split: list.splits)
  then show ?thesis by (simp add: path_segs_def)
qed

lemma match_base:
  assumes "\<forall>x\<in>set xs. path_unescape x = Some x"
  shows "match_segs (map Lit xs @ ps) (xs @ ys) = match_segs ps ys"
  using assms by (induction xs) auto

text \<open>The segments of a runner's path, and the values its patterns bind.\<close>

definition runner_path :: "string \<Rightarrow> string \<Rightarrow> string" where
  "runner_path g r = ''/v1/orgs/'' @ path_escape g @ ''/runners/'' @ path_escape r"

lemma runner_path_segs:
  "path_segs (base @ runner_path g r @ CHR ''/'' # rest) =
     path_segs base @ [''v1'', ''orgs'', path_escape g, ''runners'', path_escape r] @ split_char CHR ''/'' rest"
proof -
  have "base @ runner_path g r @ CHR ''/'' # rest = base @ CHR ''/'' # (''v1/orgs/'' @ path_escape g @ ''/runners/'' @
      path_escape r @ CHR ''/'' # rest)"
    by (simp add: runner_path_def)
  then show ?thesis
    by (simp only: path_segs_append) (simp add: split_char_append path_escape_no_slash)
qed

lemma match_runner_segs:
  "match_segs (runner_segs @ ps) ([''v1'', ''orgs'', path_escape g, ''runners'', path_escape r] @ ys) =
     map_option (\<lambda>vs. (''organizationID'', g) # (''runnerID'', r) # vs) (match_segs ps ys)"
proof -
  have "path_unescape ''v1'' = Some ''v1''" "path_unescape ''orgs'' = Some ''orgs''" "path_unescape ''runners'' = Some ''runners''"
    by code_simp+
  then show ?thesis by (simp add: runner_segs_def split: option.splits)
qed

lemma runner_path_clean:
  assumes "base_ok base" and "segment_ok g" and "segment_ok r" and "\<forall>x\<in>set (split_char CHR ''/'' rest). segment_ok x"
  shows "clean_path (base @ runner_path g r @ CHR ''/'' # rest)"
proof -
  have "segment_ok (path_escape x)" if "segment_ok x" for x
    using path_escape_segment [OF that] by (simp add: segment_ok_def)
  then have segs: "\<forall>x\<in>set (path_segs (base @ runner_path g r @ CHR ''/'' # rest)). segment_ok x"
    using assms unfolding runner_path_segs base_ok_def by (auto simp: segment_ok_def)
  moreover have "base @ runner_path g r @ CHR ''/'' # rest \<noteq> []" "hd (base @ runner_path g r @ CHR ''/'' # rest) = CHR ''/''"
    using assms(1) by (cases base; simp add: base_ok_def runner_path_def)+
  ultimately show ?thesis unfolding clean_path_def by (auto simp: segment_ok_def dest: in_set_butlastD)
qed

text \<open>The endpoint that an action of the client reaches.\<close>

definition action_endpoint :: "string \<Rightarrow> endpoint option" where
  "action_endpoint action = (if action = ''ack'' then Some AckC else if action = ''retry'' then Some RetryC
     else if action = ''reject'' then Some RejectC else None)"

lemma action_route:
  assumes "base_ok base" and "action_endpoint action = Some e" and "Method q = ''POST''"
    and "UrlPath q = base @ runner_path g r @ ''/commands/'' @ path_escape c @ CHR ''/'' # action"
  shows "find_route base q = Some ([(''organizationID'', g), (''runnerID'', r), (''commandID'', c)], e)"
proof -
  have "CHR ''/'' \<notin> set action" using assms(2) by (auto simp: action_endpoint_def split: if_splits)
  then have "split_char CHR ''/'' (''commands/'' @ path_escape c @ CHR ''/'' # action) = [''commands'', path_escape c, action]"
    by (simp add: split_char_append path_escape_no_slash)
  then have segs: "path_segs (UrlPath q) = path_segs base @ [''v1'', ''orgs'', path_escape g, ''runners'', path_escape r]
      @ [''commands'', path_escape c, action]"
    using runner_path_segs [of base g r "''commands/'' @ path_escape c @ CHR ''/'' # action"] assms(4) by simp
  have u: "path_unescape ''commands'' = Some ''commands''" "path_unescape ''ack'' = Some ''ack''"
      "path_unescape ''retry'' = Some ''retry''" "path_unescape ''reject'' = Some ''reject''" "path_unescape ''v1'' = Some ''v1''"
    by code_simp+
  have base: "match_segs (base_segs base @ ps) (path_segs (UrlPath q)) =
      match_segs ps ([''v1'', ''orgs'', path_escape g, ''runners'', path_escape r] @ [''commands'', path_escape c, action])" for ps
    unfolding segs base_segs_def by (rule match_base) (use assms(1) in \<open>auto simp: base_ok_def\<close>)
  have action: "action \<in> {''ack'', ''retry'', ''reject''}" using assms(2) by (auto simp: action_endpoint_def split: if_splits)
  show ?thesis
    unfolding find_route_def base routes_def filter.simps prod.case match_runner_segs method_ok_def assms(3)
    using action assms(2) by (elim insertE emptyE) (simp_all add: u action_endpoint_def match_runner_segs [unfolded append_Cons append_Nil])
qed

subsection \<open>A client and its gateway\<close>

text \<open>
  The client talks to this gateway: its URL is the origin followed by the gateway's base path, its
  private key belongs to the public key that the gateway resolves for its runner, its
  identifiers are ASCII path segments, and its clock is within the tolerance of the gateway's.
  The state after resolving the key is \<open>b1\<close>.
\<close>

definition paired :: "string \<Rightarrow> gwlib \<Rightarrow> 'b Server \<Rightarrow> Client \<Rightarrow> gtime \<Rightarrow> 'b \<Rightarrow> 'b \<Rightarrow> bool" where
  "paired origin lib s c t b b1 \<longleftrightarrow>
     clientURL c = origin @ basePath s \<and> base_ok (basePath s)
     \<and> segment_ok (organizationID c) \<and> segment_ok (runnerID c) \<and> ascii (organizationID c) \<and> ascii (runnerID c)
     \<and> privateKey c \<noteq> [] \<and> ed25519_correct (cr lib)
     \<and> (\<exists>k pub. parsePrivateKey (cr lib) (privateKey c) = Inr k \<and> parsePublicKey (cr lib) pub = Inr (ed_public (cr lib) k)
          \<and> publicKeys s (organizationID c) (runnerID c) b = (Inr pub, b1))
     \<and> (\<exists>subject. RunnerCommandSubject (hm lib) (organizationID c) (runnerID c) = Inr subject)
     \<and> fits_int64 (unix_of t) \<and> fits_int64 (unix_of t + 300)
     \<and> truncate_second t \<le> now s b1 + clockSkew \<and> now s b1 - clockSkew < truncate_second t + agentTokenLifetime"

lemma paired_authorized:
  assumes "paired origin lib s c t b b1"
  shows "\<exists>tok. authorizeAgent (cr lib) c t q = Inr (q\<lparr>ReqHeaders := ReqHeaders q @ [(''Authorization'', ''Bearer '' @ tok)]\<rparr>)
    \<and> (\<forall>q'. AuthorizationHeader q' = ''Bearer '' @ tok \<longrightarrow> PathValue q' ''organizationID'' = organizationID c
        \<longrightarrow> PathValue q' ''runnerID'' = runnerID c
        \<longrightarrow> authenticateAgent lib s q' b = (Inr (organizationID c, runnerID c), b1))"
proof -
  let ?g = "organizationID c" and ?r = "runnerID c"
  obtain k pub where k: "parsePrivateKey (cr lib) (privateKey c) = Inr k"
      "parsePublicKey (cr lib) pub = Inr (ed_public (cr lib) k)" "publicKeys s ?g ?r b = (Inr pub, b1)"
    using assms unfolding paired_def by blast
  obtain subject where subject: "RunnerCommandSubject (hm lib) ?g ?r = Inr subject" using assms unfolding paired_def by blast
  have c: "ed25519_correct (cr lib)" "privateKey c \<noteq> []" "?g \<noteq> []" "?r \<noteq> []" "ascii ?g" "ascii ?r"
      "fits_int64 (unix_of t)" "fits_int64 (unix_of t + 300)"
      "truncate_second t \<le> now s b1 + clockSkew" "now s b1 - clockSkew < truncate_second t + agentTokenLifetime"
    using assms unfolding paired_def segment_ok_def by blast+
  obtain tok where tok: "SignAgentToken (cr lib) (privateKey c) ?g ?r t = Inr tok"
    using SignAgentToken_verifies [OF c(1) k(1,2) c(3-10)] by blast
  have "authenticateAgent lib s q' b = (Inr (?g, ?r), b1)"
    if "AuthorizationHeader q' = ''Bearer '' @ tok" "PathValue q' ''organizationID'' = ?g" "PathValue q' ''runnerID'' = ?r" for q'
    by (rule authenticate_signed [OF c(1) k(1,2) c(3-10) tok that subject k(3)])
  moreover have "authorizeAgent (cr lib) c t q = Inr (q\<lparr>ReqHeaders := ReqHeaders q @ [(''Authorization'', ''Bearer '' @ tok)]\<rparr>)"
    using tok c(2) by (simp add: authorizeAgent_def)
  ultimately show ?thesis by blast
qed

text \<open>A request of the agent below the runner's path arrives at the endpoint of its route, authenticated.\<close>

lemma agent_request_arrives:
  assumes "paired origin lib s c t b b1" and "\<forall>x\<in>set (split_char CHR ''/'' rest). segment_ok x"
    and "ReqMethod q0 = ''POST''" and "ReqURL q0 = runnerURL c (CHR ''/'' # rest)" and "map_of (ReqHeaders q0) ''Authorization'' = None"
    and "\<And>q. Method q = ''POST'' \<Longrightarrow> UrlPath q = basePath s @ runner_path (organizationID c) (runnerID c) @ CHR ''/'' # rest
      \<Longrightarrow> find_route (basePath s) q = Some ((''organizationID'', organizationID c) # (''runnerID'', runnerID c) # vs, e)"
  obtains q1 q where "authorizeAgent (cr lib) c t q0 = Inr q1"
    and "clean_path (UrlPath (server_request origin q1))"
    and "find_route (basePath s) (server_request origin q1) = Some (PathValues q, e)"
    and "q = (server_request origin q1)\<lparr>PathValues := (''organizationID'', organizationID c) # (''runnerID'', runnerID c) # vs\<rparr>"
    and "authenticateAgent lib s q b = (Inr (organizationID c, runnerID c), b1)" and "Body q = ReqContent q0"
proof -
  let ?g = "organizationID c" and ?r = "runnerID c"
  let ?vs = "(''organizationID'', ?g) # (''runnerID'', ?r) # vs"
  obtain tok where tok: "authorizeAgent (cr lib) c t q0 = Inr (q0\<lparr>ReqHeaders := ReqHeaders q0 @ [(''Authorization'', ''Bearer '' @ tok)]\<rparr>)"
      and auth: "\<And>q'. AuthorizationHeader q' = ''Bearer '' @ tok \<Longrightarrow> PathValue q' ''organizationID'' = ?g
        \<Longrightarrow> PathValue q' ''runnerID'' = ?r \<Longrightarrow> authenticateAgent lib s q' b = (Inr (?g, ?r), b1)"
    using paired_authorized [OF assms(1), of q0] by blast
  define q1 where "q1 = q0\<lparr>ReqHeaders := ReqHeaders q0 @ [(''Authorization'', ''Bearer '' @ tok)]\<rparr>"
  define q where "q = (server_request origin q1)\<lparr>PathValues := ?vs\<rparr>"
  have p: "clientURL c = origin @ basePath s" "base_ok (basePath s)" "segment_ok ?g" "segment_ok ?r"
    using assms(1) unfolding paired_def by blast+
  have path: "UrlPath (server_request origin q1) = basePath s @ runner_path ?g ?r @ CHR ''/'' # rest"
    using p(1) assms(4) by (simp add: server_request_def runnerURL_def runner_path_def q1_def)
  have route: "find_route (basePath s) (server_request origin q1) = Some (?vs, e)"
    by (rule assms(6) [OF _ path]) (simp add: server_request_def q1_def assms(3))
  have clean: "clean_path (UrlPath (server_request origin q1))"
    unfolding path by (rule runner_path_clean [OF p(2-4) assms(2)])
  have "AuthorizationHeader q = ''Bearer '' @ tok"
    using assms(5) by (simp add: q_def q1_def server_request_def header_of_def map_add_def)
  then have "authenticateAgent lib s q b = (Inr (?g, ?r), b1)" by (rule auth) (simp_all add: q_def PathValue_def)
  then show ?thesis using that [of q1 q] tok clean route by (simp add: q_def q1_def server_request_def)
qed

text \<open>An action of the client arrives, authenticated, at the handler for it, with the path values the
  client meant.\<close>

lemma action_arrives:
  assumes "paired origin lib s c t b b1" and "segment_ok cmd" and "action_endpoint action = Some e"
  shows "\<exists>q. (\<forall>fuel chunk rnd. commandAction (cr lib) (over_http origin lib rnd s fuel chunk) c t cmd action contents b =
      (let (resp, b2) = (if e = AckC then acknowledgeCommand lib s q b else if e = RetryC then retryCommand lib s q b
          else rejectCommand lib s q b);
         r = \<lparr>StatusCode = Status resp, StatusText = nat_str (Status resp), Content = Reader [body_bytes (RespBody resp)] None\<rparr> in
       (if Status resp = 204 then None else Some (responseError ''persist runner command action'' r), b2)))
    \<and> authenticateAgent lib s q b = (Inr (organizationID c, runnerID c), b1)
    \<and> all_bytes (Body q) = contents \<and> PathValue q ''commandID'' = cmd"
proof -
  let ?g = "organizationID c" and ?r = "runnerID c"
  let ?rest = "''commands/'' @ path_escape cmd @ CHR ''/'' # action"
  let ?q0 = "\<lparr>ReqMethod = ''POST'', ReqURL = runnerURL c (''/commands/'' @ path_escape cmd @ ''/'' @ action),
    ReqHeaders = [(''Content-Type'', ''application/json'')], ReqContent = Reader [contents] None\<rparr>"
  let ?vs = "[(''organizationID'', ?g), (''runnerID'', ?r), (''commandID'', cmd)]"
  have p: "base_ok (basePath s)" using assms(1) unfolding paired_def by blast
  have "CHR ''/'' \<notin> set action" "segment_ok action" and e: "e = AckC \<or> e = RetryC \<or> e = RejectC"
    using assms(3) by (auto simp: action_endpoint_def segment_ok_def split: if_splits)
  then have segs: "\<forall>x\<in>set (split_char CHR ''/'' ?rest). segment_ok x"
    using path_escape_segment [OF assms(2)] by (simp add: split_char_append path_escape_no_slash) (simp add: segment_ok_def)
  have route: "find_route (basePath s) q = Some (?vs, e)"
    if "Method q = ''POST''" "UrlPath q = basePath s @ runner_path ?g ?r @ CHR ''/'' # ?rest" for q
    using that by (intro action_route [OF p assms(3)]) simp_all
  obtain q1 q where q: "authorizeAgent (cr lib) c t ?q0 = Inr q1" "clean_path (UrlPath (server_request origin q1))"
      "find_route (basePath s) (server_request origin q1) = Some (PathValues q, e)"
      "q = (server_request origin q1)\<lparr>PathValues := ?vs\<rparr>"
      "authenticateAgent lib s q b = (Inr (?g, ?r), b1)" "Body q = ReqContent ?q0"
    by (rule agent_request_arrives [OF assms(1) segs _ _ _ route, of ?q0]) simp_all
  then have "Handler lib rnd s fuel chunk (server_request origin q1) b =
      Some (if e = AckC then acknowledgeCommand lib s q b else if e = RetryC then retryCommand lib s q b
        else rejectCommand lib s q b)" for rnd fuel chunk
    using e by (auto simp: Handler_def Let_def)
  moreover have "PathValue q ''commandID'' = cmd" using q(4) by (simp add: PathValue_def)
  ultimately show ?thesis using q
    by (intro exI [of _ q]) (auto simp: commandAction_def expectStatus_def over_http_def Let_def split: prod.splits)
qed

subsection \<open>Properties\<close>

text \<open>The acknowledgement of a delivery arrives at the backend.\<close>

lemma acknowledge_arrives:
  assumes "paired origin lib s c t b b1" and "segment_ok (CCommandID env)"
    and "aead_correct (receipts s)" and "length nonce = NonceSize (receipts s)"
    and "receipt_wf (delivery_claims (organizationID c) (runnerID c) env d t0)"
    and "seal (receipts s) (Inr nonce) (delivery_claims (organizationID c) (runnerID c) env d t0) = Inr receipt"
    and "length (marshal_ReceiptRequest \<lparr>AckReceipt = receipt\<rparr>) \<le> 4096"
    and "now s b1 < truncate_second (t0 + deliveryLease)"
  shows "\<exists>err result b2. Acknowledge (backend s) None (BAckSubject d) b1 = (err, b2)
    \<and> ClientAcknowledge (cr lib) (over_http origin lib rnd s fuel chunk) c t (CCommandID env) receipt b = (result, b2)
    \<and> (result = None \<longleftrightarrow> err = None)"
proof -
  obtain err b2 where ack: "Acknowledge (backend s) None (BAckSubject d) b1 = (err, b2)" by fastforce
  have e: "action_endpoint ''ack'' = Some AckC" by (simp add: action_endpoint_def)
  from action_arrives [OF assms(1,2) e, of "marshal_ReceiptRequest \<lparr>AckReceipt = receipt\<rparr>"] obtain q
    where q: "authenticateAgent lib s q b = (Inr (organizationID c, runnerID c), b1)"
      "all_bytes (Body q) = marshal_ReceiptRequest \<lparr>AckReceipt = receipt\<rparr>" "PathValue q ''commandID'' = CCommandID env"
      and act: "ClientAcknowledge (cr lib) (over_http origin lib rnd s fuel chunk) c t (CCommandID env) receipt b =
        (let (resp, b2) = acknowledgeCommand lib s q b; r = \<lparr>StatusCode = Status resp, StatusText = nat_str (Status resp),
             Content = Reader [body_bytes (RespBody resp)] None\<rparr> in
         (if Status resp = 204 then None else Some (responseError ''persist runner command action'' r), b2))"
    unfolding ClientAcknowledge_def by auto
  have "acknowledgeCommand lib s q b = (case Acknowledge (backend s) None (BAckSubject d) b1 of
     (Some e, b2) \<Rightarrow> (writeError 503 ''persist command acknowledgement'', b2) | (None, b2) \<Rightarrow> (writeStatus 204, b2))"
    by (rule deliver_acknowledge [OF assms(3-6) q(1,3,2) assms(7,8)])
  with ack act show ?thesis by (cases err) (simp_all add: response_defs)
qed

text \<open>C13: acknowledging works from end to end: the receipt that came with a delivery, sent back by the
  runner's own client before the lease ends, reaches the backend with exactly the acknowledgement
  subject of that delivery, and the client succeeds if and only if the backend does.\<close>

theorem acknowledge_end_to_end:
  assumes "paired origin lib s c t b b1" and "segment_ok (CCommandID env)"
    and "aead_correct (receipts s)" and "length nonce = NonceSize (receipts s)"
    and "receipt_wf (delivery_claims (organizationID c) (runnerID c) env d t0)"
    and "seal (receipts s) (Inr nonce) (delivery_claims (organizationID c) (runnerID c) env d t0) = Inr receipt"
    and "length (marshal_ReceiptRequest \<lparr>AckReceipt = receipt\<rparr>) \<le> 4096"
    and "now s b1 < truncate_second (t0 + deliveryLease)"
  shows "\<exists>err result b2. Acknowledge (backend s) None (BAckSubject d) b1 = (err, b2)
    \<and> ClientAcknowledge (cr lib) (over_http origin lib rnd s fuel chunk) c t (CCommandID env) receipt b = (result, b2)
    \<and> (result = None \<longleftrightarrow> err = None)"
  using assms by (rule acknowledge_arrives)

text \<open>C15: a retry that the client asks for with a delay of more than 60 seconds is always refused by
  the gateway, and the backend is not called.\<close>

theorem long_retry_refused:
  assumes "paired origin lib s c t b b1" and "segment_ok cmd" and "ascii receipt" and "60 < delay_seconds delay"
    and "fits_int64 (delay_seconds delay)"
    and "length (marshal_RetryRequest \<lparr>RetryReceipt = receipt, DelaySeconds = delay_seconds delay\<rparr>) \<le> 4096"
  shows "\<exists>e. ClientRetry (cr lib) (over_http origin lib rnd s fuel chunk) c t cmd receipt delay b = (Some e, b1)"
proof -
  let ?body = "marshal_RetryRequest \<lparr>RetryReceipt = receipt, DelaySeconds = delay_seconds delay\<rparr>"
  have e: "action_endpoint ''retry'' = Some RetryC" by (simp add: action_endpoint_def)
  from action_arrives [OF assms(1,2) e, of ?body] obtain q
    where q: "authenticateAgent lib s q b = (Inr (organizationID c, runnerID c), b1)" "all_bytes (Body q) = ?body"
      and act: "ClientRetry (cr lib) (over_http origin lib rnd s fuel chunk) c t cmd receipt delay b =
        (let (resp, b2) = retryCommand lib s q b; r = \<lparr>StatusCode = Status resp, StatusText = nat_str (Status resp),
             Content = Reader [body_bytes (RespBody resp)] None\<rparr> in
         (if Status resp = 204 then None else Some (responseError ''persist runner command action'' r), b2))"
    unfolding ClientRetry_def by auto
  have "receipt_body True ?body = Inl (writeError 400 ''retry delay must be between 0 and 60 seconds'')"
    using decode_marshal_RetryRequest [of "\<lparr>RetryReceipt = receipt, DelaySeconds = delay_seconds delay\<rparr>" 4096] assms(3-6)
    by (simp add: receipt_body_def)
  then have "retryCommand lib s q b = (writeError 400 ''retry delay must be between 0 and 60 seconds'', b1)"
    using q by (simp add: retryCommand_def handleReceipt_def)
  with act show ?thesis by (simp add: response_defs)
qed

subsection \<open>The theorems at work\<close>

definition demo_client :: Client where
  "demo_client = \<lparr>clientURL = ''https://gw'', organizationID = ''o'', runnerID = ''r'', privateKey = ''skey'',
     clientTLS = \<lparr>RootCAs = None, Certificates = []\<rparr>, clientTimeout = 40 * second\<rparr>"

lemma demo_paired: "paired ''https://gw'' demo_lib demo_server demo_client (7 * second) b b"
  unfolding paired_def
  by (auto simp: demo_client_def demo_server_def demo_lib_def base_ok_def path_segs_def segment_ok_def
      test_messaging_def test_instance ed25519_correct_def)

theorem acknowledge_end_to_end_witness:
  "\<exists>result. ClientAcknowledge test_crypto (over_http ''https://gw'' demo_lib (\<lambda>_. Inr ''ab'') demo_server 3 4) demo_client
      (7 * second) ''cmd'' demo_receipt ([], []) = (result, ([], [(''ack'', ''+ACK'')])) \<and> result = None"
proof -
  have "\<exists>err result b2. Acknowledge (backend demo_server) None (BAckSubject good_delivery) ([], []) = (err, b2)
    \<and> ClientAcknowledge (cr demo_lib) (over_http ''https://gw'' demo_lib (\<lambda>_. Inr ''ab'') demo_server 3 4) demo_client
        (7 * second) (CCommandID demo_envelope) demo_receipt ([], []) = (result, b2)
    \<and> (result = None \<longleftrightarrow> err = None)"
  proof (rule acknowledge_end_to_end [OF demo_paired])
    show "seal (receipts demo_server) (Inr ''ab'') (delivery_claims (organizationID demo_client) (runnerID demo_client)
        demo_envelope good_delivery (67 * second)) = Inr demo_receipt"
      using demo_seal by (simp add: demo_server_def demo_claims_def demo_client_def)
    show "receipt_wf (delivery_claims (organizationID demo_client) (runnerID demo_client) demo_envelope good_delivery (67 * second))"
      using demo_claims_wf by (simp add: demo_claims_def demo_client_def)
    show "length (marshal_ReceiptRequest \<lparr>AckReceipt = demo_receipt\<rparr>) \<le> 4096" by (rule demo_receipt_length)
    show "aead_correct (receipts demo_server)" by (simp add: demo_server_def)
  qed (simp_all add: demo_server_def demo_envelope_def segment_ok_def test_aead_def deliveryLease_def go_defs)
  then show ?thesis
    by (auto simp: demo_server_def demo_backend_def good_delivery_def demo_envelope_def demo_lib_def)
qed

theorem long_retry_refused_witness:
  "\<exists>e. ClientRetry test_crypto (over_http ''https://gw'' demo_lib (\<lambda>_. Inr ''ab'') demo_server 3 4) demo_client
      (7 * second) ''cmd'' ''receipt'' (64 * second) ([], []) = (Some e, ([], []))"
proof -
  have d: "delay_seconds (64 * second) = 64" by (rule delay_seconds_whole) (simp_all add: second_def)
  have "\<exists>e. ClientRetry (cr demo_lib) (over_http ''https://gw'' demo_lib (\<lambda>_. Inr ''ab'') demo_server 3 4) demo_client
      (7 * second) ''cmd'' ''receipt'' (64 * second) ([], []) = (Some e, ([], []))"
  proof (rule long_retry_refused [OF demo_paired])
    show "length (marshal_RetryRequest \<lparr>RetryReceipt = ''receipt'', DelaySeconds = delay_seconds (64 * second)\<rparr>) \<le> 4096"
      unfolding d by code_simp
  qed (simp_all add: d segment_ok_def fits_int64_def)
  then show ?thesis by (simp add: demo_lib_def)
qed

end
