(* ===== verification/Settings.thy ===== *)
theory Settings
  imports Keys Messaging
begin

section \<open>Configuration (internal/config/config.go)\<close>

text \<open>
  The configuration of the four modes and what makes one acceptable. Filling a structure from
  environment variables is the work of a library, as are the checks of the structure's tags, of
  UUIDs and of age recipients: they are arguments.
\<close>

subsection \<open>Modes and back ends\<close>

text \<open>Modes and back ends are strings with named constants.\<close>

type_synonym RunnerMode = string

definition PlanOnly :: RunnerMode where
  "PlanOnly = ''plan_only''"

definition Destroy :: RunnerMode where
  "Destroy = ''destroy''"

definition Deploy :: RunnerMode where
  "Deploy = ''deploy''"

definition ObservationProtocolV1 :: string where
  "ObservationProtocolV1 = ''environment-observation/v1''"

type_synonym IaCBackendType = string

definition BackendOpenTofu :: IaCBackendType where
  "BackendOpenTofu = ''opentofu''"

definition BackendTerraform :: IaCBackendType where
  "BackendTerraform = ''terraform''"

lemmas mode_defs = PlanOnly_def Destroy_def Deploy_def BackendOpenTofu_def BackendTerraform_def ObservationProtocolV1_def

subsection \<open>The structures\<close>

record GatewayClientConfiguration =
  GwURL :: string
  GwCAFile :: string
  GwClientCertFile :: string
  GwClientKeyFile :: string
  GwOutboxDir :: string

record StandardModeConfiguration =
  SLogLevel :: string
  SOrgID :: string
  SRunnerID :: string
  SDeploymentID :: string
  SDeploymentEnvUUID :: string
  SMode :: RunnerMode
  SObservationProtocol :: string
  SEncryptingKey :: string
  SMetadataKey :: string
  SIaCCodeDir :: string
  SIaCBackend :: IaCBackendType
  SEncryptingLogsKey :: string
  SDeploymentToken :: string
  SGateway :: GatewayClientConfiguration

record RemoteModeConfiguration =
  RLogLevel :: string
  ROrgID :: string
  RRunnerId :: string
  RPrivateKey :: string
  RPodSchedulingDelay :: duration
  RGateway :: GatewayClientConfiguration

record OutboxModeConfiguration =
  OOrganizationID :: string
  ORunnerID :: string
  OGateway :: GatewayClientConfiguration

record NATSConfiguration =
  NcURL :: string
  NcToken :: string
  NcCredentialsFile :: string
  NcCAFile :: string
  NcClientCertFile :: string
  NcClientKeyFile :: string
  NcBootstrapStreams :: bool
  NcBundleBucket :: string
  NcBundleKey :: string

record GatewayModeConfiguration =
  GLogLevel :: string
  GPort :: int
  GBasePath :: string
  GReceiptKey :: string
  GRunnerTokenSalt :: string
  GControlPlaneURL :: string
  GStaticOrganizationID :: string
  GStaticRunnerID :: string
  GStaticPublicKeyFile :: string
  GPublicKeyCacheTTL :: duration
  GFetchWait :: duration
  GMaxLogBytes :: int
  GNATS :: NATSConfiguration

subsection \<open>Checks\<close>

definition IsObservation :: "StandardModeConfiguration \<Rightarrow> bool" where
  "IsObservation c \<longleftrightarrow> SMode c = PlanOnly \<and> SObservationProtocol c = ObservationProtocolV1"

definition ValidateObservationProtocol :: "StandardModeConfiguration \<Rightarrow> goerr option" where
  "ValidateObservationProtocol c =
     (if SObservationProtocol c = [] then None
      else if SObservationProtocol c \<noteq> ObservationProtocolV1 then Some (ErrNew ''unsupported observation protocol'')
      else if SMode c \<noteq> PlanOnly then Some (ErrNew ''observation protocol requires plan_only mode'')
      else None)"

definition validateMode :: "RunnerMode \<Rightarrow> goerr option" where
  "validateMode mode = (if mode \<in> {Deploy, Destroy, PlanOnly} then None
     else Some (ErrNew (''mode '' @ mode @ '' is not supported'')))"

definition validateIaCBackend :: "IaCBackendType \<Rightarrow> goerr option" where
  "validateIaCBackend be = (if be \<in> {BackendOpenTofu, BackendTerraform} then None
     else Some (ErrNew (''IAC_BACKEND '' @ go_quote be @ '' is not supported, must be '' @ go_quote BackendOpenTofu
       @ '' or '' @ go_quote BackendTerraform)))"

subsection \<open>Reading the environment\<close>

type_synonym environ = "string \<Rightarrow> string option"

definition getenv :: "environ \<Rightarrow> string \<Rightarrow> string" where
  "getenv env k = (case env k of None \<Rightarrow> [] | Some v \<Rightarrow> v)"

text \<open>\<open>os.Setenv\<close> and \<open>os.Unsetenv\<close> on a Unix system.\<close>

definition os_Setenv :: "string \<Rightarrow> string \<Rightarrow> environ \<Rightarrow> environ result" where
  "os_Setenv k v env = (if k = [] \<or> CHR ''='' \<in> set k \<or> CHR 0x00 \<in> set k \<or> CHR 0x00 \<in> set v
     then Inl (ErrNew ''setenv: invalid argument'') else Inr (env(k \<mapsto> v)))"

definition os_Unsetenv :: "string \<Rightarrow> environ \<Rightarrow> environ" where
  "os_Unsetenv k env = env(k := None)"

record config_lib =
  process_standard :: "environ \<Rightarrow> StandardModeConfiguration result"
  process_remote :: "environ \<Rightarrow> RemoteModeConfiguration result"
  process_gateway :: "environ \<Rightarrow> GatewayModeConfiguration result"
  process_outbox :: "environ \<Rightarrow> OutboxModeConfiguration result"
  validate_standard :: "StandardModeConfiguration \<Rightarrow> goerr option"
  validate_remote :: "RemoteModeConfiguration \<Rightarrow> goerr option"
  uuid_parse :: "string \<Rightarrow> goerr option"
  parse_recipient :: "string \<Rightarrow> goerr option"

definition code_dir_fallback :: "environ \<Rightarrow> environ result" where
  "code_dir_fallback env =
     (if getenv env ''IAC_CODE_DIR'' = [] \<and> getenv env ''TOFU_CODE_DIR'' \<noteq> []
      then (case os_Setenv ''IAC_CODE_DIR'' (getenv env ''TOFU_CODE_DIR'') env of
          Inl e \<Rightarrow> Inl (ErrWrap ''failed to apply TOFU_CODE_DIR fallback'' e) | Inr env \<Rightarrow> Inr env)
      else Inr env)"

definition first_error :: "goerr option list \<Rightarrow> goerr option" where
  "first_error es = (case filter (\<lambda>e. e \<noteq> None) es of [] \<Rightarrow> None | e # _ \<Rightarrow> e)"

definition wrap_error :: "string \<Rightarrow> goerr option \<Rightarrow> goerr option" where
  "wrap_error m e = map_option (ErrWrap m) e"

text \<open>The configuration of a deployment. The checks have no effects, so the first one that fails
  decides.\<close>

definition GetStandardModeConfiguration :: "config_lib \<Rightarrow> environ \<Rightarrow> StandardModeConfiguration result \<times> environ" where
  "GetStandardModeConfiguration lib env = (case code_dir_fallback env of Inl e \<Rightarrow> (Inl e, env)
   | Inr env \<Rightarrow> (case process_standard lib env of Inl e \<Rightarrow> (Inl e, env)
   | Inr conf \<Rightarrow> (case first_error [validate_standard lib conf,
         (if GwURL (SGateway conf) = [] then Some (ErrNew ''RUNNER_GATEWAY_URL is required'') else None),
         validateMode (SMode conf), ValidateObservationProtocol conf, validateIaCBackend (SIaCBackend conf),
         wrap_error ''DEPLOYMENT_ID should be a valid uuid'' (uuid_parse lib (SDeploymentID conf)),
         (if SEncryptingKey conf = [] then None
          else wrap_error ''ENCRYPTING_KEY is not a valid public recipient'' (parse_recipient lib (SEncryptingKey conf)))] of
       Some e \<Rightarrow> (Inl e, env) | None \<Rightarrow> (Inr conf, env))))"

definition GetRemoteModeConfiguration :: "config_lib \<Rightarrow> environ \<Rightarrow> string list \<Rightarrow> RemoteModeConfiguration result" where
  "GetRemoteModeConfiguration lib env overrides = (case process_remote lib env of Inl e \<Rightarrow> Inl e
   | Inr conf \<Rightarrow> (let conf = (case overrides of u # _ \<Rightarrow> if u \<noteq> [] then conf\<lparr>RGateway := (RGateway conf)\<lparr>GwURL := u\<rparr>\<rparr> else conf
         | [] \<Rightarrow> conf) in
       case validate_remote lib conf of Some e \<Rightarrow> Inl e
       | None \<Rightarrow> if GwURL (RGateway conf) = [] then Inl (ErrNew ''RUNNER_GATEWAY_URL is required'') else Inr conf))"

definition GetGatewayModeConfiguration :: "config_lib \<Rightarrow> environ \<Rightarrow> GatewayModeConfiguration result" where
  "GetGatewayModeConfiguration lib env = (case process_gateway lib env of Inl e \<Rightarrow> Inl e
   | Inr conf \<Rightarrow>
     (let usesControlPlane = (GControlPlaneURL conf \<noteq> []);
          usesStaticKey = (GStaticOrganizationID conf \<noteq> [] \<or> GStaticRunnerID conf \<noteq> [] \<or> GStaticPublicKeyFile conf \<noteq> []) in
      if NcURL (GNATS conf) = [] then Inl (ErrNew ''NATS_URL is required'')
      else if usesControlPlane = usesStaticKey
      then Inl (ErrNew ''configure exactly one gateway public key source: CONTROL_PLANE_URL or all static runner key settings'')
      else if usesStaticKey \<and> (GStaticOrganizationID conf = [] \<or> GStaticRunnerID conf = [] \<or> GStaticPublicKeyFile conf = [])
      then Inl (ErrNew ''static gateway authentication requires organization ID, runner ID, and public key file'')
      else if GPort conf < 1 \<or> GPort conf > 65535 then Inl (ErrNew ''PORT must be between 1 and 65535'')
      else if GMaxLogBytes conf < 1 then Inl (ErrNew ''RUNNER_GATEWAY_MAX_LOG_BYTES must be positive'')
      else Inr conf))"

definition GetOutboxModeConfiguration :: "config_lib \<Rightarrow> environ \<Rightarrow> OutboxModeConfiguration result" where
  "GetOutboxModeConfiguration lib env = (case process_outbox lib env of Inl e \<Rightarrow> Inl e
   | Inr conf \<Rightarrow> if GwURL (OGateway conf) = [] \<or> GwOutboxDir (OGateway conf) = []
       then Inl (ErrNew ''RUNNER_GATEWAY_URL and RUNNER_GATEWAY_OUTBOX_DIR are required'') else Inr conf)"

subsection \<open>What an accepted configuration guarantees\<close>

definition gateway_ok :: "GatewayModeConfiguration \<Rightarrow> bool" where
  "gateway_ok conf \<longleftrightarrow> NcURL (GNATS conf) \<noteq> [] \<and> 1 \<le> GPort conf \<and> GPort conf \<le> 65535 \<and> 1 \<le> GMaxLogBytes conf
     \<and> (if GControlPlaneURL conf = [] then GStaticOrganizationID conf \<noteq> [] \<and> GStaticRunnerID conf \<noteq> [] \<and> GStaticPublicKeyFile conf \<noteq> []
        else GStaticOrganizationID conf = [] \<and> GStaticRunnerID conf = [] \<and> GStaticPublicKeyFile conf = [])"

lemma gateway_accepted_iff:
  "GetGatewayModeConfiguration lib env = Inr conf \<longleftrightarrow> process_gateway lib env = Inr conf \<and> gateway_ok conf"
  by (auto simp: GetGatewayModeConfiguration_def gateway_ok_def Let_def split: sum.splits if_splits)

lemma first_error_None: "first_error es = None \<longleftrightarrow> (\<forall>e\<in>set es. e = None)"
  by (induction es) (auto simp: first_error_def)

lemma first_error_append: "first_error (es @ e # fs) = e" if "\<forall>x\<in>set es. x = None" "e \<noteq> None"
  using that by (induction es) (auto simp: first_error_def)

definition standard_ok :: "StandardModeConfiguration \<Rightarrow> bool" where
  "standard_ok c \<longleftrightarrow> GwURL (SGateway c) \<noteq> [] \<and> SMode c \<in> {Deploy, Destroy, PlanOnly}
     \<and> SIaCBackend c \<in> {BackendOpenTofu, BackendTerraform} \<and> (SObservationProtocol c \<noteq> [] \<longleftrightarrow> IsObservation c)"

lemma observation_valid_iff:
  "ValidateObservationProtocol c = None \<longleftrightarrow> (SObservationProtocol c \<noteq> [] \<longleftrightarrow> IsObservation c)"
  by (auto simp: ValidateObservationProtocol_def IsObservation_def mode_defs)

lemma standard_accepted:
  assumes "GetStandardModeConfiguration lib env = (Inr c, env')"
  shows "standard_ok c" "uuid_parse lib (SDeploymentID c) = None"
    "SEncryptingKey c \<noteq> [] \<Longrightarrow> parse_recipient lib (SEncryptingKey c) = None"
  using assms
  by (auto simp: GetStandardModeConfiguration_def first_error_None standard_ok_def observation_valid_iff validateMode_def
      validateIaCBackend_def wrap_error_def split: sum.splits option.splits if_splits)

end
