(* ===== verification/K8sJobs.thy ===== *)
theory K8sJobs
  imports Encoding Rfc3339 "HOL-Library.Multiset"
begin

section \<open>Kubernetes jobs (internal/kubernetesjob/client.go)\<close>

text \<open>
  The four operations on the cluster. The API objects carry the fields the program reads or
  writes; everything else of a container or volume is an opaque rest. The client set of the
  Kubernetes library is an argument.
\<close>

subsection \<open>API objects\<close>

record EnvVar =
  VName :: string
  VValue :: string
  VFrom :: "bytes option"

record VolumeMount =
  MName :: string
  MountPath :: string
  ReadOnly :: bool
  MRest :: bytes

record Container =
  CEnv :: "EnvVar list"
  CVolumeMounts :: "VolumeMount list"
  CRest :: bytes

datatype VolumeSource = PersistentVolumeClaim string | SecretSource string "(string \<times> string) list" | OtherSource bytes

record Volume =
  VolName :: string
  VolSource :: VolumeSource

record JobSpec =
  Containers :: "Container list"
  Volumes :: "Volume list"
  SpecRest :: bytes

record Job =
  JName :: string
  JobNamespace :: string
  JSpec :: JobSpec

record JobStatus =
  Succeeded :: int
  JFailed :: int
  Ready :: "int option"

record Pod =
  PName :: string
  Phase :: string

record Event =
  EvCreated :: gtime
  EvKind :: string
  EvReason :: string
  EvMessage :: string

record 'k clientset =
  jobs_create :: "string \<Rightarrow> Job \<Rightarrow> 'k \<Rightarrow> Job result \<times> 'k"
  jobs_get :: "string \<Rightarrow> string \<Rightarrow> 'k \<Rightarrow> JobStatus result \<times> 'k"
  events_list :: "string \<Rightarrow> string \<Rightarrow> 'k \<Rightarrow> Event list result \<times> 'k"
  pods_list :: "string \<Rightarrow> string \<Rightarrow> 'k \<Rightarrow> Pod list option result \<times> 'k"

subsection \<open>The interface and its implementation\<close>

record 'w K8sJobsClientInterface =
  CreateJob :: "string \<Rightarrow> Job \<Rightarrow> 'w \<Rightarrow> Job result \<times> 'w"
  CheckJobStatus :: "string \<Rightarrow> string \<Rightarrow> 'w \<Rightarrow> JobStatus result \<times> 'w"
  GetPodJob :: "string \<Rightarrow> string \<Rightarrow> 'w \<Rightarrow> Pod result \<times> 'w"
  GetObjectWarningEvents :: "string \<Rightarrow> string \<Rightarrow> 'w \<Rightarrow> string list result \<times> 'w"

definition k8s_CreateJob :: "'k clientset \<Rightarrow> string \<Rightarrow> Job \<Rightarrow> 'k \<Rightarrow> Job result \<times> 'k" where
  "k8s_CreateJob cs namespace job k = jobs_create cs namespace job k"

definition k8s_CheckJobStatus :: "'k clientset \<Rightarrow> string \<Rightarrow> string \<Rightarrow> 'k \<Rightarrow> JobStatus result \<times> 'k" where
  "k8s_CheckJobStatus cs namespace jobName k = (case jobs_get cs namespace jobName k of
     (Inl e, k) \<Rightarrow> (Inl (if k8s_reason_of e = Some NotFound then ErrJobNotFound else ErrWrap ''failed to retrieve job'' e), k)
   | (Inr st, k) \<Rightarrow> (Inr st, k))"

text \<open>The notation of \<open>time.Time\<close> in UTC, as \<open>%s\<close> prints it.\<close>

definition time_string :: "gtime \<Rightarrow> string" where
  "time_string t = (let secs = t div second; s = nat (secs mod 86400);
       (y, m, d) = civil (secs div 86400 + unix_epoch_day) in
     (if y < 0 then CHR ''-'' # fixed_digits 4 (nat (- y)) else if y < 10000 then fixed_digits 4 (nat y) else int_str y)
       @ CHR ''-'' # fixed_digits 2 m @ CHR ''-'' # fixed_digits 2 d
       @ CHR '' '' # fixed_digits 2 (s div 3600) @ CHR '':'' # fixed_digits 2 (s div 60 mod 60)
       @ CHR '':'' # fixed_digits 2 (s mod 60) @ format_fraction (nat (t mod second)) @ '' +0000 UTC'')"

definition warning_line :: "Event \<Rightarrow> string" where
  "warning_line e = time_string (EvCreated e) @ '' - '' @ EvReason e @ '' - '' @ EvMessage e"

text \<open>The latest events first. Events of the same second stay in the order of the list; the sort of
  the source leaves their order open.\<close>

definition k8s_GetObjectWarningEvents :: "'k clientset \<Rightarrow> string \<Rightarrow> string \<Rightarrow> 'k \<Rightarrow> string list result \<times> 'k" where
  "k8s_GetObjectWarningEvents cs namespace objName k =
     (case events_list cs namespace (''involvedObject.name='' @ objName) k of
        (Inl e, k) \<Rightarrow> (Inl (if k8s_reason_of e = Some Forbidden then ErrK8sActionForbidden
          else ErrWrap (''failed to retrieve events for object '' @ go_quote objName) e), k)
      | (Inr events, k) \<Rightarrow> (Inr (map warning_line (filter (\<lambda>e. EvKind e = ''Warning'')
          (sort_key (\<lambda>e. - unix_of (EvCreated e)) events))), k))"

definition k8s_GetPodJob :: "'k clientset \<Rightarrow> string \<Rightarrow> string \<Rightarrow> 'k \<Rightarrow> Pod result \<times> 'k" where
  "k8s_GetPodJob cs namespace jobName k = (case pods_list cs namespace (''job-name='' @ jobName) k of
     (Inl e, k) \<Rightarrow> (Inl (if k8s_reason_of e = Some NotFound then ErrJobNotFound
        else if k8s_reason_of e = Some Forbidden then ErrK8sActionForbidden
        else ErrWrap (''failed to list pods for job '' @ [CHR 0x27] @ jobName @ [CHR 0x27]) e), k)
   | (Inr (Some (p # _)), k) \<Rightarrow> (Inr p, k)
   | (Inr _, k) \<Rightarrow> (Inl ErrJobNotFound, k))"

definition NewK8sJobsClient :: "'k clientset \<Rightarrow> 'k K8sJobsClientInterface" where
  "NewK8sJobsClient cs = \<lparr>CreateJob = k8s_CreateJob cs, CheckJobStatus = k8s_CheckJobStatus cs,
     GetPodJob = k8s_GetPodJob cs, GetObjectWarningEvents = k8s_GetObjectWarningEvents cs\<rparr>"

subsection \<open>Facts\<close>

text \<open>C23: the warnings of an object are exactly the lines of its warning events, the latest first.\<close>

theorem warning_events_listed:
  assumes "events_list cs ns (''involvedObject.name='' @ obj) k = (Inr events, k')"
  shows "\<exists>ws. k8s_GetObjectWarningEvents cs ns obj k = (Inr (map warning_line ws), k')
    \<and> mset ws = filter_mset (\<lambda>e. EvKind e = ''Warning'') (mset events)
    \<and> sorted_wrt (\<lambda>a b. unix_of (EvCreated b) \<le> unix_of (EvCreated a)) ws"
proof -
  let ?s = "sort_key (\<lambda>e. - unix_of (EvCreated e)) events" and ?p = "\<lambda>e. EvKind e = ''Warning''"
  have "sorted_wrt (\<lambda>a b. unix_of (EvCreated b) \<le> unix_of (EvCreated a)) ?s"
    using sorted_sort_key [of "\<lambda>e. - unix_of (EvCreated e)" events] unfolding sorted_wrt_map by simp
  then have "sorted_wrt (\<lambda>a b. unix_of (EvCreated b) \<le> unix_of (EvCreated a)) (filter ?p ?s)" by (rule sorted_wrt_filter)
  moreover have "mset (filter ?p ?s) = filter_mset ?p (mset events)" by simp
  ultimately show ?thesis using assms by (auto simp: k8s_GetObjectWarningEvents_def)
qed

definition demo_events :: "Event list" where
  "demo_events = [\<lparr>EvCreated = 0, EvKind = ''Warning'', EvReason = ''a'', EvMessage = ''x''\<rparr>,
     \<lparr>EvCreated = 5 * second, EvKind = ''Normal'', EvReason = ''b'', EvMessage = ''y''\<rparr>,
     \<lparr>EvCreated = 9 * second, EvKind = ''Warning'', EvReason = ''c'', EvMessage = ''z''\<rparr>]"

definition demo_cluster :: "unit clientset" where
  "demo_cluster = \<lparr>jobs_create = (\<lambda>_ j k. (Inr j, k)), jobs_get = (\<lambda>_ _ k. (Inl (ErrK8s NotFound ''none''), k)),
     events_list = (\<lambda>_ _ k. (Inr demo_events, k)), pods_list = (\<lambda>_ _ k. (Inr None, k))\<rparr>"

theorem warning_events_listed_witness:
  "\<exists>ws. k8s_GetObjectWarningEvents demo_cluster ''n'' ''o'' () = (Inr (map warning_line ws), ())
     \<and> mset ws = filter_mset (\<lambda>e. EvKind e = ''Warning'') (mset demo_events)"
  using warning_events_listed [of demo_cluster "''n''" "''o''" "()" demo_events "()"] by (auto simp: demo_cluster_def)

end
