(* ===== verification/RemoteExecutor.thy ===== *)
theory RemoteExecutor
  imports Settings K8sJobs Client
begin

section \<open>The agent (internal/executor/remote_executor.go)\<close>

text \<open>
  The agent takes commands from the gateway and creates jobs in the cluster. Gateway and cluster
  are behind the two interfaces of the source; both act on one world. The wall clock, the runtime's
  monotonic clock, waiting for a duration and the decoding of a job specification are arguments. The monitor that the agent starts for a new
  job runs beside it: \<open>executeCommand\<close> returns the arguments of the monitor to start.
\<close>

record 'w remoteGateway =
  GwNextCommand :: "'w \<Rightarrow> CommandResponse result \<times> 'w"
  GwAcknowledge :: "string \<Rightarrow> string \<Rightarrow> 'w \<Rightarrow> goerr option \<times> 'w"
  GwRetry :: "string \<Rightarrow> string \<Rightarrow> duration \<Rightarrow> 'w \<Rightarrow> goerr option \<times> 'w"
  GwReject :: "string \<Rightarrow> string \<Rightarrow> string \<Rightarrow> 'w \<Rightarrow> goerr option \<times> 'w"
  GwPublishEvent :: "EventEnvelope \<Rightarrow> 'w \<Rightarrow> goerr option \<times> 'w"

record 'w remote_env =
  rhm :: hmessaging
  rnow :: "'w \<Rightarrow> gtime"
  sleep :: "duration \<Rightarrow> 'w \<Rightarrow> bool \<times> 'w"
  monotonic :: "'w \<Rightarrow> duration"
  done_err :: "'w \<Rightarrow> goerr option"
  renv :: environ
  unmarshal_job_spec :: "bytes \<Rightarrow> JobSpec result"

subsection \<open>Events\<close>

definition defaultCommandDeliveries :: int where
  "defaultCommandDeliveries = 10"

definition retryDelay :: "int \<Rightarrow> duration" where
  "retryDelay attempt = 2 ^ nat (if attempt > 6 then 6 else attempt) * second"

definition publishEventAs :: "'w remote_env \<Rightarrow> 'w remoteGateway \<Rightarrow> CommandEnvelope \<Rightarrow> string \<Rightarrow> string \<Rightarrow> bytes
    \<Rightarrow> 'w \<Rightarrow> goerr option \<times> 'w" where
  "publishEventAs env gw command eventType eventIDSuffix payload w = GwPublishEvent gw
     \<lparr>EProtocolVersion = ProtocolVersionV1 (rhm env), EEventID = CCommandID command @ '':'' @ eventIDSuffix,
      ECommandID = CCommandID command, EOrganizationID = COrganizationID command, ERunnerID = CRunnerID command,
      EDeploymentID = CDeploymentID command, EType = eventType, ECreatedAt = rnow env w, EPayload = payload\<rparr> w"

definition publishEvent :: "'w remote_env \<Rightarrow> 'w remoteGateway \<Rightarrow> CommandEnvelope \<Rightarrow> string \<Rightarrow> bytes
    \<Rightarrow> 'w \<Rightarrow> goerr option \<times> 'w" where
  "publishEvent env gw command eventType payload w = GwPublishEvent gw
     \<lparr>EProtocolVersion = ProtocolVersionV1 (rhm env), EEventID = CCommandID command @ '':'' @ eventType,
      ECommandID = CCommandID command, EOrganizationID = COrganizationID command, ERunnerID = CRunnerID command,
      EDeploymentID = CDeploymentID command, EType = eventType, ECreatedAt = rnow env w, EPayload = payload\<rparr> w"

text \<open>The payloads are maps, which are printed with sorted keys.\<close>

definition error_payload :: "CommandEnvelope \<Rightarrow> string \<Rightarrow> string \<Rightarrow> bool \<Rightarrow> bytes" where
  "error_payload command code message retryable = encode_struct [member ''code'' (JStr code),
     member ''job_id'' (JStr (CDeploymentID command)), member ''message'' (JStr message), member ''retryable'' (JBool retryable)]"

definition created_payload :: "CreateJobCommand \<Rightarrow> bytes" where
  "created_payload command = encode_struct [member ''job_id'' (JStr (JobID command)), member ''namespace'' (JStr (JNamespace command))]"

definition publishRunnerError :: "'w remote_env \<Rightarrow> 'w remoteGateway \<Rightarrow> CommandEnvelope \<Rightarrow> string \<Rightarrow> string \<Rightarrow> bool
    \<Rightarrow> 'w \<Rightarrow> goerr option \<times> 'w" where
  "publishRunnerError env gw command code message retryable =
     publishEventAs env gw command ''runner-error'' (if retryable then ''runner-error-retryable'' else ''runner-error-terminal'')
       (error_payload command code message retryable)"

definition rejectCommand :: "'w remoteGateway \<Rightarrow> string \<Rightarrow> string \<Rightarrow> goerr \<Rightarrow> 'w \<Rightarrow> goerr option \<times> 'w" where
  "rejectCommand gw commandID receipt cause w = (case GwReject gw commandID receipt (err_text cause) w of
     (Some e, w) \<Rightarrow> (Some (ErrWrap ''reject runner command'' e), w) | (None, w) \<Rightarrow> (Some cause, w))"

subsection \<open>Creating a job\<close>

definition isPermanentJobCreationError :: "goerr \<Rightarrow> bool" where
  "isPermanentJobCreationError e \<longleftrightarrow> k8s_reason_of e \<in> Some ` {BadRequest, Forbidden, Invalid, NotFound, Unauthorized}"

definition env_var :: "string \<Rightarrow> string \<Rightarrow> EnvVar" where
  "env_var n v = \<lparr>VName = n, VValue = v, VFrom = None\<rparr>"

text \<open>The first variable of the same name is replaced, otherwise the variable is appended.\<close>

fun set_env :: "EnvVar \<Rightarrow> EnvVar list \<Rightarrow> EnvVar list" where
  "set_env v [] = [v]"
| "set_env v (x # xs) = (if VName x = VName v then v # xs else x # set_env v xs)"

definition outbox_path :: string where
  "outbox_path = ''/var/lib/platform-orchestrator-runner/outbox''"

definition common_env :: "environ \<Rightarrow> RemoteModeConfiguration \<Rightarrow> EnvVar list" where
  "common_env env cfg = [env_var ''RUNNER_GATEWAY_URL'' (GwURL (RGateway cfg)), env_var ''ORG_ID'' (ROrgID cfg), env_var ''RUNNER_ID'' (RRunnerId cfg)]
     @ (if getenv env ''RUNNER_GATEWAY_JOB_OUTBOX_PVC'' \<noteq> [] then [env_var ''RUNNER_GATEWAY_OUTBOX_DIR'' outbox_path] else [])
     @ (if getenv env ''RUNNER_GATEWAY_JOB_CA_SECRET'' \<noteq> [] then [env_var ''RUNNER_GATEWAY_CA_FILE'' ''/etc/runner-gateway/ca.crt''] else [])"

definition gateway_volumes :: "environ \<Rightarrow> Volume list" where
  "gateway_volumes env =
     (let outboxPVC = getenv env ''RUNNER_GATEWAY_JOB_OUTBOX_PVC''; caSecret = getenv env ''RUNNER_GATEWAY_JOB_CA_SECRET'';
          caKey = getenv env ''RUNNER_GATEWAY_JOB_CA_KEY'' in
      (if outboxPVC \<noteq> [] then [\<lparr>VolName = ''runner-gateway-outbox'', VolSource = PersistentVolumeClaim outboxPVC\<rparr>] else [])
      @ (if caSecret \<noteq> [] then [\<lparr>VolName = ''runner-gateway-ca'', VolSource =
          SecretSource caSecret [(if caKey = [] then ''ca.crt'' else caKey, ''ca.crt'')]\<rparr>] else []))"

definition gateway_mounts :: "environ \<Rightarrow> VolumeMount list" where
  "gateway_mounts env =
     (if getenv env ''RUNNER_GATEWAY_JOB_OUTBOX_PVC'' \<noteq> []
      then [\<lparr>MName = ''runner-gateway-outbox'', MountPath = outbox_path, ReadOnly = False, MRest = []\<rparr>] else [])
     @ (if getenv env ''RUNNER_GATEWAY_JOB_CA_SECRET'' \<noteq> []
        then [\<lparr>MName = ''runner-gateway-ca'', MountPath = ''/etc/runner-gateway'', ReadOnly = True, MRest = []\<rparr>] else [])"

definition injectJobGatewayConfiguration :: "environ \<Rightarrow> RemoteModeConfiguration \<Rightarrow> JobSpec \<Rightarrow> JobSpec" where
  "injectJobGatewayConfiguration env cfg spec =
     (if GwURL (RGateway cfg) = [] then spec
      else spec\<lparr>Volumes := Volumes spec @ gateway_volumes env,
        Containers := map (\<lambda>c. c\<lparr>CVolumeMounts := CVolumeMounts c @ gateway_mounts env, CEnv := fold set_env (common_env env cfg) (CEnv c)\<rparr>)
          (Containers spec)\<rparr>)"

definition handleCreateJob :: "'w remote_env \<Rightarrow> CreateJobCommand \<Rightarrow> 'w K8sJobsClientInterface \<Rightarrow> RemoteModeConfiguration
    \<Rightarrow> 'w \<Rightarrow> goerr option \<times> 'w" where
  "handleCreateJob env command jobs cfg w =
     (case Configuration command of
        None \<Rightarrow> (Some (ErrNew ''create-job command requires job_id, namespace, and configuration''), w)
      | Some jobSpecJSON \<Rightarrow>
        if JobID command = [] \<or> JNamespace command = []
        then (Some (ErrNew ''create-job command requires job_id, namespace, and configuration''), w)
        else (case unmarshal_job_spec env jobSpecJSON of Inl e \<Rightarrow> (Some (ErrWrap ''failed to unmarshal job spec'' e), w)
          | Inr jobSpec \<Rightarrow>
            (case CreateJob jobs (JNamespace command) \<lparr>JName = JobID command, JobNamespace = JNamespace command,
                JSpec = injectJobGatewayConfiguration (renv env) cfg jobSpec\<rparr> w of
               (Inl e, w) \<Rightarrow> (Some (if k8s_reason_of e = Some AlreadyExists then ErrConflict else ErrWrap ''failed to create job'' e), w)
             | (Inr _, w) \<Rightarrow> (None, w))))"

subsection \<open>Executing a command\<close>

text \<open>What happens after a job could not be created, and after it was.\<close>

definition settle_failure :: "'w remote_env \<Rightarrow> 'w remoteGateway \<Rightarrow> CommandEnvelope \<Rightarrow> CommandResponse \<Rightarrow> goerr
    \<Rightarrow> 'w \<Rightarrow> goerr option \<times> 'w" where
  "settle_failure env gw envelope delivery e w =
     (if isPermanentJobCreationError e \<or> Attempt delivery \<ge> defaultCommandDeliveries
      then (case publishRunnerError env gw envelope ''REMOTE_RUNNER'' (err_text e) False w of (_, w) \<Rightarrow>
        rejectCommand gw (CCommandID envelope) (Receipt delivery) e w)
      else (case publishRunnerError env gw envelope ''REMOTE_RUNNER'' (err_text e) True w of (_, w) \<Rightarrow>
        (case GwRetry gw (CCommandID envelope) (Receipt delivery) (retryDelay (Attempt delivery)) w of (_, w) \<Rightarrow> (Some e, w))))"

definition announce_job :: "'w remote_env \<Rightarrow> 'w remoteGateway \<Rightarrow> CommandEnvelope \<Rightarrow> CommandResponse \<Rightarrow> CreateJobCommand
    \<Rightarrow> 'w \<Rightarrow> goerr option \<times> (CommandEnvelope \<times> CreateJobCommand) option \<times> 'w" where
  "announce_job env gw envelope delivery command w =
     (case publishEvent env gw envelope ''job-created'' (created_payload command) w of
        (Some e, w) \<Rightarrow> (case GwRetry gw (CCommandID envelope) (Receipt delivery) (retryDelay (Attempt delivery)) w of
          (_, w) \<Rightarrow> (Some e, None, w))
      | (None, w) \<Rightarrow> (case GwAcknowledge gw (CCommandID envelope) (Receipt delivery) w of
          (Some e, w) \<Rightarrow> (Some e, None, w) | (None, w) \<Rightarrow> (None, Some (envelope, command), w)))"

definition executeCommand :: "'w remote_env \<Rightarrow> RemoteModeConfiguration \<Rightarrow> 'w remoteGateway \<Rightarrow> 'w K8sJobsClientInterface
    \<Rightarrow> CommandResponse \<Rightarrow> 'w \<Rightarrow> goerr option \<times> (CommandEnvelope \<times> CreateJobCommand) option \<times> 'w" where
  "executeCommand env cfg gw jobs delivery w =
     (let reject = (\<lambda>cmd cause w. case rejectCommand gw cmd (Receipt delivery) cause w of (e, w) \<Rightarrow> (e, None, w)) in
      case unmarshal_command (rhm env) (Command delivery) of
        Inl e \<Rightarrow> reject ''unknown'' (ErrWrap ''decode command envelope'' e) w
      | Inr envelope \<Rightarrow>
        if CProtocolVersion envelope \<noteq> ProtocolVersionV1 (rhm env) \<or> COrganizationID envelope \<noteq> ROrgID cfg \<or> CRunnerID envelope \<noteq> RRunnerId cfg
        then reject (CCommandID envelope) (ErrNew ''command envelope identity or protocol version does not match this runner'') w
        else if \<not> is_zero (CExpiresAt envelope) \<and> rnow env w > CExpiresAt envelope
        then (case publishRunnerError env gw envelope ''COMMAND_EXPIRED'' ''command expired before execution'' False w of (_, w) \<Rightarrow>
          reject (CCommandID envelope) (ErrNew ''command expired before execution'') w)
        else if CType envelope \<noteq> CommandTypeCreateJob (rhm env)
        then reject (CCommandID envelope) (ErrNew (''unsupported runner command type '' @ go_quote (CType envelope))) w
        else (case unmarshal_create_job (rhm env) (CPayload envelope) of
            Inl e \<Rightarrow> reject (CCommandID envelope) (ErrWrap ''decode command payload'' e) w
          | Inr command \<Rightarrow> (case handleCreateJob env command jobs cfg w of
              (Some e, w) \<Rightarrow> if errors_is e ErrConflict then announce_job env gw envelope delivery command w
                else (case settle_failure env gw envelope delivery e w of (e, w) \<Rightarrow> (e, None, w))
            | (None, w) \<Rightarrow> announce_job env gw envelope delivery command w)))"

subsection \<open>Watching a job\<close>

definition jobSchedulingMonitorInterval :: duration where
  "jobSchedulingMonitorInterval = 5 * second"

definition jobSchedulingMonitorTimeout :: duration where
  "jobSchedulingMonitorTimeout = 3600 * second"

text \<open>The message to report and whether watching is over.\<close>

definition jobSchedulingState :: "'w K8sJobsClientInterface \<Rightarrow> string \<Rightarrow> string \<Rightarrow> 'w \<Rightarrow> (string \<times> bool) result \<times> 'w" where
  "jobSchedulingState jobs namespace jobID w = (case CheckJobStatus jobs namespace jobID w of (Inl e, w) \<Rightarrow> (Inl e, w)
   | (Inr status, w) \<Rightarrow>
     if Succeeded status > 0 \<or> JFailed status > 0 \<or> (case Ready status of None \<Rightarrow> False | Some r \<Rightarrow> r > 0)
     then (Inr ([], True), w)
     else
     (let warnings = (\<lambda>objectName w. case GetObjectWarningEvents jobs namespace objectName w of (Inl e, w) \<Rightarrow> (Inl e, w)
          | (Inr [], w) \<Rightarrow> (Inr ([], False), w)
          | (Inr ws, w) \<Rightarrow> (Inr (join_char CHR 0x0A ws, True), w)) in
      case GetPodJob jobs namespace jobID w of
        (Inl e, w) \<Rightarrow> if errors_is e ErrJobNotFound then warnings jobID w else (Inl e, w)
      | (Inr pod, w) \<Rightarrow> if Phase pod \<noteq> ''Pending'' \<and> Phase pod \<noteq> ''Unknown'' then (Inr ([], True), w)
          else warnings (PName pod) w))"

text \<open>One look at the job: whether the monitor returns.\<close>

definition monitor_round :: "'w remote_env \<Rightarrow> 'w remoteGateway \<Rightarrow> 'w K8sJobsClientInterface \<Rightarrow> CommandEnvelope
    \<Rightarrow> CreateJobCommand \<Rightarrow> 'w \<Rightarrow> bool \<times> 'w" where
  "monitor_round env gw jobs envelope command w =
     (case jobSchedulingState jobs (JNamespace command) (JobID command) w of
        (Inl e, w) \<Rightarrow> (False, w)
      | (Inr (message, done), w) \<Rightarrow>
        if \<not> done then (False, w) else if message = [] then (True, w)
        else (case publishRunnerError env gw envelope ''REMOTE_RUNNER'' message False w of (e, w) \<Rightarrow> (e = None, w)))"

text \<open>
  A timer is the instant at which it fires. A ticker fires at every multiple of its period; its channel
  keeps one tick and drops those that follow until it is taken, so the ticker remembers how many
  periods were over when a tick was taken last.
\<close>

record ticker =
  begun :: duration
  period :: duration
  taken :: int

definition NewTimer :: "duration \<Rightarrow> duration \<Rightarrow> duration" where
  "NewTimer t d = t + d"

definition NewTicker :: "duration \<Rightarrow> duration \<Rightarrow> ticker" where
  "NewTicker t d = \<lparr>begun = t, period = d, taken = 0\<rparr>"

definition next_tick :: "ticker \<Rightarrow> duration" where
  "next_tick k = begun k + (taken k + 1) * period k"

definition take_tick :: "ticker \<Rightarrow> duration \<Rightarrow> ticker" where
  "take_tick k t = k\<lparr>taken := (t - begun k) div period k\<rparr>"

text \<open>What ends a wait: the context, the timeout or the next tick.\<close>

datatype wake = Cancelled | TimedOut | Ticked

text \<open>The \<open>select\<close> over the three channels: it waits until the first of them is ready. When timeout and tick
  are both ready then, one is chosen at random: \<open>coin\<close> is that choice. Whether the context is done is
  found out by waiting.\<close>

definition select_wake :: "'w remote_env \<Rightarrow> bool \<Rightarrow> duration \<Rightarrow> ticker \<Rightarrow> 'w \<Rightarrow> wake \<times> ticker \<times> 'w" where
  "select_wake env coin timeout ticks w = (case sleep env (max 0 (min timeout (next_tick ticks) - monotonic env w)) w of
     (True, w) \<Rightarrow> (Cancelled, ticks, w)
   | (False, w) \<Rightarrow> (let t = monotonic env w in
       if next_tick ticks \<le> t \<and> (t < timeout \<or> coin) then (Ticked, take_tick ticks t, w) else (TimedOut, ticks, w)))"

text \<open>For \<open>n\<close> looks, with a coin for each wait: what ended the wait, nothing when a look ended the monitor;
  \<^const>\<open>None\<close> when the monitor is still running then. Timeout and ticker are those made before the loop.\<close>

fun monitor_loop :: "'w remote_env \<Rightarrow> 'w remoteGateway \<Rightarrow> 'w K8sJobsClientInterface \<Rightarrow> CommandEnvelope
    \<Rightarrow> CreateJobCommand \<Rightarrow> duration \<Rightarrow> (nat \<Rightarrow> bool) \<Rightarrow> nat \<Rightarrow> ticker \<Rightarrow> 'w \<Rightarrow> (wake option \<times> 'w) option" where
  "monitor_loop env gw jobs envelope command timeout coins 0 ticks w = None"
| "monitor_loop env gw jobs envelope command timeout coins (Suc n) ticks w =
     (case monitor_round env gw jobs envelope command w of
        (True, w) \<Rightarrow> Some (None, w)
      | (False, w) \<Rightarrow> (case select_wake env (coins 0) timeout ticks w of
          (Ticked, ticks, w) \<Rightarrow> monitor_loop env gw jobs envelope command timeout (\<lambda>i. coins (Suc i)) n ticks w
        | (wake, _, w) \<Rightarrow> Some (Some wake, w)))"

definition scheduling_delay :: "RemoteModeConfiguration \<Rightarrow> duration" where
  "scheduling_delay cfg = (if RPodSchedulingDelay cfg \<le> 0 then 5 * 60 * second else RPodSchedulingDelay cfg)"

definition monitorJobScheduling :: "'w remote_env \<Rightarrow> RemoteModeConfiguration \<Rightarrow> 'w remoteGateway \<Rightarrow> 'w K8sJobsClientInterface
    \<Rightarrow> CommandEnvelope \<Rightarrow> CreateJobCommand \<Rightarrow> (nat \<Rightarrow> bool) \<Rightarrow> nat \<Rightarrow> 'w \<Rightarrow> (wake option \<times> 'w) option" where
  "monitorJobScheduling env cfg gw jobs envelope command coins n w =
     (case sleep env (scheduling_delay cfg) w of
        (True, w) \<Rightarrow> Some (Some Cancelled, w)
      | (False, w) \<Rightarrow>
        let ticks = NewTicker (monotonic env w) jobSchedulingMonitorInterval;
            timeout = NewTimer (monotonic env w) jobSchedulingMonitorTimeout in
        monitor_loop env gw jobs envelope command timeout coins n ticks w)"

subsection \<open>The agent's loop\<close>

datatype outcome = Running | Returned "goerr option"

definition next_failures :: "int \<Rightarrow> int" where
  "next_failures n = (n + 1) mod 2 ^ 64"

text \<open>One round: how the agent returns, if it does, the count of failures and the monitor to start.\<close>

definition remote_round :: "'w remote_env \<Rightarrow> RemoteModeConfiguration \<Rightarrow> 'w remoteGateway \<Rightarrow> 'w K8sJobsClientInterface
    \<Rightarrow> int \<Rightarrow> 'w \<Rightarrow> outcome \<times> int \<times> (CommandEnvelope \<times> CreateJobCommand) option \<times> 'w" where
  "remote_round env cfg gw jobs failures w = (case GwNextCommand gw w of
     (Inl e, w) \<Rightarrow>
       if errors_is e ErrNoCommand then (Running, 0, None, w)
       else if errors_is e ErrCanceled then (Returned (done_err env w), failures, None, w)
       else (case sleep env (retryDelay (next_failures failures)) w of
          (True, w) \<Rightarrow> (Returned (done_err env w), next_failures failures, None, w)
        | (False, w) \<Rightarrow> (Running, next_failures failures, None, w))
   | (Inr delivery, w) \<Rightarrow> (case executeCommand env cfg gw jobs delivery w of (_, m, w) \<Rightarrow> (Running, 0, m, w)))"

fun remote_loop :: "'w remote_env \<Rightarrow> RemoteModeConfiguration \<Rightarrow> 'w remoteGateway \<Rightarrow> 'w K8sJobsClientInterface
    \<Rightarrow> nat \<Rightarrow> int \<Rightarrow> 'w \<Rightarrow> outcome \<times> (CommandEnvelope \<times> CreateJobCommand) list \<times> 'w" where
  "remote_loop env cfg gw jobs 0 failures w = (Running, [], w)"
| "remote_loop env cfg gw jobs (Suc n) failures w = (case remote_round env cfg gw jobs failures w of
     (Returned e, _, m, w) \<Rightarrow> (Returned e, [], w)
   | (Running, failures, m, w) \<Rightarrow> (case remote_loop env cfg gw jobs n failures w of
       (r, ms, w) \<Rightarrow> (r, (case m of None \<Rightarrow> ms | Some x \<Rightarrow> x # ms), w)))"

text \<open>The gateway interface over the HTTP client.\<close>

definition client_gateway :: "crypto \<Rightarrow> hmessaging \<Rightarrow> ('w \<Rightarrow> gtime) \<Rightarrow> 'w http \<Rightarrow> Client \<Rightarrow> 'w remoteGateway" where
  "client_gateway cr hm nw http_do c = \<lparr>GwNextCommand = (\<lambda>w. NextCommand cr http_do c (nw w) w),
     GwAcknowledge = (\<lambda>cmd receipt w. ClientAcknowledge cr http_do c (nw w) cmd receipt w),
     GwRetry = (\<lambda>cmd receipt delay w. ClientRetry cr http_do c (nw w) cmd receipt delay w),
     GwReject = (\<lambda>cmd receipt reason w. ClientReject cr http_do c (nw w) cmd receipt reason w),
     GwPublishEvent = (\<lambda>event w. PublishEvent cr hm http_do c (nw w) event w)\<rparr>"

definition ExecuteRemoteMode :: "'w remote_env \<Rightarrow> crypto \<Rightarrow> goerr option \<Rightarrow> 'w clientset result \<Rightarrow> (string \<Rightarrow> parsed_url result)
    \<Rightarrow> tls_files \<Rightarrow> bytes option \<Rightarrow> 'w http \<Rightarrow> RemoteModeConfiguration \<Rightarrow> nat \<Rightarrow> 'w
    \<Rightarrow> outcome \<times> (CommandEnvelope \<times> CreateJobCommand) list \<times> 'w" where
  "ExecuteRemoteMode env cr in_cluster for_config parse fs pool http_do cfg n w =
     (case in_cluster of Some e \<Rightarrow> (Returned (Some (ErrWrap ''failed to create in-cluster config'' e)), [], w)
      | None \<Rightarrow> (case for_config of Inl e \<Rightarrow> (Returned (Some (ErrWrap ''failed to create cluster client'' e)), [], w)
      | Inr cs \<Rightarrow> (case NewClient parse fs pool \<lparr>CfgBaseURL = GwURL (RGateway cfg), CfgOrganizationID = ROrgID cfg,
            CfgRunnerID = RRunnerId cfg, CfgPrivateKey = RPrivateKey cfg, CfgCAFile = GwCAFile (RGateway cfg),
            CfgClientCertFile = GwClientCertFile (RGateway cfg), CfgClientKeyFile = GwClientKeyFile (RGateway cfg), CfgTimeout = 0\<rparr> of
          Inl e \<Rightarrow> (Returned (Some (ErrWrap ''configure runner gateway client'' e)), [], w)
        | Inr client \<Rightarrow> remote_loop env cfg (client_gateway cr (rhm env) (rnow env) http_do client) (NewK8sJobsClient cs) n 0 w)))"

subsection \<open>What was called\<close>

text \<open>The interfaces with a record of the calls that matter, in their order.\<close>

datatype rcall = Created string string "goerr option" | Published EventEnvelope "goerr option"
  | Acknowledged string string "goerr option" | Retried string string duration "goerr option" | Rejected string string string "goerr option"

definition noting :: "(goerr option \<Rightarrow> rcall) \<Rightarrow> goerr option \<times> 'w \<Rightarrow> rcall list \<Rightarrow> goerr option \<times> 'w \<times> rcall list" where
  "noting c r tr = (fst r, snd r, tr @ [c (fst r)])"

definition traced_gateway :: "'w remoteGateway \<Rightarrow> ('w \<times> rcall list) remoteGateway" where
  "traced_gateway gw = \<lparr>GwNextCommand = (\<lambda>(w, tr). case GwNextCommand gw w of (r, w) \<Rightarrow> (r, w, tr)),
     GwAcknowledge = (\<lambda>c r (w, tr). noting (Acknowledged c r) (GwAcknowledge gw c r w) tr),
     GwRetry = (\<lambda>c r d (w, tr). noting (Retried c r d) (GwRetry gw c r d w) tr),
     GwReject = (\<lambda>c r m (w, tr). noting (Rejected c r m) (GwReject gw c r m w) tr),
     GwPublishEvent = (\<lambda>e (w, tr). noting (Published e) (GwPublishEvent gw e w) tr)\<rparr>"

definition traced_jobs :: "'w K8sJobsClientInterface \<Rightarrow> ('w \<times> rcall list) K8sJobsClientInterface" where
  "traced_jobs jobs = \<lparr>CreateJob = (\<lambda>ns j (w, tr). case CreateJob jobs ns j w of
       (r, w) \<Rightarrow> (r, w, tr @ [Created ns (JName j) (case r of Inl e \<Rightarrow> Some e | Inr _ \<Rightarrow> None)])),
     CheckJobStatus = (\<lambda>ns n (w, tr). case CheckJobStatus jobs ns n w of (r, w) \<Rightarrow> (r, w, tr)),
     GetPodJob = (\<lambda>ns n (w, tr). case GetPodJob jobs ns n w of (r, w) \<Rightarrow> (r, w, tr)),
     GetObjectWarningEvents = (\<lambda>ns n (w, tr). case GetObjectWarningEvents jobs ns n w of (r, w) \<Rightarrow> (r, w, tr))\<rparr>"

fun settling :: "rcall \<Rightarrow> bool" where
  "settling (Created _ _ _) = False"
| "settling (Published _ _) = False"
| "settling _ = True"

text \<open>The errors of the libraries are not the sentinel of this package.\<close>

definition foreign_errors :: "'w remote_env \<Rightarrow> 'v K8sJobsClientInterface \<Rightarrow> bool" where
  "foreign_errors env jobs \<longleftrightarrow> (\<forall>bs e. unmarshal_job_spec env bs = Inl e \<longrightarrow> \<not> errors_is e ErrConflict)
     \<and> (\<forall>ns j w e w'. CreateJob jobs ns j w = (Inl e, w') \<longrightarrow> \<not> errors_is e ErrConflict)"

lemma traced_calls:
  "GwAcknowledge (traced_gateway gw) c r (w, tr) = noting (Acknowledged c r) (GwAcknowledge gw c r w) tr"
  "GwRetry (traced_gateway gw) c r d (w, tr) = noting (Retried c r d) (GwRetry gw c r d w) tr"
  "GwReject (traced_gateway gw) c r m (w, tr) = noting (Rejected c r m) (GwReject gw c r m w) tr"
  "GwPublishEvent (traced_gateway gw) ev (w, tr) = noting (Published ev) (GwPublishEvent gw ev w) tr"
  by (simp_all add: traced_gateway_def)

text \<open>Each part of \<open>executeCommand\<close> makes one settling call, the last one.\<close>

definition ends_settled :: "rcall list \<Rightarrow> rcall list \<Rightarrow> bool" where
  "ends_settled tr tr' \<longleftrightarrow> (\<exists>pre c. tr' = tr @ pre @ [c] \<and> settling c \<and> (\<forall>x\<in>set pre. \<not> settling x))"

lemma reject_trace:
  "rejectCommand (traced_gateway gw) c r cause (w, tr) = (e, w', tr') \<Longrightarrow> \<exists>x. tr' = tr @ [Rejected c r (err_text cause) x] \<and> e \<noteq> None"
  by (auto simp: rejectCommand_def traced_calls noting_def split: option.splits)

lemma error_trace:
  "publishRunnerError env (traced_gateway gw) c code m b (w, tr) = (e, w', tr') \<Longrightarrow> \<exists>ev. tr' = tr @ [Published ev e] \<and> EType ev = ''runner-error''"
  by (auto simp: publishRunnerError_def publishEventAs_def traced_calls noting_def)

lemma failure_trace:
  assumes "settle_failure env (traced_gateway gw) envelope delivery x (w, tr) = (e, w', tr')"
  shows "e \<noteq> None \<and> (\<exists>ev y c. tr' = tr @ [Published ev y, c] \<and> settling c \<and> (\<forall>a b z. c \<noteq> Acknowledged a b z))"
proof -
  obtain y w1 tr1 where p: "publishRunnerError env (traced_gateway gw) envelope ''REMOTE_RUNNER'' (err_text x)
      (\<not> (isPermanentJobCreationError x \<or> Attempt delivery \<ge> defaultCommandDeliveries)) (w, tr) = (y, w1, tr1)" by (metis prod_cases3)
  from error_trace [OF p] obtain ev where ev: "tr1 = tr @ [Published ev y]" by blast
  show ?thesis
  proof (cases "isPermanentJobCreationError x \<or> Attempt delivery \<ge> defaultCommandDeliveries")
    case True
    with assms p have "rejectCommand (traced_gateway gw) (CCommandID envelope) (Receipt delivery) x (w1, tr1) = (e, w', tr')"
      by (simp add: settle_failure_def)
    from reject_trace [OF this] ev show ?thesis by auto
  next
    case False
    with assms p ev show ?thesis by (auto simp: settle_failure_def traced_calls noting_def)
  qed
qed

lemma announce_trace:
  assumes "announce_job env (traced_gateway gw) envelope delivery command (w, tr) = (e, m, w', tr')"
  shows "\<exists>ev y c. tr' = tr @ [Published ev y, c] \<and> settling c \<and> EType ev = ''job-created''
    \<and> (\<forall>a b z. c = Acknowledged a b z \<longrightarrow> y = None) \<and> (m \<noteq> None \<longleftrightarrow> (\<exists>a b. c = Acknowledged a b None))"
proof -
  define ev where "ev = \<lparr>EProtocolVersion = ProtocolVersionV1 (rhm env), EEventID = CCommandID envelope @ '':'' @ ''job-created'',
    ECommandID = CCommandID envelope, EOrganizationID = COrganizationID envelope, ERunnerID = CRunnerID envelope,
    EDeploymentID = CDeploymentID envelope, EType = ''job-created'', ECreatedAt = rnow env (w, tr), EPayload = created_payload command\<rparr>"
  obtain y w1 where y: "GwPublishEvent gw ev w = (y, w1)" by fastforce
  obtain z w2 where z: "GwAcknowledge gw (CCommandID envelope) (Receipt delivery) w1 = (z, w2)" by fastforce
  have "publishEvent env (traced_gateway gw) envelope ''job-created'' (created_payload command) (w, tr) = (y, w1, tr @ [Published ev y])"
    using y by (simp add: publishEvent_def ev_def traced_calls noting_def)
  moreover have "EType ev = ''job-created''" by (simp add: ev_def)
  ultimately show ?thesis using assms z
    by (cases y; cases z) (auto simp: announce_job_def traced_calls noting_def)
qed

lemma create_trace:
  assumes "handleCreateJob env command (traced_jobs jobs) cfg (w, tr) = (r, w', tr')" and "foreign_errors env jobs"
  shows "(tr' = tr \<or> (\<exists>e. tr' = tr @ [Created (JNamespace command) (JobID command) e]))"
    and "r = None \<or> (\<exists>x. r = Some x \<and> errors_is x ErrConflict) \<Longrightarrow> \<exists>e. tr' = tr @ [Created (JNamespace command) (JobID command) e]
      \<and> (\<forall>x. e = Some x \<longrightarrow> k8s_reason_of x = Some AlreadyExists)"
  using assms
  by (auto simp: handleCreateJob_def traced_jobs_def foreign_errors_def split: option.splits if_splits sum.splits prod.splits) blast

subsection \<open>Properties\<close>

text \<open>C24: every delivered command is settled exactly once, by the last call: acknowledged, given back or
  rejected. It is acknowledged only when the job exists, created now or by an earlier delivery,
  and the gateway has taken the event that says so; only then is the job watched.\<close>

theorem command_settled_once:
  assumes "executeCommand env cfg (traced_gateway gw) (traced_jobs jobs) delivery (w, []) = (r, m, w', tr)"
    and "foreign_errors env jobs"
  shows "\<exists>pre c. tr = pre @ [c] \<and> settling c \<and> (\<forall>x\<in>set pre. \<not> settling x)
    \<and> (\<forall>a b z. c = Acknowledged a b z \<longrightarrow> (\<exists>ns name e ev. pre = [Created ns name e, Published ev None] \<and> EType ev = ''job-created''
        \<and> (\<forall>x. e = Some x \<longrightarrow> k8s_reason_of x = Some AlreadyExists)))
    \<and> (m \<noteq> None \<longleftrightarrow> (\<exists>a b. c = Acknowledged a b None))"
proof -
  have direct: ?thesis if "rejectCommand (traced_gateway gw) c (Receipt delivery) cause (w, []) = (r, w', tr)" "m = None" for c cause
    using reject_trace [OF that(1)] that(2) by fastforce
  consider (reject) c cause where "rejectCommand (traced_gateway gw) c (Receipt delivery) cause (w, []) = (r, w', tr)" "m = None"
    | (expired) envelope e s1 c cause where "publishRunnerError env (traced_gateway gw) envelope ''COMMAND_EXPIRED'' ''command expired before execution'' False (w, []) = (e, s1)"
        "rejectCommand (traced_gateway gw) c (Receipt delivery) cause s1 = (r, w', tr)" "m = None"
    | (made) envelope command x s1 where "handleCreateJob env command (traced_jobs jobs) cfg (w, []) = (x, s1)"
        "x = None \<or> (\<exists>y. x = Some y \<and> errors_is y ErrConflict)" "announce_job env (traced_gateway gw) envelope delivery command s1 = (r, m, w', tr)"
    | (failed) envelope command x s1 where "handleCreateJob env command (traced_jobs jobs) cfg (w, []) = (Some x, s1)"
        "settle_failure env (traced_gateway gw) envelope delivery x s1 = (r, w', tr)" "m = None"
    using assms(1) unfolding executeCommand_def Let_def
    by (auto split: prod.splits if_splits sum.splits option.splits)
  then show ?thesis
  proof cases
    case reject
    then show ?thesis by (rule direct)
  next
    case expired
    obtain w1 tr1 where s1: "s1 = (w1, tr1)" by (cases s1)
    from error_trace [OF expired(1) [unfolded s1]] reject_trace [OF expired(2) [unfolded s1]] expired(3) show ?thesis by auto
  next
    case made
    obtain w1 tr1 where s1: "s1 = (w1, tr1)" by (cases s1)
    from create_trace(2) [OF made(1) [unfolded s1] assms(2) made(2)] announce_trace [OF made(3) [unfolded s1]] show ?thesis by auto
  next
    case failed
    obtain w1 tr1 where s1: "s1 = (w1, tr1)" by (cases s1)
    from create_trace(1) [OF failed(1) [unfolded s1] assms(2)] failure_trace [OF failed(2) [unfolded s1]] failed(3) show ?thesis by auto
  qed
qed

text \<open>C25: the delay the agent asks for doubles with every attempt up to 64 seconds; the gateway, which
  takes at most 60, takes it up to the fifth attempt and refuses it from the sixth on.\<close>

theorem retry_delay_bounds:
  assumes "0 \<le> attempt"
  shows "delay_seconds (retryDelay attempt) = 2 ^ nat (min attempt 6)
    \<and> (delay_seconds (retryDelay attempt) \<le> 60 \<longleftrightarrow> attempt \<le> 5)"
proof -
  have "nat (min attempt 6) \<le> 6" by simp
  then have "(2::int) ^ nat (min attempt 6) \<le> 2 ^ 6" by (intro power_increasing) auto
  then have "(2::int) ^ nat (min attempt 6) * second < 2 ^ 63" by (simp add: second_def)
  then have d: "delay_seconds (retryDelay attempt) = 2 ^ nat (min attempt 6)"
    using delay_seconds_whole [of "2 ^ nat (min attempt 6)"] by (simp add: retryDelay_def min_def split: if_splits)
  moreover have "(2::int) ^ nat (min attempt 6) \<le> 60" if "attempt \<le> 5"
  proof -
    have "(2::int) ^ nat (min attempt 6) \<le> 2 ^ 5" using that by (intro power_increasing) auto
    then show ?thesis by simp
  qed
  moreover have "(2::int) ^ nat (min attempt 6) = 64" if "\<not> attempt \<le> 5"
  proof -
    have "min attempt 6 = 6" using that by simp
    then show ?thesis by simp
  qed
  ultimately show ?thesis by fastforce
qed

subsubsection \<open>The environment of a job\<close>

text \<open>All entries of a name; a container reads the last of them.\<close>

definition entries :: "string \<Rightarrow> EnvVar list \<Rightarrow> EnvVar list" where
  "entries n vs = filter (\<lambda>v. VName v = n) vs"

definition container_reads :: "string \<Rightarrow> EnvVar list \<Rightarrow> EnvVar option" where
  "container_reads n vs = (if entries n vs = [] then None else Some (last (entries n vs)))"

lemma entries_set_env: "entries n (set_env v xs) = (if n = VName v then v # tl (entries n xs) else entries n xs)"
  by (induction v xs rule: set_env.induct) (auto simp: entries_def)

lemma entries_other: "n \<notin> VName ` set vs \<Longrightarrow> entries n (fold set_env vs xs) = entries n xs"
  by (induction vs arbitrary: xs) (auto simp: entries_set_env)

lemma entries_replaced:
  "distinct (map VName vs) \<Longrightarrow> v \<in> set vs \<Longrightarrow> entries (VName v) (fold set_env vs xs) = v # tl (entries (VName v) xs)"
proof (induction vs arbitrary: xs)
  case (Cons u vs)
  show ?case
  proof (cases "v = u")
    case True
    then have "VName v \<notin> VName ` set vs" using Cons.prems by auto
    then show ?thesis using True by (simp add: entries_other entries_set_env)
  next
    case False
    then have v: "v \<in> set vs" using Cons.prems by simp
    then have "VName v \<noteq> VName u" using Cons.prems(1) by (metis distinct.simps(2) image_eqI list.map(2) set_map)
    then show ?thesis using Cons v by (simp add: entries_set_env)
  qed
qed simp

lemma common_env_distinct: "distinct (map VName (common_env env cfg))"
  by (simp add: common_env_def env_var_def)

text \<open>C26: the environment of a job, for every specification. Of each variable of the agent, the first entry
  is the agent's, or it is added; further entries of the name stay. A container, which reads the last
  entry, therefore reads the gateway's address and the runner's identity unless the specification sets
  the name more than once; then it reads what the specification set last. All entries of every other
  name stay, and nothing but the mounts of the agent is added.\<close>

theorem job_environment:
  assumes "GwURL (RGateway cfg) \<noteq> []"
  shows "list_all2 (\<lambda>c c'. (\<forall>v\<in>set (common_env env cfg). entries (VName v) (CEnv c') = v # tl (entries (VName v) (CEnv c))
          \<and> container_reads (VName v) (CEnv c') =
              (if length (entries (VName v) (CEnv c)) \<le> 1 then Some v else container_reads (VName v) (CEnv c)))
      \<and> (\<forall>n. n \<notin> VName ` set (common_env env cfg) \<longrightarrow> entries n (CEnv c') = entries n (CEnv c))
      \<and> CVolumeMounts c' = CVolumeMounts c @ gateway_mounts env \<and> CRest c' = CRest c)
    (Containers spec) (Containers (injectJobGatewayConfiguration env cfg spec))"
proof -
  have set: "entries (VName v) (fold set_env (common_env env cfg) xs) = v # tl (entries (VName v) xs)"
    if "v \<in> set (common_env env cfg)" for v xs
    using entries_replaced [OF common_env_distinct that] .
  have reads: "container_reads n ys = (if length (entries n xs) \<le> 1 then Some v else container_reads n xs)"
    if "entries n ys = v # tl (entries n xs)" for n v xs ys
    using that by (cases "entries n xs") (auto simp: container_reads_def)
  have other: "entries n (fold set_env (common_env env cfg) xs) = entries n xs" if "n \<notin> VName ` set (common_env env cfg)" for n xs
    using that by (rule entries_other)
  show ?thesis using assms set reads [OF set] other
    by (simp add: injectJobGatewayConfiguration_def list_all2_map2 list.rel_refl_strong)
qed

subsubsection \<open>Monitors end, the agent does not\<close>

text \<open>
  What the runtime and the libraries promise: waiting for a duration takes at least that long, and no
  call of the monitor turns the monotonic clock back.
\<close>

definition clock_runs :: "'w remote_env \<Rightarrow> 'w remoteGateway \<Rightarrow> 'w K8sJobsClientInterface \<Rightarrow> bool" where
  "clock_runs env gw jobs \<longleftrightarrow> (\<forall>d w w'. sleep env d w = (False, w') \<longrightarrow> monotonic env w + d \<le> monotonic env w')
     \<and> (\<forall>ns j w. monotonic env w \<le> monotonic env (snd (CheckJobStatus jobs ns j w)))
     \<and> (\<forall>ns j w. monotonic env w \<le> monotonic env (snd (GetPodJob jobs ns j w)))
     \<and> (\<forall>ns j w. monotonic env w \<le> monotonic env (snd (GetObjectWarningEvents jobs ns j w)))
     \<and> (\<forall>e w. monotonic env w \<le> monotonic env (snd (GwPublishEvent gw e w)))"

lemma state_clock:
  assumes "clock_runs env gw jobs"
  shows "monotonic env w \<le> monotonic env (snd (jobSchedulingState jobs ns j w))"
proof -
  have check: "monotonic env w \<le> monotonic env w'" if "CheckJobStatus jobs ns j w = (r, w')" for r w'
    using assms that unfolding clock_runs_def by (metis snd_conv)
  have pod: "monotonic env w \<le> monotonic env w'" if "GetPodJob jobs ns j w = (r, w')" for r w w'
    using assms that unfolding clock_runs_def by (metis snd_conv)
  have events: "monotonic env w \<le> monotonic env w'" if "GetObjectWarningEvents jobs ns x w = (r, w')" for x r w w'
    using assms that unfolding clock_runs_def by (metis snd_conv)
  show ?thesis
    by (auto simp: jobSchedulingState_def Let_def split: prod.splits sum.splits option.splits list.splits
        dest!: check pod events)
qed

lemma round_clock:
  assumes "clock_runs env gw jobs"
  shows "monotonic env w \<le> monotonic env (snd (monitor_round env gw jobs envelope command w))"
proof -
  have publish: "monotonic env w \<le> monotonic env (snd (publishRunnerError env gw envelope code m b w))" for code m b w
    using assms by (simp add: publishRunnerError_def publishEventAs_def clock_runs_def)
  obtain r w1 where r: "jobSchedulingState jobs (JNamespace command) (JobID command) w = (r, w1)" by fastforce
  then have "monotonic env w \<le> monotonic env w1" using state_clock [OF assms] by (metis snd_conv)
  moreover have "monotonic env w1 \<le> monotonic env w2"
    if "publishRunnerError env gw envelope code m b w1 = (e, w2)" for code m b e w2
    using publish [of w1 code m b] that by simp
  ultimately show ?thesis using r
    by (auto simp: monitor_round_def split: sum.splits prod.splits intro: order_trans)
qed

text \<open>A wait that times out has reached the timeout; one that ends with a tick takes a new one.\<close>

lemma select_wake_clock:
  assumes "clock_runs env gw jobs" and "select_wake env coin timeout ticks w = (wake, ticks', w')" and "0 < period ticks"
  shows "wake = TimedOut \<Longrightarrow> timeout \<le> monotonic env w'"
    and "wake = Ticked \<Longrightarrow> begun ticks' = begun ticks \<and> period ticks' = period ticks \<and> taken ticks < taken ticks'
      \<and> begun ticks + taken ticks' * period ticks \<le> monotonic env w' \<and> (coin \<or> monotonic env w' < timeout)"
    and "wake \<noteq> Cancelled \<Longrightarrow> monotonic env w \<le> monotonic env w'"
proof -
  let ?d = "max 0 (min timeout (next_tick ticks) - monotonic env w)"
  have slept: "monotonic env w + ?d \<le> monotonic env w'" if "wake \<noteq> Cancelled"
    using assms(1,2) that unfolding clock_runs_def select_wake_def by (auto simp: Let_def split: prod.splits bool.splits if_splits)
  show "timeout \<le> monotonic env w'" if "wake = TimedOut"
    using slept that assms(2) by (auto simp: select_wake_def Let_def split: prod.splits bool.splits if_splits)
  show "monotonic env w \<le> monotonic env w'" if "wake \<noteq> Cancelled" using slept [OF that] by linarith
  assume t: "wake = Ticked"
  let ?t = "monotonic env w'"
  have k: "ticks' = take_tick ticks ?t" "next_tick ticks \<le> ?t" "?t < timeout \<or> coin"
    using assms(2) t by (auto simp: select_wake_def Let_def split: prod.splits bool.splits if_splits)
  have "taken ticks + 1 \<le> (?t - begun ticks) div period ticks"
    using k(2) assms(3) zdiv_mono1 [of "(taken ticks + 1) * period ticks" "?t - begun ticks" "period ticks"] by (simp add: next_tick_def)
  moreover have "(?t - begun ticks) div period ticks * period ticks \<le> ?t - begun ticks"
    using assms(3) by (metis add.commute le_add_same_cancel1 div_mult_mod_eq pos_mod_sign)
  ultimately show "begun ticks' = begun ticks \<and> period ticks' = period ticks \<and> taken ticks < taken ticks'
      \<and> begun ticks + taken ticks' * period ticks \<le> ?t \<and> (coin \<or> ?t < timeout)"
    using k(1,3) by (auto simp: take_tick_def)
qed

lemma monitor_loop_ends:
  assumes clock: "clock_runs env gw jobs" and "period ticks = jobSchedulingMonitorInterval"
    and "begun ticks + taken ticks * period ticks \<le> monotonic env w" and "timeout = begun ticks + jobSchedulingMonitorTimeout"
    and "720 \<le> int j + taken ticks" and "\<not> coins j"
  shows "\<exists>why w'. monitor_loop env gw jobs envelope command timeout coins (Suc j) ticks w = Some (why, w')
    \<and> (why = Some TimedOut \<longrightarrow> timeout \<le> monotonic env w')"
  using assms(2-)
proof (induction j arbitrary: coins ticks w)
  case (0 coins ticks w)
  obtain b w1 where r: "monitor_round env gw jobs envelope command w = (b, w1)" by fastforce
  obtain wake ticks' w2 where s: "select_wake env (coins 0) timeout ticks w1 = (wake, ticks', w2)" by (metis prod_cases3)
  have p: "0 < period ticks" using "0.prems"(1) by (simp add: jobSchedulingMonitorInterval_def second_def)
  note c = select_wake_clock [OF clock s p]
  have "720 * period ticks \<le> taken ticks * period ticks" using "0.prems"(4) p by (intro mult_right_mono) auto
  then have "timeout \<le> monotonic env w1" using "0.prems"(1-3) round_clock [OF clock, of w envelope command] r
    by (simp add: jobSchedulingMonitorInterval_def jobSchedulingMonitorTimeout_def second_def)
  then have "wake \<noteq> Ticked" using c(2,3) "0.prems"(5) by force
  then show ?case using r s c(1) by (cases b; cases wake) auto
next
  case (Suc j coins ticks w)
  obtain b w1 where r: "monitor_round env gw jobs envelope command w = (b, w1)" by fastforce
  obtain wake ticks' w2 where s: "select_wake env (coins 0) timeout ticks w1 = (wake, ticks', w2)" by (metis prod_cases3)
  have p: "0 < period ticks" using Suc.prems(1) by (simp add: jobSchedulingMonitorInterval_def second_def)
  note c = select_wake_clock [OF clock s p]
  show ?case
  proof (cases "\<not> b \<and> wake = Ticked")
    case True
    have "\<exists>why w'. monitor_loop env gw jobs envelope command timeout (\<lambda>i. coins (Suc i)) (Suc j) ticks' w2 = Some (why, w')
        \<and> (why = Some TimedOut \<longrightarrow> timeout \<le> monotonic env w')"
      by (rule Suc.IH) (use Suc.prems c(2) True in auto)
    then show ?thesis using r s True by simp
  next
    case False
    then show ?thesis using r s c(1) by (cases b; cases wake) auto
  qed
qed

text \<open>C27: a monitor ends. It looks at the job once every five seconds, and its one timeout is an hour after
  the delay: at the 720th tick it is ready. From then on the monitor goes on only as long as the choice
  between timeout and tick falls on the tick, so it ends with the first wait from there on for which it
  falls on the timeout; and it never gives up before the delay and the hour are over.\<close>

theorem monitor_ends:
  assumes "clock_runs env gw jobs" and "720 \<le> j" and "\<not> coins j"
  shows "\<exists>why w'. monitorJobScheduling env cfg gw jobs envelope command coins (Suc j) w = Some (why, w')
    \<and> (why = Some TimedOut \<longrightarrow> monotonic env w + scheduling_delay cfg + 3600 * second \<le> monotonic env w')"
proof -
  obtain b w1 where d: "sleep env (scheduling_delay cfg) w = (b, w1)" by fastforce
  show ?thesis
  proof (cases b)
    case False
    let ?k = "NewTicker (monotonic env w1) jobSchedulingMonitorInterval"
    let ?t = "NewTimer (monotonic env w1) jobSchedulingMonitorTimeout"
    have "\<exists>why w'. monitor_loop env gw jobs envelope command ?t coins (Suc j) ?k w1 = Some (why, w')
        \<and> (why = Some TimedOut \<longrightarrow> ?t \<le> monotonic env w')"
      by (rule monitor_loop_ends [OF assms(1)]) (use assms(2,3) in \<open>auto simp: NewTicker_def NewTimer_def\<close>)
    moreover have "monotonic env w + scheduling_delay cfg \<le> monotonic env w1" using assms(1) d False by (simp add: clock_runs_def)
    ultimately show ?thesis using d False
      by (auto simp: monitorJobScheduling_def Let_def NewTimer_def jobSchedulingMonitorTimeout_def simp del: monitor_loop.simps)
  qed (use d in \<open>simp add: monitorJobScheduling_def\<close>)
qed

text \<open>C28: no failure of gateway or cluster stops the agent: as long as its context is not cancelled, it
  keeps asking for commands.\<close>

theorem agent_keeps_running:
  assumes "\<And>d w. \<not> fst (sleep env d w)" and "\<And>w e w'. GwNextCommand gw w = (Inl e, w') \<Longrightarrow> \<not> errors_is e ErrCanceled"
  shows "fst (remote_loop env cfg gw jobs n failures w) = Running"
proof (induction n arbitrary: failures w)
  case (Suc n)
  have "fst (remote_round env cfg gw jobs failures w) = Running"
  proof (cases "GwNextCommand gw w")
    case (Pair r w1)
    show ?thesis
    proof (cases r)
      case (Inl e)
      then show ?thesis using assms(1) [of _ w1] assms(2) [of w e w1] Pair
        by (auto simp: remote_round_def split: prod.splits bool.splits) (metis fst_conv)
    qed (simp add: remote_round_def Pair split: prod.splits)
  qed
  then obtain f m w1 where "remote_round env cfg gw jobs failures w = (Running, f, m, w1)" by (metis fst_conv prod_cases4)
  with Suc.IH [of f w1] show ?case by (auto split: prod.splits)
qed simp

subsection \<open>The theorems at work\<close>

definition agent_env :: "'w \<Rightarrow> 'w remote_env" where
  "agent_env w0 = \<lparr>rhm = test_messaging, rnow = (\<lambda>_. 0), sleep = (\<lambda>_ w. (False, w)), monotonic = (\<lambda>_. 0),
     done_err = (\<lambda>_. None), renv = (\<lambda>_. None),
     unmarshal_job_spec = (\<lambda>_. Inr \<lparr>Containers = [\<lparr>CEnv = [env_var ''ORG_ID'' ''x''], CVolumeMounts = [], CRest = []\<rparr>], Volumes = [], SpecRest = []\<rparr>)\<rparr>"

definition agent_cfg :: RemoteModeConfiguration where
  "agent_cfg = \<lparr>RLogLevel = [], ROrgID = ''o'', RRunnerId = ''r'', RPrivateKey = ''k'', RPodSchedulingDelay = 0,
     RGateway = \<lparr>GwURL = ''https://gw'', GwCAFile = [], GwClientCertFile = [], GwClientKeyFile = [], GwOutboxDir = []\<rparr>\<rparr>"

definition agent_gateway :: "'w remoteGateway" where
  "agent_gateway = \<lparr>GwNextCommand = (\<lambda>w. (Inl ErrTimeout, w)), GwAcknowledge = (\<lambda>_ _ w. (None, w)), GwRetry = (\<lambda>_ _ _ w. (None, w)),
     GwReject = (\<lambda>_ _ _ w. (None, w)), GwPublishEvent = (\<lambda>_ w. (None, w))\<rparr>"

definition agent_delivery :: CommandResponse where
  "agent_delivery = \<lparr>Command = ''v1|c|o|r|d|create-job|j,n'', Receipt = ''s'', Attempt = 1, LeaseExpiresAt = 0\<rparr>"

theorem command_settled_once_witness:
  "\<exists>m tr pre c. executeCommand (agent_env ((), [])) agent_cfg (traced_gateway agent_gateway) (traced_jobs (NewK8sJobsClient demo_cluster))
     agent_delivery ((), []) = (None, Some m, (), tr) \<and> tr = pre @ [c] \<and> settling c"
proof -
  have run: "\<exists>m tr. executeCommand (agent_env ((), [])) agent_cfg (traced_gateway agent_gateway) (traced_jobs (NewK8sJobsClient demo_cluster))
     agent_delivery ((), []) = (None, Some m, (), tr)"
    by (simp add: executeCommand_def agent_env_def agent_cfg_def agent_delivery_def test_messaging_def is_zero_def time_zero_def
        handleCreateJob_def traced_jobs_def NewK8sJobsClient_def k8s_CreateJob_def demo_cluster_def announce_job_def publishEvent_def
        traced_calls noting_def agent_gateway_def Let_def second_def)
  then obtain m tr where e: "executeCommand (agent_env ((), [])) agent_cfg (traced_gateway agent_gateway) (traced_jobs (NewK8sJobsClient demo_cluster))
     agent_delivery ((), []) = (None, Some m, (), tr)" by blast
  have "foreign_errors (agent_env ((), [])) (NewK8sJobsClient demo_cluster)"
    by (simp add: foreign_errors_def agent_env_def NewK8sJobsClient_def k8s_CreateJob_def demo_cluster_def)
  from command_settled_once [OF e this] obtain pre c where "tr = pre @ [c]" "settling c" by (elim exE conjE)
  with e show ?thesis by blast
qed

theorem retry_delay_bounds_witness: "delay_seconds (retryDelay 6) = 64 \<and> \<not> delay_seconds (retryDelay 6) \<le> 60"
  using retry_delay_bounds [of 6] by simp

definition twice_spec :: JobSpec where
  "twice_spec = \<lparr>Containers = [\<lparr>CEnv = [env_var ''ORG_ID'' ''x'', env_var ''RUNNER_ID'' ''y'', env_var ''RUNNER_ID'' ''z''],
     CVolumeMounts = [], CRest = []\<rparr>], Volumes = [], SpecRest = []\<rparr>"

theorem job_environment_witness:
  "\<exists>c. Containers (injectJobGatewayConfiguration (\<lambda>_. None) agent_cfg twice_spec) = [c]
    \<and> container_reads ''ORG_ID'' (CEnv c) = Some (env_var ''ORG_ID'' ''o'')
    \<and> container_reads ''RUNNER_ID'' (CEnv c) = Some (env_var ''RUNNER_ID'' ''z'')"
proof -
  have "GwURL (RGateway agent_cfg) \<noteq> []" by (simp add: agent_cfg_def)
  from job_environment [OF this, of "\<lambda>_. None" twice_spec] obtain c where
      c: "Containers (injectJobGatewayConfiguration (\<lambda>_. None) agent_cfg twice_spec) = [c]"
      and v: "\<forall>v\<in>set (common_env (\<lambda>_. None) agent_cfg). container_reads (VName v) (CEnv c) =
        (if length (entries (VName v) (CEnv (hd (Containers twice_spec)))) \<le> 1 then Some v
         else container_reads (VName v) (CEnv (hd (Containers twice_spec))))"
    by (auto simp: list_all2_Cons1 twice_spec_def)
  have "env_var ''ORG_ID'' ''o'' \<in> set (common_env (\<lambda>_. None) agent_cfg)" "env_var ''RUNNER_ID'' ''r'' \<in> set (common_env (\<lambda>_. None) agent_cfg)"
    by (simp_all add: common_env_def agent_cfg_def)
  with v c show ?thesis by (auto simp: env_var_def twice_spec_def entries_def container_reads_def)
qed

text \<open>A world that is its monotonic clock.\<close>

definition clock_env :: "int remote_env" where
  "clock_env = (agent_env 0)\<lparr>sleep := (\<lambda>d w. (False, w + d)), monotonic := (\<lambda>w. w)\<rparr>"

definition quiet_jobs :: "'w K8sJobsClientInterface" where
  "quiet_jobs = \<lparr>CreateJob = (\<lambda>_ j w. (Inr j, w)), CheckJobStatus = (\<lambda>_ _ w. (Inl ErrJobNotFound, w)),
     GetPodJob = (\<lambda>_ _ w. (Inl ErrJobNotFound, w)), GetObjectWarningEvents = (\<lambda>_ _ w. (Inr [], w))\<rparr>"

theorem monitor_ends_witness:
  "\<forall>e c. \<exists>why w'. monitorJobScheduling clock_env agent_cfg agent_gateway quiet_jobs e c (\<lambda>_. False) 721 0 = Some (why, w')
     \<and> (why = Some TimedOut \<longrightarrow> 3900 * second \<le> w')"
proof (intro allI)
  fix e c
  have "clock_runs clock_env agent_gateway quiet_jobs"
    by (simp add: clock_runs_def clock_env_def agent_gateway_def quiet_jobs_def)
  from monitor_ends [OF this, of 720 "\<lambda>_. False" agent_cfg e c 0]
  show "\<exists>why w'. monitorJobScheduling clock_env agent_cfg agent_gateway quiet_jobs e c (\<lambda>_. False) 721 0 = Some (why, w')
     \<and> (why = Some TimedOut \<longrightarrow> 3900 * second \<le> w')"
    by (auto simp: clock_env_def scheduling_delay_def agent_cfg_def second_def)
qed

theorem agent_keeps_running_witness: "fst (remote_loop (agent_env ()) agent_cfg agent_gateway quiet_jobs 9 0 ()) = Running"
  by (rule agent_keeps_running) (auto simp: agent_env_def agent_gateway_def)

end
