(* ===== verification/System.thy ===== *)
theory System
  imports EndToEnd RemoteExecutor
begin

section \<open>Agent, gateway and cluster together\<close>

text \<open>
  The agent's loop, its HTTP client, the gateway's handlers and the cluster, put together over one world: it holds
  the state behind the gateway and the state of the cluster.
\<close>

subsection \<open>A command is fetched, an event is stored\<close>

lemma fixed_route:
  assumes "base_ok base" and "Method q = ''POST''" and "UrlPath q = base @ runner_path g r @ CHR ''/'' # rest"
    and "(rest, e) \<in> {(''commands/next'', Next), (''events'', Events)}"
  shows "find_route base q = Some ([(''organizationID'', g), (''runnerID'', r)], e)"
proof -
  have segs: "path_segs (UrlPath q) = path_segs base @ [''v1'', ''orgs'', path_escape g, ''runners'', path_escape r] @ split_char CHR ''/'' rest"
    using runner_path_segs [of base g r rest] assms(3) by simp
  have u: "path_unescape ''commands'' = Some ''commands''" "path_unescape ''next'' = Some ''next''" "path_unescape ''events'' = Some ''events''"
      "path_unescape ''v1'' = Some ''v1''"
    by code_simp+
  have base: "match_segs (base_segs base @ ps) (path_segs (UrlPath q)) =
      match_segs ps ([''v1'', ''orgs'', path_escape g, ''runners'', path_escape r] @ split_char CHR ''/'' rest)" for ps
    unfolding segs base_segs_def by (rule match_base) (use assms(1) in \<open>auto simp: base_ok_def\<close>)
  show ?thesis
    unfolding find_route_def base routes_def filter.simps prod.case match_runner_segs method_ok_def assms(2)
    using assms(4) by (elim insertE emptyE) (simp_all add: u match_runner_segs [unfolded append_Cons append_Nil])
qed

lemma fixed_request_arrives:
  assumes "paired origin lib s c t b b1" and "(rest, e) \<in> {(''commands/next'', Next), (''events'', Events)}"
    and "ReqMethod req = ''POST''" and "ReqURL req = runnerURL c (CHR ''/'' # rest)" and "map_of (ReqHeaders req) ''Authorization'' = None"
  obtains q1 q where "authorizeAgent (cr lib) c t req = Inr q1"
    and "\<And>rnd fuel chunk. Handler lib rnd s fuel chunk (server_request origin q1) b =
      (if e = Next then nextCommand lib rnd s fuel q b else Some (postEvent lib s q b))"
    and "authenticateAgent lib s q b = (Inr (organizationID c, runnerID c), b1)" and "Body q = ReqContent req"
proof -
  have p: "base_ok (basePath s)" using assms(1) unfolding paired_def by blast
  have segs: "\<forall>x\<in>set (split_char CHR ''/'' rest). segment_ok x" using assms(2) by (auto simp: segment_ok_def)
  obtain q1 q where q: "authorizeAgent (cr lib) c t req = Inr q1" "clean_path (UrlPath (server_request origin q1))"
      "find_route (basePath s) (server_request origin q1) = Some (PathValues q, e)"
      "q = (server_request origin q1)\<lparr>PathValues := [(''organizationID'', organizationID c), (''runnerID'', runnerID c)]\<rparr>"
      "authenticateAgent lib s q b = (Inr (organizationID c, runnerID c), b1)" "Body q = ReqContent req"
    by (rule agent_request_arrives [OF assms(1) segs assms(3-5) fixed_route [OF p _ _ assms(2)]])
  have "Handler lib rnd s fuel chunk (server_request origin q1) b =
      (if e = Next then nextCommand lib rnd s fuel q b else Some (postEvent lib s q b))" for rnd fuel chunk
    using q(2-4) assms(2) by (auto simp: Handler_def Let_def)
  then show ?thesis using that q(1,5,6) by blast
qed

lemma next_arrives:
  assumes "paired origin lib s c t b b1"
    and "FetchCommand (backend s) (Some (fetchWait s)) (organizationID c) (runnerID c) b1 = (Inr d, b2)"
    and "inspect_command lib (organizationID c) (runnerID c) d (now s b2) = Deliver env"
    and "seal (receipts s) (rnd b2) (delivery_claims (organizationID c) (runnerID c) env d (now s b2)) = Inr receipt"
    and "json_compact Outside (MData (BMessage d)) = json_encode v" and "json_wf v"
    and "marshal_time (now s b2 + deliveryLease) = Some stamp" and "fits_uint64 (BAttempts d)" and "receipt \<noteq> []" and "ascii receipt"
    and "length (encode_CommandResponse \<lparr>Command = MData (BMessage d), Receipt = receipt, Attempt = BAttempts d,
      LeaseExpiresAt = now s b2 + deliveryLease\<rparr>) \<le> 16 * 2 ^ 20"
  shows "NextCommand (cr lib) (over_http origin lib rnd s (Suc n) chunk) c t b =
    (Inr \<lparr>Command = json_encode v, Receipt = receipt, Attempt = BAttempts d, LeaseExpiresAt = now s b2 + deliveryLease\<rparr>, b2)"
proof -
  let ?q0 = "\<lparr>ReqMethod = ''POST'', ReqURL = runnerURL c ''/commands/next'', ReqHeaders = [], ReqContent = Reader [] None\<rparr>"
  let ?resp = "\<lparr>Command = MData (BMessage d), Receipt = receipt, Attempt = BAttempts d, LeaseExpiresAt = now s b2 + deliveryLease\<rparr>"
  obtain q1 q where q: "authorizeAgent (cr lib) c t ?q0 = Inr q1"
      "\<And>rnd fuel chunk. Handler lib rnd s fuel chunk (server_request origin q1) b =
        (if Next = Next then nextCommand lib rnd s fuel q b else Some (postEvent lib s q b))"
      "authenticateAgent lib s q b = (Inr (organizationID c, runnerID c), b1)" "Body q = ReqContent ?q0"
    by (rule fixed_request_arrives [OF assms(1), where e = Next and rest = "''commands/next''" and req = ?q0]) simp_all
  have "Handler lib rnd s (Suc n) chunk (server_request origin q1) b = nextCommand lib rnd s (Suc n) q b"
    by (simp add: q(2))
  also have "\<dots> = Some (writeJSON 200 (CommandBody ?resp), b2)"
    using q(3) assms(2-4) by (simp add: nextCommand_def deliver_def)
  finally have h: "over_http origin lib rnd s (Suc n) chunk q1 b = (Inr \<lparr>StatusCode = 200, StatusText = nat_str 200,
      Content = Reader [encode_CommandResponse ?resp] None\<rparr>, b2)"
    by (simp add: over_http_def writeJSON_def body_bytes_def)
  have "decode_CommandResponse (16 * 2 ^ 20) (encode_CommandResponse ?resp) = Some (?resp\<lparr>Command := json_encode v\<rparr>)"
    using assms(5-11) by (intro decode_encode_CommandResponse) simp_all
  moreover have "json_encode v \<noteq> []" using json_encode_hd [OF assms(6)] by auto
  ultimately show ?thesis using assms(9) by (simp add: NextCommand_def q(1) h)
qed

lemma event_arrives:
  assumes "paired origin lib s c t b b1" and "marshal_event (hm lib) event = Inr data" and "unmarshal_event (hm lib) data = Inr event"
    and "int (length data) \<le> maxResultBytes" and "EEventID event \<noteq> []"
    and "EOrganizationID event = organizationID c" and "ERunnerID event = runnerID c"
    and "RunnerEventSubject (hm lib) (organizationID c) (runnerID c) (EType event) = Inr subject"
    and "Publish (backend s) (event_message event subject data) b1 = (err, b2)"
  shows "\<exists>result. PublishEvent (cr lib) (hm lib) (over_http origin lib rnd s fuel chunk) c t event b = (result, b2)
    \<and> (result = None \<longleftrightarrow> err = None)"
proof -
  let ?q0 = "\<lparr>ReqMethod = ''POST'', ReqURL = runnerURL c ''/events'', ReqHeaders = [(''Content-Type'', ''application/json'')],
    ReqContent = Reader [data] None\<rparr>"
  obtain q1 q where q: "authorizeAgent (cr lib) c t ?q0 = Inr q1"
      "\<And>rnd fuel chunk. Handler lib rnd s fuel chunk (server_request origin q1) b =
        (if Events = Next then nextCommand lib rnd s fuel q b else Some (postEvent lib s q b))"
      "authenticateAgent lib s q b = (Inr (organizationID c, runnerID c), b1)" "Body q = ReqContent ?q0"
    by (rule fixed_request_arrives [OF assms(1), where e = Events and rest = "''events''" and req = ?q0]) simp_all
  have "read_all_limit (nat (maxResultBytes + 1)) (Body q) = Inr data"
  proof -
    have "length data < nat (maxResultBytes + 1)" using assms(4) by linarith
    then show ?thesis using q(4) by (simp add: read_all_limit_def)
  qed
  then have "postEvent lib s q b = (case err of Some e \<Rightarrow> (writeError 503 ''persist runner event'', b2) | None \<Rightarrow> (writeStatus 202, b2))"
    using assms(3-9) q(3) by (simp add: postEvent_def split: option.splits)
  then show ?thesis
    by (cases err) (simp_all add: PublishEvent_def assms(2) q(1,2) expectStatus_def over_http_def response_defs)
qed

text \<open>The gateway refuses a rejection under another command ID than the one the receipt was sealed for, which is what
  the agent sends for a command it cannot decode, and a rejection with a reason of more than 4096 bytes: the command is
  not rejected.\<close>

lemma rejection_refused:
  assumes "paired origin lib s c t b b1" and "segment_ok cmd" and "ascii receipt" and "ascii reason"
    and "length (marshal_RejectRequest \<lparr>RejectedReceipt = receipt, Reason = reason\<rparr>) \<le> 8192"
    and "open_receipt (receipts s) receipt (now s b1) = Inr claims" and "RCommandID claims \<noteq> cmd \<or> 4096 < length reason"
  shows "\<exists>e. ClientReject (cr lib) (over_http origin lib rnd s fuel chunk) c t cmd receipt reason b = (Some e, b1)"
proof -
  let ?body = "marshal_RejectRequest \<lparr>RejectedReceipt = receipt, Reason = reason\<rparr>"
  have e: "action_endpoint ''reject'' = Some RejectC" by (simp add: action_endpoint_def)
  from action_arrives [OF assms(1,2) e, of ?body] obtain q
    where q: "authenticateAgent lib s q b = (Inr (organizationID c, runnerID c), b1)" "all_bytes (Body q) = ?body" "PathValue q ''commandID'' = cmd"
      and act: "ClientReject (cr lib) (over_http origin lib rnd s fuel chunk) c t cmd receipt reason b =
        (let (resp, b2) = Server.rejectCommand lib s q b; r = \<lparr>StatusCode = Status resp, StatusText = nat_str (Status resp),
             Content = Reader [body_bytes (RespBody resp)] None\<rparr> in
         (if Status resp = 204 then None else Some (responseError ''persist runner command action'' r), b2))"
    unfolding ClientReject_def by auto
  have "decode_RejectRequest 8192 ?body = Some \<lparr>RejectedReceipt = receipt, Reason = reason\<rparr>"
    using assms(3-5) by (intro decode_marshal_RejectRequest) simp_all
  then have "\<exists>m. Server.rejectCommand lib s q b = (writeError 400 m, b1)"
    using q assms(6,7) by (auto simp: Server.rejectCommand_def receipt_claims_def split: if_splits)
  with act show ?thesis by (auto simp: response_defs)
qed

subsection \<open>The requests of a deployment\<close>

text \<open>A job's client talks to this gateway: it has the deployment's token, and its identifiers are path segments.\<close>

definition job_paired :: "string \<Rightarrow> gwlib \<Rightarrow> 'b Server \<Rightarrow> Client \<Rightarrow> string \<Rightarrow> string \<Rightarrow> bool" where
  "job_paired origin lib s c deployment token \<longleftrightarrow> clientURL c = origin @ basePath s \<and> base_ok (basePath s)
     \<and> segment_ok (organizationID c) \<and> segment_ok (runnerID c) \<and> segment_ok deployment \<and> uuid_ok lib deployment
     \<and> token = deploymentToken (cr lib) (runnerTokenSalt s) (organizationID c) deployment
     \<and> (\<exists>subject. RunnerEventSubject (hm lib) (organizationID c) (runnerID c) ''deployment-result'' = Inr subject)"

definition deployment_endpoint :: "string \<Rightarrow> (string \<times> endpoint) option" where
  "deployment_endpoint action = (if action = ''bundle'' then Some (''GET'', Bundle) else if action = ''results'' then Some (''POST'', Results) else None)"

lemma deployment_route:
  assumes "base_ok base" and "deployment_endpoint action = Some (Method q, e)"
    and "UrlPath q = base @ runner_path g r @ ''/deployments/'' @ path_escape d @ CHR ''/'' # action"
  shows "find_route base q = Some ([(''organizationID'', g), (''runnerID'', r), (''deploymentID'', d)], e)"
proof -
  have act: "action = ''bundle'' \<and> Method q = ''GET'' \<and> e = Bundle \<or> action = ''results'' \<and> Method q = ''POST'' \<and> e = Results"
    using assms(2) by (auto simp: deployment_endpoint_def split: if_splits)
  then have "CHR ''/'' \<notin> set action" by auto
  then have "split_char CHR ''/'' (''deployments/'' @ path_escape d @ CHR ''/'' # action) = [''deployments'', path_escape d, action]"
    by (simp add: split_char_append path_escape_no_slash)
  then have segs: "path_segs (UrlPath q) = path_segs base @ [''v1'', ''orgs'', path_escape g, ''runners'', path_escape r]
      @ [''deployments'', path_escape d, action]"
    using runner_path_segs [of base g r "''deployments/'' @ path_escape d @ CHR ''/'' # action"] assms(3) by simp
  have u: "path_unescape ''deployments'' = Some ''deployments''" "path_unescape ''bundle'' = Some ''bundle''"
      "path_unescape ''results'' = Some ''results''" "path_unescape ''v1'' = Some ''v1''"
    by code_simp+
  have base: "match_segs (base_segs base @ ps) (path_segs (UrlPath q)) =
      match_segs ps ([''v1'', ''orgs'', path_escape g, ''runners'', path_escape r] @ [''deployments'', path_escape d, action])" for ps
    unfolding segs base_segs_def by (rule match_base) (use assms(1) in \<open>auto simp: base_ok_def\<close>)
  show ?thesis
    unfolding find_route_def base routes_def filter.simps prod.case match_runner_segs method_ok_def
    using act by (elim disjE) (simp_all add: u match_runner_segs [unfolded append_Cons append_Nil])
qed

lemma deployment_request_arrives:
  assumes "job_paired origin lib s c deployment token" and "deployment_endpoint action = Some (ReqMethod req, e)"
    and "ReqURL req = runnerURL c (''/deployments/'' @ path_escape deployment @ CHR ''/'' # action)"
    and "map_of (ReqHeaders req) DeploymentTokenHeader = Some token"
  obtains q where "\<And>rnd fuel chunk b. Handler lib rnd s fuel chunk (server_request origin req) b =
      Some (if e = Bundle then getBundle lib s q b else postResults lib s q b)"
    and "authenticateDeployment lib s q = Inr (organizationID c, runnerID c, deployment)" and "Body q = ReqContent req"
proof -
  let ?g = "organizationID c" and ?r = "runnerID c"
  let ?vs = "[(''organizationID'', ?g), (''runnerID'', ?r), (''deploymentID'', deployment)]"
  define q where "q = (server_request origin req)\<lparr>PathValues := ?vs\<rparr>"
  note p = assms(1) [unfolded job_paired_def]
  have path: "UrlPath (server_request origin req) = basePath s @ runner_path ?g ?r @ ''/deployments/'' @ path_escape deployment @ CHR ''/'' # action"
    using p assms(3) by (simp add: server_request_def runnerURL_def runner_path_def)
  have route: "find_route (basePath s) (server_request origin req) = Some (?vs, e)"
    by (rule deployment_route [OF _ _ path]) (use p assms(2) in \<open>simp_all add: server_request_def\<close>)
  have "CHR ''/'' \<notin> set action" "segment_ok action" and e: "e = Bundle \<or> e = Results"
    using assms(2) by (auto simp: deployment_endpoint_def segment_ok_def split: if_splits)
  then have "\<forall>x\<in>set (split_char CHR ''/'' (''deployments/'' @ path_escape deployment @ CHR ''/'' # action)). segment_ok x"
    using path_escape_segment [of deployment] p by (simp add: split_char_append path_escape_no_slash) (simp add: segment_ok_def)
  then have clean: "clean_path (UrlPath (server_request origin req))"
    using runner_path_clean [of "basePath s" ?g ?r] p unfolding path by simp
  have "Handler lib rnd s fuel chunk (server_request origin req) b =
      Some (if e = Bundle then getBundle lib s q b else postResults lib s q b)" for rnd fuel chunk b
    using clean route e by (auto simp: Handler_def Let_def q_def)
  moreover have "authenticateDeployment lib s q = Inr (?g, ?r, deployment)"
    using p assms(4) by (auto simp: authenticateDeployment_def PathValue_def q_def server_request_def header_of_def)
  ultimately show ?thesis using that [of q] by (simp add: q_def server_request_def)
qed

text \<open>The bytes that the store hands out arrive. When reading the object breaks off, they are not the whole
  bundle, and the job is told nothing of it.\<close>

lemma bundle_arrives:
  assumes "job_paired origin lib s c deployment token"
    and "GetBundle (backend s) (organizationID c @ ''/'' @ deployment) b = (Inr (content, fault), b1)" and "int (length content) \<le> maxBundleBytes"
  shows "ClientGetBundle (over_http origin lib rnd s fuel chunk) c deployment token b = (Inr content, b1)"
proof -
  let ?q0 = "\<lparr>ReqMethod = ''GET'', ReqURL = runnerURL c (''/deployments/'' @ path_escape deployment @ ''/bundle''),
    ReqHeaders = [(DeploymentTokenHeader, token)], ReqContent = Reader [] None\<rparr>"
  obtain q where q: "\<And>rnd fuel chunk b. Handler lib rnd s fuel chunk (server_request origin ?q0) b =
      Some (if Bundle = Bundle then getBundle lib s q b else postResults lib s q b)"
      "authenticateDeployment lib s q = Inr (organizationID c, runnerID c, deployment)" "Body q = ReqContent ?q0"
    by (rule deployment_request_arrives [OF assms(1), where action = "''bundle''" and e = Bundle and req = ?q0]) (simp_all add: deployment_endpoint_def)
  have "length content < nat (maxBundleBytes + 1)" using assms(3) by linarith
  then show ?thesis using assms(2,3)
    by (simp add: ClientGetBundle_def over_http_def q(1) [simplified] q(2) getBundle_def body_bytes_def read_all_limit_def)
qed

lemma results_arrive:
  assumes "job_paired origin lib s c deployment token" and "json_decode content \<noteq> None" and "int (length content) \<le> maxResultBytes"
    and "marshal_event (hm lib) (gateway_event lib (organizationID c) (runnerID c) deployment ''deployment-result'' (now s b) content) = Inr data"
    and "RunnerEventSubject (hm lib) (organizationID c) (runnerID c) ''deployment-result'' = Inr subject"
    and "Publish (backend s) (event_message (gateway_event lib (organizationID c) (runnerID c) deployment ''deployment-result'' (now s b) content) subject data) b = (err, b1)"
  shows "\<exists>result. ClientPostResults (over_http origin lib rnd s fuel chunk) c deployment token (Inr content) b = (result, b1) \<and> (result = None \<longleftrightarrow> err = None)"
proof -
  let ?q0 = "\<lparr>ReqMethod = ''POST'', ReqURL = runnerURL c (''/deployments/'' @ path_escape deployment @ ''/results''),
    ReqHeaders = [(''Content-Type'', ''application/json''), (DeploymentTokenHeader, token)], ReqContent = Reader [content] None\<rparr>"
  have h: "DeploymentTokenHeader \<noteq> ''Content-Type''" by code_simp
  obtain q where q: "\<And>rnd fuel chunk b. Handler lib rnd s fuel chunk (server_request origin ?q0) b =
      Some (if Results = Bundle then getBundle lib s q b else postResults lib s q b)"
      "authenticateDeployment lib s q = Inr (organizationID c, runnerID c, deployment)" "Body q = ReqContent ?q0"
    by (rule deployment_request_arrives [OF assms(1), where action = "''results''" and e = Results and req = ?q0]) (use h in \<open>simp_all add: deployment_endpoint_def\<close>)
  have "length content < nat (maxResultBytes + 1)" using assms(3) by linarith
  then have "read_all_limit (nat (maxResultBytes + 1)) (Body q) = Inr content" using q(3) by (simp add: read_all_limit_def)
  then have "postResults lib s q b = (case err of Some e \<Rightarrow> (writeError 503 ''persist deployment result'', b1) | None \<Rightarrow> (writeStatus 202, b1))"
    using assms(2-6) q(2) by (auto simp: postResults_def Let_def gateway_event_def split: option.splits)
  then show ?thesis
    by (cases err) (simp_all add: ClientPostResults_def expectStatus_def over_http_def q(1) [simplified] response_defs)
qed

subsection \<open>A round of the agent against its gateway\<close>

text \<open>The agent talks to its gateway over a working connection: in every state its client is paired with the
  gateway, and resolving the key changes nothing.\<close>

definition agent_session :: "string \<Rightarrow> gwlib \<Rightarrow> 'w Server \<Rightarrow> Client \<Rightarrow> 'w remote_env \<Rightarrow> RemoteModeConfiguration \<Rightarrow> bool" where
  "agent_session origin lib s c env cfg \<longleftrightarrow> (\<forall>w. paired origin lib s c (rnow env w) w w) \<and> rhm env = hm lib
     \<and> ROrgID cfg = organizationID c \<and> RRunnerId cfg = runnerID c"

definition connected_gateway :: "'w http \<Rightarrow> gwlib \<Rightarrow> 'w remote_env \<Rightarrow> Client \<Rightarrow> 'w remoteGateway" where
  "connected_gateway h lib env c = client_gateway (cr lib) (rhm env) (rnow env) h c"

definition created_event :: "'w remote_env \<Rightarrow> CommandEnvelope \<Rightarrow> CreateJobCommand \<Rightarrow> 'w \<Rightarrow> EventEnvelope" where
  "created_event env envelope command w =
     \<lparr>EProtocolVersion = ProtocolVersionV1 (rhm env), EEventID = CCommandID envelope @ '':job-created'',
      ECommandID = CCommandID envelope, EOrganizationID = COrganizationID envelope, ERunnerID = CRunnerID envelope,
      EDeploymentID = CDeploymentID envelope, EType = ''job-created'', ECreatedAt = rnow env w, EPayload = created_payload command\<rparr>"

text \<open>
  A command that can be carried out: the backend hands it out in the state \<open>b\<close> and it passes the gateway's checks;
  what the messaging library prints of it and of the event reads back; the responses are within the limits; the
  job can be created or exists; the backend stores the event and takes the acknowledgement within the lease.
\<close>

definition deliverable :: "gwlib \<Rightarrow> ('w \<Rightarrow> bytes result) \<Rightarrow> 'w Server \<Rightarrow> Client \<Rightarrow> CommandDelivery \<Rightarrow> CommandEnvelope \<Rightarrow> CreateJobCommand
    \<Rightarrow> string \<Rightarrow> json \<Rightarrow> 'w \<Rightarrow> 'w \<Rightarrow> bool" where
  "deliverable lib rnd s c d envelope job receipt v b b1 \<longleftrightarrow>
     FetchCommand (backend s) (Some (fetchWait s)) (organizationID c) (runnerID c) b = (Inr d, b1)
     \<and> inspect_command lib (organizationID c) (runnerID c) d (now s b1) = Deliver envelope
     \<and> aead_correct (receipts s) \<and> (\<exists>nonce. rnd b1 = Inr nonce \<and> length nonce = NonceSize (receipts s))
     \<and> receipt_wf (delivery_claims (organizationID c) (runnerID c) envelope d (now s b1))
     \<and> seal (receipts s) (rnd b1) (delivery_claims (organizationID c) (runnerID c) envelope d (now s b1)) = Inr receipt
     \<and> receipt \<noteq> [] \<and> length (marshal_ReceiptRequest \<lparr>AckReceipt = receipt\<rparr>) \<le> 4096
     \<and> json_compact Outside (MData (BMessage d)) = json_encode v \<and> json_wf v \<and> unmarshal_command (hm lib) (json_encode v) = Inr envelope
     \<and> CProtocolVersion envelope = ProtocolVersionV1 (hm lib) \<and> CType envelope = CommandTypeCreateJob (hm lib)
     \<and> unmarshal_create_job (hm lib) (CPayload envelope) = Inr job \<and> segment_ok (CCommandID envelope)
     \<and> marshal_time (now s b1 + deliveryLease) \<noteq> None \<and> fits_uint64 (BAttempts d)
     \<and> length (encode_CommandResponse \<lparr>Command = MData (BMessage d), Receipt = receipt, Attempt = BAttempts d,
          LeaseExpiresAt = now s b1 + deliveryLease\<rparr>) \<le> 16 * 2 ^ 20"

definition announced :: "gwlib \<Rightarrow> 'w Server \<Rightarrow> Client \<Rightarrow> EventEnvelope \<Rightarrow> 'w \<Rightarrow> 'w \<Rightarrow> bool" where
  "announced lib s c event b b' \<longleftrightarrow> (\<exists>data subject. marshal_event (hm lib) event = Inr data \<and> unmarshal_event (hm lib) data = Inr event
     \<and> int (length data) \<le> maxResultBytes \<and> RunnerEventSubject (hm lib) (organizationID c) (runnerID c) (EType event) = Inr subject
     \<and> Publish (backend s) (event_message event subject data) b = (None, b'))"

lemma command_round:
  assumes session: "agent_session origin lib s c env cfg" and command: "deliverable lib rnd s c d envelope job receipt v b b1"
    and time: "is_zero (CExpiresAt envelope) \<or> rnow env b1 \<le> CExpiresAt envelope"
    and job: "handleCreateJob env job jobs cfg b1 = (created, b2)" "created = None \<or> created = Some ErrConflict"
    and event: "announced lib s c (created_event env envelope job b2) b2 b3"
    and ack: "now s b3 < truncate_second (now s b1 + deliveryLease)" "Acknowledge (backend s) None (BAckSubject d) b3 = (None, b4)"
  shows "remote_round env cfg (connected_gateway (over_http origin lib rnd s (Suc n) chunk) lib env c) jobs failures b
    = (Running, 0, Some (envelope, job), b4)"
proof -
  let ?h = "over_http origin lib rnd s (Suc n) chunk"
  let ?gw = "connected_gateway ?h lib env c" and ?g = "organizationID c" and ?r = "runnerID c"
  let ?delivery = "\<lparr>Command = json_encode v, Receipt = receipt, Attempt = BAttempts d, LeaseExpiresAt = now s b1 + deliveryLease\<rparr>"
  note d = command [unfolded deliverable_def]
  obtain nonce where nonce: "rnd b1 = Inr nonce" "length nonce = NonceSize (receipts s)" using d by blast
  obtain stamp where stamp: "marshal_time (now s b1 + deliveryLease) = Some stamp" using d by blast
  have seal: "seal (receipts s) (Inr nonce) (delivery_claims ?g ?r envelope d (now s b1)) = Inr receipt" using d nonce(1) by simp
  have paired: "paired origin lib s c (rnow env x) x x" for x using session by (simp add: agent_session_def)
  have same: "rhm env = hm lib" "ROrgID cfg = ?g" "RRunnerId cfg = ?r" using session by (simp_all add: agent_session_def)
  have identity: "COrganizationID envelope = ?g" "CRunnerID envelope = ?r"
    using d by (auto simp: inspect_command_def split: sum.splits if_splits)
  have "NextCommand (cr lib) ?h c (rnow env b) b = (Inr ?delivery, b1)"
    by (rule next_arrives [where rnd = rnd and env = envelope and v = v, OF paired]) (use d stamp seal_ascii [OF seal] in blast)+
  then have fetched: "GwNextCommand ?gw b = (Inr ?delivery, b1)" by (simp add: connected_gateway_def client_gateway_def)
  obtain data subject where data: "marshal_event (hm lib) (created_event env envelope job b2) = Inr data"
      "unmarshal_event (hm lib) data = Inr (created_event env envelope job b2)" "int (length data) \<le> maxResultBytes"
      "RunnerEventSubject (hm lib) ?g ?r (EType (created_event env envelope job b2)) = Inr subject"
      "Publish (backend s) (event_message (created_event env envelope job b2) subject data) b2 = (None, b3)"
    using event unfolding announced_def by blast
  have "\<exists>result. PublishEvent (cr lib) (hm lib) ?h c (rnow env b2) (created_event env envelope job b2) b2 = (result, b3)
      \<and> (result = None \<longleftrightarrow> None = (None :: goerr option))"
    by (rule event_arrives [OF paired data(1-3) _ _ _ data(4,5)]) (simp_all add: created_event_def identity)
  then have publish: "GwPublishEvent ?gw (created_event env envelope job b2) b2 = (None, b3)"
    by (auto simp: connected_gateway_def client_gateway_def same(1))
  have "\<exists>err result b4'. Acknowledge (backend s) None (BAckSubject d) b3 = (err, b4')
      \<and> ClientAcknowledge (cr lib) ?h c (rnow env b3) (CCommandID envelope) receipt b3 = (result, b4') \<and> (result = None \<longleftrightarrow> err = None)"
    by (rule acknowledge_arrives [OF paired _ _ nonce(2) _ seal _ ack(1)]) (use d in blast)+
  then have acknowledge: "GwAcknowledge ?gw (CCommandID envelope) receipt b3 = (None, b4)"
    using ack(2) by (auto simp: connected_gateway_def client_gateway_def)
  have announce: "announce_job env ?gw envelope ?delivery job b2 = (None, Some (envelope, job), b4)"
    using publish acknowledge by (simp add: announce_job_def publishEvent_def created_event_def)
  have "executeCommand env cfg ?gw jobs ?delivery b1 = (None, Some (envelope, job), b4)"
    using d time job announce identity same by (auto simp: executeCommand_def)
  with fetched show ?thesis by (simp add: remote_round_def)
qed

subsection \<open>No acknowledgement without a job\<close>

text \<open>
  Gateway and cluster with a record of what matters: the jobs that exist after a creation, created now or before,
  and the acknowledgements that reach the backend. The network loses requests and answers as it likes.
\<close>

datatype sys_call = JobExists string string | JobRefused string string | AckStored string

text \<open>An operation on a world with a record beside it.\<close>

definition lifted :: "('w \<Rightarrow> 'r \<times> 'w) \<Rightarrow> 'w \<times> 'l \<Rightarrow> 'r \<times> 'w \<times> 'l" where
  "lifted f x = (case f (fst x) of (r, w) \<Rightarrow> (r, w, snd x))"

definition traced_backend :: "'w Backend \<Rightarrow> ('w \<times> sys_call list) Backend" where
  "traced_backend bk = \<lparr>FetchCommand = (\<lambda>cx g r. lifted (FetchCommand bk cx g r)),
     Acknowledge = (\<lambda>cx a (w, tr). case Acknowledge bk cx a w of (r, w) \<Rightarrow> (r, w, tr @ [AckStored a])),
     Retry = (\<lambda>cx a d. lifted (Retry bk cx a d)), Reject = (\<lambda>cx d e. lifted (Reject bk cx d e)),
     RejectReceipt = (\<lambda>cx a n e. lifted (RejectReceipt bk cx a n e)), GetBundle = (\<lambda>k. lifted (GetBundle bk k)),
     PutLog = (\<lambda>k x. lifted (PutLog bk k x)), DeleteLog = (\<lambda>k. lifted (DeleteLog bk k)), Publish = (\<lambda>m. lifted (Publish bk m))\<rparr>"

definition traced_server :: "'w Server \<Rightarrow> ('w \<times> sys_call list) Server" where
  "traced_server s = \<lparr>basePath = basePath s, backend = traced_backend (backend s), publicKeys = (\<lambda>g r. lifted (publicKeys s g r)),
     receipts = receipts s, runnerTokenSalt = runnerTokenSalt s, fetchWait = fetchWait s, maxLogBytes = maxLogBytes s, now = (\<lambda>x. now s (fst x))\<rparr>"

definition traced_cluster :: "'w K8sJobsClientInterface \<Rightarrow> ('w \<times> sys_call list) K8sJobsClientInterface" where
  "traced_cluster jobs = \<lparr>CreateJob = (\<lambda>ns j (w, tr). case CreateJob jobs ns j w of
       (Inr x, w) \<Rightarrow> (Inr x, w, tr @ [JobExists ns (JName j)])
     | (Inl e, w) \<Rightarrow> (Inl e, w, tr @ [if k8s_reason_of e = Some AlreadyExists then JobExists ns (JName j) else JobRefused ns (JName j)])),
     CheckJobStatus = (\<lambda>ns n. lifted (CheckJobStatus jobs ns n)), GetPodJob = (\<lambda>ns n. lifted (GetPodJob jobs ns n)),
     GetObjectWarningEvents = (\<lambda>ns n. lifted (GetObjectWarningEvents jobs ns n))\<rparr>"

definition traced_env :: "'w remote_env \<Rightarrow> ('w \<times> sys_call list) remote_env" where
  "traced_env env = \<lparr>rhm = rhm env, rnow = (\<lambda>x. rnow env (fst x)), sleep = (\<lambda>d. lifted (sleep env d)),
     monotonic = (\<lambda>x. monotonic env (fst x)), done_err = (\<lambda>x. done_err env (fst x)), renv = renv env,
     unmarshal_job_spec = unmarshal_job_spec env\<rparr>"

datatype net_fate = Arrives | RequestLost goerr | AnswerLost goerr

definition flaky :: "('w \<Rightarrow> net_fate \<times> 'w) \<Rightarrow> ('w \<times> sys_call list) http \<Rightarrow> ('w \<times> sys_call list) http" where
  "flaky net h q x = (case lifted net x of
     (Arrives, x) \<Rightarrow> h q x | (RequestLost e, x) \<Rightarrow> (Inl e, x) | (AnswerLost e, x) \<Rightarrow> (Inl e, snd (h q x)))"

text \<open>The agent's view of the gateway over this network.\<close>

definition system_http :: "string \<Rightarrow> gwlib \<Rightarrow> ('w \<Rightarrow> bytes result) \<Rightarrow> 'w Server \<Rightarrow> nat \<Rightarrow> nat \<Rightarrow> ('w \<Rightarrow> net_fate \<times> 'w) \<Rightarrow> ('w \<times> sys_call list) http" where
  "system_http origin lib rnd s fuel chunk net = flaky net (over_http origin lib (\<lambda>x. rnd (fst x)) (traced_server s) fuel chunk)"

definition system_gateway :: "string \<Rightarrow> gwlib \<Rightarrow> ('w \<Rightarrow> bytes result) \<Rightarrow> 'w Server \<Rightarrow> nat \<Rightarrow> nat \<Rightarrow> ('w \<Rightarrow> net_fate \<times> 'w)
    \<Rightarrow> 'w remote_env \<Rightarrow> Client \<Rightarrow> ('w \<times> sys_call list) remoteGateway" where
  "system_gateway origin lib rnd s fuel chunk net env c =
     client_gateway (cr lib) (rhm env) (\<lambda>x. rnow env (fst x)) (system_http origin lib rnd s fuel chunk net) c"

text \<open>An operation that leaves the record alone.\<close>

definition keeps :: "('w \<times> 'l \<Rightarrow> 'r \<times> 'w \<times> 'l) \<Rightarrow> bool" where
  "keeps f \<longleftrightarrow> (\<forall>x. snd (snd (f x)) = snd x)"

lemma keeps_lifted [simp]: "keeps (lifted f)"
  by (simp add: keeps_def lifted_def split: prod.splits)

lemma keepsD: "keeps f \<Longrightarrow> f x = (r, y) \<Longrightarrow> snd y = snd x"
  unfolding keeps_def by (metis snd_conv)

lemma traced_backend_keeps:
  "keeps (FetchCommand (traced_backend bk) cx g r)" "keeps (Retry (traced_backend bk) cx a d)" "keeps (Reject (traced_backend bk) cx v e)"
  "keeps (RejectReceipt (traced_backend bk) cx a n e)" "keeps (Publish (traced_backend bk) m)"
  by (simp_all add: traced_backend_def)

lemma traced_server_simps [simp]:
  "basePath (traced_server s) = basePath s" "backend (traced_server s) = traced_backend (backend s)"
  "publicKeys (traced_server s) g r = lifted (publicKeys s g r)" "fetchWait (traced_server s) = fetchWait s"
  by (simp_all add: traced_server_def)

lemma authenticate_keeps: "authenticateAgent lib (traced_server s) q x = (r, y) \<Longrightarrow> snd y = snd x"
  by (auto simp: authenticateAgent_def Let_def split: sum.splits prod.splits list.splits if_splits dest: keepsD [OF keeps_lifted])

lemmas traced_keeps = authenticate_keeps traced_backend_keeps [THEN keepsD]

lemma command_loop_keeps:
  "command_loop lib rnd (traced_server s) g r n x = Some (resp, y) \<Longrightarrow> snd y = snd x"
proof (induction n arbitrary: x)
  case (Suc n)
  obtain f x1 where f: "FetchCommand (traced_backend (backend s)) (Some (fetchWait s)) g r x = (f, x1)" by (metis surj_pair)
  show ?case
  proof (cases f)
    case (Inl e)
    then show ?thesis using Suc.prems f traced_keeps(2) [OF f] by auto
  next
    case (Inr d)
    show ?thesis
    proof (cases "inspect_command lib g r d (now (traced_server s) x1)")
      case (Refuse cause message)
      obtain e x2 where e: "Reject (traced_backend (backend s)) (Some (fetchWait s)) d cause x1 = (e, x2)" by (metis surj_pair)
      show ?thesis using Suc f Inr Refuse e traced_keeps(2) [OF f] traced_keeps(4) [OF e] by (cases e) auto
    next
      case (Deliver envelope)
      then show ?thesis using Suc.prems f Inr traced_keeps(2) [OF f] by auto
    qed
  qed
qed simp

lemma next_keeps: "nextCommand lib rnd (traced_server s) fuel q x = Some (resp, y) \<Longrightarrow> snd y = snd x"
  by (auto simp: nextCommand_def split: prod.splits sum.splits dest!: traced_keeps(1) command_loop_keeps)

lemma event_keeps: "postEvent lib (traced_server s) q x = (resp, y) \<Longrightarrow> snd y = snd x"
  by (auto simp: postEvent_def split: prod.splits sum.splits option.splits if_splits dest!: traced_keeps)

lemma retry_keeps: "retryCommand lib (traced_server s) q x = (resp, y) \<Longrightarrow> snd y = snd x"
  by (auto simp: retryCommand_def handleReceipt_def split: prod.splits sum.splits option.splits dest!: traced_keeps)

lemma reject_keeps: "Server.rejectCommand lib (traced_server s) q x = (resp, y) \<Longrightarrow> snd y = snd x"
  by (auto simp: Server.rejectCommand_def split: prod.splits sum.splits option.splits if_splits dest!: traced_keeps)

lemma acknowledge_adds:
  assumes "acknowledgeCommand lib (traced_server s) q x = (resp, y)"
  shows "\<exists>acks. snd y = snd x @ map AckStored acks \<and> length acks \<le> 1"
proof -
  have a: "\<exists>acks. snd y = snd x @ map AckStored acks \<and> length acks \<le> 1"
    if "Acknowledge (traced_backend (backend s)) cx a x = (r, y)" for cx a x r y
    using that by (intro exI [of _ "[a]"]) (auto simp: traced_backend_def split: prod.splits)
  have n: "\<exists>acks. snd y = snd x @ map AckStored acks \<and> length acks \<le> 1" if "snd y = snd x" for x y :: "'a \<times> sys_call list"
    using that by (intro exI [of _ "[]"]) simp
  show ?thesis using assms
    by (auto simp: acknowledgeCommand_def handleReceipt_def split: prod.splits sum.splits option.splits dest!: traced_keeps(1) a intro: n)
qed

text \<open>Requests that are not acknowledgements leave the record alone, whatever the network does.\<close>

lemma http_keeps:
  assumes "clean_path (UrlPath (server_request origin q)) \<Longrightarrow> find_route (basePath s) (server_request origin q) = Some (vs, e)"
    and "e \<in> {Next, RetryC, RejectC, Events}" and "over_http origin lib rnd (traced_server s) fuel chunk q x = (r, y)"
  shows "snd y = snd x"
proof (cases "Handler lib rnd (traced_server s) fuel chunk (server_request origin q) x")
  case None
  then show ?thesis using assms(3) by (simp add: over_http_def)
next
  case (Some p)
  obtain resp z where p: "p = (resp, z)" by (metis surj_pair)
  have "snd z = snd x"
    using Some assms(1,2) unfolding p Handler_def
    by (auto simp: Let_def split: if_splits dest: next_keeps event_keeps retry_keeps reject_keeps)
  then show ?thesis using assms(3) Some p by (simp add: over_http_def)
qed

lemma flaky_snd:
  assumes "flaky net h q x = (r, y)" and "\<And>x r y. h q x = (r, y) \<Longrightarrow> P (snd x) (snd y)" and "\<And>x. P x x"
  shows "P (snd x) (snd y)"
proof -
  obtain f z where f: "lifted net x = (f, z)" by (metis surj_pair)
  have z: "snd z = snd x" by (rule keepsD [OF keeps_lifted f])
  have "P (snd z) (snd (snd (h q z)))" using assms(2) [of z "fst (h q z)" "snd (h q z)"] by simp
  then show ?thesis using assms(1,3) f z by (cases f) (auto simp: flaky_def dest: assms(2))
qed

lemma expectStatus_snd: "expectStatus h q n op x = (r, y) \<Longrightarrow> \<exists>r'. h q x = (r', y)"
  by (auto simp: expectStatus_def split: prod.splits sum.splits)

lemma authorize_request: "authorizeAgent ky c t q = Inr q1 \<Longrightarrow> ReqMethod q1 = ReqMethod q \<and> ReqURL q1 = ReqURL q"
  by (auto simp: authorizeAgent_def split: if_splits sum.splits)

lemma agent_path:
  assumes "clientURL c = origin @ basePath s" and "authorizeAgent ky c t q = Inr q1" and "ReqURL q = runnerURL c (CHR ''/'' # rest)"
  shows "UrlPath (server_request origin q1) = basePath s @ runner_path (organizationID c) (runnerID c) @ CHR ''/'' # rest"
    and "Method (server_request origin q1) = ReqMethod q"
  using authorize_request [OF assms(2)] assms(1,3) by (simp_all add: server_request_def runnerURL_def runner_path_def)

lemma action_request:
  assumes "commandAction ky h c t cmd action contents x = (r, y)" and "clientURL c = origin @ basePath s"
  shows "y = x \<or> (\<exists>q1 r'. h q1 x = (r', y) \<and> Method (server_request origin q1) = ''POST''
    \<and> UrlPath (server_request origin q1) = basePath s @ runner_path (organizationID c) (runnerID c) @ ''/commands/'' @ path_escape cmd @ CHR ''/'' # action)"
proof -
  let ?q0 = "\<lparr>ReqMethod = ''POST'', ReqURL = runnerURL c (''/commands/'' @ path_escape cmd @ ''/'' @ action),
    ReqHeaders = [(''Content-Type'', ''application/json'')], ReqContent = Reader [contents] None\<rparr>"
  show ?thesis
  proof (cases "authorizeAgent ky c t ?q0")
    case (Inl e)
    then show ?thesis using assms(1) by (simp add: commandAction_def)
  next
    case (Inr q1)
    then obtain r' where "h q1 x = (r', y)" using assms(1) expectStatus_snd by (force simp: commandAction_def)
    moreover note agent_path [OF assms(2) Inr, of "''commands/'' @ path_escape cmd @ CHR ''/'' # action"]
    ultimately show ?thesis by auto
  qed
qed

lemma system_gateway_keeps:
  assumes "clientURL c = origin @ basePath s" and "base_ok (basePath s)"
  shows "GwNextCommand (system_gateway origin lib rnd s fuel chunk net env c) x = (r1, y) \<Longrightarrow> snd y = snd x"
    and "GwRetry (system_gateway origin lib rnd s fuel chunk net env c) cmd receipt d x = (r2, y) \<Longrightarrow> snd y = snd x"
    and "GwReject (system_gateway origin lib rnd s fuel chunk net env c) cmd receipt reason x = (r3, y) \<Longrightarrow> snd y = snd x"
    and "GwPublishEvent (system_gateway origin lib rnd s fuel chunk net env c) event x = (r4, y) \<Longrightarrow> snd y = snd x"
proof -
  let ?h = "system_http origin lib rnd s fuel chunk net"
  have fixed: "snd y = snd x" if "authorizeAgent ky c t q = Inr q1" "ReqMethod q = ''POST''" "ReqURL q = runnerURL c (CHR ''/'' # rest)"
      "(rest, e) \<in> {(''commands/next'', Next), (''events'', Events)}" "?h q1 x = (r, y)" for ky t q q1 rest e x r y
    using that(5) agent_path [OF assms(1) that(1,3)] that(2,4) unfolding system_http_def
    by (intro flaky_snd [where P = "\<lambda>a b. b = a", OF _ http_keeps [OF fixed_route [OF assms(2)]]]) auto
  have action: "snd y = snd x" if run: "commandAction ky ?h c t cmd action contents x = (r, y)" and act: "action \<in> {''retry'', ''reject''}" for ky t action contents r x y
  proof -
    obtain e where e: "action_endpoint action = Some e" "e \<in> {Next, RetryC, RejectC, Events}" using act by (auto simp: action_endpoint_def)
    from action_request [OF run assms(1)] show ?thesis
    proof (elim disjE exE conjE)
      fix q1 r'
      assume q: "?h q1 x = (r', y)" "Method (server_request origin q1) = ''POST''"
        "UrlPath (server_request origin q1) = basePath s @ runner_path (organizationID c) (runnerID c) @ ''/commands/'' @ path_escape cmd @ CHR ''/'' # action"
      show "snd y = snd x" using q(1) e(2) action_route [OF assms(2) e(1) q(2,3)] unfolding system_http_def
        by (intro flaky_snd [where P = "\<lambda>a b. b = a", OF _ http_keeps]) auto
    qed simp
  qed
  show "GwNextCommand (system_gateway origin lib rnd s fuel chunk net env c) x = (r1, y) \<Longrightarrow> snd y = snd x"
    by (auto simp: system_gateway_def client_gateway_def NextCommand_def split: sum.splits prod.splits
        dest: fixed [where rest = "''commands/next''" and e = Next])
  show "GwPublishEvent (system_gateway origin lib rnd s fuel chunk net env c) event x = (r4, y) \<Longrightarrow> snd y = snd x"
    by (auto simp: system_gateway_def client_gateway_def PublishEvent_def split: sum.splits
        dest!: expectStatus_snd dest: fixed [where rest = "''events''" and e = Events])
  show "GwRetry (system_gateway origin lib rnd s fuel chunk net env c) cmd receipt d x = (r2, y) \<Longrightarrow> snd y = snd x"
    by (auto simp: system_gateway_def client_gateway_def ClientRetry_def dest: action)
  show "GwReject (system_gateway origin lib rnd s fuel chunk net env c) cmd receipt reason x = (r3, y) \<Longrightarrow> snd y = snd x"
    by (auto simp: system_gateway_def client_gateway_def ClientReject_def dest: action)
qed

lemma system_gateway_acknowledges:
  assumes "clientURL c = origin @ basePath s" and "base_ok (basePath s)"
    and "GwAcknowledge (system_gateway origin lib rnd s fuel chunk net env c) cmd receipt x = (r, y)"
  shows "\<exists>acks. snd y = snd x @ map AckStored acks \<and> length acks \<le> 1"
proof -
  let ?P = "\<lambda>a b. \<exists>acks. b = a @ map AckStored acks \<and> length acks \<le> 1"
  have e: "action_endpoint ''ack'' = Some AckC" by (simp add: action_endpoint_def)
  have same: "?P a a" for a by (rule exI [of _ "[]"]) simp
  have arrives: "?P (snd x) (snd y)" if "over_http origin lib rnd' (traced_server s) fuel chunk q x = (r, y)"
      "Method (server_request origin q) = ''POST''"
      "UrlPath (server_request origin q) = basePath s @ runner_path (organizationID c) (runnerID c) @ ''/commands/'' @ path_escape cmd @ CHR ''/'' # ''ack''"
    for q rnd' x r y
    using that(1) action_route [OF assms(2) e that(2,3)] same
    by (auto simp: over_http_def Handler_def Let_def split: if_splits option.splits prod.splits dest!: acknowledge_adds)
  have run: "commandAction (cr lib) (system_http origin lib rnd s fuel chunk net) c (rnow env (fst x)) cmd ''ack''
      (marshal_ReceiptRequest \<lparr>AckReceipt = receipt\<rparr>) x = (r, y)"
    using assms(3) by (simp add: system_gateway_def client_gateway_def ClientAcknowledge_def)
  from action_request [OF run assms(1)] show ?thesis
  proof (elim disjE exE conjE)
    fix q r'
    assume "system_http origin lib rnd s fuel chunk net q x = (r', y)" "Method (server_request origin q) = ''POST''"
      "UrlPath (server_request origin q) = basePath s @ runner_path (organizationID c) (runnerID c) @ ''/commands/'' @ path_escape cmd @ CHR ''/'' # ''ack''"
    then show ?thesis unfolding system_http_def by (intro flaky_snd [where P = ?P, OF _ arrives same]) auto
  qed (use same in blast)
qed

text \<open>What one round can add to the record: at most one job, and at most one acknowledgement after it.\<close>

fun round_calls :: "sys_call list \<Rightarrow> bool" where
  "round_calls [] = True"
| "round_calls [c] = (case c of AckStored a \<Rightarrow> False | _ \<Rightarrow> True)"
| "round_calls [JobExists ns n, AckStored a] = True"
| "round_calls _ = False"

lemma create_adds:
  assumes "handleCreateJob (traced_env env) command (traced_cluster jobs) cfg x = (e, y)" and "foreign_errors env jobs"
  shows "if e = None \<or> errors_is (the e) ErrConflict then snd y = snd x @ [JobExists (JNamespace command) (JobID command)]
    else snd y = snd x \<or> snd y = snd x @ [JobRefused (JNamespace command) (JobID command)]"
proof (cases x)
  case (Pair w tr)
  show ?thesis using assms unfolding Pair
    by (auto simp: handleCreateJob_def traced_env_def traced_cluster_def foreign_errors_def split: option.splits sum.splits prod.splits if_splits) blast
qed

lemma execute_calls:
  assumes "clientURL c = origin @ basePath s" and "base_ok (basePath s)" and "foreign_errors env jobs"
    and "executeCommand (traced_env env) cfg (system_gateway origin lib rnd s fuel chunk net env c) (traced_cluster jobs) delivery x = (e, m, y)"
  shows "\<exists>new. snd y = snd x @ new \<and> round_calls new"
proof -
  let ?gw = "system_gateway origin lib rnd s fuel chunk net env c" and ?env = "traced_env env"
  note keeps = system_gateway_keeps [OF assms(1,2)]
  have rejects: "snd y = snd x" if "RemoteExecutor.rejectCommand ?gw cmd receipt cause x = (r, y)" for cmd receipt cause x r y
    using that by (auto simp: RemoteExecutor.rejectCommand_def split: prod.splits option.splits dest!: keeps)
  have errors: "snd y = snd x" if "publishRunnerError ?env ?gw envelope code message b x = (r, y)" for envelope code message b x r y
    using that by (auto simp: publishRunnerError_def publishEventAs_def dest!: keeps)
  have fails: "snd y = snd x" if "settle_failure ?env ?gw envelope delivery cause x = (r, y)" for envelope cause x r y
    using that by (auto simp: settle_failure_def split: prod.splits if_splits dest!: errors rejects keeps)
  have announces: "\<exists>acks. snd y = snd x @ map AckStored acks \<and> length acks \<le> 1"
    if "announce_job ?env ?gw envelope delivery command x = (r, m, y)" for envelope command x r m y
  proof -
    obtain p z where p: "publishEvent ?env ?gw envelope ''job-created'' (created_payload command) x = (p, z)" by (metis surj_pair)
    have z: "snd z = snd x" using p by (auto simp: publishEvent_def dest!: keeps)
    show ?thesis
    proof (cases p)
      case None
      obtain a u where a: "GwAcknowledge ?gw (CCommandID envelope) (Receipt delivery) z = (a, u)" by (metis surj_pair)
      then show ?thesis using that p z None system_gateway_acknowledges [OF assms(1,2) a] by (cases a) (auto simp: announce_job_def)
    next
      case (Some e)
      obtain a u where a: "GwRetry ?gw (CCommandID envelope) (Receipt delivery) (retryDelay (Attempt delivery)) z = (a, u)" by (metis surj_pair)
      then show ?thesis using that p z Some keeps(2) [OF a] by (intro exI [of _ "[]"]) (auto simp: announce_job_def)
    qed
  qed
  have quiet: ?thesis if "snd y = snd x" using that by (intro exI [of _ "[]"]) simp
  show ?thesis
  proof (cases "\<exists>envelope command. unmarshal_command (rhm env) (Command delivery) = Inr envelope
      \<and> unmarshal_create_job (rhm env) (CPayload envelope) = Inr command
      \<and> executeCommand ?env cfg ?gw (traced_cluster jobs) delivery x = (case handleCreateJob ?env command (traced_cluster jobs) cfg x of
          (Some e, w) \<Rightarrow> if errors_is e ErrConflict then announce_job ?env ?gw envelope delivery command w
            else (case settle_failure ?env ?gw envelope delivery e w of (e, w) \<Rightarrow> (e, None, w))
        | (None, w) \<Rightarrow> announce_job ?env ?gw envelope delivery command w)")
    case False
    have "rhm ?env = rhm env" by (simp add: traced_env_def)
    with False assms(4) have "snd y = snd x"
      by (auto simp: executeCommand_def Let_def split: sum.splits prod.splits if_splits dest!: rejects errors)
    then show ?thesis by (rule quiet)
  next
    case True
    then obtain envelope command where run: "(case handleCreateJob ?env command (traced_cluster jobs) cfg x of
          (Some e, w) \<Rightarrow> if errors_is e ErrConflict then announce_job ?env ?gw envelope delivery command w
            else (case settle_failure ?env ?gw envelope delivery e w of (e, w) \<Rightarrow> (e, None, w))
        | (None, w) \<Rightarrow> announce_job ?env ?gw envelope delivery command w) = (e, m, y)"
      using assms(4) by auto
    obtain r z where h: "handleCreateJob ?env command (traced_cluster jobs) cfg x = (r, z)" by (metis surj_pair)
    note adds = create_adds [OF h assms(3)]
    show ?thesis
    proof (cases "r = None \<or> errors_is (the r) ErrConflict")
      case True
      then have "announce_job ?env ?gw envelope delivery command z = (e, m, y)" using run h by (cases r) auto
      from announces [OF this] adds True obtain acks where
          "snd y = snd x @ JobExists (JNamespace command) (JobID command) # map AckStored acks" "length acks \<le> 1" by auto
      then show ?thesis by (cases acks) (auto split: list.splits)
    next
      case False
      then obtain u where "settle_failure ?env ?gw envelope delivery (the r) z = (u, y)" using run h by (cases r) (auto split: prod.splits)
      from fails [OF this] adds False show ?thesis by auto
    qed
  qed
qed

text \<open>In a record made of such rounds a job is right before every acknowledgement.\<close>

lemma round_acks: "round_calls new \<Longrightarrow> new = pre @ AckStored a # post \<Longrightarrow> \<exists>ns j. pre = [JobExists ns j]"
  by (cases new rule: round_calls.cases) (auto simp: Cons_eq_append_conv split: sys_call.splits)

lemma rounds_acks:
  assumes "list_all round_calls rounds" and "concat rounds = pre @ AckStored a # post"
  shows "\<exists>pre' ns j. pre = pre' @ [JobExists ns j]"
  using assms
proof (induction rounds arbitrary: pre)
  case (Cons r rs)
  then have "r @ concat rs = pre @ AckStored a # post" by simp
  then consider u where "r = pre @ AckStored a # u" | u where "pre = r @ u" "concat rs = u @ AckStored a # post"
    by (auto simp: append_eq_append_conv2 Cons_eq_append_conv append_eq_Cons_conv)
  then show ?case
  proof cases
    case 1
    then show ?thesis using Cons.prems(1) round_acks by fastforce
  next
    case 2
    then show ?thesis using Cons.IH [OF _ 2(2)] Cons.prems(1) by auto
  qed
qed simp

lemma remote_round_calls:
  assumes "clientURL c = origin @ basePath s" and "base_ok (basePath s)" and "foreign_errors env jobs"
    and "remote_round (traced_env env) cfg (system_gateway origin lib rnd s fuel chunk net env c) (traced_cluster jobs) failures x = (r, f, m, y)"
  shows "\<exists>new. snd y = snd x @ new \<and> round_calls new"
proof -
  let ?gw = "system_gateway origin lib rnd s fuel chunk net env c"
  obtain d z where d: "GwNextCommand ?gw x = (d, z)" by (metis surj_pair)
  have z: "snd z = snd x" by (rule system_gateway_keeps(1) [OF assms(1,2) d])
  have quiet: ?thesis if "snd y = snd x" using that by (intro exI [of _ "[]"]) simp
  have sleeps: "snd v = snd u" if "sleep (traced_env env) t u = (b, v)" for t u b v
    using keepsD [OF keeps_lifted, of "sleep env t" u b v] that by (simp add: traced_env_def)
  show ?thesis
  proof (cases d)
    case (Inl e)
    then have "snd y = snd x" using assms(4) d z sleeps
      by (auto simp: remote_round_def split: if_splits prod.splits bool.splits)
    then show ?thesis by (rule quiet)
  next
    case (Inr delivery)
    obtain e mm u where "executeCommand (traced_env env) cfg ?gw (traced_cluster jobs) delivery z = (e, mm, u)" by (metis surj_pair)
    with execute_calls [OF assms(1-3) this] show ?thesis using assms(4) d z Inr by (auto simp: remote_round_def)
  qed
qed

lemma remote_loop_calls:
  assumes "clientURL c = origin @ basePath s" and "base_ok (basePath s)" and "foreign_errors env jobs"
    and "remote_loop (traced_env env) cfg (system_gateway origin lib rnd s fuel chunk net env c) (traced_cluster jobs) n failures x = (r, ms, y)"
  shows "\<exists>rounds. snd y = snd x @ concat rounds \<and> list_all round_calls rounds"
  using assms(4)
proof (induction n arbitrary: failures x ms)
  case 0
  then show ?case by (intro exI [of _ "[]"]) simp
next
  case (Suc n)
  let ?gw = "system_gateway origin lib rnd s fuel chunk net env c"
  obtain o1 f m z where rnd1: "remote_round (traced_env env) cfg ?gw (traced_cluster jobs) failures x = (o1, f, m, z)" by (metis surj_pair)
  obtain new where new: "snd z = snd x @ new" "round_calls new" using remote_round_calls [OF assms(1-3) rnd1] by blast
  show ?case
  proof (cases o1)
    case (Returned e)
    then show ?thesis using Suc.prems rnd1 new by (intro exI [of _ "[new]"]) auto
  next
    case Running
    obtain r' ms' y' where l: "remote_loop (traced_env env) cfg ?gw (traced_cluster jobs) n f z = (r', ms', y')" by (metis surj_pair)
    then have "r' = r" "y' = y" using Suc.prems rnd1 Running by auto
    with Suc.IH [of f z ms'] l obtain rounds where "snd y = snd z @ concat rounds" "list_all round_calls rounds" by auto
    then show ?thesis using new by (intro exI [of _ "new # rounds"]) auto
  qed
qed

subsection \<open>Properties\<close>

text \<open>C2: a command runs through the whole system: when the backend hands out a command for the agent's runner that
  is valid and can be carried out, then one round of the agent fetches it through client and gateway, creates
  its job, has the event stored that says so, and acknowledges exactly this delivery in the stream, in this order;
  the agent keeps running, its count of failures is reset, and the job is watched.\<close>

theorem command_round_trip:
  assumes "agent_session origin lib s c env cfg" and "deliverable lib rnd s c d envelope job receipt v b b1"
    and "is_zero (CExpiresAt envelope) \<or> rnow env b1 \<le> CExpiresAt envelope"
    and "handleCreateJob env job jobs cfg b1 = (created, b2)" and "created = None \<or> created = Some ErrConflict"
    and "announced lib s c (created_event env envelope job b2) b2 b3"
    and "now s b3 < truncate_second (now s b1 + deliveryLease)" and "Acknowledge (backend s) None (BAckSubject d) b3 = (None, b4)"
  shows "remote_round env cfg (connected_gateway (over_http origin lib rnd s (Suc n) chunk) lib env c) jobs failures b
    = (Running, 0, Some (envelope, job), b4)"
  using assms by (rule command_round)

text \<open>C1: whatever the network loses, whatever the gateway's backend and the cluster answer, and however long the
  agent runs: right before every acknowledgement that reaches the backend, the cluster has created a job or
  reported that it exists. No command is taken off the stream without its job.\<close>

theorem acknowledged_jobs_exist:
  assumes "clientURL c = origin @ basePath s" and "base_ok (basePath s)" and "foreign_errors env jobs"
    and "remote_loop (traced_env env) cfg (system_gateway origin lib rnd s fuel chunk net env c) (traced_cluster jobs) n failures (w, [])
      = (r, ms, w', pre @ AckStored a # post)"
  shows "\<exists>pre' ns j. pre = pre' @ [JobExists ns j]"
proof -
  obtain rounds where "pre @ AckStored a # post = concat rounds" "list_all round_calls rounds"
    using remote_loop_calls [OF assms] by auto
  then show ?thesis by (metis rounds_acks)
qed

text \<open>C14: the requests of a deployment reach the gateway with the deployment's token: when the store reads the
  bundle of this deployment to its end, the job gets exactly that bundle; and its results, which must be
  JSON, are stored as the payload of an event of this very deployment on the subject of its runner, and the
  job learns whether that happened.\<close>

theorem deployment_end_to_end:
  assumes "job_paired origin lib s c deployment token"
    and "GetBundle (backend s) (organizationID c @ ''/'' @ deployment) b = (Inr (bundle, None), b1)" and "int (length bundle) \<le> maxBundleBytes"
    and "json_decode content \<noteq> None" and "int (length content) \<le> maxResultBytes"
    and "event = gateway_event lib (organizationID c) (runnerID c) deployment ''deployment-result'' (now s b2) content"
    and "marshal_event (hm lib) event = Inr data" and "RunnerEventSubject (hm lib) (organizationID c) (runnerID c) ''deployment-result'' = Inr subject"
    and "Publish (backend s) (event_message event subject data) b2 = (err, b3)"
  shows "ClientGetBundle (over_http origin lib rnd s fuel chunk) c deployment token b = (Inr bundle, b1)
    \<and> (\<exists>result. ClientPostResults (over_http origin lib rnd s fuel chunk) c deployment token (Inr content) b2 = (result, b3) \<and> (result = None \<longleftrightarrow> err = None))"
  using bundle_arrives [OF assms(1-3)] results_arrive [OF assms(1,4,5) assms(7) [unfolded assms(6)] assms(8) assms(9) [unfolded assms(6)]] by simp

subsection \<open>The theorems at work\<close>

definition round_messaging :: hmessaging where
  "round_messaging = test_messaging\<lparr>
     unmarshal_command := (\<lambda>bs. case json_decode bs of Some (JStr t) \<Rightarrow> unmarshal_command test_messaging t | _ \<Rightarrow> Inl (ErrNew ''invalid character'')),
     unmarshal_event := (\<lambda>bs. case unmarshal_event test_messaging bs of Inl e \<Rightarrow> Inl e | Inr e \<Rightarrow> Inr (e\<lparr>ECreatedAt := 7 * second\<rparr>))\<rparr>"

definition round_lib :: gwlib where
  "round_lib = demo_lib\<lparr>hm := round_messaging\<rparr>"

definition round_text :: string where
  "round_text = ''v1|cmd|o|r|d|create-job|j,n''"

definition round_envelope :: CommandEnvelope where
  "round_envelope = demo_envelope\<lparr>CPayload := ''j,n''\<rparr>"

definition round_job :: CreateJobCommand where
  "round_job = \<lparr>JobID = ''j'', JNamespace = ''n'', Configuration = Some ''{}''\<rparr>"

definition round_delivery :: CommandDelivery where
  "round_delivery = good_delivery\<lparr>BMessage := (BMessage good_delivery)\<lparr>MData := json_quote round_text\<rparr>\<rparr>"

definition round_env :: "'w \<Rightarrow> 'w remote_env" where
  "round_env w = (agent_env w)\<lparr>rhm := round_messaging, rnow := (\<lambda>_. 7 * second)\<rparr>"

lemma round_decoded: "unmarshal_command round_messaging (json_quote round_text) = Inr round_envelope"
proof -
  have "json_decode (json_encode (JStr round_text)) = Some (JStr round_text)"
    by (rule json_decode_encode) (simp add: round_text_def ascii_def)
  then show ?thesis by (simp add: round_messaging_def round_envelope_def demo_envelope_def test_messaging_def round_text_def)
qed

lemma round_deliverable:
  assumes "FetchCommand (backend s) (Some (fetchWait s)) ''o'' ''r'' b = (Inr round_delivery, b1)" and "now s b1 = 67 * second"
    and "receipts s = test_aead" and "rnd b1 = Inr ''ab''"
  shows "deliverable round_lib rnd s demo_client round_delivery round_envelope round_job demo_receipt (JStr round_text) b b1"
proof -
  have claims: "delivery_claims ''o'' ''r'' round_envelope round_delivery (67 * second) = demo_claims"
    by (simp add: demo_claims_def delivery_claims_def round_envelope_def round_delivery_def)
  have "length (encode_CommandResponse \<lparr>Command = json_quote round_text, Receipt = demo_receipt, Attempt = 2,
      LeaseExpiresAt = 67 * second + deliveryLease\<rparr>) \<le> 4096"
    by code_simp
  moreover have "json_compact Outside (json_quote round_text) = json_quote round_text" by code_simp
  moreover have "marshal_time (67 * second + deliveryLease) \<noteq> None" by code_simp
  moreover have "demo_receipt \<noteq> []" by code_simp
  moreover have "ascii round_text" by code_simp
  moreover have "inspect_command round_lib ''o'' ''r'' round_delivery (67 * second) = Deliver round_envelope"
    using round_decoded by (simp add: inspect_command_def decodeCommandEnvelope_def round_lib_def round_delivery_def round_envelope_def
        demo_envelope_def is_zero_def)
  moreover have "BAttempts round_delivery = 2" "MData (BMessage round_delivery) = json_quote round_text"
      "organizationID demo_client = ''o''" "runnerID demo_client = ''r''"
    by (simp_all add: round_delivery_def good_delivery_def demo_client_def)
  moreover have "CProtocolVersion round_envelope = ProtocolVersionV1 (hm round_lib)" "CType round_envelope = CommandTypeCreateJob (hm round_lib)"
      "unmarshal_create_job (hm round_lib) (CPayload round_envelope) = Inr round_job" "segment_ok (CCommandID round_envelope)"
      "unmarshal_command (hm round_lib) (json_quote round_text) = Inr round_envelope"
    using round_decoded by (simp_all add: round_envelope_def demo_envelope_def round_lib_def round_messaging_def test_messaging_def round_job_def segment_ok_def)
  ultimately show ?thesis unfolding deliverable_def
    using assms claims demo_seal demo_claims_wf(1) demo_receipt_length
    by (simp add: test_aead_def [THEN arg_cong, of NonceSize] fits_uint64_def)
qed

lemma round_session:
  assumes "basePath s = []" and "\<And>g r b. publicKeys s g r b = (Inr ''pkey'', b)" and "\<And>b. now s b = 67 * second"
    and "rnow env = (\<lambda>_. 7 * second)" and "rhm env = round_messaging"
  shows "agent_session ''https://gw'' round_lib s demo_client env agent_cfg"
proof -
  have "paired ''https://gw'' round_lib s demo_client (7 * second) b b" for b
    unfolding paired_def using assms(1-3)
    by (auto simp: demo_client_def demo_lib_def round_lib_def round_messaging_def base_ok_def path_segs_def segment_ok_def
        test_messaging_def test_instance ed25519_correct_def)
  then show ?thesis using assms(4,5) by (simp add: agent_session_def agent_cfg_def demo_client_def round_lib_def)
qed

lemma round_created:
  "handleCreateJob (round_env w0) round_job jobs agent_cfg b = (case CreateJob jobs ''n'' \<lparr>JName = ''j'', JobNamespace = ''n'',
      JSpec = injectJobGatewayConfiguration (\<lambda>_. None) agent_cfg (projr (unmarshal_job_spec (round_env w0) ''{}''))\<rparr> b of
    (Inl e, w) \<Rightarrow> (Some (if k8s_reason_of e = Some AlreadyExists then ErrConflict else ErrWrap ''failed to create job'' e), w) | (Inr _, w) \<Rightarrow> (None, w))"
  by (simp add: handleCreateJob_def round_job_def round_env_def agent_env_def)

lemma round_announced:
  assumes "\<And>m. fst (Publish (backend s) m b) = None" and "rnow env = (\<lambda>_. 7 * second)" and "rhm env = round_messaging"
  shows "announced round_lib s demo_client (created_event env round_envelope round_job b)
    b (snd (Publish (backend s) (event_message (created_event env round_envelope round_job b) ''o.r.events.job-created''
      (projr (marshal_event test_messaging (created_event env round_envelope round_job b)))) b))"
proof -
  let ?e = "created_event env round_envelope round_job b"
  let ?data = "projr (marshal_event test_messaging ?e)"
  have payload: "created_payload round_job = ''{\"job_id\":\"j\",\"namespace\":\"n\"}''" by code_simp
  have e: "?e = \<lparr>EProtocolVersion = ''v1'', EEventID = ''cmd:job-created'', ECommandID = ''cmd'', EOrganizationID = ''o'', ERunnerID = ''r'',
      EDeploymentID = ''d'', EType = ''job-created'', ECreatedAt = 7 * second, EPayload = ''{\"job_id\":\"j\",\"namespace\":\"n\"}''\<rparr>"
    by (simp add: created_event_def assms(2,3) round_messaging_def test_messaging_def round_envelope_def demo_envelope_def payload)
  have "marshal_event (hm round_lib) ?e = Inr ?data" "unmarshal_event (hm round_lib) ?data = Inr ?e"
      "int (length ?data) \<le> maxResultBytes" "RunnerEventSubject (hm round_lib) ''o'' ''r'' (EType ?e) = Inr ''o.r.events.job-created''"
    unfolding e by (simp_all add: round_lib_def round_messaging_def test_messaging_def maxResultBytes_def)
  then show ?thesis unfolding announced_def using assms(1)
    by (intro exI [of _ ?data] exI [of _ "''o.r.events.job-created''"]) (auto simp: demo_client_def prod_eq_iff)
qed

theorem command_round_trip_witness:
  "\<exists>w. remote_round (round_env ([], [])) agent_cfg (connected_gateway (over_http ''https://gw'' round_lib (\<lambda>_. Inr ''ab'') demo_server (Suc 0) 4)
      round_lib (round_env ([], [])) demo_client) quiet_jobs 5 ([round_delivery], [])
    = (Running, 0, Some (round_envelope, round_job), w) \<and> map fst (snd w) = [''ack'', ''o.r.events.job-created'']"
proof -
  let ?env = "round_env ([], []) :: demo_state remote_env"
  have n: "\<And>b. now demo_server b = 67 * second" by (simp add: demo_server_def)
  have session: "agent_session ''https://gw'' round_lib demo_server demo_client ?env agent_cfg"
    by (rule round_session) (simp_all add: demo_server_def round_env_def)
  have d: "deliverable round_lib (\<lambda>_. Inr ''ab'') demo_server demo_client round_delivery round_envelope round_job demo_receipt (JStr round_text)
      ([round_delivery], []) ([], [])"
    by (rule round_deliverable) (simp_all add: demo_server_def demo_backend_def)
  have job: "handleCreateJob ?env round_job quiet_jobs agent_cfg ([], []) = (None, ([], []))"
    by (simp add: round_created quiet_jobs_def)
  obtain data where a: "announced round_lib demo_server demo_client (created_event ?env round_envelope round_job ([], [])) ([], []) ([], [(''o.r.events.job-created'', data)])"
    using round_announced [of demo_server "([], [])" ?env] by (auto simp: demo_server_def demo_backend_def round_env_def event_message_def)
  have ack: "Acknowledge (backend demo_server) None (BAckSubject round_delivery) ([], [(''o.r.events.job-created'', data)])
      = (None, ([], [(''ack'', ''+ACK''), (''o.r.events.job-created'', data)]))"
    by (simp add: demo_server_def demo_backend_def round_delivery_def good_delivery_def)
  have "remote_round ?env agent_cfg (connected_gateway (over_http ''https://gw'' round_lib (\<lambda>_. Inr ''ab'') demo_server (Suc 0) 4)
      round_lib ?env demo_client) quiet_jobs 5 ([round_delivery], [])
    = (Running, 0, Some (round_envelope, round_job), ([], [(''ack'', ''+ACK''), (''o.r.events.job-created'', data)]))"
    by (rule command_round_trip [OF session d _ job _ a _ ack])
       (simp_all add: round_envelope_def demo_envelope_def is_zero_def n deliveryLease_def go_defs)
  then show ?thesis by auto
qed

lemma system_arrives:
  "system_gateway origin lib rnd s fuel chunk (\<lambda>w. (Arrives, w)) env c =
     connected_gateway (over_http origin lib (\<lambda>x. rnd (fst x)) (traced_server s) fuel chunk) lib (traced_env env) c"
proof -
  have "flaky (\<lambda>w. (Arrives, w)) h = h" for h :: "('a \<times> sys_call list) http" by (simp add: fun_eq_iff flaky_def lifted_def)
  then show ?thesis by (simp add: system_gateway_def connected_gateway_def system_http_def traced_env_def)
qed

theorem acknowledged_jobs_exist_witness:
  "\<exists>w. remote_loop (traced_env (round_env ([], []))) agent_cfg
      (system_gateway ''https://gw'' round_lib (\<lambda>_. Inr ''ab'') demo_server (Suc 0) 4 (\<lambda>w. (Arrives, w)) (round_env ([], [])) demo_client)
      (traced_cluster quiet_jobs) (Suc 0) 0 (([round_delivery], []), [])
    = (Running, [(round_envelope, round_job)], w, [JobExists ''n'' ''j'', AckStored ''ack''])
    \<and> (\<exists>pre' ns j. [JobExists ''n'' ''j''] = pre' @ [JobExists ns j])"
proof -
  let ?env = "round_env ([], []) :: demo_state remote_env"
  let ?s = "traced_server demo_server" and ?e = "traced_env ?env"
  let ?sys = "system_gateway ''https://gw'' round_lib (\<lambda>_. Inr ''ab'') demo_server (Suc 0) 4 (\<lambda>w. (Arrives, w)) ?env demo_client"
  let ?tr = "[JobExists ''n'' ''j'']"
  have e: "rnow ?e = (\<lambda>_. 7 * second)" "rhm ?e = round_messaging" by (simp_all add: traced_env_def round_env_def)
  have n: "\<And>b. now ?s b = 67 * second" by (simp add: traced_server_def demo_server_def)
  have session: "agent_session ''https://gw'' round_lib ?s demo_client ?e agent_cfg"
    by (rule round_session) (simp_all add: traced_server_def demo_server_def lifted_def e)
  have d: "deliverable round_lib (\<lambda>x. Inr ''ab'') ?s demo_client round_delivery round_envelope round_job demo_receipt (JStr round_text)
      (([round_delivery], []), []) (([], []), [])"
    by (rule round_deliverable) (simp_all add: traced_server_def traced_backend_def lifted_def demo_server_def demo_backend_def)
  have job: "handleCreateJob ?e round_job (traced_cluster quiet_jobs) agent_cfg (([], []), []) = (None, (([], []), ?tr))"
    by (simp add: handleCreateJob_def round_job_def traced_env_def round_env_def agent_env_def traced_cluster_def quiet_jobs_def)
  obtain data where a: "announced round_lib ?s demo_client (created_event ?e round_envelope round_job (([], []), ?tr)) (([], []), ?tr)
      (([], [(''o.r.events.job-created'', data)]), ?tr)"
    using round_announced [of ?s "(([], []), ?tr)" ?e] e
    by (auto simp: traced_server_def traced_backend_def lifted_def demo_server_def demo_backend_def event_message_def)
  have ack: "Acknowledge (backend ?s) None (BAckSubject round_delivery) (([], [(''o.r.events.job-created'', data)]), ?tr)
      = (None, (([], [(''ack'', ''+ACK''), (''o.r.events.job-created'', data)]), ?tr @ [AckStored ''ack'']))"
    by (simp add: traced_backend_def demo_server_def demo_backend_def round_delivery_def good_delivery_def)
  have "remote_round ?e agent_cfg ?sys (traced_cluster quiet_jobs) 0 (([round_delivery], []), [])
    = (Running, 0, Some (round_envelope, round_job), (([], [(''ack'', ''+ACK''), (''o.r.events.job-created'', data)]), ?tr @ [AckStored ''ack'']))"
    unfolding system_arrives by (rule command_round [OF session d _ job _ a _ ack])
       (simp_all add: round_envelope_def demo_envelope_def is_zero_def n deliveryLease_def go_defs)
  then have run: "remote_loop ?e agent_cfg ?sys (traced_cluster quiet_jobs) (Suc 0) 0 (([round_delivery], []), [])
    = (Running, [(round_envelope, round_job)], ([], [(''ack'', ''+ACK''), (''o.r.events.job-created'', data)]), [JobExists ''n'' ''j''] @ AckStored ''ack'' # [])"
    by simp
  have "foreign_errors ?env quiet_jobs" by (simp add: foreign_errors_def round_env_def agent_env_def quiet_jobs_def)
  from acknowledged_jobs_exist [OF _ _ this run] have "\<exists>pre' ns j. [JobExists ''n'' ''j''] = pre' @ [JobExists ns j]"
    by (simp add: demo_client_def demo_server_def base_ok_def path_segs_def)
  with run show ?thesis by auto
qed

definition bundle_server :: "demo_state Server" where
  "bundle_server = demo_server\<lparr>backend := demo_backend\<lparr>GetBundle := (\<lambda>_ b. (Inr (''gz'', None), b))\<rparr>\<rparr>"

theorem deployment_end_to_end_witness:
  "\<exists>token w. ClientGetBundle (over_http ''https://gw'' demo_lib (\<lambda>_. Inr ''ab'') bundle_server 1 4) demo_client ''d'' token ([], []) = (Inr ''gz'', ([], []))
    \<and> ClientPostResults (over_http ''https://gw'' demo_lib (\<lambda>_. Inr ''ab'') bundle_server 1 4) demo_client ''d'' token (Inr ''null'') ([], []) = (None, w)
    \<and> map fst (snd w) = [''o.r.events.deployment-result'']"
proof -
  let ?token = "deploymentToken (cr demo_lib) (runnerTokenSalt bundle_server) ''o'' ''d''"
  let ?event = "gateway_event demo_lib ''o'' ''r'' ''d'' ''deployment-result'' (now bundle_server ([], [])) ''null''"
  let ?data = "projr (marshal_event test_messaging ?event)"
  have p: "job_paired ''https://gw'' demo_lib bundle_server demo_client ''d'' ?token"
    by (simp add: job_paired_def demo_client_def bundle_server_def demo_server_def demo_lib_def base_ok_def path_segs_def segment_ok_def test_messaging_def)
  have json: "json_decode ''null'' \<noteq> None" by code_simp
  have m: "marshal_event (hm demo_lib) ?event = Inr ?data" by (simp add: demo_lib_def test_messaging_def)
  have stored: "Publish (backend bundle_server) (event_message ?event ''o.r.events.deployment-result'' ?data) ([], [])
      = (None, ([], [(''o.r.events.deployment-result'', ?data)]))"
    by (simp add: bundle_server_def demo_backend_def event_message_def)
  have "ClientGetBundle (over_http ''https://gw'' demo_lib (\<lambda>_. Inr ''ab'') bundle_server 1 4) demo_client ''d'' ?token ([], []) = (Inr ''gz'', ([], []))
    \<and> (\<exists>result. ClientPostResults (over_http ''https://gw'' demo_lib (\<lambda>_. Inr ''ab'') bundle_server 1 4) demo_client ''d'' ?token (Inr ''null'') ([], [])
      = (result, ([], [(''o.r.events.deployment-result'', ?data)])) \<and> (result = None \<longleftrightarrow> None = (None :: goerr option)))"
    by (rule deployment_end_to_end [OF p _ _ json _ _ m _ stored])
       (simp_all add: bundle_server_def demo_backend_def maxBundleBytes_def maxResultBytes_def demo_client_def demo_lib_def test_messaging_def)
  then show ?thesis by fastforce
qed

end
