(* ===== verification/Frames.thy ===== *)
theory Frames
  imports Messaging Crypto Protocol
begin

section \<open>Frames of the diode (internal/diode/relay.go)\<close>

text \<open>
  What crosses the diode: a message with its position, its checksum and an optional attached
  object, signed by the exporter. A message is printed and read by the messaging library.
\<close>

definition FrameVersion :: string where
  "FrameVersion = ''1''"

record Attachment =
  Bucket :: string
  Key :: string
  ASlice :: "bytes option"
  APayloadSHA256 :: string

text \<open>The data is a byte slice: \<^const>\<open>None\<close> is the nil slice, which has no bytes but is printed as \<open>null\<close>.\<close>

definition AData :: "Attachment \<Rightarrow> bytes" where
  "AData a = (case ASlice a of None \<Rightarrow> [] | Some bs \<Rightarrow> bs)"

record unsignedFrame =
  Version :: string
  Sequence :: int
  FMessage :: Message
  PayloadSHA256 :: string
  FAttachment :: "Attachment option"

record Frame = unsignedFrame +
  Signature :: string

definition payloadHash :: "crypto \<Rightarrow> bytes \<Rightarrow> string" where
  "payloadHash cr data = hex_encode (sha256 cr data)"

definition shortHash :: "crypto \<Rightarrow> string \<Rightarrow> string" where
  "shortHash cr v = hex_encode (take 8 (sha256 cr v))"

subsection \<open>Printing\<close>

definition attachment_json :: "Attachment \<Rightarrow> json" where
  "attachment_json a = JObj [member ''bucket'' (JStr (Bucket a)), member ''key'' (JStr (Key a)),
     member ''data'' (case ASlice a of None \<Rightarrow> JNull | Some bs \<Rightarrow> JStr (std_encode bs)), member ''payload_sha256'' (JStr (APayloadSHA256 a))]"

text \<open>The members of a frame, in front of the signature. The message is printed by the library.\<close>

definition frame_text :: "'a unsignedFrame_scheme \<Rightarrow> bytes \<Rightarrow> bytes" where
  "frame_text f m = ''{\"version\":'' @ json_quote (Version f) @ '',\"sequence\":'' @ int_str (Sequence f)
     @ '',\"message\":'' @ m @ '',\"payload_sha256\":'' @ json_quote (PayloadSHA256 f)
     @ (case FAttachment f of None \<Rightarrow> [] | Some a \<Rightarrow> '',\"attachment\":'' @ json_encode (attachment_json a))"

definition marshal_unsigned :: "hmessaging \<Rightarrow> 'a unsignedFrame_scheme \<Rightarrow> bytes result" where
  "marshal_unsigned hm f = (case marshal_message hm (FMessage f) of Inl e \<Rightarrow> Inl e
     | Inr m \<Rightarrow> Inr (frame_text f m @ ''}''))"

definition marshal_frame :: "hmessaging \<Rightarrow> Frame \<Rightarrow> bytes result" where
  "marshal_frame hm f = (case marshal_message hm (FMessage f) of Inl e \<Rightarrow> Inl e
     | Inr m \<Rightarrow> Inr (frame_text f m @ '',\"signature\":'' @ json_quote (Signature f) @ ''}''))"

subsection \<open>Reading\<close>

text \<open>A byte slice is read from base64; a slice and a pointer are nil for \<open>null\<close>.\<close>

fun into_bytes :: "bytes option \<Rightarrow> bytes \<times> json \<Rightarrow> bytes option option" where
  "into_bytes x (w, JStr s) = map_option Some (std_decode s)"
| "into_bytes x (w, JNull) = Some None"
| "into_bytes x _ = None"

definition no_attachment :: Attachment where
  "no_attachment = \<lparr>Bucket = [], Key = [], ASlice = None, APayloadSHA256 = []\<rparr>"

definition into_attachment :: "Attachment option \<Rightarrow> bytes \<times> json \<Rightarrow> Attachment option option" where
  "into_attachment x wv = (if snd wv = JNull then Some None else do {
     let old = (case x of None \<Rightarrow> no_attachment | Some a \<Rightarrow> a);
     ms \<leftarrow> struct_members (snd wv);
     b \<leftarrow> get_field into_str ''bucket'' ms (Bucket old);
     k \<leftarrow> get_field into_str ''key'' ms (Key old);
     d \<leftarrow> get_field into_bytes ''data'' ms (ASlice old);
     h \<leftarrow> get_field into_str ''payload_sha256'' ms (APayloadSHA256 old);
     Some (Some \<lparr>Bucket = b, Key = k, ASlice = d, APayloadSHA256 = h\<rparr>) })"

definition no_message :: Message where
  "no_message = \<lparr>MID = [], MSubject = [], MData = [], MHeader = [], MCreatedAt = time_zero, MExpiresAt = time_zero\<rparr>"

definition into_message :: "hmessaging \<Rightarrow> Message \<Rightarrow> bytes \<times> json \<Rightarrow> Message option" where
  "into_message hm x wv = (if snd wv = JNull then Some x
     else (case unmarshal_message hm (fst wv) of Inl e \<Rightarrow> None | Inr m \<Rightarrow> Some m))"

definition unmarshal_frame :: "hmessaging \<Rightarrow> bytes \<Rightarrow> Frame option" where
  "unmarshal_frame hm bs = do {
     ms \<leftarrow> decode_struct bs;
     v \<leftarrow> get_field into_str ''version'' ms [];
     q \<leftarrow> get_field (into_num fits_uint64) ''sequence'' ms 0;
     m \<leftarrow> get_field (into_message hm) ''message'' ms no_message;
     h \<leftarrow> get_field into_str ''payload_sha256'' ms [];
     a \<leftarrow> get_field into_attachment ''attachment'' ms None;
     s \<leftarrow> get_field into_str ''signature'' ms [];
     Some \<lparr>Version = v, Sequence = q, FMessage = m, PayloadSHA256 = h, FAttachment = a, Signature = s\<rparr> }"

subsection \<open>Signing and verifying\<close>

definition signFrameWithAttachment :: "crypto \<Rightarrow> hmessaging \<Rightarrow> int \<Rightarrow> Message \<Rightarrow> Attachment option \<Rightarrow> bytes \<Rightarrow> Frame result" where
  "signFrameWithAttachment cr hm sequence message attachment key =
     (let f = \<lparr>Version = FrameVersion, Sequence = sequence, FMessage = message,
            PayloadSHA256 = payloadHash cr (MData message), FAttachment = attachment, Signature = []\<rparr> in
      case marshal_unsigned hm f of Inl e \<Rightarrow> Inl e
      | Inr canonical \<Rightarrow> Inr (f\<lparr>Signature := std_encode (ed_sign cr key canonical)\<rparr>))"

definition signFrame :: "crypto \<Rightarrow> hmessaging \<Rightarrow> int \<Rightarrow> Message \<Rightarrow> bytes \<Rightarrow> Frame result" where
  "signFrame cr hm sequence message key = signFrameWithAttachment cr hm sequence message None key"

definition verifyFrame :: "crypto \<Rightarrow> hmessaging \<Rightarrow> Frame \<Rightarrow> bytes \<Rightarrow> goerr option" where
  "verifyFrame cr hm f key =
     (if Version f \<noteq> FrameVersion then Some (ErrNew (''unsupported frame version '' @ go_quote (Version f)))
      else if PayloadSHA256 f \<noteq> payloadHash cr (MData (FMessage f)) then Some (ErrNew ''payload checksum mismatch'')
      else if (case FAttachment f of None \<Rightarrow> False | Some a \<Rightarrow> APayloadSHA256 a \<noteq> payloadHash cr (AData a))
      then Some (ErrNew ''attachment payload checksum mismatch'')
      else (case std_decode (Signature f) of None \<Rightarrow> Some (ErrNew ''invalid signature encoding'')
        | Some signature \<Rightarrow> (case marshal_unsigned hm f of Inl e \<Rightarrow> Some e
          | Inr canonical \<Rightarrow> if \<not> ed_verify cr key canonical signature
              then Some (ErrNew ''signature verification failed'') else Validate hm (FMessage f))))"

subsection \<open>Facts\<close>

lemma frame_text_signature [simp]: "frame_text (f\<lparr>Signature := x\<rparr>) m = frame_text f m"
  by (simp add: frame_text_def)

lemma marshal_unsigned_signature [simp]: "marshal_unsigned hm (f\<lparr>Signature := x\<rparr>) = marshal_unsigned hm f"
  by (auto simp: marshal_unsigned_def split: sum.splits)

lemma sign_then_verify_frame:
  assumes "ed25519_correct cr" and "signFrameWithAttachment cr hm q m a k = Inr f" and "Validate hm m = None"
    and "\<And>x. a = Some x \<Longrightarrow> APayloadSHA256 x = payloadHash cr (AData x)"
  shows "verifyFrame cr hm f (ed_public cr k) = None"
proof -
  define f0 where "f0 = \<lparr>Version = FrameVersion, Sequence = q, FMessage = m, PayloadSHA256 = payloadHash cr (MData m),
    FAttachment = a, Signature = []\<rparr>"
  obtain canonical where c: "marshal_unsigned hm f0 = Inr canonical" "f = f0\<lparr>Signature := std_encode (ed_sign cr k canonical)\<rparr>"
    using assms(2) by (auto simp: signFrameWithAttachment_def Let_def f0_def [symmetric] split: sum.splits)
  have "marshal_unsigned hm f = Inr canonical" using c by simp
  moreover have "ed_verify cr (ed_public cr k) canonical (ed_sign cr k canonical)" using assms(1) by (simp add: ed25519_correct_def)
  ultimately show ?thesis using c(2) assms(3,4)
    by (auto simp: verifyFrame_def f0_def stdenc.dec_enc split: option.splits)
qed

text \<open>What an accepted frame guarantees.\<close>

lemma verifyFrame_None:
  assumes "verifyFrame cr hm f key = None"
  shows "Version f = FrameVersion" "PayloadSHA256 f = payloadHash cr (MData (FMessage f))" "Validate hm (FMessage f) = None"
    "\<And>x. FAttachment f = Some x \<Longrightarrow> APayloadSHA256 x = payloadHash cr (AData x)"
    "\<exists>canonical sig. marshal_unsigned hm f = Inr canonical \<and> std_decode (Signature f) = Some sig \<and> ed_verify cr key canonical sig"
  using assms by (auto simp: verifyFrame_def split: if_splits option.splits sum.splits)

subsection \<open>Frames survive the crossing\<close>

text \<open>The library prints messages in the plain form and reads back what it printed.\<close>

definition message_codec :: "hmessaging \<Rightarrow> Message \<Rightarrow> bool" where
  "message_codec hm m \<longleftrightarrow> (\<exists>v. marshal_message hm m = Inr (json_encode v) \<and> json_wf v \<and> v \<noteq> JNull
     \<and> unmarshal_message hm (json_encode v) = Inr m)"

definition frame_wf :: "Frame \<Rightarrow> bool" where
  "frame_wf f \<longleftrightarrow> ascii (Version f) \<and> fits_uint64 (Sequence f) \<and> ascii (PayloadSHA256 f) \<and> ascii (Signature f)
     \<and> (\<forall>a. FAttachment f = Some a \<longrightarrow> ascii (Bucket a) \<and> ascii (Key a) \<and> ascii (APayloadSHA256 a))"

definition frame_members :: "json \<Rightarrow> Frame \<Rightarrow> (string \<times> bytes \<times> json) list" where
  "frame_members v f = [member ''version'' (JStr (Version f)), member ''sequence'' (jint (Sequence f)), member ''message'' v,
     member ''payload_sha256'' (JStr (PayloadSHA256 f))]
     @ (case FAttachment f of None \<Rightarrow> [] | Some a \<Rightarrow> [member ''attachment'' (attachment_json a)])
     @ [member ''signature'' (JStr (Signature f))]"

lemma std_encode_ascii: "ascii (std_encode bs)"
proof -
  have "of_char c \<le> (0x7F::nat)" if "c \<in> set (b64_raw std_char bs)" for c
    using std.raw_has_value [OF that] by (auto simp: std_val_def Let_def split: if_splits)
  then show ?thesis by (auto simp: std_encode_def Let_def ascii_def)
qed

lemma marshal_frame_members:
  assumes "marshal_message hm (FMessage f) = Inr (json_encode v)"
  shows "marshal_frame hm f = Inr (encode_struct (frame_members v f))"
proof -
  have "json_quote ''version'' = ''\"version\"''" "json_quote ''sequence'' = ''\"sequence\"''"
      "json_quote ''message'' = ''\"message\"''" "json_quote ''payload_sha256'' = ''\"payload_sha256\"''"
      "json_quote ''attachment'' = ''\"attachment\"''" "json_quote ''signature'' = ''\"signature\"''"
    by code_simp+
  then show ?thesis using assms
    by (simp add: marshal_frame_def frame_text_def frame_members_def encode_struct_def member_def jint_def split: option.splits)
qed

lemma into_attachment_json:
  "into_attachment x (w, attachment_json a) = Some (Some a)"
  by (cases x; cases "ASlice a") (simp_all add: into_attachment_def attachment_json_def get_field_member equal_fold_def to_lower_def
      stdenc.dec_enc)

lemma unmarshal_marshal_frame:
  assumes "message_codec hm (FMessage f)" and "frame_wf f"
  shows "\<exists>bs. marshal_frame hm f = Inr bs \<and> unmarshal_frame hm bs = Some f"
proof -
  obtain v where v: "marshal_message hm (FMessage f) = Inr (json_encode v)" "json_wf v" "v \<noteq> JNull"
      "unmarshal_message hm (json_encode v) = Inr (FMessage f)"
    using assms(1) unfolding message_codec_def by blast
  have "members_wf (frame_members v f)"
    using assms(2) v(2) std_encode_ascii by (auto simp: frame_members_def frame_wf_def attachment_json_def split: option.splits)
  then have "decode_struct (encode_struct (frame_members v f)) = Some (frame_members v f)" by simp
  then have "unmarshal_frame hm (encode_struct (frame_members v f)) = Some f"
    using v assms(2)
    by (cases "FAttachment f") (simp_all add: unmarshal_frame_def frame_members_def frame_wf_def get_field_member equal_fold_def
        to_lower_def into_message_def into_attachment_json)
  then show ?thesis using marshal_frame_members [OF v(1)] by blast
qed

end
