(* ===== verification/Files.thy ===== *)
theory Files
  imports Strings Encoding "HOL-Library.AList" "HOL-Library.Char_ord" "HOL-Library.List_Lexorder"
begin

section \<open>Files, faults and crashes\<close>

text \<open>
  The file system as the outbox and the diode use it. A path names an inode; an inode has bytes.
  What the machine would find after losing power is kept beside the current state: for every
  path the entries that may be on the disk since its directory was last synchronized, and for
  every inode the contents that may be on the disk since the file was last synchronized.
  Every system call takes one tick of a clock and fails when the fault schedule says so; a
  failing write has written some bytes already. A crash is a schedule that lets nothing succeed
  any more from some tick on.
\<close>

record fs =
  names :: "(string \<times> nat) list"
  pnames :: "string \<Rightarrow> nat option list"
  contents :: "nat \<Rightarrow> bytes"
  pcontents :: "nat \<Rightarrow> bytes list"
  next_inode :: nat
  subdirs :: "string list"
  ticks :: nat
  faults :: "nat \<Rightarrow> nat option"

type_synonym 'a sys = "fs \<Rightarrow> 'a result \<times> fs"

definition dir_of :: "string \<Rightarrow> string" where
  "dir_of p = (case last_cut CHR ''/'' p of None \<Rightarrow> ''.'' | Some (d, _) \<Rightarrow> if d = [] then ''/'' else d)"

definition base_of :: "string \<Rightarrow> string" where
  "base_of p = (case last_cut CHR ''/'' p of None \<Rightarrow> p | Some (_, b) \<Rightarrow> b)"

definition join_path :: "string \<Rightarrow> string \<Rightarrow> string" where
  "join_path d n = d @ CHR ''/'' # n"

definition is_abs :: "string \<Rightarrow> bool" where
  "is_abs p \<longleftrightarrow> p \<noteq> [] \<and> hd p = CHR ''/''"

subsection \<open>System calls\<close>

definition syscall :: "(fs \<Rightarrow> nat \<Rightarrow> fs) \<Rightarrow> 'a sys \<Rightarrow> 'a sys" where
  "syscall on_fault f s = (let s' = s\<lparr>ticks := Suc (ticks s)\<rparr> in
     case faults s (ticks s) of Some k \<Rightarrow> (Inl ErrIO, on_fault s' k) | None \<Rightarrow> f s')"

definition inode_of :: "fs \<Rightarrow> string \<Rightarrow> nat option" where
  "inode_of s p = map_of (names s) p"

definition lookup :: "fs \<Rightarrow> string \<Rightarrow> bytes option" where
  "lookup s p = map_option (contents s) (inode_of s p)"

definition set_name :: "string \<Rightarrow> nat option \<Rightarrow> fs \<Rightarrow> fs" where
  "set_name p i s = s\<lparr>names := (case i of Some j \<Rightarrow> AList.update p j (names s) | None \<Rightarrow> AList.delete p (names s)),
     pnames := (pnames s)(p := pnames s p @ [i])\<rparr>"

text \<open>Calls whose effect nothing here observes: making directories, permissions, closing.\<close>

definition sys_noop :: "unit sys" where
  "sys_noop = syscall (\<lambda>s _. s) (\<lambda>s. (Inr (), s))"

definition sys_read_file :: "string \<Rightarrow> bytes sys" where
  "sys_read_file p = syscall (\<lambda>s _. s) (\<lambda>s. (case lookup s p of Some b \<Rightarrow> Inr b | None \<Rightarrow> Inl ErrNotExist, s))"

definition sys_read_dir :: "string \<Rightarrow> (string \<times> bool) list sys" where
  "sys_read_dir d = syscall (\<lambda>s _. s) (\<lambda>s. (Inr (map (\<lambda>p. (base_of p, p \<in> set (subdirs s)))
     (sort (filter (\<lambda>p. dir_of p = d) (map fst (names s) @ subdirs s)))), s))"

text \<open>A new empty file under a name that does not exist yet; the name is the pattern and a number.\<close>

definition temp_path :: "fs \<Rightarrow> string \<Rightarrow> string \<Rightarrow> string" where
  "temp_path s d pattern = join_path d (pattern @ nat_str (the (List.find
     (\<lambda>k. inode_of s (join_path d (pattern @ nat_str k)) = None) [0..<Suc (length (names s))])))"

definition new_file :: "string \<Rightarrow> fs \<Rightarrow> nat \<times> fs" where
  "new_file p s = (let i = next_inode s in
     (i, (set_name p (Some i) s)\<lparr>next_inode := Suc i, contents := (contents s)(i := []), pcontents := (pcontents s)(i := [[]])\<rparr>))"

definition sys_create_temp :: "string \<Rightarrow> string \<Rightarrow> (string \<times> nat) sys" where
  "sys_create_temp d pattern = syscall (\<lambda>s _. s) (\<lambda>s. let p = temp_path s d pattern; (i, s) = new_file p s in (Inr (p, i), s))"

text \<open>Opening for appending, creating the file when it does not exist.\<close>

definition sys_open_append :: "string \<Rightarrow> nat sys" where
  "sys_open_append p = syscall (\<lambda>s _. s) (\<lambda>s. case inode_of s p of Some i \<Rightarrow> (Inr i, s)
     | None \<Rightarrow> (let (i, s) = new_file p s in (Inr i, s)))"

text \<open>Until the file is synchronized, any part of what was written may be on the disk.\<close>

definition append_bytes :: "nat \<Rightarrow> bytes \<Rightarrow> fs \<Rightarrow> fs" where
  "append_bytes i bs s = s\<lparr>contents := (contents s)(i := contents s i @ bs),
     pcontents := (pcontents s)(i := pcontents s i @ map (\<lambda>k. contents s i @ take k bs) [0..<Suc (length bs)])\<rparr>"

definition sys_write :: "nat \<Rightarrow> bytes \<Rightarrow> unit sys" where
  "sys_write i bs = syscall (\<lambda>s k. append_bytes i (take k bs) s) (\<lambda>s. (Inr (), append_bytes i bs s))"

definition sys_sync :: "nat \<Rightarrow> unit sys" where
  "sys_sync i = syscall (\<lambda>s _. s) (\<lambda>s. (Inr (), s\<lparr>pcontents := (pcontents s)(i := [contents s i])\<rparr>))"

definition settle :: "string \<Rightarrow> fs \<Rightarrow> fs" where
  "settle d s = s\<lparr>pnames := (\<lambda>p. if dir_of p = d then [inode_of s p] else pnames s p)\<rparr>"

definition sys_sync_dir :: "string \<Rightarrow> unit sys" where
  "sys_sync_dir d = syscall (\<lambda>s _. s) (\<lambda>s. (Inr (), settle d s))"

definition sys_rename :: "string \<Rightarrow> string \<Rightarrow> unit sys" where
  "sys_rename p q = syscall (\<lambda>s _. s) (\<lambda>s. case inode_of s p of
     None \<Rightarrow> (Inl ErrNotExist, s)
   | Some i \<Rightarrow> (Inr (), if p = q then s else set_name q (Some i) (set_name p None s)))"

definition sys_remove :: "string \<Rightarrow> unit sys" where
  "sys_remove p = syscall (\<lambda>s _. s) (\<lambda>s. case inode_of s p of
     None \<Rightarrow> (Inl ErrNotExist, s) | Some i \<Rightarrow> (Inr (), set_name p None s))"

subsection \<open>Crashes\<close>

text \<open>What a path may hold after losing power.\<close>

definition survivors :: "fs \<Rightarrow> string \<Rightarrow> bytes option set" where
  "survivors s p = (\<Union>e\<in>set (pnames s p). case e of None \<Rightarrow> {None} | Some i \<Rightarrow> Some ` set (pcontents s i))"

text \<open>The current state is one of the possible ones, and inodes are allocated in order.\<close>

definition fs_wf :: "fs \<Rightarrow> bool" where
  "fs_wf s \<longleftrightarrow> (\<forall>p. inode_of s p \<in> set (pnames s p)) \<and> (\<forall>i. contents s i \<in> set (pcontents s i))
     \<and> (\<forall>p i. Some i \<in> set (pnames s p) \<longrightarrow> i < next_inode s)"

subsection \<open>What one call changes\<close>

text \<open>Nothing that the paths outside \<open>X\<close> may refer to has changed; new inodes do not count.\<close>

definition same_outside :: "string set \<Rightarrow> fs \<Rightarrow> fs \<Rightarrow> bool" where
  "same_outside X s s' \<longleftrightarrow> (\<forall>p. p \<notin> X \<longrightarrow> pnames s' p = pnames s p \<and> inode_of s' p = inode_of s p
     \<and> (\<forall>i. Some i \<in> set (pnames s p) \<longrightarrow> pcontents s' i = pcontents s i \<and> contents s' i = contents s i))
     \<and> next_inode s \<le> next_inode s'"

lemma same_outside_refl [simp]: "same_outside X s s"
  by (simp add: same_outside_def)

lemma same_outside_trans: "same_outside X s s' \<Longrightarrow> same_outside X s' s'' \<Longrightarrow> same_outside X s s''"
  by (simp add: same_outside_def)

lemma same_outside_mono: "same_outside X s s' \<Longrightarrow> X \<subseteq> Y \<Longrightarrow> same_outside Y s s'"
  unfolding same_outside_def by blast

lemma survivors_outside: "same_outside X s s' \<Longrightarrow> p \<notin> X \<Longrightarrow> survivors s' p = survivors s p"
  unfolding same_outside_def survivors_def by (intro SUP_cong) (auto split: option.splits)

lemma lookup_outside:
  "same_outside X s s' \<Longrightarrow> p \<notin> X \<Longrightarrow> fs_wf s \<Longrightarrow> lookup s' p = lookup s p"
  unfolding same_outside_def lookup_def fs_wf_def by (cases "inode_of s p") (auto, metis)

subsection \<open>Writing a file whole\<close>

definition bind_sys :: "'a sys \<Rightarrow> ('a \<Rightarrow> 'b sys) \<Rightarrow> 'b sys" where
  "bind_sys f g s = (case f s of (Inl e, s) \<Rightarrow> (Inl e, s) | (Inr x, s) \<Rightarrow> g x s)"

text \<open>A step on an open file: when it fails, the file is closed and the error returned.\<close>

definition or_close :: "unit sys \<Rightarrow> unit sys" where
  "or_close f s = (case f s of (Inl e, s) \<Rightarrow> (Inl e, snd (sys_noop s)) | (Inr x, s) \<Rightarrow> (Inr x, s))"

text \<open>Permissions, contents and synchronization of the temporary file, then closing it.\<close>

definition fill_temp :: "nat \<Rightarrow> bytes \<Rightarrow> unit sys" where
  "fill_temp i bs = bind_sys (or_close sys_noop) (\<lambda>_. bind_sys (or_close (sys_write i bs)) (\<lambda>_.
     bind_sys (or_close (sys_sync i)) (\<lambda>_. sys_noop)))"

text \<open>
  The common part of \<open>Outbox.store\<close> and \<open>atomicJSON\<close>: a temporary file in the same directory is
  filled and renamed over the target, then \<open>finish\<close> synchronizes the directory. The deferred
  removal of the temporary name runs in every case and its error is ignored.
\<close>

definition replace_file :: "string \<Rightarrow> string \<Rightarrow> string \<Rightarrow> bytes \<Rightarrow> unit sys \<Rightarrow> unit sys" where
  "replace_file d pattern target bs finish s = (case sys_create_temp d pattern s of
     (Inl e, s) \<Rightarrow> (Inl e, s)
   | (Inr (tmp, i), s) \<Rightarrow>
     (case bind_sys (fill_temp i bs) (\<lambda>_. bind_sys (sys_rename tmp target) (\<lambda>_. finish)) s of
        (r, s) \<Rightarrow> (r, snd (sys_remove tmp s))))"

subsection \<open>Atomicity and durability\<close>

lemma inode_of_set_name: "inode_of (set_name p i s) q = (if q = p then i else inode_of s q)"
  by (cases i) (auto simp: set_name_def inode_of_def update_conv' delete_conv')

lemma inode_of_update [simp]:
  "inode_of (s\<lparr>ticks := n\<rparr>) = inode_of s" "inode_of (s\<lparr>pnames := a\<rparr>) = inode_of s"
  "inode_of (s\<lparr>contents := b\<rparr>) = inode_of s" "inode_of (s\<lparr>pcontents := c\<rparr>) = inode_of s"
  "inode_of (s\<lparr>next_inode := d\<rparr>) = inode_of s"
  by (simp_all add: inode_of_def fun_eq_iff)

lemma set_name_simps [simp]:
  "pnames (set_name p i s) = (pnames s)(p := pnames s p @ [i])" "contents (set_name p i s) = contents s"
  "pcontents (set_name p i s) = pcontents s" "next_inode (set_name p i s) = next_inode s"
  by (simp_all add: set_name_def)

lemma temp_path_fresh: "inode_of s (temp_path s d pattern) = None"
proof -
  let ?f = "\<lambda>k. join_path d (pattern @ nat_str k)" and ?n = "Suc (length (names s))"
  have "inj_on ?f {0..<?n}" by (auto simp: inj_on_def join_path_def)
  then have "card (?f ` {0..<?n}) = ?n" by (simp add: card_image)
  moreover have "card (fst ` set (names s)) \<le> length (names s)" by (metis card_length length_map set_map)
  ultimately have "\<not> ?f ` {0..<?n} \<subseteq> fst ` set (names s)"
    by (metis List.finite_set Suc_n_not_le_n card_mono finite_imageI order_trans)
  then obtain x where x: "x \<in> ?f ` {0..<?n}" "x \<notin> fst ` set (names s)" unfolding subset_iff by blast
  from x(1) obtain k where "x = ?f k" "k \<in> {0..<?n}" by (rule imageE)
  with x(2) have "k < ?n" "inode_of s (?f k) = None" by (auto simp: inode_of_def map_of_eq_None_iff)
  then have "\<exists>k\<in>set [0..<?n]. inode_of s (?f k) = None" by (intro bexI [of _ k]) auto
  then have "List.find (\<lambda>k. inode_of s (?f k) = None) [0..<?n] \<noteq> None" unfolding find_None_iff by blast
  then obtain j where "List.find (\<lambda>k. inode_of s (?f k) = None) [0..<?n] = Some j" by blast
  moreover from this have "inode_of s (?f j) = None" by (auto simp: find_Some_iff)
  ultimately show ?thesis by (simp add: temp_path_def del: upt_Suc)
qed

text \<open>The temporary file: only its own path knows the inode.\<close>

definition staged :: "fs \<Rightarrow> string \<Rightarrow> nat \<Rightarrow> fs \<Rightarrow> bool" where
  "staged old tmp i s \<longleftrightarrow> fs_wf s \<and> same_outside {tmp} old s \<and> inode_of s tmp = Some i
     \<and> (\<forall>p. p \<noteq> tmp \<longrightarrow> Some i \<notin> set (pnames s p))"

lemma fs_wf_tick [simp]: "fs_wf (s\<lparr>ticks := n\<rparr>) = fs_wf s"
  by (simp add: fs_wf_def)

lemma same_outside_tick [simp]: "same_outside X s (s'\<lparr>ticks := n\<rparr>) = same_outside X s s'"
  by (simp add: same_outside_def)

lemma staged_tick [simp]: "staged old tmp i (s\<lparr>ticks := n\<rparr>) = staged old tmp i s"
  by (simp add: staged_def)

lemma sys_noop_state: "snd (sys_noop s) = s\<lparr>ticks := Suc (ticks s)\<rparr>"
  by (simp add: sys_noop_def syscall_def Let_def split: option.splits)

lemma staged_append:
  assumes "staged old tmp i s"
  shows "staged old tmp i (append_bytes i bs s)"
proof -
  have "\<forall>p. p \<noteq> tmp \<longrightarrow> (\<forall>j. Some j \<in> set (pnames old p) \<longrightarrow> j \<noteq> i)"
    using assms unfolding staged_def same_outside_def by (metis singletonD)
  then show ?thesis using assms
    unfolding staged_def same_outside_def fs_wf_def append_bytes_def by auto
qed

lemma create_temp_staged:
  assumes "fs_wf s" and "sys_create_temp d pattern s = (Inr (tmp, i), s')"
  shows "staged s tmp i s'" "contents s' i = []" "inode_of s tmp = None"
proof -
  let ?s = "s\<lparr>ticks := Suc (ticks s)\<rparr>"
  have e: "tmp = temp_path ?s d pattern" "i = next_inode s" "s' = snd (new_file tmp ?s)"
    using assms(2) by (auto simp: sys_create_temp_def syscall_def Let_def new_file_def split: option.splits prod.splits)
  have fresh: "inode_of s tmp = None" using temp_path_fresh [of ?s d pattern] e(1) by simp
  have "Some i \<notin> set (pnames s p)" for p using assms(1) e(2) unfolding fs_wf_def by blast
  then show "staged s tmp i s'"
    using assms(1) unfolding staged_def e(3) new_file_def Let_def same_outside_def fs_wf_def e(2)
    by (auto simp: inode_of_set_name less_Suc_eq)
  show "contents s' i = []" by (simp add: e new_file_def Let_def)
  show "inode_of s tmp = None" by (rule fresh)
qed

lemma fill_temp_staged:
  assumes "staged old tmp i s" and "contents s i = []" and "fill_temp i bs s = (r, s')"
  shows "staged old tmp i s'" "r = Inr () \<Longrightarrow> pcontents s' i = [bs] \<and> contents s' i = bs"
proof -
  have w: "staged old tmp i s1 \<Longrightarrow> staged old tmp i (snd (sys_write i bs s1))" for s1
    by (auto simp: sys_write_def syscall_def Let_def staged_append split: option.splits)
  have y: "staged old tmp i s1 \<Longrightarrow> staged old tmp i (snd (sys_sync i s1))" for s1
  proof -
    assume a: "staged old tmp i s1"
    then have "\<forall>p. p \<noteq> tmp \<longrightarrow> (\<forall>j. Some j \<in> set (pnames old p) \<longrightarrow> j \<noteq> i)"
      unfolding staged_def same_outside_def by (metis singletonD)
    with a show ?thesis unfolding staged_def same_outside_def fs_wf_def
      by (auto simp: sys_sync_def syscall_def Let_def split: option.splits)
  qed
  have c: "staged old tmp i (snd (or_close f s1))" if "staged old tmp i s1" "\<And>s. staged old tmp i s \<Longrightarrow> staged old tmp i (snd (f s))" for f s1
    using that by (auto simp: or_close_def sys_noop_state split: prod.splits sum.splits) (metis snd_conv)+
  have n: "staged old tmp i s1 \<Longrightarrow> staged old tmp i (snd (sys_noop s1))" for s1 by (simp add: sys_noop_state)
  have b: "staged old tmp i (snd (bind_sys f g s1))" if "staged old tmp i s1" "\<And>s. staged old tmp i s \<Longrightarrow> staged old tmp i (snd (f s))"
      "\<And>x s. staged old tmp i s \<Longrightarrow> staged old tmp i (snd (g x s))" for f :: "unit sys" and g :: "unit \<Rightarrow> unit sys" and s1
    using that(1) that(2) [of s1] that(3) by (auto simp: bind_sys_def split: prod.splits sum.splits)
  have "staged old tmp i (snd (fill_temp i bs s))"
    unfolding fill_temp_def by (intro b c n w y assms(1)) (auto intro: b c n w y)
  then show "staged old tmp i s'" using assms(3) by simp
  show "r = Inr () \<Longrightarrow> pcontents s' i = [bs] \<and> contents s' i = bs"
    using assms(2,3) by (auto simp: fill_temp_def bind_sys_def or_close_def sys_noop_def sys_write_def sys_sync_def
        syscall_def append_bytes_def Let_def split: option.splits)
qed

text \<open>What \<open>finish\<close> may do to the target: settle its directory entry, nothing else.\<close>

definition settles :: "string \<Rightarrow> unit sys \<Rightarrow> bool" where
  "settles d f \<longleftrightarrow> (\<forall>s r s'. f s = (r, s') \<longrightarrow>
     (\<exists>n. s' = s\<lparr>ticks := n\<rparr> \<or> s' = (settle d s)\<lparr>ticks := n\<rparr>) \<and> (r = Inr () \<longrightarrow> (\<exists>n. s' = (settle d s)\<lparr>ticks := n\<rparr>)))"

lemma settle_simps [simp]:
  "inode_of (settle d s) = inode_of s" "contents (settle d s) = contents s" "pcontents (settle d s) = pcontents s"
  "next_inode (settle d s) = next_inode s" "pnames (settle d s) p = (if dir_of p = d then [inode_of s p] else pnames s p)"
  "ticks (settle d s) = ticks s" "faults (settle d s) = faults s" "settle d (s\<lparr>ticks := n\<rparr>) = (settle d s)\<lparr>ticks := n\<rparr>"
  by (simp_all add: settle_def cong: if_cong)

lemma sys_remove_absent: "inode_of s p = None \<Longrightarrow> \<exists>n. snd (sys_remove p s) = s\<lparr>ticks := n\<rparr>"
  by (auto simp: sys_remove_def syscall_def Let_def split: option.splits)

lemma sys_remove_outside: "same_outside {p} s (snd (sys_remove p s))"
  by (auto simp: sys_remove_def syscall_def Let_def same_outside_def inode_of_set_name split: option.splits)

lemma survivors_tick [simp]: "survivors (s\<lparr>ticks := n\<rparr>) p = survivors s p"
  by (simp add: survivors_def cong: option.case_cong)

lemma lookup_tick [simp]: "lookup (s\<lparr>ticks := n\<rparr>) p = lookup s p"
  by (simp add: lookup_def)

text \<open>The steps after the temporary file is complete.\<close>

lemma rename_settles:
  assumes st: "staged s tmp i s2" and bs: "pcontents s2 i = [bs]" "contents s2 i = bs" and ne: "target \<noteq> tmp"
    and rn: "sys_rename tmp target s2 = (Inr v, s3)" and fin: "settles (dir_of target) finish" "finish s3 = (r, s4)"
  shows "survivors (snd (sys_remove tmp s4)) target \<subseteq> survivors s target \<union> {Some bs}"
    and "r = Inr () \<Longrightarrow> survivors (snd (sys_remove tmp s4)) target = {Some bs}"
    and "lookup (snd (sys_remove tmp s4)) target = Some bs"
proof -
  let ?settled = "\<lambda>k. (settle (dir_of target) s3)\<lparr>ticks := k\<rparr>"
  have s3: "s3 = set_name target (Some i) (set_name tmp None (s2\<lparr>ticks := Suc (ticks s2)\<rparr>))"
    using rn st ne by (auto simp: sys_rename_def syscall_def Let_def staged_def split: option.splits)
  have i3: "inode_of s3 tmp = None" "inode_of s3 target = Some i" using s3 ne by (simp_all add: inode_of_set_name)
  have p3: "pnames s3 target = pnames s target @ [Some i]" using s3 ne st by (simp add: staged_def same_outside_def)
  obtain n where s4: "s4 = s3\<lparr>ticks := n\<rparr> \<or> s4 = ?settled n" using fin unfolding settles_def by blast
  then have "inode_of s4 tmp = None" using i3 by auto
  then obtain m where m: "snd (sys_remove tmp s4) = s4\<lparr>ticks := m\<rparr>" using sys_remove_absent by blast
  have old: "(case q of None \<Rightarrow> {None} | Some j \<Rightarrow> Some ` set (pcontents s3 j)) = (case q of None \<Rightarrow> {None} | Some j \<Rightarrow> Some ` set (pcontents s j))"
    if "q \<in> set (pnames s target)" for q
    using st that s3 ne by (auto simp: staged_def same_outside_def split: option.splits)
  have surv: "survivors s3 target = survivors s target \<union> {Some bs}" unfolding survivors_def p3 using old bs s3 by auto
  have settled: "survivors (settle (dir_of target) s3) target = {Some bs}" using i3(2) bs s3 by (simp add: survivors_def)
  have "survivors s4 target = survivors s3 target \<or> survivors s4 target = {Some bs}"
    using s4 by (elim disjE) (simp_all only: survivors_tick settled simp_thms)
  then show "survivors (snd (sys_remove tmp s4)) target \<subseteq> survivors s target \<union> {Some bs}"
    unfolding m survivors_tick surv by blast
  show "survivors (snd (sys_remove tmp s4)) target = {Some bs}" if ok: "r = Inr ()"
  proof -
    obtain k where "s4 = ?settled k" using fin ok unfolding settles_def by blast
    then show ?thesis unfolding m by (simp only: survivors_tick settled)
  qed
  show "lookup (snd (sys_remove tmp s4)) target = Some bs" using s4 i3(2) bs s3 m by (auto simp: lookup_def)
qed

text \<open>At every moment, losing power leaves the old contents or the new ones, never a part; once the
  call has succeeded, the new ones.\<close>

lemma replace_file_atomic:
  assumes wf: "fs_wf s" and fin: "settles (dir_of target) finish"
    and ne: "inode_of s target \<noteq> None \<or> target \<noteq> temp_path (s\<lparr>ticks := Suc (ticks s)\<rparr>) d pattern"
    and call: "replace_file d pattern target bs finish s = (r, s')"
  shows "survivors s' target \<subseteq> survivors s target \<union> {Some bs}
    \<and> (r = Inr () \<longrightarrow> survivors s' target = {Some bs} \<and> lookup s' target = Some bs)"
proof -
  obtain x s1 where create: "sys_create_temp d pattern s = (x, s1)" by fastforce
  show ?thesis
  proof (cases x)
    case (Inl e)
    then have "s' = s1" "r = Inl e" "survivors s1 target = survivors s target"
      using call create by (auto simp: replace_file_def sys_create_temp_def syscall_def Let_def split: option.splits prod.splits)
    then show ?thesis by auto
  next
    case (Inr y)
    obtain tmp i where y: "x = Inr (tmp, i)" using Inr by (cases y) auto
    note c = create_temp_staged [OF wf create [unfolded y]]
    have "tmp = temp_path (s\<lparr>ticks := Suc (ticks s)\<rparr>) d pattern"
      using create y by (auto simp: sys_create_temp_def syscall_def Let_def split: option.splits prod.splits)
    then have ne': "target \<noteq> tmp" using ne c(3) by auto
    obtain r2 s2 where f: "fill_temp i bs s1 = (r2, s2)" by fastforce
    note st = fill_temp_staged [OF c(1,2) f]
    have out: "survivors s3 target = survivors s target" if "same_outside {tmp} s2 s3" for s3
      using that st(1) ne' survivors_outside [of "{tmp}" s s3 target] same_outside_trans unfolding staged_def by blast
    obtain r3 s3 where rn: "sys_rename tmp target s2 = (r3, s3)" by fastforce
    obtain r4 s4 where fi: "finish s3 = (r4, s4)" by fastforce
    consider (fill) e where "r2 = Inl e" | (rename) e where "r2 = Inr ()" "r3 = Inl e" | (ok) "r2 = Inr ()" "r3 = Inr ()"
      by (cases r2; cases r3) auto
    then show ?thesis
    proof cases
      case fill
      then have "r = Inl e" "s' = snd (sys_remove tmp s2)"
        using call create y f by (auto simp: replace_file_def bind_sys_def)
      then show ?thesis using out [OF sys_remove_outside] by auto
    next
      case rename
      then have "r = Inl e" "s' = snd (sys_remove tmp s3)" "same_outside {tmp} s2 s3"
        using call create y f rn by (auto simp: replace_file_def bind_sys_def sys_rename_def syscall_def Let_def split: option.splits)
      then show ?thesis using out same_outside_trans [OF _ sys_remove_outside] by auto
    next
      case ok
      then have "r = r4" "s' = snd (sys_remove tmp s4)"
        using call create y f rn fi by (auto simp: replace_file_def bind_sys_def)
      with rename_settles [OF st(1) _ _ ne' _ fin fi] st(2) ok rn show ?thesis by simp
    qed
  qed
qed

subsection \<open>Invariants of the file system\<close>

lemma fs_wf_set_name: "fs_wf s \<Longrightarrow> (\<And>j. i = Some j \<Longrightarrow> j < next_inode s) \<Longrightarrow> fs_wf (set_name p i s)"
  by (auto simp: fs_wf_def inode_of_set_name)

lemma fs_wf_remove: "fs_wf s \<Longrightarrow> fs_wf (snd (sys_remove p s))"
  by (auto simp: sys_remove_def syscall_def Let_def intro!: fs_wf_set_name split: option.splits)

lemma inode_lt: "fs_wf s \<Longrightarrow> inode_of s p = Some i \<Longrightarrow> i < next_inode s"
  unfolding fs_wf_def by metis

lemma fs_wf_rename: "fs_wf s \<Longrightarrow> fs_wf (snd (sys_rename p q s))"
  by (auto simp: sys_rename_def syscall_def Let_def intro!: fs_wf_set_name dest: inode_lt split: option.splits)

lemma fs_wf_settle: "fs_wf s \<Longrightarrow> fs_wf (settle d s)"
  by (auto simp: fs_wf_def split: if_splits) (metis)+

lemma fs_wf_settles: "fs_wf s \<Longrightarrow> settles d f \<Longrightarrow> fs_wf (snd (f s))"
proof -
  assume wf: "fs_wf s" and f: "settles d f"
  obtain r s' where s': "f s = (r, s')" by fastforce
  then obtain n where "s' = s\<lparr>ticks := n\<rparr> \<or> s' = (settle d s)\<lparr>ticks := n\<rparr>"
    using f unfolding settles_def by blast
  then show "fs_wf (snd (f s))" using wf s' fs_wf_settle by auto
qed

lemma replace_file_wf:
  assumes "fs_wf s" and "settles d' finish"
  shows "fs_wf (snd (replace_file d pattern target bs finish s))"
proof -
  obtain x s1 where c: "sys_create_temp d pattern s = (x, s1)" by fastforce
  show ?thesis
  proof (cases x)
    case (Inl e)
    then have "s1 = s\<lparr>ticks := Suc (ticks s)\<rparr>"
      using c by (auto simp: sys_create_temp_def syscall_def Let_def split: option.splits prod.splits)
    with Inl c assms(1) show ?thesis by (simp add: replace_file_def)
  next
    case (Inr y)
    obtain tmp i where y: "x = Inr (tmp, i)" using Inr by (cases y) auto
    note t = create_temp_staged [OF assms(1) c [unfolded y]]
    obtain r2 s2 where f: "fill_temp i bs s1 = (r2, s2)" by fastforce
    have s2: "fs_wf s2" using fill_temp_staged(1) [OF t(1,2) f] by (simp add: staged_def)
    obtain r3 s3 where rn: "sys_rename tmp target s2 = (r3, s3)" by fastforce
    have s3: "fs_wf s3" using fs_wf_rename [OF s2, of tmp target] rn by simp
    have "fs_wf (snd (finish s3))" using fs_wf_settles [OF s3 assms(2)] .
    with s2 s3 c y f rn show ?thesis
      by (auto simp: replace_file_def bind_sys_def split: sum.splits prod.splits intro!: fs_wf_remove)
  qed
qed

subsection \<open>Progress\<close>

text \<open>When no call fails, writing a file whole succeeds.\<close>

definition calm :: "fs \<Rightarrow> bool" where
  "calm s \<longleftrightarrow> (\<forall>k. faults s k = None)"

lemma calm_calls:
  assumes "calm s"
  shows "sys_noop s = (Inr (), s\<lparr>ticks := Suc (ticks s)\<rparr>)"
    and "sys_write i bs s = (Inr (), append_bytes i bs (s\<lparr>ticks := Suc (ticks s)\<rparr>))"
    and "\<exists>s'. sys_sync i s = (Inr (), s') \<and> calm s'" and "sys_sync_dir d s = (Inr (), settle d (s\<lparr>ticks := Suc (ticks s)\<rparr>))"
    and "\<exists>x s'. sys_create_temp d pattern s = (Inr x, s') \<and> calm s'"
    and "inode_of s p = Some j \<Longrightarrow> \<exists>s'. sys_rename p q s = (Inr (), s') \<and> calm s'"
  using assms
  by (simp_all add: calm_def syscall_def sys_noop_def sys_write_def sys_sync_def sys_sync_dir_def sys_create_temp_def
      sys_rename_def new_file_def set_name_def Let_def)

lemma calm_updates [simp]: "calm (s\<lparr>ticks := n\<rparr>) = calm s" "calm (append_bytes i bs s) = calm s" "calm (settle d s) = calm s"
  by (simp_all add: calm_def append_bytes_def)

lemma fill_temp_calm: "calm s \<Longrightarrow> \<exists>s'. fill_temp i bs s = (Inr (), s') \<and> calm s'"
proof -
  assume s: "calm s"
  then obtain s' where "sys_sync i (append_bytes i bs (s\<lparr>ticks := Suc (Suc (ticks s))\<rparr>)) = (Inr (), s')" "calm s'"
    using calm_calls(3) [of "append_bytes i bs (s\<lparr>ticks := Suc (Suc (ticks s))\<rparr>)" i] by auto
  with s show ?thesis by (simp add: fill_temp_def bind_sys_def or_close_def calm_calls)
qed

lemma replace_file_calm:
  assumes "fs_wf s" and "calm s" and "\<And>s. calm s \<Longrightarrow> fst (finish s) = Inr ()"
  shows "fst (replace_file d pattern target bs finish s) = Inr ()"
proof -
  obtain tmp i s1 where c: "sys_create_temp d pattern s = (Inr (tmp, i), s1)" "calm s1"
    using calm_calls(5) [OF assms(2), of d pattern] by auto
  obtain s2 where f: "fill_temp i bs s1 = (Inr (), s2)" "calm s2" using fill_temp_calm [OF c(2)] by blast
  have "inode_of s2 tmp = Some i"
    using fill_temp_staged(1) [OF create_temp_staged(1,2) [OF assms(1) c(1)] f(1)] by (simp add: staged_def)
  then obtain s3 where "sys_rename tmp target s2 = (Inr (), s3)" "calm s3" using calm_calls(6) [OF f(2)] by blast
  with c f assms(3) [of s3] show ?thesis by (cases "finish s3") (simp add: replace_file_def bind_sys_def)
qed

subsection \<open>Atomic stores\<close>

text \<open>
  The contract of a file that is only ever replaced whole: \<open>put\<close> writes the target, keeps the
  invariant, and leaves the old or the new contents for a crash, the new ones when it succeeded.
  Then, whatever fails or crashes during a sequence of writes, a crash finds one of the values
  that were written or what was there before, and after a success exactly the last one.
\<close>

locale atomic_store =
  fixes put :: "bytes \<Rightarrow> unit sys" and target :: string
  assumes put_wf: "fs_wf s \<Longrightarrow> fs_wf (snd (put bs s))"
    and put_atomic: "fs_wf s \<Longrightarrow> put bs s = (r, s') \<Longrightarrow> survivors s' target \<subseteq> survivors s target \<union> {Some bs}
      \<and> (r = Inr () \<longrightarrow> survivors s' target = {Some bs} \<and> lookup s' target = Some bs)"
begin

fun puts :: "bytes list \<Rightarrow> fs \<Rightarrow> fs" where
  "puts [] s = s"
| "puts (b # bs) s = puts bs (snd (put b s))"

lemma puts_wf: "fs_wf s \<Longrightarrow> fs_wf (puts bs s)"
  by (induction bs arbitrary: s) (auto intro: put_wf)

lemma puts_survivors: "fs_wf s \<Longrightarrow> survivors (puts bs s) target \<subseteq> survivors s target \<union> Some ` set bs"
proof (induction bs arbitrary: s)
  case (Cons b bs)
  have "survivors (snd (put b s)) target \<subseteq> survivors s target \<union> {Some b}"
    using put_atomic [OF Cons.prems, of b] by (cases "put b s") auto
  with Cons.IH [OF put_wf [OF Cons.prems, of b]] show ?case by auto
qed simp

lemma put_last: "fs_wf s \<Longrightarrow> put b (puts bs s) = (Inr (), s') \<Longrightarrow> survivors s' target = {Some b} \<and> lookup s' target = Some b"
  using put_atomic [OF puts_wf] by blast

end

lemma dir_of_join: "d \<noteq> [] \<Longrightarrow> CHR ''/'' \<notin> set n \<Longrightarrow> dir_of (join_path d n) = d"
  and base_of_join: "CHR ''/'' \<notin> set n \<Longrightarrow> base_of (join_path d n) = n"
proof -
  assume n: "CHR ''/'' \<notin> set n"
  obtain a b where ab: "last_cut CHR ''/'' (join_path d n) = Some (a, b)"
    by (cases "last_cut CHR ''/'' (join_path d n)") (auto simp: join_path_def)
  then have e: "a @ CHR ''/'' # b = d @ CHR ''/'' # n" "CHR ''/'' \<notin> set b"
    using last_cut_Some [OF ab] by (auto simp: join_path_def)
  from arg_cong [OF e(1), of rev] have "rev b @ CHR ''/'' # rev a = rev n @ CHR ''/'' # rev d" by simp
  with e(2) have "rev b = rev n \<and> rev a = rev d"
    using append_sep_inject [of "CHR ''/''" "rev b" "rev n" "rev a" "rev d"] n by simp
  then show "d \<noteq> [] \<Longrightarrow> dir_of (join_path d n) = d" and "base_of (join_path d n) = n"
    using ab by (simp_all add: dir_of_def base_of_def)
qed

subsection \<open>Paths that keep their contents\<close>

text \<open>A path keeps what it holds, and a crash finds nothing new there.\<close>

definition kept :: "string \<Rightarrow> fs \<Rightarrow> fs \<Rightarrow> bool" where
  "kept p s s' \<longleftrightarrow> lookup s' p = lookup s p \<and> survivors s' p \<subseteq> survivors s p"

lemma kept_refl [simp]: "kept p s s"
  by (simp add: kept_def)

lemma kept_trans: "kept p s s' \<Longrightarrow> kept p s' s'' \<Longrightarrow> kept p s s''"
  unfolding kept_def by auto

lemma kept_settle: "fs_wf s \<Longrightarrow> kept p s ((settle d s)\<lparr>ticks := n\<rparr>)"
proof -
  assume "fs_wf s"
  then have "inode_of s p \<in> set (pnames s p)" unfolding fs_wf_def by blast
  then have "survivors (settle d s) p \<subseteq> survivors s p" unfolding survivors_def by (auto split: if_splits option.splits)
  then show ?thesis by (simp add: kept_def) (simp add: lookup_def)
qed

lemma kept_tick [simp]: "kept p s (s\<lparr>ticks := n\<rparr>)"
  by (simp add: kept_def)

lemma kept_remove: "p \<noteq> q \<Longrightarrow> kept p s (snd (sys_remove q s))"
  using survivors_outside [OF sys_remove_outside, of p q s]
  by (auto simp: kept_def sys_remove_def syscall_def Let_def lookup_def inode_of_set_name split: option.splits)

lemma kept_outside: "same_outside X s s' \<Longrightarrow> p \<notin> X \<Longrightarrow> fs_wf s \<Longrightarrow> kept p s s'"
  by (simp add: kept_def lookup_outside survivors_outside)

lemma kept_settles:
  assumes "fs_wf s" and "settles d f" and "f s = (r, s')"
  shows "kept p s s'"
proof -
  obtain n where "s' = s\<lparr>ticks := n\<rparr> \<or> s' = (settle d s)\<lparr>ticks := n\<rparr>" using assms(2,3) unfolding settles_def by blast
  then show ?thesis using kept_settle [OF assms(1)] by auto
qed

lemma rename_outside: "fs_wf s \<Longrightarrow> same_outside {p, q} s (snd (sys_rename p q s))"
  by (auto simp: sys_rename_def syscall_def Let_def same_outside_def inode_of_set_name split: option.splits)

text \<open>Writing a file whole leaves every other path alone, the temporary one apart.\<close>

lemma replace_file_kept:
  assumes "fs_wf s" and "settles d' finish" and "p \<noteq> target" and "p \<noteq> temp_path (s\<lparr>ticks := Suc (ticks s)\<rparr>) d pattern"
    and call: "replace_file d pattern target bs finish s = (r, s')"
  shows "kept p s s'"
proof -
  obtain x s1 where create: "sys_create_temp d pattern s = (x, s1)" by fastforce
  show ?thesis
  proof (cases x)
    case (Inl e)
    then have "s' = s1" "s1 = s\<lparr>ticks := Suc (ticks s)\<rparr>"
      using call create by (auto simp: replace_file_def sys_create_temp_def syscall_def Let_def split: option.splits prod.splits)
    then show ?thesis by simp
  next
    case (Inr y)
    obtain tmp i where y: "x = Inr (tmp, i)" using Inr by (cases y) auto
    note c = create_temp_staged [OF assms(1) create [unfolded y]]
    have "tmp = temp_path (s\<lparr>ticks := Suc (ticks s)\<rparr>) d pattern"
      using create y by (auto simp: sys_create_temp_def syscall_def Let_def split: option.splits prod.splits)
    then have p: "p \<noteq> tmp" using assms(4) by simp
    obtain r2 s2 where f: "fill_temp i bs s1 = (r2, s2)" by fastforce
    have s2: "fs_wf s2" "kept p s s2"
      using fill_temp_staged(1) [OF c(1,2) f] kept_outside [of "{tmp}" s s2 p] assms(1) p by (auto simp: staged_def)
    obtain r3 s3 where rn: "sys_rename tmp target s2 = (r3, s3)" by fastforce
    have s3: "fs_wf s3" "kept p s2 s3"
      using fs_wf_rename [OF s2(1), of tmp target] kept_outside [OF rename_outside [OF s2(1)]] rn p assms(3) s2(1) by (metis insertE singletonD snd_conv)+
    obtain r4 s4 where fi: "finish s3 = (r4, s4)" by fastforce
    have s4: "kept p s3 s4" using kept_settles [OF s3(1) assms(2) fi] .
    have rm: "kept p t (snd (sys_remove tmp t))" for t using p by (rule kept_remove)
    have "s' = snd (sys_remove tmp s2) \<or> s' = snd (sys_remove tmp s3) \<or> s' = snd (sys_remove tmp s4)"
      using call create y f rn fi by (auto simp: replace_file_def bind_sys_def split: sum.splits)
    then show ?thesis using s2(2) s3(2) s4 rm kept_trans by blast
  qed
qed

lemma lookup_survives: "fs_wf s \<Longrightarrow> lookup s p \<in> survivors s p"
  unfolding fs_wf_def lookup_def survivors_def by (cases "inode_of s p") (auto intro!: bexI [of _ "inode_of s p"])

lemma kept_durable: "fs_wf s' \<Longrightarrow> survivors s p = {lookup s p} \<Longrightarrow> kept p s s' \<Longrightarrow> survivors s' p = {lookup s p}"
  using lookup_survives [of s' p] unfolding kept_def by auto

subsection \<open>An empty disk\<close>

definition empty_disk :: fs where
  "empty_disk = \<lparr>names = [], pnames = (\<lambda>_. [None]), contents = (\<lambda>_. []), pcontents = (\<lambda>_. [[]]), next_inode = 0,
     subdirs = [], ticks = 0, faults = (\<lambda>_. None)\<rparr>"

lemma empty_disk_wf: "fs_wf empty_disk"
  by (simp add: empty_disk_def fs_wf_def inode_of_def)

end
