(* ===== verification/Diode.thy ===== *)
theory Diode
  imports Frames Files Transport
begin

section \<open>The diode relay (internal/diode/relay.go)\<close>

text \<open>
  The exporter turns the messages of a stream into signed frame files; the importer publishes the
  messages of frame files on the other side. The state is the file system and the world of the
  NATS client; the clock, the messaging library and the primitives are arguments.
\<close>

record 'w diode_env =
  dhm :: hmessaging
  dcr :: crypto
  dns :: "'w nats"
  dnow :: "'w \<Rightarrow> gtime"
  dtls :: tls_files
  dconnect :: "ConnectionConfig \<Rightarrow> 'w \<Rightarrow> goerr option \<times> 'w"

record ExportConfig =
  XNATS :: Config
  XStream :: string
  XSubject :: string
  XDurable :: string
  OutputDir :: string
  XLedgerPath :: string
  SigningKey :: string
  AttachObject :: string
  BundleBucket :: string
  XMaxAttachmentBytes :: int

record ImportConfig =
  INATS :: Config
  InputDir :: string
  ProcessedDir :: string
  QuarantineDir :: string
  ILedgerPath :: string
  VerifyKey :: string
  PollInterval :: duration
  IMaxAttachmentBytes :: int
  ExpectedAttachment :: string

type_synonym 'w dstate = "fs \<times> 'w"

definition on_fs :: "'a sys \<Rightarrow> 'w dstate \<Rightarrow> 'a result \<times> 'w dstate" where
  "on_fs f st = (case f (fst st) of (r, s) \<Rightarrow> (r, s, snd st))"

definition on_net :: "('w \<Rightarrow> 'a \<times> 'w) \<Rightarrow> 'w dstate \<Rightarrow> 'a \<times> 'w dstate" where
  "on_net f st = (case f (snd st) of (r, w) \<Rightarrow> (r, fst st, w))"

definition err_of :: "'a result \<Rightarrow> goerr option" where
  "err_of r = (case r of Inl e \<Rightarrow> Some e | Inr _ \<Rightarrow> None)"

subsection \<open>Files\<close>

definition requireAbsolutePaths :: "string list \<Rightarrow> goerr option" where
  "requireAbsolutePaths paths = (case filter (\<lambda>p. \<not> is_abs p) paths of [] \<Rightarrow> None
     | p # _ \<Rightarrow> Some (ErrNew (''diode paths must be absolute: '' @ go_quote p)))"

definition syncDirectory :: "string \<Rightarrow> unit sys" where
  "syncDirectory path = bind_sys sys_noop (\<lambda>_. bind_sys (or_close (sys_sync_dir path)) (\<lambda>_. sys_noop))"

text \<open>\<open>atomicJSON\<close> of a value that \<open>json.Marshal\<close> has printed.\<close>

definition atomicJSON :: "string \<Rightarrow> bytes result \<Rightarrow> unit sys" where
  "atomicJSON path marshalled s = (case marshalled of Inl e \<Rightarrow> (Inl e, s)
     | Inr data \<Rightarrow> bind_sys sys_noop (\<lambda>_. replace_file (dir_of path) ''.frame-'' path data (syncDirectory (dir_of path))) s)"

text \<open>\<open>strconv.ParseUint\<close>: decimal digits only, within 64 bits.\<close>

definition parse_uint :: "string \<Rightarrow> int result" where
  "parse_uint t = (case parse_nat t of None \<Rightarrow> Inl (ErrNew ''invalid syntax'')
     | Some n \<Rightarrow> if fits_uint64 (int n) then Inr (int n) else Inl (ErrNew ''value out of range''))"

definition readSequence :: "string \<Rightarrow> int sys" where
  "readSequence path s = (case sys_read_file path s of
     (Inl e, s) \<Rightarrow> (if errors_is e ErrNotExist then Inr 0 else Inl e, s)
   | (Inr data, s) \<Rightarrow> (parse_uint (trim_char CHR 0x22 (trim_space data)), s))"

definition writeSequence :: "string \<Rightarrow> int \<Rightarrow> unit sys" where
  "writeSequence path sequence = atomicJSON path (Inr (json_quote (int_str sequence)))"

text \<open>The set of processed message IDs is a list of lines.\<close>

definition ledger_ids :: "bytes \<Rightarrow> string list" where
  "ledger_ids data = filter (\<lambda>l. l \<noteq> []) (split_char CHR 0x0A data)"

definition readProcessed :: "string \<Rightarrow> string list sys" where
  "readProcessed path s = (case sys_read_file path s of
     (Inl e, s) \<Rightarrow> (if errors_is e ErrNotExist then Inr [] else Inl e, s)
   | (Inr data, s) \<Rightarrow> (Inr (ledger_ids data), s))"

definition appendProcessed :: "string \<Rightarrow> string \<Rightarrow> unit sys" where
  "appendProcessed path mid = bind_sys sys_noop (\<lambda>_. bind_sys (sys_open_append path) (\<lambda>i.
     bind_sys (or_close (sys_write i (mid @ [CHR 0x0A]))) (\<lambda>_. bind_sys (or_close (sys_sync i)) (\<lambda>_.
       bind_sys sys_noop (\<lambda>_. syncDirectory (dir_of path))))))"

definition moveDurably :: "string \<Rightarrow> string \<Rightarrow> unit sys" where
  "moveDurably source destination = bind_sys sys_noop (\<lambda>_. bind_sys (sys_rename source destination) (\<lambda>_.
     bind_sys (syncDirectory (dir_of source)) (\<lambda>_. syncDirectory (dir_of destination))))"

definition quarantine_record :: "string \<Rightarrow> goerr \<Rightarrow> gtime \<Rightarrow> bytes" where
  "quarantine_record name cause t = (case marshal_time t of None \<Rightarrow> []
     | Some at \<Rightarrow> encode_struct [member ''error'' (JStr (err_text cause)), member ''frame'' (JStr name),
         member ''quarantined_at'' (JStr at)])"

definition quarantine :: "'w diode_env \<Rightarrow> ImportConfig \<Rightarrow> string \<Rightarrow> string \<Rightarrow> goerr \<Rightarrow> 'w dstate \<Rightarrow> goerr option \<times> 'w dstate" where
  "quarantine env config source name cause st =
     (case on_fs (appendProcessed (ILedgerPath config @ ''.errors'') (quarantine_record name cause (dnow env (snd st)))) st of
        (Inl e, st) \<Rightarrow> (Some e, st)
      | (Inr _, st) \<Rightarrow> (case on_fs (moveDurably source (join_path (QuarantineDir config) name)) st of
          (r, st) \<Rightarrow> (err_of r, st)))"

text \<open>Keys.\<close>

definition loadPrivateKey :: "crypto \<Rightarrow> string \<Rightarrow> bytes sys" where
  "loadPrivateKey cr path s = (case sys_read_file path s of (Inl e, s) \<Rightarrow> (Inl e, s)
     | (Inr data, s) \<Rightarrow> (case pem_decode cr data of None \<Rightarrow> Inl (ErrNew ''signing key is not PEM'')
         | Some (_, bs) \<Rightarrow> (case parse_pkcs8 cr bs of Inl e \<Rightarrow> Inl e | Inr (Ed25519Key k) \<Rightarrow> Inr k
             | Inr OtherKey \<Rightarrow> Inl (ErrNew ''signing key is not Ed25519'')), s))"

definition loadPublicKey :: "crypto \<Rightarrow> string \<Rightarrow> bytes sys" where
  "loadPublicKey cr path s = (case sys_read_file path s of (Inl e, s) \<Rightarrow> (Inl e, s)
     | (Inr data, s) \<Rightarrow> (case pem_decode cr data of None \<Rightarrow> Inl (ErrNew ''verification key is not PEM'')
         | Some (_, bs) \<Rightarrow> (case parse_pkix cr bs of Inl e \<Rightarrow> Inl e | Inr (Ed25519Key k) \<Rightarrow> Inr k
             | Inr OtherKey \<Rightarrow> Inl (ErrNew ''verification key is not Ed25519'')), s))"

subsection \<open>Attachments\<close>

text \<open>Bucket, key and whether an attachment is required.\<close>

definition attachmentReference :: "hmessaging \<Rightarrow> string \<Rightarrow> string \<Rightarrow> Message \<Rightarrow> (string \<times> string \<times> bool) result" where
  "attachmentReference hm attach bundle_bucket message =
     (let complete = (\<lambda>bucket key. if bucket = [] \<or> key = []
            then Inl (ErrNew ''object attachment reference is incomplete'') else Inr (bucket, key, True)) in
      if attach = [] then Inr ([], [], False)
      else if attach = ''bundle'' then (case unmarshal_command hm (MData message) of Inl e \<Rightarrow> Inl e
        | Inr command \<Rightarrow> if CType command \<noteq> ''create-job'' then Inr ([], [], False)
            else complete (if bundle_bucket = [] then ''PO_RUNNER_BUNDLES'' else bundle_bucket)
              (COrganizationID command @ ''/'' @ CDeploymentID command))
      else if attach = ''log'' then (case unmarshal_event hm (MData message) of Inl e \<Rightarrow> Inl e
        | Inr event \<Rightarrow> if EType event \<noteq> ''log-object-ready'' then Inr ([], [], False)
            else (case decode_struct (EPayload event) of None \<Rightarrow> Inl (ErrNew ''decode log reference'')
              | Some ms \<Rightarrow> (case (get_field into_str ''bucket'' ms [], get_field into_str ''key'' ms []) of
                  (Some b, Some k) \<Rightarrow> complete b k | _ \<Rightarrow> Inl (ErrNew ''decode log reference''))))
      else Inl (ErrNew (''unsupported diode attachment kind '' @ go_quote attach)))"

definition validateAttachmentInvariant :: "hmessaging \<Rightarrow> string \<Rightarrow> Message \<Rightarrow> Attachment option \<Rightarrow> goerr option" where
  "validateAttachmentInvariant hm expected message attachment =
     (if expected = [] then None
      else (case attachmentReference hm expected [] message of Inl e \<Rightarrow> Some e
        | Inr (bucket, key, required) \<Rightarrow> (case attachment of
            None \<Rightarrow> if required then Some (ErrNew (expected @ '' attachment is required for message'')) else None
          | Some a \<Rightarrow> if \<not> required then Some (ErrNew (''unexpected '' @ expected @ '' attachment for message''))
              else if Bucket a \<noteq> bucket \<or> Key a \<noteq> key
              then Some (ErrNew (expected @ '' attachment reference '' @ Bucket a @ ''/'' @ Key a
                @ '' does not match message reference '' @ bucket @ ''/'' @ key))
              else None)))"

definition loadAttachment :: "'w diode_env \<Rightarrow> ExportConfig \<Rightarrow> Message \<Rightarrow> 'w \<Rightarrow> Attachment option result \<times> 'w" where
  "loadAttachment env config message w =
     (case attachmentReference (dhm env) (AttachObject config) (BundleBucket config) message of Inl e \<Rightarrow> (Inl e, w)
      | Inr (bucket, key, required) \<Rightarrow>
        if \<not> required then (Inr None, w)
        else (case open_jetstream (dns env) w of (Some e, w) \<Rightarrow> (Inl e, w)
        | (None, w) \<Rightarrow> (case open_store (dns env) bucket w of (Some e, w) \<Rightarrow> (Inl e, w)
        | (None, w) \<Rightarrow> (case obj_get (dns env) bucket key w of (Inl e, w) \<Rightarrow> (Inl e, w)
        | (Inr (content, fault), w) \<Rightarrow>
          (case read_all_limit (nat (wrap_int64 (XMaxAttachmentBytes config + 1))) (Reader [content] fault) of Inl e \<Rightarrow> Inl e
           | Inr data \<Rightarrow> if int (length data) > XMaxAttachmentBytes config
               then Inl (ErrNew (''object attachment '' @ bucket @ ''/'' @ key @ '' exceeds '' @ int_str (XMaxAttachmentBytes config) @ '' bytes''))
               else Inr (Some \<lparr>Bucket = bucket, Key = key, ASlice = Some data, APayloadSHA256 = payloadHash (dcr env) data\<rparr>), w)))))"

definition storeAttachment :: "'w diode_env \<Rightarrow> Attachment \<Rightarrow> 'w \<Rightarrow> goerr option \<times> 'w" where
  "storeAttachment env a w =
     (if Bucket a = [] \<or> Key a = [] \<or> AData a = [] then (Some (ErrNew ''attachment bucket, key, and data are required''), w)
      else if APayloadSHA256 a \<noteq> payloadHash (dcr env) (AData a) then (Some (ErrNew ''attachment payload checksum mismatch''), w)
      else (case open_jetstream (dns env) w of (Some e, w) \<Rightarrow> (Some e, w)
        | (None, w) \<Rightarrow> (case open_store (dns env) (Bucket a) w of (Some e, w) \<Rightarrow> (Some e, w)
        | (None, w) \<Rightarrow> (case obj_put (dns env) (Bucket a) (Key a) (AData a, None) w of (r, w) \<Rightarrow> (err_of r, w)))))"

subsection \<open>Exporting\<close>

text \<open>The name of a frame file: the sequence with leading zeros and a hash of the message ID.\<close>

definition frame_name :: "crypto \<Rightarrow> int \<Rightarrow> string \<Rightarrow> string" where
  "frame_name cr sequence mid = pad20 (int_str sequence) @ ''-'' @ shortHash cr mid @ ''.json''"

text \<open>What the loop does with a delivery under its new sequence number: refuse it with a delay, or,
  when frame and ledger are on the disk, acknowledge it.\<close>

definition export_delivery :: "'w diode_env \<Rightarrow> ExportConfig \<Rightarrow> bytes \<Rightarrow> int \<Rightarrow> 'w Delivery \<Rightarrow> 'w dstate
    \<Rightarrow> duration option \<times> 'w dstate" where
  "export_delivery env config key sequence d st =
     (case on_net (loadAttachment env config (DMessage d)) st of
        (Inl e, st) \<Rightarrow> (Some (5 * second), st)
      | (Inr attachment, st) \<Rightarrow>
        (case signFrameWithAttachment (dcr env) (dhm env) sequence (DMessage d) attachment key of
           Inl e \<Rightarrow> (Some second, st)
         | Inr frame \<Rightarrow>
           (case on_fs (atomicJSON (join_path (OutputDir config) (frame_name (dcr env) sequence (MID (DMessage d))))
               (marshal_frame (dhm env) frame)) st of
              (Inl e, st) \<Rightarrow> (Some (5 * second), st)
            | (Inr _, st) \<Rightarrow> (case on_fs (writeSequence (XLedgerPath config) sequence) st of
                (Inl e, st) \<Rightarrow> (Some (5 * second), st)
              | (Inr _, st) \<Rightarrow> (None, st)))))"

definition next_sequence :: "int \<Rightarrow> int" where
  "next_sequence q = (q + 1) mod 2 ^ 64"

text \<open>One round of the loop: how the exporter returns, if it does, and the sequence and state it
  continues with.\<close>

definition export_round :: "'w diode_env \<Rightarrow> ExportConfig \<Rightarrow> bytes \<Rightarrow> Consumer \<Rightarrow> int \<Rightarrow> 'w dstate
    \<Rightarrow> goerr option \<times> int \<times> 'w dstate" where
  "export_round env config key consumer sequence st =
     (case on_net (Fetch (dhm env) (dns env) None consumer) st of
        (Inl e, st) \<Rightarrow> (ctx_err (dns env) (snd st), sequence, st)
      | (Inr d, st) \<Rightarrow> (let sequence = next_sequence sequence in
          case export_delivery env config key sequence d st of
            (Some delay, st) \<Rightarrow> (None, sequence, snd (on_net (Nak d delay) st))
          | (None, st) \<Rightarrow> (case on_net (Ack d) st of (e, st) \<Rightarrow> (e, sequence, st))))"

fun export_loop :: "'w diode_env \<Rightarrow> ExportConfig \<Rightarrow> bytes \<Rightarrow> Consumer \<Rightarrow> nat \<Rightarrow> int \<Rightarrow> 'w dstate
    \<Rightarrow> goerr option \<times> int \<times> 'w dstate" where
  "export_loop env config key consumer 0 sequence st = (None, sequence, st)"
| "export_loop env config key consumer (Suc n) sequence st =
     (case export_round env config key consumer sequence st of
        (Some e, q, st) \<Rightarrow> (Some e, q, st)
      | (None, q, st) \<Rightarrow> export_loop env config key consumer n q st)"

text \<open>\<open>RunExporter\<close>, for \<open>n\<close> rounds of its loop; \<^const>\<open>None\<close> means that it is still running.\<close>

definition RunExporter :: "'w diode_env \<Rightarrow> ExportConfig \<Rightarrow> nat \<Rightarrow> 'w dstate \<Rightarrow> goerr option \<times> 'w dstate" where
  "RunExporter env config n st =
     (case requireAbsolutePaths [OutputDir config, XLedgerPath config, SigningKey config] of Some e \<Rightarrow> (Some e, st)
      | None \<Rightarrow> (case on_fs (loadPrivateKey (dcr env) (SigningKey config)) st of (Inl e, st) \<Rightarrow> (Some e, st)
      | (Inr key, st) \<Rightarrow> (case on_fs sys_noop st of (Inl e, st) \<Rightarrow> (Some e, st)
      | (Inr _, st) \<Rightarrow> (case on_fs (readSequence (XLedgerPath config)) st of (Inl e, st) \<Rightarrow> (Some e, st)
      | (Inr sequence, st) \<Rightarrow> (case on_net (Connect (dtls env) (dconnect env) (XNATS config)) st of (Some e, st) \<Rightarrow> (Some e, st)
      | (None, st) \<Rightarrow>
        (let config = config\<lparr>XMaxAttachmentBytes := (if XMaxAttachmentBytes config \<le> 0 then 16 * 1024 * 1024
               else XMaxAttachmentBytes config)\<rparr> in
         case on_net (NewBoundConsumer (dns env) (XStream config) (XSubject config) (XDurable config)) st of
           (Inl e, st) \<Rightarrow> (Some e, st)
         | (Inr consumer, st) \<Rightarrow> (case export_loop env config key consumer n sequence st of (e, _, st) \<Rightarrow> (e, st))))))))"

subsection \<open>Importing\<close>

definition maxFrameBytes :: "int \<Rightarrow> int" where
  "maxFrameBytes maxAttachmentBytes = wrap_int64 (maxAttachmentBytes * 2 + 1024 * 1024)"

text \<open>Why a frame file is set aside: undecodable, not authentic, expired or with the wrong attachment.\<close>

definition frame_fault :: "'w diode_env \<Rightarrow> ImportConfig \<Rightarrow> bytes \<Rightarrow> bytes \<Rightarrow> gtime \<Rightarrow> goerr + Frame" where
  "frame_fault env config publicKey data t = (case unmarshal_frame (dhm env) data of
     None \<Rightarrow> Inl (ErrNew ''decode frame'')
   | Some frame \<Rightarrow> (case verifyFrame (dcr env) (dhm env) frame publicKey of
       Some e \<Rightarrow> Inl (ErrWrap ''verify frame'' e)
     | None \<Rightarrow>
       if \<not> is_zero (MExpiresAt (FMessage frame)) \<and> \<not> t < MExpiresAt (FMessage frame)
       then Inl (ErrNew ''message expired before protected-side import'')
       else (case validateAttachmentInvariant (dhm env) (ExpectedAttachment config) (FMessage frame) (FAttachment frame) of
           Some e \<Rightarrow> Inl e
         | None \<Rightarrow> (case FAttachment frame of
             Some a \<Rightarrow> if int (length (AData a)) > IMaxAttachmentBytes config
               then Inl (ErrNew ''attachment exceeds configured size limit'') else Inr frame
           | None \<Rightarrow> Inr frame))))"

text \<open>Publishing the message of a frame that is not recorded yet, and recording it.\<close>

definition deliver_frame :: "'w diode_env \<Rightarrow> ImportConfig \<Rightarrow> Frame \<Rightarrow> string list \<Rightarrow> 'w dstate
    \<Rightarrow> (goerr + string list) \<times> 'w dstate" where
  "deliver_frame env config frame processed st =
     (case (case FAttachment frame of None \<Rightarrow> (None, st) | Some a \<Rightarrow> on_net (storeAttachment env a) st) of
        (Some e, st) \<Rightarrow> (Inl e, st)
      | (None, st) \<Rightarrow>
        if MID (FMessage frame) \<in> set processed then (Inr processed, st)
        else (case on_net (publish (dhm env) (dns env) (FMessage frame)) st of (Some e, st) \<Rightarrow> (Inl e, st)
          | (None, st) \<Rightarrow> (case on_fs (appendProcessed (ILedgerPath config) (MID (FMessage frame))) st of
              (Inl e, st) \<Rightarrow> (Inl e, st)
            | (Inr _, st) \<Rightarrow> (Inr (MID (FMessage frame) # processed), st))))"

definition sys_size :: "string \<Rightarrow> int sys" where
  "sys_size p = syscall (\<lambda>s _. s) (\<lambda>s. (case lookup s p of Some b \<Rightarrow> Inr (int (length b)) | None \<Rightarrow> Inl ErrNotExist, s))"

definition import_entry :: "'w diode_env \<Rightarrow> ImportConfig \<Rightarrow> bytes \<Rightarrow> string \<Rightarrow> string list \<Rightarrow> 'w dstate
    \<Rightarrow> (goerr + string list) \<times> 'w dstate" where
  "import_entry env config publicKey name processed st =
     (let path = join_path (InputDir config) name;
          aside = (\<lambda>cause st. case quarantine env config path name cause st of
            (Some e, st) \<Rightarrow> (Inl e, st) | (None, st) \<Rightarrow> (Inr processed, st)) in
      case on_fs (sys_size path) st of (Inl e, st) \<Rightarrow> (Inl e, st)
      | (Inr sz, st) \<Rightarrow>
        if sz > maxFrameBytes (IMaxAttachmentBytes config)
        then aside (ErrNew (''frame exceeds '' @ int_str (maxFrameBytes (IMaxAttachmentBytes config)) @ ''-byte encoded size limit'')) st
        else (case on_fs (sys_read_file path) st of (Inl e, st) \<Rightarrow> (Inl e, st)
          | (Inr data, st) \<Rightarrow> (case frame_fault env config publicKey data (dnow env (snd st)) of
              Inl cause \<Rightarrow> aside cause st
            | Inr frame \<Rightarrow> (case deliver_frame env config frame processed st of (Inl e, st) \<Rightarrow> (Inl e, st)
                | (Inr processed, st) \<Rightarrow> (case on_fs (moveDurably path (join_path (ProcessedDir config) name)) st of
                    (Inl e, st) \<Rightarrow> (Inl e, st) | (Inr _, st) \<Rightarrow> (Inr processed, st))))))"

fun import_entries :: "'w diode_env \<Rightarrow> ImportConfig \<Rightarrow> bytes \<Rightarrow> (string \<times> bool) list \<Rightarrow> string list \<Rightarrow> 'w dstate
    \<Rightarrow> (goerr + string list) \<times> 'w dstate" where
  "import_entries env config publicKey [] processed st = (Inr processed, st)"
| "import_entries env config publicKey ((name, is_dir) # es) processed st =
     (if is_dir \<or> \<not> suffix ''.json'' name then import_entries env config publicKey es processed st
      else (case import_entry env config publicKey name processed st of (Inl e, st) \<Rightarrow> (Inl e, st)
        | (Inr processed, st) \<Rightarrow> import_entries env config publicKey es processed st))"

definition importAvailable :: "'w diode_env \<Rightarrow> ImportConfig \<Rightarrow> bytes \<Rightarrow> string list \<Rightarrow> 'w dstate
    \<Rightarrow> (goerr + string list) \<times> 'w dstate" where
  "importAvailable env config publicKey processed st =
     (let config = config\<lparr>IMaxAttachmentBytes := (if IMaxAttachmentBytes config \<le> 0 then 16 * 1024 * 1024
            else IMaxAttachmentBytes config)\<rparr> in
      case on_fs (sys_read_dir (InputDir config)) st of (Inl e, st) \<Rightarrow> (Inl e, st)
      | (Inr entries, st) \<Rightarrow> import_entries env config publicKey (sort_key fst entries) processed st)"

fun import_loop :: "'w diode_env \<Rightarrow> ImportConfig \<Rightarrow> bytes \<Rightarrow> nat \<Rightarrow> string list \<Rightarrow> 'w dstate \<Rightarrow> goerr option \<times> 'w dstate" where
  "import_loop env config publicKey 0 processed st = (None, st)"
| "import_loop env config publicKey (Suc n) processed st =
     (case importAvailable env config publicKey processed st of (Inl e, st) \<Rightarrow> (Some e, st)
      | (Inr processed, st) \<Rightarrow> (case ctx_err (dns env) (snd st) of Some e \<Rightarrow> (Some e, st)
          | None \<Rightarrow> import_loop env config publicKey n processed st))"

definition importer_defaults :: "ImportConfig \<Rightarrow> ImportConfig" where
  "importer_defaults config = config\<lparr>
     PollInterval := (if PollInterval config \<le> 0 then 500 * 1000000 else PollInterval config),
     IMaxAttachmentBytes := (if IMaxAttachmentBytes config \<le> 0 then 16 * 1024 * 1024 else IMaxAttachmentBytes config),
     QuarantineDir := (if QuarantineDir config = [] then join_path (ProcessedDir config) ''quarantine'' else QuarantineDir config)\<rparr>"

definition RunImporter :: "'w diode_env \<Rightarrow> ImportConfig \<Rightarrow> nat \<Rightarrow> 'w dstate \<Rightarrow> goerr option \<times> 'w dstate" where
  "RunImporter env config n st =
     (case requireAbsolutePaths ([InputDir config, ProcessedDir config, ILedgerPath config, VerifyKey config]
          @ (if QuarantineDir config \<noteq> [] then [QuarantineDir config] else [])) of Some e \<Rightarrow> (Some e, st)
      | None \<Rightarrow> (case on_fs (loadPublicKey (dcr env) (VerifyKey config)) st of (Inl e, st) \<Rightarrow> (Some e, st)
      | (Inr publicKey, st) \<Rightarrow> (let config = importer_defaults config in
        case on_fs (bind_sys sys_noop (\<lambda>_. bind_sys sys_noop (\<lambda>_. sys_noop))) st of (Inl e, st) \<Rightarrow> (Some e, st)
      | (Inr _, st) \<Rightarrow> (case on_fs (readProcessed (ILedgerPath config)) st of (Inl e, st) \<Rightarrow> (Some e, st)
      | (Inr processed, st) \<Rightarrow> (case on_net (Connect (dtls env) (dconnect env) (INATS config)) st of (Some e, st) \<Rightarrow> (Some e, st)
      | (None, st) \<Rightarrow> (case on_net (NewPublisher (dns env)) st of (Some e, st) \<Rightarrow> (Some e, st)
      | (None, st) \<Rightarrow> import_loop env config publicKey n processed st))))))"

end
