(* ===== verification/DiodeProofs.thy ===== *)
theory DiodeProofs
  imports Diode
begin

section \<open>The diode relay: exactly what was exported, at most once\<close>

text \<open>
  The exporter acknowledges a message only when its frame and its sequence number survive a crash;
  the importer accepts what the exporter wrote, publishes nothing twice and nothing that was not
  signed, and finds its record again after a restart.
\<close>

subsection \<open>Frame and ledger on the disk\<close>

lemma syncDirectory_settles: "settles d (syncDirectory d)"
  unfolding settles_def
  by (auto simp: syncDirectory_def bind_sys_def or_close_def sys_noop_def sys_sync_dir_def syscall_def Let_def split: option.splits)

text \<open>A path that \<open>atomicJSON\<close> may write: not the name of one of its own temporary files.\<close>

definition plain_target :: "string \<Rightarrow> bool" where
  "plain_target path \<longleftrightarrow> \<not> prefix ''.frame-'' (base_of path)"

lemma nat_str_no_slash: "CHR ''/'' \<notin> set (nat_str n)"
  by (auto dest!: nat_str_is_digit simp: is_digit_def digit_val_def)

lemma plain_target_temp: "plain_target p \<Longrightarrow> p \<noteq> temp_path s d ''.frame-''"
  by (auto simp: plain_target_def temp_path_def base_of_join nat_str_no_slash)

lemma atomicJSON_cases:
  assumes "atomicJSON path (Inr bs) s = (r, s')"
  shows "(\<exists>e. r = Inl e \<and> s' = s\<lparr>ticks := Suc (ticks s)\<rparr>)
    \<or> replace_file (dir_of path) ''.frame-'' path bs (syncDirectory (dir_of path)) (s\<lparr>ticks := Suc (ticks s)\<rparr>) = (r, s')"
  using assms by (auto simp: atomicJSON_def bind_sys_def sys_noop_def syscall_def Let_def split: option.splits)

lemma atomicJSON_store: "atomic_store (\<lambda>bs. atomicJSON path (Inr bs)) path" if plain: "plain_target path"
proof unfold_locales
  show "fs_wf (snd (atomicJSON path (Inr bs) s))" if "fs_wf s" for s bs
    using replace_file_wf [OF _ syncDirectory_settles, of "s\<lparr>ticks := Suc (ticks s)\<rparr>" "dir_of path" "''.frame-''" path bs "dir_of path"]
      that atomicJSON_cases [of path bs s] by (cases "atomicJSON path (Inr bs) s") auto
  show "survivors s' path \<subseteq> survivors s path \<union> {Some bs} \<and> (r = Inr () \<longrightarrow> survivors s' path = {Some bs} \<and> lookup s' path = Some bs)"
    if wf: "fs_wf s" and call: "atomicJSON path (Inr bs) s = (r, s')" for s bs r s'
    using atomicJSON_cases [OF call] replace_file_atomic [OF _ syncDirectory_settles [of "dir_of path"], of "s\<lparr>ticks := Suc (ticks s)\<rparr>" "dir_of path" "''.frame-''" bs r s']
      plain_target_temp [OF plain] wf by auto
qed

lemma atomicJSON_kept:
  assumes "fs_wf s" and "plain_target p" and "p \<noteq> path" and "atomicJSON path (Inr bs) s = (r, s')"
  shows "kept p s s'"
  using atomicJSON_cases [OF assms(4)]
    replace_file_kept [OF _ syncDirectory_settles [of "dir_of path"], of "s\<lparr>ticks := Suc (ticks s)\<rparr>" p path "dir_of path" "''.frame-''" bs r s']
    plain_target_temp [OF assms(2)] assms(1,3) kept_trans [OF kept_tick] by auto

text \<open>The name of a frame starts with a digit.\<close>

lemma frame_name_facts:
  assumes "fits_uint64 q"
  shows "CHR ''/'' \<notin> set (frame_name cr q mid)" "\<not> prefix ''.frame-'' (frame_name cr q mid)"
proof -
  have d: "c \<in> set (pad20 (int_str q)) \<Longrightarrow> is_digit c" for c
    using assms by (auto simp: pad20_def int_str_def fits_uint64_def split: if_splits) (simp add: is_digit_def digit_val_def)
  moreover have nd: "\<not> is_digit CHR ''/''" "\<not> is_digit CHR ''.''" by (simp_all add: is_digit_def digit_val_def)
  ultimately show "CHR ''/'' \<notin> set (frame_name cr q mid)"
    using hex_encode_plain by (auto simp: frame_name_def shortHash_def)
  have "pad20 (int_str q) \<noteq> []" by (simp add: pad20_def int_str_def)
  then show "\<not> prefix ''.frame-'' (frame_name cr q mid)"
    using d nd(2) by (cases "pad20 (int_str q)") (auto simp: frame_name_def)
qed

lemma frame_plain: "fits_uint64 q \<Longrightarrow> plain_target (join_path d (frame_name cr q mid))"
  by (simp add: plain_target_def base_of_join frame_name_facts)

subsection \<open>What the exporter has done before it acknowledges\<close>

definition frame_path :: "'w diode_env \<Rightarrow> ExportConfig \<Rightarrow> int \<Rightarrow> Message \<Rightarrow> string" where
  "frame_path env config q m = join_path (OutputDir config) (frame_name (dcr env) q (MID m))"

text \<open>Frame and sequence number of a message survive every crash.\<close>

definition exported :: "'w diode_env \<Rightarrow> ExportConfig \<Rightarrow> bytes \<Rightarrow> int \<Rightarrow> Message \<Rightarrow> fs \<Rightarrow> bool" where
  "exported env config key q m s \<longleftrightarrow> (\<exists>a f bs. signFrameWithAttachment (dcr env) (dhm env) q m a key = Inr f
     \<and> marshal_frame (dhm env) f = Inr bs \<and> survivors s (frame_path env config q m) = {Some bs}
     \<and> survivors s (XLedgerPath config) = {Some (json_quote (int_str q))})"

definition ledger_apart :: "'w diode_env \<Rightarrow> ExportConfig \<Rightarrow> bool" where
  "ledger_apart env config \<longleftrightarrow> plain_target (XLedgerPath config)
     \<and> (\<forall>q m. XLedgerPath config \<noteq> frame_path env config q m)"

lemma export_delivery_durable:
  assumes "fs_wf (fst st)" and "fits_uint64 q" and "ledger_apart env config"
    and call: "export_delivery env config key q d st = (None, st')"
  shows "exported env config key q (DMessage d) (fst st')"
proof -
  let ?m = "DMessage d" and ?L = "XLedgerPath config"
  let ?p = "frame_path env config q ?m"
  obtain a w f s2 w2 s3 where a: "loadAttachment env config ?m (snd st) = (Inr a, w)"
      and f: "signFrameWithAttachment (dcr env) (dhm env) q ?m a key = Inr f"
      and wr: "atomicJSON ?p (marshal_frame (dhm env) f) (fst st) = (Inr (), s2)"
      and sq: "writeSequence ?L q s2 = (Inr (), s3)" "fst st' = s3"
    using call by (auto simp: export_delivery_def on_net_def on_fs_def frame_path_def split: prod.splits sum.splits)
  obtain bs where bs: "marshal_frame (dhm env) f = Inr bs" using wr by (auto simp: atomicJSON_def split: sum.splits)
  have pl: "plain_target ?p" "plain_target ?L" "?p \<noteq> ?L"
    using assms(2,3) frame_plain unfolding ledger_apart_def by (auto simp: frame_path_def) metis
  note frame = atomic_store.put_atomic [OF atomicJSON_store [OF pl(1)] assms(1) wr [unfolded bs]]
  have wf: "fs_wf s2" using atomic_store.put_wf [OF atomicJSON_store [OF pl(1)] assms(1), of bs] wr bs by simp
  note sq' = sq(1) [unfolded writeSequence_def]
  note ledger = atomic_store.put_atomic [OF atomicJSON_store [OF pl(2)] wf sq']
  have "fs_wf s3" using atomic_store.put_wf [OF atomicJSON_store [OF pl(2)] wf] sq' by (metis snd_conv)
  then have "survivors s3 ?p = {Some bs}"
    using kept_durable [of s3 s2 ?p] atomicJSON_kept [OF wf pl(1,3) sq'] frame by simp
  with f bs ledger sq(2) show ?thesis unfolding exported_def by auto
qed

subsection \<open>The ledger of sequence numbers\<close>

text \<open>What a restart makes of the ledger file.\<close>

definition ledger_value :: "bytes option \<Rightarrow> int result" where
  "ledger_value x = (case x of None \<Rightarrow> Inr 0 | Some data \<Rightarrow> parse_uint (trim_char CHR 0x22 (trim_space data)))"

lemma readSequence_value: "faults s (ticks s) = None \<Longrightarrow> fst (readSequence path s) = ledger_value (lookup s path)"
  by (auto simp: readSequence_def sys_read_file_def syscall_def ledger_value_def Let_def split: option.splits)

lemma digits_not: "c \<in> set (nat_str n) \<Longrightarrow> \<not> is_space c \<and> c \<noteq> CHR 0x22"
  by (drule nat_str_is_digit) (auto simp: is_digit_def digit_val_def is_space_def)

lemma digit_escape: "is_digit c \<Longrightarrow> byte_in 0 0x7F c \<and> esc_ascii c = [c]"
proof -
  assume "is_digit c"
  then have r: "48 \<le> (of_char c :: nat)" "of_char c \<le> (57 :: nat)" by (auto simp: is_digit_def digit_val_def Let_def split: if_splits)
  then have "c \<noteq> x" if "of_char x < (48::nat) \<or> (57::nat) < of_char x" for x using that by auto
  with r show ?thesis by (simp add: esc_ascii_def)
qed

lemma digits_escape: "(\<And>c. c \<in> set t \<Longrightarrow> is_digit c) \<Longrightarrow> json_escape t = t"
  by (induction t) (simp_all add: digit_escape)

lemma ledger_value_written:
  assumes "fits_uint64 q"
  shows "ledger_value (Some (json_quote (int_str q))) = Inr q"
proof -
  let ?n = "nat_str (nat q)"
  have i: "int_str q = ?n" using assms by (simp add: int_str_def fits_uint64_def)
  have quoted: "json_quote (int_str q) = CHR 0x22 # ?n @ [CHR 0x22]"
    using digits_escape [of ?n] i by (simp add: json_quote_def)
  have dw: "dropWhile P (xs @ ys) = xs @ ys" if "xs \<noteq> []" "\<And>c. c \<in> set xs \<Longrightarrow> \<not> P c" for P and xs ys :: string
    using that by (cases xs) auto
  have "dropWhile (\<lambda>x. x = CHR 0x22) (?n @ [CHR 0x22]) = ?n @ [CHR 0x22]" "dropWhile (\<lambda>x. x = CHR 0x22) (rev ?n) = rev ?n"
    using dw [of ?n "\<lambda>x. x = CHR 0x22"] dw [of "rev ?n" "\<lambda>x. x = CHR 0x22" "[]"] digits_not by auto
  then have "trim_char CHR 0x22 (trim_space (json_quote (int_str q))) = ?n"
    by (simp add: quoted trim_space_def trim_char_def is_space_def)
  with assms show ?thesis by (simp add: ledger_value_def parse_uint_def fits_uint64_def)
qed

definition ledger_within :: "ExportConfig \<Rightarrow> int \<Rightarrow> int \<Rightarrow> fs \<Rightarrow> bool" where
  "ledger_within config lo hi s \<longleftrightarrow> (\<forall>x\<in>survivors s (XLedgerPath config). \<exists>k. ledger_value x = Inr k \<and> lo \<le> k \<and> k \<le> hi)"

lemma atomicJSON_wf: "plain_target path \<Longrightarrow> fs_wf s \<Longrightarrow> atomicJSON path x s = (r, s') \<Longrightarrow> fs_wf s'"
  using atomic_store.put_wf [OF atomicJSON_store] by (cases x) (auto simp: atomicJSON_def, metis snd_conv)

lemma export_delivery_ledger:
  assumes "fs_wf (fst st)" and "fits_uint64 q" and "ledger_apart env config"
    and call: "export_delivery env config key q d st = (r, st')"
  shows "fs_wf (fst st')"
    and "survivors (fst st') (XLedgerPath config) \<subseteq> survivors (fst st) (XLedgerPath config) \<union> {Some (json_quote (int_str q))}"
proof -
  let ?L = "XLedgerPath config" and ?p = "frame_path env config q (DMessage d)"
  have pl: "plain_target ?p" "plain_target ?L" "?L \<noteq> ?p"
    using assms(2,3) frame_plain unfolding ledger_apart_def by (auto simp: frame_path_def)
  have frame: "fs_wf s \<and> survivors s ?L \<subseteq> survivors (fst st) ?L" if "atomicJSON ?p x (fst st) = (y, s)" for x y s
    using that atomicJSON_wf [OF pl(1) assms(1) that] atomicJSON_kept [OF assms(1) pl(2,3)]
    by (cases x) (auto simp: atomicJSON_def kept_def)
  have ledger: "fs_wf s' \<and> survivors s' ?L \<subseteq> survivors s ?L \<union> {Some (json_quote (int_str q))}"
    if "fs_wf s" "writeSequence ?L q s = (y, s')" for s y s'
    using atomic_store.put_atomic [OF atomicJSON_store [OF pl(2)] that(1)] atomicJSON_wf [OF pl(2) that(1)] that(2)
    unfolding writeSequence_def by blast
  have "fs_wf (fst st') \<and> survivors (fst st') ?L \<subseteq> survivors (fst st) ?L \<union> {Some (json_quote (int_str q))}"
    using call assms(1) frame ledger
    by (fastforce simp: export_delivery_def on_net_def on_fs_def frame_path_def [symmetric] split: prod.splits sum.splits)
  then show "fs_wf (fst st')" "survivors (fst st') ?L \<subseteq> survivors (fst st) ?L \<union> {Some (json_quote (int_str q))}" by blast+
qed

lemma export_round_ledger:
  assumes "fs_wf (fst st)" and "ledger_apart env config" and "0 \<le> q" and "q + 1 < 2 ^ 64" and "lo \<le> q"
    and "ledger_within config lo q (fst st)" and call: "export_round env config key consumer q st = (e, q', st')"
  shows "fs_wf (fst st') \<and> q \<le> q' \<and> q' \<le> q + 1 \<and> ledger_within config lo q' (fst st')"
proof -
  have n: "next_sequence q = q + 1" and f: "fits_uint64 (q + 1)" using assms(3,4) by (simp_all add: next_sequence_def fits_uint64_def)
  have "(q' = q \<and> fst st' = fst st) \<or> (q' = q + 1 \<and> (\<exists>d st1 r st2. fst st1 = fst st \<and> fst st' = fst st2
      \<and> export_delivery env config key (q + 1) d st1 = (r, st2)))"
    using call unfolding export_round_def n by (auto simp: on_net_def Let_def split: prod.splits sum.splits option.splits) force+
  then show ?thesis
  proof (elim disjE conjE exE)
    fix d st1 r st2
    assume "q' = q + 1" "fst st1 = fst st" "fst st' = fst st2" "export_delivery env config key (q + 1) d st1 = (r, st2)"
    with export_delivery_ledger [of st1 "q + 1" env config key d r st2] assms(1,2,5,6) f ledger_value_written [OF f]
    show ?thesis by (fastforce simp: ledger_within_def)
  qed (use assms in auto)
qed

lemma export_loop_ledger:
  assumes "fs_wf (fst st)" and "ledger_apart env config" and "0 \<le> q" and "q + int n < 2 ^ 64" and "lo \<le> q"
    and "ledger_within config lo q (fst st)" and "export_loop env config key consumer n q st = (e, q', st')"
  shows "fs_wf (fst st') \<and> q \<le> q' \<and> ledger_within config lo q' (fst st')"
  using assms
proof (induction n arbitrary: q st)
  case (Suc n)
  obtain e1 q1 st1 where r: "export_round env config key consumer q st = (e1, q1, st1)" by (metis prod_cases3)
  note k = export_round_ledger [OF Suc.prems(1-3) _ Suc.prems(5,6) r]
  show ?case
  proof (cases e1)
    case None
    with Suc.IH [of st1 q1] k Suc.prems r show ?thesis by simp
  next
    case (Some x)
    with k Suc.prems r show ?thesis by simp
  qed
qed simp

subsection \<open>The importer publishes once\<close>

text \<open>The messages handed to the stream so far, the latest first: what \<open>js_publish\<close> adds to and the
  other calls of the importer leave alone.\<close>

definition observes :: "'w diode_env \<Rightarrow> ('w \<Rightarrow> Message list) \<Rightarrow> bool" where
  "observes env published \<longleftrightarrow> (\<forall>m w. published (snd (js_publish (dns env) m w)) = m # published w)
     \<and> (\<forall>w. published (snd (open_jetstream (dns env) w)) = published w)
     \<and> (\<forall>b w. published (snd (open_store (dns env) b w)) = published w)
     \<and> (\<forall>b k x w. published (snd (obj_put (dns env) b k x w)) = published w)
     \<and> (\<forall>c w. published (snd (dconnect env c w)) = published w)"

text \<open>\<open>new\<close> was published on the way from one world to another, nothing twice and nothing that was
  recorded before, every message from a frame that verifies.\<close>

definition once :: "'w diode_env \<Rightarrow> bytes \<Rightarrow> ('w \<Rightarrow> Message list) \<Rightarrow> string set \<Rightarrow> Message list \<Rightarrow> 'w \<Rightarrow> 'w \<Rightarrow> bool" where
  "once env key published P new w w' \<longleftrightarrow> published w' = new @ published w \<and> distinct (map MID new)
     \<and> (\<forall>m\<in>set new. MID m \<notin> P \<and> (\<exists>f. FMessage f = m \<and> verifyFrame (dcr env) (dhm env) f key = None))"

lemma once_trans:
  "once env key published P new w w1 \<Longrightarrow> once env key published (P \<union> MID ` set new) new' w1 w2
    \<Longrightarrow> once env key published P (new' @ new) w w2"
  unfolding once_def by (auto simp: image_iff)

lemma once_none: "published w' = published w \<Longrightarrow> once env key published P [] w w'"
  by (simp add: once_def)

lemma frame_fault_verified: "frame_fault env config key data t = Inr f \<Longrightarrow> verifyFrame (dcr env) (dhm env) f key = None"
  by (auto simp: frame_fault_def split: option.splits if_splits)

lemma storeAttachment_published: "observes env published \<Longrightarrow> published (snd (storeAttachment env a w)) = published w"
  unfolding observes_def storeAttachment_def by (auto split: prod.splits option.splits) (metis snd_conv)+

lemma deliver_frame_once:
  assumes "observes env published" and "verifyFrame (dcr env) (dhm env) f key = None"
    and "deliver_frame env config f processed st = (r, st')"
  shows "\<exists>new. once env key published (set processed) new (snd st) (snd st') \<and> (\<forall>p. r = Inr p \<longrightarrow> set p = set processed \<union> MID ` set new)"
proof -
  define x where "x = (case FAttachment f of None \<Rightarrow> (None, st) | Some a \<Rightarrow> on_net (storeAttachment env a) st)"
  obtain e st1 where st1: "x = (e, st1)" by (cases x)
  have p1: "published (snd st1) = published (snd st)"
    using st1 storeAttachment_published [OF assms(1)] by (auto simp: x_def on_net_def split: option.splits prod.splits) (metis snd_conv)
  have val: "Validate (dhm env) (FMessage f) = None" using verifyFrame_None(3) [OF assms(2)] .
  have pub: "published (snd (publish (dhm env) (dns env) (FMessage f) w)) = FMessage f # published w" for w
    using assms(1) val by (simp add: publish_def observes_def)
  show ?thesis
  proof (cases "e \<noteq> None \<or> MID (FMessage f) \<in> set processed")
    case True
    then have "snd st' = snd st1" "\<forall>p. r = Inr p \<longrightarrow> p = processed"
      using assms(3) st1 unfolding deliver_frame_def x_def [symmetric] by (auto split: option.splits)
    with p1 show ?thesis by (intro exI [of _ "[]"]) (simp add: once_none)
  next
    case False
    then have "snd st' = snd (publish (dhm env) (dns env) (FMessage f) (snd st1))" "\<forall>p. r = Inr p \<longrightarrow> set p = insert (MID (FMessage f)) (set processed)"
      using assms(3) st1 unfolding deliver_frame_def x_def [symmetric]
      by (auto simp: on_net_def on_fs_def split: option.splits prod.splits sum.splits)
    with p1 pub False assms(2) show ?thesis by (intro exI [of _ "[FMessage f]"]) (auto simp: once_def)
  qed
qed

lemma import_entry_once:
  assumes "observes env published" and call: "import_entry env config key name processed st = (r, st')"
  shows "\<exists>new. once env key published (set processed) new (snd st) (snd st') \<and> (\<forall>p. r = Inr p \<longrightarrow> set p = set processed \<union> MID ` set new)"
proof -
  let ?path = "join_path (InputDir config) name"
  have q: "snd st2 = snd st1" if "quarantine env config ?path name cause st1 = (e, st2)" for cause st1 e st2
    using that by (auto simp: quarantine_def on_fs_def split: prod.splits sum.splits)
  have nil: ?thesis if "snd st' = snd st" "\<forall>p. r = Inr p \<longrightarrow> p = processed"
    using that by (intro exI [of _ "[]"]) (simp add: once_none)
  obtain z s1 where z: "sys_size ?path (fst st) = (z, s1)" by fastforce
  obtain x s2 where x: "sys_read_file ?path s1 = (x, s2)" by fastforce
  show ?thesis
  proof (cases "\<exists>sz data f. z = Inr sz \<and> \<not> sz > maxFrameBytes (IMaxAttachmentBytes config) \<and> x = Inr data
      \<and> frame_fault env config key data (dnow env (snd st)) = Inr f")
    case False
    then have "snd st' = snd st \<and> (\<forall>p. r = Inr p \<longrightarrow> p = processed)"
      using call z x by (auto simp: import_entry_def on_fs_def Let_def split: prod.splits sum.splits if_splits option.splits dest!: q)
    then show ?thesis using nil by blast
  next
    case True
    then obtain sz data f where t: "z = Inr sz" "\<not> sz > maxFrameBytes (IMaxAttachmentBytes config)" "x = Inr data"
        "frame_fault env config key data (dnow env (snd st)) = Inr f" by blast
    obtain r1 st1 where d: "deliver_frame env config f processed (s2, snd st) = (r1, st1)" by (rule prod.exhaust)
    have "snd st' = snd st1 \<and> (\<forall>p. r = Inr p \<longrightarrow> r1 = Inr p)"
      using call z x t d by (auto simp: import_entry_def on_fs_def Let_def split: prod.splits sum.splits)
    then show ?thesis using deliver_frame_once [OF assms(1) frame_fault_verified [OF t(4)] d] by auto
  qed
qed

lemma import_entries_once:
  assumes "observes env published" and "import_entries env config key es processed st = (r, st')"
  shows "\<exists>new. once env key published (set processed) new (snd st) (snd st') \<and> (\<forall>p. r = Inr p \<longrightarrow> set p = set processed \<union> MID ` set new)"
  using assms(2)
proof (induction es arbitrary: processed st)
  case (Cons e es)
  obtain name is_dir where e: "e = (name, is_dir)" by fastforce
  show ?case
  proof (cases "is_dir \<or> \<not> suffix ''.json'' name")
    case True
    with Cons e show ?thesis by auto
  next
    case False
    obtain r1 st1 where i: "import_entry env config key name processed st = (r1, st1)" by (rule prod.exhaust)
    obtain new where n: "once env key published (set processed) new (snd st) (snd st1)"
        "\<forall>p. r1 = Inr p \<longrightarrow> set p = set processed \<union> MID ` set new"
      using import_entry_once [OF assms(1) i] by blast
    show ?thesis
    proof (cases r1)
      case (Inl x)
      with Cons.prems e False i have "st' = st1" "r = Inl x" by auto
      with n(1) show ?thesis by auto
    next
      case (Inr p1)
      with Cons.prems e False i have "import_entries env config key es p1 st1 = (r, st')" by simp
      from Cons.IH [OF this] obtain new' where "once env key published (set processed \<union> MID ` set new) new' (snd st1) (snd st')"
          "\<forall>p. r = Inr p \<longrightarrow> set p = set processed \<union> MID ` set new \<union> MID ` set new'" using n(2) Inr by auto
      with once_trans [OF n(1)] show ?thesis by (intro exI [of _ "new' @ new"]) auto
    qed
  qed
qed (auto intro!: exI [of _ "[]"] once_none)

lemma importAvailable_once:
  assumes "observes env published" and "importAvailable env config key processed st = (r, st')"
  shows "\<exists>new. once env key published (set processed) new (snd st) (snd st') \<and> (\<forall>p. r = Inr p \<longrightarrow> set p = set processed \<union> MID ` set new)"
proof -
  define c where "c = config\<lparr>IMaxAttachmentBytes := (if IMaxAttachmentBytes config \<le> 0 then 16 * 1024 * 1024 else IMaxAttachmentBytes config)\<rparr>"
  obtain x s1 where x: "sys_read_dir (InputDir c) (fst st) = (x, s1)" by fastforce
  show ?thesis
  proof (cases x)
    case (Inl e)
    with assms(2) x have "snd st' = snd st" "r = Inl e"
      unfolding importAvailable_def c_def [symmetric] Let_def by (auto simp: on_fs_def)
    then show ?thesis by (auto intro!: exI [of _ "[]"] once_none)
  next
    case (Inr entries)
    with assms(2) x have "import_entries env c key (sort_key fst entries) processed (s1, snd st) = (r, st')"
      unfolding importAvailable_def c_def [symmetric] Let_def by (simp add: on_fs_def)
    from import_entries_once [OF assms(1) this] show ?thesis by simp
  qed
qed

lemma import_loop_once:
  assumes "observes env published" and "import_loop env config key n processed st = (r, st')"
  shows "\<exists>new. once env key published (set processed) new (snd st) (snd st')"
  using assms(2)
proof (induction n arbitrary: processed st)
  case (Suc n)
  obtain r1 st1 where i: "importAvailable env config key processed st = (r1, st1)" by (rule prod.exhaust)
  obtain new where n: "once env key published (set processed) new (snd st) (snd st1)"
      "\<forall>p. r1 = Inr p \<longrightarrow> set p = set processed \<union> MID ` set new"
    using importAvailable_once [OF assms(1) i] by blast
  have "st' = st1 \<or> (\<exists>p. r1 = Inr p \<and> import_loop env config key n p st1 = (r, st'))"
    using Suc.prems i by (auto split: sum.splits option.splits)
  then show ?case
  proof (elim disjE exE conjE)
    fix p assume "r1 = Inr p" "import_loop env config key n p st1 = (r, st')"
    with Suc.IH [of p st1] n(2) obtain new' where "once env key published (set processed \<union> MID ` set new) new' (snd st1) (snd st')" by auto
    with once_trans [OF n(1)] show ?case by blast
  qed (use n(1) in auto)
qed (auto intro!: exI [of _ "[]"] once_none)

subsection \<open>The ledger of processed messages\<close>

definition held :: "fs \<Rightarrow> string \<Rightarrow> bytes" where
  "held s path = (case lookup s path of None \<Rightarrow> [] | Some b \<Rightarrow> b)"

lemma appendProcessed_durable:
  assumes "appendProcessed path mid s = (Inr (), s')"
  shows "survivors s' path = {Some (held s path @ mid @ [CHR 0x0A])}"
  using assms
  by (cases "inode_of s path")
     (auto simp: appendProcessed_def syncDirectory_def bind_sys_def or_close_def sys_noop_def sys_open_append_def sys_write_def sys_sync_def
        sys_sync_dir_def syscall_def Let_def new_file_def append_bytes_def inode_of_set_name held_def lookup_def survivors_def
        split: option.splits)

lemma ledger_ids_append:
  assumes "old = [] \<or> last old = CHR 0x0A" and "mid \<noteq> []" and "CHR 0x0A \<notin> set mid"
  shows "ledger_ids (old @ mid @ [CHR 0x0A]) = ledger_ids old @ [mid]"
proof (cases "old = []")
  case True
  with assms show ?thesis by (simp add: ledger_ids_def split_char_append)
next
  case False
  then obtain xs where old: "old = xs @ [CHR 0x0A]" using assms(1) by (metis append_butlast_last_id)
  have sp: "split_char c (xs @ c # ys) = split_char c xs @ split_char c ys" for c ys and xs :: string
    by (induction xs) (auto split: list.splits)
  show ?thesis using assms(2,3) by (simp add: ledger_ids_def old sp split_char_append)
qed

lemma readProcessed_value:
  "faults s (ticks s) = None \<Longrightarrow> fst (readProcessed path s) = Inr (case lookup s path of None \<Rightarrow> [] | Some data \<Rightarrow> ledger_ids data)"
  by (auto simp: readProcessed_def sys_read_file_def syscall_def Let_def split: option.splits)

subsection \<open>Room for an attachment\<close>

lemma std_encode_length: "length (std_encode bs) \<le> 2 * length bs + 4"
proof -
  have "length (b64_raw std_char bs) \<le> 2 * length bs + 1" unfolding std.raw_length by linarith
  moreover have "(4 - n mod 4) mod 4 \<le> (3::nat)" for n :: nat by simp
  ultimately show ?thesis by (simp add: std_encode_def Let_def)
qed

subsection \<open>Properties\<close>

text \<open>C19: the importer accepts what the exporter signs: the bytes of a frame that was signed over a
  valid message, with an attachment whose checksum is its own and that fits the limit and the
  message, decode to that frame and pass every check, unless the message has expired.\<close>

theorem exported_frame_accepted:
  assumes "ed25519_correct (dcr env)" and "signFrameWithAttachment (dcr env) (dhm env) q m a key = Inr f"
    and "fits_uint64 q" and "message_codec (dhm env) m" and "Validate (dhm env) m = None"
    and "\<And>x. a = Some x \<Longrightarrow> ascii (Bucket x) \<and> ascii (Key x) \<and> APayloadSHA256 x = payloadHash (dcr env) (AData x)
      \<and> int (length (AData x)) \<le> IMaxAttachmentBytes config"
    and "validateAttachmentInvariant (dhm env) (ExpectedAttachment config) m a = None"
    and "is_zero (MExpiresAt m) \<or> t < MExpiresAt m"
  shows "\<exists>bs. marshal_frame (dhm env) f = Inr bs \<and> frame_fault env config (ed_public (dcr env) key) bs t = Inr f"
proof -
  have f: "FMessage f = m" "FAttachment f = a" "Sequence f = q" "Version f = FrameVersion" "PayloadSHA256 f = payloadHash (dcr env) (MData m)"
      "\<exists>x. Signature f = std_encode x"
    using assms(2) by (auto simp: signFrameWithAttachment_def Let_def split: sum.splits)
  have hex: "ascii (hex_encode bs)" for bs by (rule hex_encode_ascii)
  have "frame_wf f"
    using f assms(3,6) hex std_encode_ascii by (auto simp: frame_wf_def FrameVersion_def payloadHash_def)
  then obtain bs where bs: "marshal_frame (dhm env) f = Inr bs" "unmarshal_frame (dhm env) bs = Some f"
    using unmarshal_marshal_frame [of "dhm env" f] assms(4) f(1) by blast
  have "verifyFrame (dcr env) (dhm env) f (ed_public (dcr env) key) = None"
    using sign_then_verify_frame [OF assms(1,2,5)] assms(6) by blast
  with bs f(1,2) assms(6-8) have "frame_fault env config (ed_public (dcr env) key) bs t = Inr f"
    by (auto simp: frame_fault_def split: option.splits)
  with bs(1) show ?thesis by blast
qed

text \<open>C20: the exporter acknowledges a message only when its signed frame and the sequence number are on
  the disk for every crash; otherwise the message is refused and will be delivered again.\<close>

theorem exported_before_acknowledged:
  assumes "fs_wf (fst st)" and "0 \<le> q" and "ledger_apart env config"
    and "on_net (Fetch (dhm env) (dns env) None consumer) st = (Inr d, st1)"
  shows "(\<exists>st2. exported env config key (next_sequence q) (DMessage d) (fst st2)
        \<and> export_round env config key consumer q st = (fst (Ack d (snd st2)), next_sequence q, fst st2, snd (Ack d (snd st2))))
    \<or> (\<exists>st2 delay. export_round env config key consumer q st = (None, next_sequence q, fst st2, snd (Nak d delay (snd st2))))"
proof -
  have n: "fits_uint64 (next_sequence q)" by (simp add: fits_uint64_def next_sequence_def)
  have wf: "fs_wf (fst st1)" using assms(1,4) by (auto simp: on_net_def split: prod.splits)
  obtain r st2 where r: "export_delivery env config key (next_sequence q) d st1 = (r, st2)" by (rule prod.exhaust)
  show ?thesis
  proof (cases r)
    case None
    with export_delivery_durable [OF wf n assms(3)] r have "exported env config key (next_sequence q) (DMessage d) (fst st2)" by simp
    moreover have "export_round env config key consumer q st = (fst (Ack d (snd st2)), next_sequence q, fst st2, snd (Ack d (snd st2)))"
      using assms(4) r None by (simp add: export_round_def Let_def) (simp add: on_net_def split: prod.splits)
    ultimately show ?thesis by blast
  next
    case (Some delay)
    then have "export_round env config key consumer q st = (None, next_sequence q, fst st2, snd (Nak d delay (snd st2)))"
      using assms(4) r by (simp add: export_round_def Let_def) (simp add: on_net_def split: prod.splits)
    then show ?thesis by blast
  qed
qed

text \<open>C21: the sequence never goes back across a crash. However many rounds the exporter ran and
  whatever call failed on the way, a machine that lost power and restarts reads from the ledger a
  number between the one it started from and the last one that was used.\<close>

theorem sequence_never_goes_back:
  assumes "fs_wf (fst st)" and "ledger_apart env config" and "0 \<le> q" and "q + int n < 2 ^ 64"
    and "\<forall>x\<in>survivors (fst st) (XLedgerPath config). ledger_value x = Inr q"
    and "export_loop env config key consumer n q st = (e, q', st')"
    and "lookup restarted (XLedgerPath config) \<in> survivors (fst st') (XLedgerPath config)" and "calm restarted"
  shows "\<exists>k. fst (readSequence (XLedgerPath config) restarted) = Inr k \<and> q \<le> k \<and> k \<le> q'"
proof -
  have "ledger_within config q q (fst st)" using assms(5) by (simp add: ledger_within_def)
  then have "ledger_within config q q' (fst st')" using export_loop_ledger [OF assms(1-4) _ _ assms(6)] by blast
  then show ?thesis using assms(7,8) readSequence_value [of restarted] by (auto simp: ledger_within_def calm_def)
qed

text \<open>C22: the importer publishes nothing twice and nothing that was not signed. Over a whole run, with
  any faults of disk and network, the published messages have different IDs, none of which was
  in the ledger at the start, and each comes from a frame that verifies under the configured key.\<close>

theorem imports_once:
  assumes "observes env published" and "loadPublicKey (dcr env) (VerifyKey config) s = (Inr key, s1)"
    and "RunImporter env config n (s, w) = (r, s', w')"
  shows "\<exists>new. published w' = new @ published w \<and> distinct (map MID new)
    \<and> (\<forall>m\<in>set new. MID m \<notin> set (ledger_ids (held s (ILedgerPath config)))
        \<and> (\<exists>f. FMessage f = m \<and> verifyFrame (dcr env) (dhm env) f key = None))"
proof -
  have ob: "published (snd (Connect (dtls env) (dconnect env) c v)) = published v" "published (snd (NewPublisher (dns env) v)) = published v" for c v
    using assms(1) unfolding observes_def Connect_def NewPublisher_def by (auto split: sum.splits prod.splits option.splits) (metis snd_conv)+
  let ?L = "ILedgerPath config" and ?c = "importer_defaults config"
  have s1: "lookup s1 p = lookup s p" for p
    using assms(2) by (auto simp: loadPublicKey_def sys_read_file_def syscall_def Let_def split: option.splits)
  have rd: "ids = ledger_ids (held s2 ?L)" if "readProcessed ?L s2 = (Inr ids, s3)" for s2 ids s3
    using that by (auto simp: readProcessed_def sys_read_file_def syscall_def held_def ledger_ids_def Let_def split: option.splits if_splits)
  have mk: "lookup s3 p = lookup s2 p" if "bind_sys sys_noop (\<lambda>_. bind_sys sys_noop (\<lambda>_. sys_noop)) s2 = (x, s3)" for x s2 s3 p
    using that by (auto simp: bind_sys_def sys_noop_def syscall_def Let_def split: option.splits)
  obtain x2 s2 where x2: "bind_sys sys_noop (\<lambda>_. bind_sys sys_noop (\<lambda>_. sys_noop)) s1 = (x2, s2)" by fastforce
  obtain x3 s3 where x3: "readProcessed ?L s2 = (x3, s3)" by fastforce
  obtain e4 w4 where e4: "Connect (dtls env) (dconnect env) (INATS config) w = (e4, w4)" by fastforce
  obtain e5 w5 where e5: "NewPublisher (dns env) w4 = (e5, w5)" by fastforce
  have w: "published w4 = published w" "published w5 = published w" using ob e4 e5 by (metis snd_conv)+
  have c: "ILedgerPath ?c = ?L" "INATS ?c = INATS config" by (simp_all add: importer_defaults_def)
  have ids: "ids = ledger_ids (held s ?L)" if "x3 = Inr ids" for ids
    using rd [of s2 ids s3] x3 that mk [OF x2] s1 by (simp add: held_def)
  note steps = assms(3) [unfolded RunImporter_def on_fs_def on_net_def Let_def fst_conv snd_conv] assms(2) x2 x3 e4 e5
  have run: "published w' = published w \<or> (\<exists>s2 w2. published w2 = published w
      \<and> import_loop env ?c key n (ledger_ids (held s ?L)) (s2, w2) = (r, s', w'))"
  proof (cases "\<exists>ids. requireAbsolutePaths ([InputDir config, ProcessedDir config, ILedgerPath config, VerifyKey config]
          @ (if QuarantineDir config \<noteq> [] then [QuarantineDir config] else [])) = None \<and> x2 = Inr () \<and> x3 = Inr ids \<and> e4 = None \<and> e5 = None")
    case True
    then obtain ids where "x3 = Inr ids" "import_loop env ?c key n ids (s3, w5) = (r, s', w')" using steps c by auto
    with ids w show ?thesis by blast
  next
    case False
    then have "w' \<in> {w, w4, w5}" using steps c by (cases x2; cases x3; cases e4; cases e5) (auto split: option.splits)
    with w show ?thesis by auto
  qed
  then show ?thesis
  proof (elim disjE exE conjE)
    fix s2 w2 assume i: "published w2 = published w" "import_loop env ?c key n (ledger_ids (held s ?L)) (s2, w2) = (r, s', w')"
    from import_loop_once [OF assms(1) i(2)] i(1) show ?thesis by (auto simp: once_def)
  qed auto
qed

text \<open>The record of a processed message survives a crash: when \<open>appendProcessed\<close> has succeeded, a
  restarted importer reads the old IDs and the new one, for an ID without line breaks.\<close>

theorem processed_id_survives:
  assumes "appendProcessed path mid s = (Inr (), s')" and "mid \<noteq> []" and "CHR 0x0A \<notin> set mid"
    and "held s path = [] \<or> last (held s path) = CHR 0x0A"
    and "lookup restarted path \<in> survivors s' path" and "calm restarted"
  shows "fst (readProcessed path restarted) = Inr (ledger_ids (held s path) @ [mid])"
  using appendProcessed_durable [OF assms(1)] assms(5,6) ledger_ids_append [OF assms(4,2,3)] readProcessed_value [of restarted path]
  by (simp add: calm_def)

text \<open>The size limit of a frame leaves room for the largest attachment in base64 beside almost a
  megabyte of envelope, as long as the doubling does not overflow 64 bits; above that the limit is
  negative and every frame exceeds it.\<close>

theorem frame_limit_room:
  assumes "0 \<le> limit" and "limit < 2 ^ 63"
  shows "if limit < 2 ^ 62 - 2 ^ 19 then \<forall>data. int (length data) \<le> limit \<longrightarrow> int (length (std_encode data)) + (1024 * 1024 - 4) \<le> maxFrameBytes limit
    else limit < 2 ^ 63 - 2 ^ 19 \<longrightarrow> maxFrameBytes limit < 0"
proof (cases "limit < 2 ^ 62 - 2 ^ 19")
  case True
  then have "maxFrameBytes limit = limit * 2 + 1024 * 1024" using assms by (simp add: maxFrameBytes_def fits_int64_def)
  moreover have "int (length (std_encode data)) \<le> 2 * int (length data) + 4" for data using std_encode_length [of data] by linarith
  ultimately show ?thesis using True by (simp, smt (verit))
next
  case False
  have "maxFrameBytes limit < 0" if "limit < 2 ^ 63 - 2 ^ 19"
  proof -
    let ?y = "limit * 2 + 1024 * 1024 + 2 ^ 63"
    have "?y mod 2 ^ 64 = (?y - 2 ^ 64) mod 2 ^ 64" by (rule minus_mod_self2 [symmetric])
    also have "\<dots> = ?y - 2 ^ 64" using False that by (intro mod_pos_pos_trivial) auto
    finally show ?thesis using that by (simp add: maxFrameBytes_def wrap_int64_def)
  qed
  with False show ?thesis by simp
qed

subsection \<open>Frames the importer cannot take\<close>

text \<open>The importer looks for bundles in the default bucket only: a frame whose exporter was configured
  with another one never passes.\<close>

lemma custom_bucket_refused:
  assumes "BundleBucket config \<noteq> []" and "BundleBucket config \<noteq> ''PO_RUNNER_BUNDLES''"
    and "attachmentReference hm ''bundle'' (BundleBucket config) m = Inr (b, k, True)" and "Bucket a = b"
  shows "validateAttachmentInvariant hm ''bundle'' m (Some a) \<noteq> None"
  using assms by (auto simp: attachmentReference_def validateAttachmentInvariant_def Let_def split: sum.splits if_splits)

text \<open>An object without content is exported, but the importer refuses to store it and stops.\<close>

lemma empty_attachment_stops:
  assumes "FAttachment f = Some a" and "AData a = []"
  shows "\<exists>e. fst (deliver_frame env config f processed st) = Inl e"
  using assms by (simp add: deliver_frame_def storeAttachment_def on_net_def)

text \<open>An ID with a line break is not found again.\<close>

lemma broken_id_forgotten: "ledger_ids (''a'' @ [CHR 0x0A] @ ''b'' @ [CHR 0x0A]) = [''a'', ''b'']"
  by (simp add: ledger_ids_def)

text \<open>After an append that was cut short, the next ID is joined to the torn one.\<close>

lemma torn_append_joins_ids:
  "ledger_ids (take 1 ''ab'' @ ''cd'' @ [CHR 0x0A]) = [''acd'']"
  by (simp add: ledger_ids_def)

subsection \<open>The theorems at work\<close>

definition relay_message :: Message where
  "relay_message = \<lparr>MID = ''m'', MSubject = ''s'', MData = ''d'', MHeader = [], MCreatedAt = 0, MExpiresAt = time_zero\<rparr>"

text \<open>A library that prints messages as JSON strings, and a network that delivers one message over and
  over and keeps what is published.\<close>

definition json_messaging :: hmessaging where
  "json_messaging = test_messaging\<lparr>marshal_message := (\<lambda>m. Inr (json_encode (JStr (join_char CHR ''|'' [MID m, MSubject m, MData m])))),
     unmarshal_message := (\<lambda>bs. case json_decode bs of Some (JStr t) \<Rightarrow> unmarshal_message test_messaging t
       | _ \<Rightarrow> Inl (ErrNew ''invalid character''))\<rparr>"

definition relay_delivery :: nats_msg where
  "relay_delivery = \<lparr>NSubject = ''s'', NReply = ''r'', NData = ''d'', NHeader = [(''id'', [''m''])],
     NMetadata = Inr \<lparr>MetaTimestamp = 0, MetaStream = ''S'', MetaSequence = 1, MetaNumDelivered = 1\<rparr>\<rparr>"

definition relay_nats :: "Message list nats" where
  "relay_nats = \<lparr>open_jetstream = (\<lambda>w. (None, w)), ensure_standard_streams = (\<lambda>w. (None, w)),
     pull_subscribe = (\<lambda>_ _ _ w. (Inr 0, w)), sub_fetch = (\<lambda>_ _ w. (Inr relay_delivery, w)),
     msg_ack = (\<lambda>_ w. (None, w)), msg_nak = (\<lambda>_ _ w. (None, w)), msg_term = (\<lambda>_ w. (None, w)),
     js_publish = (\<lambda>m w. (None, m # w)), conn_publish = (\<lambda>_ _ w. (None, w)),
     flush_timeout = (\<lambda>_ w. (None, w)), get_msg = (\<lambda>_ _ w. (Inl ErrNotExist, w)), open_store = (\<lambda>_ w. (None, w)),
     obj_get = (\<lambda>_ _ w. (Inl ErrNotExist, w)), obj_put = (\<lambda>_ _ x w. (Inr (int (length (fst x))), w)),
     obj_delete = (\<lambda>_ _ w. (None, w)), until_deadline = (\<lambda>_ _. None), ctx_err = (\<lambda>_. None)\<rparr>"

definition relay_env :: "Message list diode_env" where
  "relay_env = \<lparr>dhm = json_messaging, dcr = test_crypto, dns = relay_nats, dnow = (\<lambda>_. 0),
     dtls = \<lparr>read_file = (\<lambda>_. Inl ErrNotExist), has_pem_certificate = (\<lambda>_. False), load_key_pair = (\<lambda>_ _. Inl ErrNotExist)\<rparr>,
     dconnect = (\<lambda>_ w. (None, w))\<rparr>"

definition relay_config :: Config where
  "relay_config = \<lparr>URL = ''nats://n'', Token = [], CredentialsFile = [], CAFile = [], ClientCertFile = [], ClientKeyFile = [],
     ConnName = ''relay'', ConnectTimeout = 0\<rparr>"

definition relay_export :: ExportConfig where
  "relay_export = \<lparr>XNATS = relay_config, XStream = ''S'', XSubject = ''s'', XDurable = ''d'', OutputDir = ''/o'', XLedgerPath = ''/l/seq'',
     SigningKey = ''/k'', AttachObject = [], BundleBucket = [], XMaxAttachmentBytes = 100\<rparr>"

definition relay_import :: ImportConfig where
  "relay_import = \<lparr>INATS = relay_config, InputDir = ''/i'', ProcessedDir = ''/p'', QuarantineDir = ''/q'', ILedgerPath = ''/l/ids'',
     VerifyKey = ''/k'', PollInterval = second, IMaxAttachmentBytes = 100, ExpectedAttachment = []\<rparr>"

definition key_disk :: fs where
  "key_disk = empty_disk\<lparr>names := [(''/k'', 0)], contents := (\<lambda>_. ''pKEY''), next_inode := 1\<rparr>"

lemma relay_codec: "message_codec json_messaging relay_message"
  unfolding message_codec_def
  by (rule exI [of _ "JStr ''m|s|d''"])
     (use json_decode_encode [of "JStr ''m|s|d''"] in \<open>simp add: json_messaging_def relay_message_def test_messaging_def ascii_def\<close>)

theorem exported_frame_accepted_witness:
  "\<exists>f bs. signFrame test_crypto json_messaging 7 relay_message ''K'' = Inr f \<and> marshal_frame json_messaging f = Inr bs
     \<and> frame_fault relay_env relay_import ''K'' bs 0 = Inr f"
proof -
  obtain f where f: "signFrameWithAttachment test_crypto json_messaging 7 relay_message None ''K'' = Inr f"
    by (simp add: signFrameWithAttachment_def marshal_unsigned_def json_messaging_def)
  have v: "Validate json_messaging relay_message = None" by (simp add: json_messaging_def test_messaging_def relay_message_def)
  have env: "dcr relay_env = test_crypto" "dhm relay_env = json_messaging" "ed_public test_crypto k = k" for k
    by (simp_all add: relay_env_def test_crypto_def)
  from exported_frame_accepted [of relay_env 7 relay_message None "''K''" f relay_import 0, unfolded env, OF _ f _ relay_codec v]
  obtain bs where "marshal_frame json_messaging f = Inr bs" "frame_fault relay_env relay_import ''K'' bs 0 = Inr f"
    by (auto simp: fits_uint64_def validateAttachmentInvariant_def relay_import_def is_zero_def relay_message_def)
  with f show ?thesis by (auto simp: signFrame_def)
qed

lemma relay_ledger_apart: "ledger_apart relay_env relay_export"
  by (simp add: ledger_apart_def plain_target_def relay_export_def frame_path_def join_path_def base_of_def)

theorem exported_before_acknowledged_witness:
  "\<exists>d :: Message list Delivery. (\<exists>st2. exported relay_env relay_export ''K'' 1 (DMessage d) (fst st2)
        \<and> export_round relay_env relay_export ''K'' 0 0 (empty_disk, []) = (fst (Ack d (snd st2)), 1, fst st2, snd (Ack d (snd st2))))
    \<or> (\<exists>st2 delay. export_round relay_env relay_export ''K'' 0 0 (empty_disk, []) = (None, 1, fst st2, snd (Nak d delay (snd st2))))"
proof -
  obtain d st1 where d: "on_net (Fetch (dhm relay_env) (dns relay_env) None 0) (empty_disk, []) = (Inr d, st1)"
    by (simp add: on_net_def Fetch_def relay_env_def relay_nats_def relay_delivery_def)
  have n: "next_sequence 0 = 1" by (simp add: next_sequence_def)
  have "fs_wf (fst (empty_disk, []))" using empty_disk_wf by simp
  note fact = exported_before_acknowledged [OF this order_refl relay_ledger_apart d, of "''K''", unfolded n]
  show ?thesis by (rule exI [of _ d]) (rule fact)
qed

theorem sequence_never_goes_back_witness:
  "\<exists>e q' st' k. export_loop relay_env relay_export ''K'' 0 3 0 (empty_disk, []) = (e, q', st')
     \<and> fst (readSequence ''/l/seq'' ((fst st')\<lparr>faults := (\<lambda>_. None)\<rparr>)) = Inr k \<and> 0 \<le> k \<and> k \<le> q'"
proof -
  obtain e q' st' where l: "export_loop relay_env relay_export ''K'' 0 3 0 (empty_disk, []) = (e, q', st')" by (metis prod_cases3)
  have L: "XLedgerPath relay_export = ''/l/seq''" by (simp add: relay_export_def)
  have s0: "\<forall>x\<in>survivors (fst (empty_disk, [])) (XLedgerPath relay_export). ledger_value x = Inr 0"
    by (simp add: survivors_def empty_disk_def ledger_value_def)
  then have "fs_wf (fst st')"
    using export_loop_ledger [OF _ relay_ledger_apart _ _ _ _ l, of 0] empty_disk_wf by (simp add: ledger_within_def)
  then have "lookup ((fst st')\<lparr>faults := (\<lambda>_. None)\<rparr>) (XLedgerPath relay_export) \<in> survivors (fst st') (XLedgerPath relay_export)"
    using lookup_survives by (simp add: lookup_def inode_of_def)
  from sequence_never_goes_back [OF _ relay_ledger_apart _ _ s0 l this] l show ?thesis
    using empty_disk_wf L by (auto simp: calm_def)
qed

lemma relay_observes: "observes relay_env (\<lambda>w. w)"
  by (simp add: observes_def relay_env_def relay_nats_def)

theorem imports_once_witness:
  "\<exists>r s' new. RunImporter relay_env relay_import 2 (key_disk, []) = (r, s', new) \<and> distinct (map MID new)"
proof -
  obtain r s' w' where r: "RunImporter relay_env relay_import 2 (key_disk, []) = (r, s', w')" by (metis prod_cases3)
  obtain s1 where "loadPublicKey (dcr relay_env) (VerifyKey relay_import) key_disk = (Inr ''KEY'', s1)"
    by (simp add: loadPublicKey_def sys_read_file_def syscall_def lookup_def inode_of_def key_disk_def empty_disk_def
        relay_import_def relay_env_def test_crypto_def)
  from imports_once [OF relay_observes this r] r show ?thesis by auto
qed

theorem processed_id_survives_witness:
  "\<exists>s'. appendProcessed ''/l'' ''m'' empty_disk = (Inr (), s') \<and> fst (readProcessed ''/l'' s') = Inr [''m'']"
proof -
  obtain s' where a: "appendProcessed ''/l'' ''m'' empty_disk = (Inr (), s')" and c: "calm s'"
    by (simp add: appendProcessed_def syncDirectory_def bind_sys_def or_close_def sys_noop_def sys_open_append_def sys_write_def
        sys_sync_def sys_sync_dir_def syscall_def Let_def new_file_def append_bytes_def inode_of_def empty_disk_def calm_def set_name_def settle_def)
  have h: "held empty_disk ''/l'' = []" by (simp add: held_def lookup_def inode_of_def empty_disk_def)
  have "lookup s' ''/l'' \<in> survivors s' ''/l''"
    using a by (auto simp: appendProcessed_def syncDirectory_def bind_sys_def or_close_def sys_noop_def sys_open_append_def sys_write_def
        sys_sync_def sys_sync_dir_def syscall_def Let_def new_file_def append_bytes_def inode_of_set_name empty_disk_def lookup_def survivors_def
        split: option.splits)
  from processed_id_survives [OF a _ _ _ this c] a h show ?thesis by (simp add: ledger_ids_def)
qed

theorem frame_limit_room_witness:
  "int (length (std_encode ''ab'')) + 1048572 \<le> maxFrameBytes 16777216 \<and> maxFrameBytes (2 ^ 62) < 0"
  using frame_limit_room [of 16777216] frame_limit_room [of "2 ^ 62"] by simp

end
