(* ===== verification/Paths.thy ===== *)
theory Paths
  imports Strings
begin

section \<open>Lexical path processing (path/filepath)\<close>

text \<open>
  \<open>Clean\<close>, \<open>Join\<close>, \<open>IsAbs\<close> and \<open>Rel\<close> of the Go standard library on Unix, on the elements between the
  slashes.
\<close>

abbreviation dot :: string where
  "dot \<equiv> ''.''"

abbreviation dotdot :: string where
  "dotdot \<equiv> ''..''"

definition rooted :: "string \<Rightarrow> bool" where
  "rooted p \<longleftrightarrow> p \<noteq> [] \<and> hd p = CHR ''/''"

text \<open>The elements of the cleaned path: empty ones and dots are dropped, an element is removed with
  the dots-pair after it; a leading pair stays in a relative path only. The accumulator is reversed.\<close>

fun norm :: "bool \<Rightarrow> string list \<Rightarrow> string list \<Rightarrow> string list" where
  "norm r acc [] = rev acc"
| "norm r acc (c # cs) =
     (if c = [] \<or> c = dot then norm r acc cs
      else if c = dotdot then (case acc of
          [] \<Rightarrow> norm r (if r then [] else [dotdot]) cs
        | a # as \<Rightarrow> if a = dotdot then norm r (dotdot # acc) cs else norm r as cs)
      else norm r (c # acc) cs)"

definition elements :: "string \<Rightarrow> string list" where
  "elements p = norm (rooted p) [] (split_char CHR ''/'' p)"

definition from_elements :: "bool \<Rightarrow> string list \<Rightarrow> string" where
  "from_elements r es = (if r then CHR ''/'' # join_char CHR ''/'' es else if es = [] then dot else join_char CHR ''/'' es)"

definition path_clean :: "string \<Rightarrow> string" where
  "path_clean p = from_elements (rooted p) (elements p)"

definition path_join :: "string \<Rightarrow> string \<Rightarrow> string" where
  "path_join d n = (if d = [] \<and> n = [] then [] else if d = [] then path_clean n else if n = [] then path_clean d
     else path_clean (d @ CHR ''/'' # n))"

fun strip_common :: "'a list \<Rightarrow> 'a list \<Rightarrow> 'a list \<times> 'a list" where
  "strip_common (x # xs) (y # ys) = (if x = y then strip_common xs ys else (x # xs, y # ys))"
| "strip_common xs ys = (xs, ys)"

text \<open>\<open>Rel(base, target)\<close>: up from what only the base has, down to what only the target has.\<close>

definition path_rel :: "string \<Rightarrow> string \<Rightarrow> string option" where
  "path_rel base target = (if path_clean base = path_clean target then Some dot
     else if rooted base \<noteq> rooted target then None
     else (case strip_common (elements base) (elements target) of (bs, ts) \<Rightarrow>
       if bs \<noteq> [] \<and> hd bs = dotdot then None
       else Some (join_char CHR ''/'' (replicate (length bs) dotdot @ ts))))"

subsection \<open>Facts\<close>

text \<open>A proper element: a name without slashes.\<close>

definition proper :: "string \<Rightarrow> bool" where
  "proper c \<longleftrightarrow> c \<noteq> [] \<and> c \<noteq> dot \<and> c \<noteq> dotdot \<and> CHR ''/'' \<notin> set c"

text \<open>The elements of a cleaned path: pairs of dots first, none when the path is rooted, then names.\<close>

definition ups_then_names :: "bool \<Rightarrow> string list \<Rightarrow> bool" where
  "ups_then_names r es \<longleftrightarrow> (\<exists>k ns. es = replicate k dotdot @ ns \<and> (\<forall>n\<in>set ns. proper n) \<and> (r \<longrightarrow> k = 0))"

lemma norm_shape:
  assumes "\<forall>c\<in>set cs. CHR ''/'' \<notin> set c" and "ups_then_names r (rev acc)"
  shows "ups_then_names r (norm r acc cs)"
  using assms
proof (induction r acc cs rule: norm.induct)
  case (2 r acc c cs)
  obtain k ns where k: "rev acc = replicate k dotdot @ ns" "\<forall>n\<in>set ns. proper n" "r \<longrightarrow> k = 0"
    using "2.prems"(2) unfolding ups_then_names_def by blast
  consider (skip) "c = [] \<or> c = dot" | (up) "c = dotdot" | (name) "proper c"
    using "2.prems"(1) unfolding proper_def by auto
  then show ?case
  proof cases
    case skip
    then show ?thesis using "2.IH"(1) "2.prems" by auto
  next
    case name
    then have "ups_then_names r (rev (c # acc))"
      unfolding ups_then_names_def using k by (intro exI [of _ k] exI [of _ "ns @ [c]"]) simp
    then show ?thesis using name "2.IH"(5) "2.prems"(1) by (auto simp: proper_def)
  next
    case up
    show ?thesis
    proof (cases acc)
      case Nil
      then have "ups_then_names r (rev (if r then [] else [dotdot]))"
        unfolding ups_then_names_def by (auto intro: exI [of _ 1] exI [of _ 0])
      then show ?thesis using up Nil "2.IH"(2) "2.prems"(1) by simp
    next
      case (Cons a as)
      show ?thesis
      proof (cases "a = dotdot")
        case True
        then have "ns = []" using k(1,2) Cons by (cases ns rule: rev_cases) (auto simp: proper_def)
        then have "\<not> r" "rev acc = replicate k dotdot" using k Cons by (auto dest: sym)
        then have "ups_then_names r (rev (dotdot # acc))"
          unfolding ups_then_names_def by (intro exI [of _ "Suc k"] exI [of _ "[]"]) (simp add: replicate_append_same)
        then show ?thesis using up Cons True "2.IH"(3) "2.prems"(1) by simp
      next
        case False
        have "ups_then_names r (rev as)"
        proof (cases ns rule: rev_cases)
          case Nil
          with k(1) Cons have "rev as @ [a] = replicate k dotdot" by simp
          then have "a \<in> set (replicate k dotdot)" by (metis in_set_conv_decomp)
          with False show ?thesis by simp
        next
          case (snoc ms m)
          with k(1) Cons have "rev as = replicate k dotdot @ ms" by simp
          then show ?thesis using k snoc unfolding ups_then_names_def by (intro exI [of _ k] exI [of _ ms]) auto
        qed
        then show ?thesis using up Cons False "2.IH"(4) "2.prems"(1) by simp
      qed
    qed
  qed
qed simp

lemma elements_shape: "ups_then_names (rooted p) (elements p)"
  unfolding elements_def by (intro norm_shape) (auto simp: ups_then_names_def dest: split_char_parts)

lemma norm_names: "\<forall>c\<in>set cs. proper c \<Longrightarrow> norm r acc cs = rev acc @ cs"
  by (induction cs arbitrary: acc) (auto simp: proper_def)

lemma norm_append: "norm r acc (cs @ ds) = norm r (rev (norm r acc cs)) ds"
  by (induction r acc cs rule: norm.induct) (auto split: list.splits)

lemma split_char_sep: "split_char c (xs @ c # ys) = split_char c xs @ split_char c ys"
  by (induction xs) (auto split: list.splits)

lemma norm_ups:
  "\<forall>n\<in>set ns. proper n \<Longrightarrow> norm False (replicate j dotdot) (replicate k dotdot @ ns) = replicate (j + k) dotdot @ ns"
proof (induction k arbitrary: j)
  case (Suc k)
  have "norm False (replicate j dotdot) (dotdot # replicate k dotdot @ ns) = norm False (replicate (Suc j) dotdot) (replicate k dotdot @ ns)"
    by (cases j) simp_all
  with Suc.IH [OF Suc.prems, of "Suc j"] show ?case by simp
qed (simp add: norm_names)

lemma norm_shaped: "ups_then_names r es \<Longrightarrow> norm r [] es = es"
proof -
  assume "ups_then_names r es"
  then obtain k ns where k: "es = replicate k dotdot @ ns" "\<forall>n\<in>set ns. proper n" "r \<longrightarrow> k = 0" unfolding ups_then_names_def by blast
  show "norm r [] es = es"
  proof (cases r)
    case True
    with k show ?thesis by (simp add: norm_names)
  next
    case False
    with k(1) norm_ups [OF k(2), of 0 k] show ?thesis by simp
  qed
qed

lemma shaped_elements:
  assumes "ups_then_names r es" and "e \<in> set es"
  shows "e \<noteq> [] \<and> CHR ''/'' \<notin> set e"
proof -
  obtain k ns where k: "es = replicate k dotdot @ ns" "\<forall>n\<in>set ns. proper n" using assms(1) unfolding ups_then_names_def by blast
  have "e = dotdot \<or> e \<in> set ns" using assms(2) unfolding k(1) by (simp add: set_replicate_conv_if split: if_splits)
  with k(2) show ?thesis by (elim disjE) (simp_all add: proper_def)
qed

lemma split_from_elements:
  assumes "ups_then_names r es"
  shows "split_char CHR ''/'' (from_elements r es) = (if r then [] # (if es = [] then [[]] else es) else if es = [] then [dot] else es)"
proof -
  have "split_char CHR ''/'' (join_char CHR ''/'' es) = es" if "es \<noteq> []"
    using that shaped_elements [OF assms] by simp
  then show ?thesis by (auto simp: from_elements_def)
qed

lemma join_head:
  assumes "es \<noteq> []" and "hd es \<noteq> []"
  shows "hd (join_char c es) = hd (hd es)" "join_char c es \<noteq> []"
proof -
  obtain x xs where es: "es = x # xs" "x \<noteq> []" using assms by (cases es) auto
  then have "\<exists>r. join_char c es = x @ r" by (cases xs) auto
  with es show "hd (join_char c es) = hd (hd es)" "join_char c es \<noteq> []" by auto
qed

lemma rooted_from_elements: "ups_then_names r es \<Longrightarrow> rooted (from_elements r es) = r"
proof -
  assume u: "ups_then_names r es"
  show ?thesis
  proof (cases "r \<or> es = []")
    case False
    then have "hd es \<noteq> []" "CHR ''/'' \<notin> set (hd es)" using shaped_elements [OF u, of "hd es"] by auto
    then have "hd (hd es) \<noteq> CHR ''/''" by (cases "hd es") auto
    with False join_head [of es] \<open>hd es \<noteq> []\<close> show ?thesis by (simp add: rooted_def from_elements_def)
  qed (auto simp: rooted_def from_elements_def)
qed

lemma elements_from: "ups_then_names r es \<Longrightarrow> elements (from_elements r es) = es"
  unfolding elements_def using norm_shaped [of r es] by (cases r) (simp_all add: rooted_from_elements split_from_elements)

text \<open>Cleaning twice is cleaning once; a cleaned path is known by its elements.\<close>

lemma elements_clean [simp]: "elements (path_clean p) = elements p" and rooted_clean [simp]: "rooted (path_clean p) = rooted p"
  unfolding path_clean_def by (simp_all add: elements_from rooted_from_elements elements_shape)

lemma path_clean_clean [simp]: "path_clean (path_clean p) = path_clean p"
  by (simp add: path_clean_def [of "path_clean p"]) (simp add: path_clean_def)

text \<open>A relative path that does not start with a pair of dots consists of names.\<close>

lemma inside_elements:
  assumes "\<not> rooted p" and "path_clean p \<noteq> dotdot" and "\<not> prefix (dotdot @ ''/'') (path_clean p)"
  shows "\<forall>e\<in>set (elements p). proper e"
proof -
  obtain k ns where k: "elements p = replicate k dotdot @ ns" "\<forall>n\<in>set ns. proper n"
    using elements_shape [of p] unfolding ups_then_names_def by blast
  have "k = 0"
  proof (rule ccontr)
    assume "k \<noteq> 0"
    then obtain es where es: "elements p = dotdot # es" using k(1) by (cases k) auto
    then have "path_clean p = (if es = [] then dotdot else dotdot @ CHR ''/'' # join_char CHR ''/'' es)"
      using assms(1) by (cases es) (simp_all add: path_clean_def from_elements_def)
    with assms(2,3) show False by (auto split: if_splits)
  qed
  with k show ?thesis by simp
qed

lemma elements_join:
  assumes "\<forall>e\<in>set es. proper e" and "es \<noteq> []"
  shows "elements (path_join d (join_char CHR ''/'' es)) = elements d @ es" "rooted (path_join d (join_char CHR ''/'' es)) = rooted d"
proof -
  let ?n = "join_char CHR ''/'' es"
  have sp: "split_char CHR ''/'' ?n = es" using assms by (simp add: proper_def)
  have ne: "?n \<noteq> []" using join_head(2) [of es] assms by (cases es) (auto simp: proper_def)
  have nr: "\<not> rooted ?n"
  proof -
    have "hd es \<noteq> []" "hd (hd es) \<noteq> CHR ''/''" using assms by (cases es; cases "hd es"; auto simp: proper_def)+
    then show ?thesis using join_head(1) [of es] assms(2) by (simp add: rooted_def)
  qed
  show "elements (path_join d ?n) = elements d @ es"
  proof (cases "d = []")
    case True
    then show ?thesis using ne nr sp norm_names [OF assms(1)] by (simp add: path_join_def) (simp add: elements_def rooted_def)
  next
    case False
    have "rooted (d @ CHR ''/'' # ?n) = rooted d" using False by (cases d) (simp_all add: rooted_def)
    with False ne sp show ?thesis
      by (simp add: path_join_def) (simp add: elements_def split_char_sep norm_append norm_names [OF assms(1)])
  qed
  show "rooted (path_join d ?n) = rooted d"
  proof (cases d)
    case Nil
    then show ?thesis using ne nr by (simp add: path_join_def) (simp add: rooted_def)
  next
    case (Cons c cs)
    then have "path_join d ?n = path_clean (d @ CHR ''/'' # ?n)" using ne by (simp add: path_join_def)
    then show ?thesis using Cons by (simp only: rooted_clean) (simp add: rooted_def)
  qed
qed

lemma strip_common_append: "strip_common xs (xs @ ys) = ([], ys)"
  by (induction xs) simp_all

text \<open>Going down a path and back up gives the part that was gone down.\<close>

lemma rel_join:
  assumes "\<forall>e\<in>set es. proper e" and "es \<noteq> []"
  shows "path_rel d (path_join d (join_char CHR ''/'' es)) = Some (join_char CHR ''/'' es)"
proof -
  note e = elements_join [OF assms, of d]
  have "path_clean d \<noteq> path_clean (path_join d (join_char CHR ''/'' es))"
    using e(1) assms(2) by (metis append_self_conv elements_clean)
  then show ?thesis using e by (simp add: path_rel_def strip_common_append)
qed

end
