(* ===== verification/Artifacts.thy ===== *)
theory Artifacts
  imports Paths Json "HOL-Library.Monad_Syntax" "HOL-Library.Char_ord" "HOL-Library.List_Lexorder"
begin

section \<open>Artifact manifests (internal/runner/artifact_verification.go)\<close>

text \<open>
  After the initializer has run, the modules a bundle asks for must have been downloaded. The
  folder is an argument: the files that can be read and the directories that exist.
\<close>

definition artifactManifestName :: string where
  "artifactManifestName = ''.stellwerk-artifacts.json''"

record folder =
  file_at :: "string \<Rightarrow> bytes result"
  is_directory :: "string \<Rightarrow> bool"

record ArtifactValidationError =
  ModuleID :: string
  ModuleVersion :: string
  CodeValue :: string
  AReason :: string

definition artifact_error :: "ArtifactValidationError \<Rightarrow> goerr" where
  "artifact_error e = ErrCoded (CodeValue e)
     (''artifact validation failed for '' @ ModuleID e @ ''@'' @ ModuleVersion e @ '': '' @ AReason e)"

record artifactRequirement =
  ReqModuleID :: string
  ReqVersion :: string
  SemanticVersion :: string
  MigrationGeneration :: string
  ReqSource :: string
  ArtifactDigest :: string

record artifactManifest =
  ManifestVersion :: int
  ManifestArtifacts :: "artifactRequirement list"

record downloadedModule =
  ModKey :: string
  ModSource :: string
  ModVersion :: string
  ModDir :: string

subsection \<open>Decoding\<close>

text \<open>A slice: its elements are filled one after the other, \<open>null\<close> makes it empty. An element that was
  there before is filled again.\<close>

fun into_elems :: "('a \<Rightarrow> bytes \<times> json \<Rightarrow> 'a option) \<Rightarrow> 'a \<Rightarrow> 'a list \<Rightarrow> json list \<Rightarrow> 'a list option" where
  "into_elems d z olds [] = Some []"
| "into_elems d z olds (v # vs) = (case d (case olds of [] \<Rightarrow> z | x # _ \<Rightarrow> x) ([], v) of None \<Rightarrow> None
     | Some y \<Rightarrow> map_option ((#) y) (into_elems d z (tl olds) vs))"

fun into_list :: "('a \<Rightarrow> bytes \<times> json \<Rightarrow> 'a option) \<Rightarrow> 'a \<Rightarrow> 'a list \<Rightarrow> bytes \<times> json \<Rightarrow> 'a list option" where
  "into_list d z x (w, JArr vs) = into_elems d z x vs"
| "into_list d z x (w, JNull) = Some []"
| "into_list d z x _ = None"

definition no_requirement :: artifactRequirement where
  "no_requirement = \<lparr>ReqModuleID = [], ReqVersion = [], SemanticVersion = [], MigrationGeneration = [], ReqSource = [], ArtifactDigest = []\<rparr>"

definition into_requirement :: "artifactRequirement \<Rightarrow> bytes \<times> json \<Rightarrow> artifactRequirement option" where
  "into_requirement x wv = do {
     ms \<leftarrow> struct_members (snd wv);
     m \<leftarrow> get_field into_str ''module_id'' ms (ReqModuleID x);
     v \<leftarrow> get_field into_str ''version'' ms (ReqVersion x);
     sv \<leftarrow> get_field into_str ''semantic_version'' ms (SemanticVersion x);
     g \<leftarrow> get_field into_str ''migration_generation'' ms (MigrationGeneration x);
     s \<leftarrow> get_field into_str ''source'' ms (ReqSource x);
     d \<leftarrow> get_field into_str ''artifact_digest'' ms (ArtifactDigest x);
     Some \<lparr>ReqModuleID = m, ReqVersion = v, SemanticVersion = sv, MigrationGeneration = g, ReqSource = s, ArtifactDigest = d\<rparr> }"

definition unmarshal_manifest :: "bytes \<Rightarrow> artifactManifest option" where
  "unmarshal_manifest bs = do {
     ms \<leftarrow> decode_struct bs;
     v \<leftarrow> get_field (into_num fits_int64) ''version'' ms 0;
     as \<leftarrow> get_field (into_list into_requirement no_requirement) ''artifacts'' ms [];
     Some \<lparr>ManifestVersion = v, ManifestArtifacts = as\<rparr> }"

definition no_module :: downloadedModule where
  "no_module = \<lparr>ModKey = [], ModSource = [], ModVersion = [], ModDir = []\<rparr>"

definition into_module :: "downloadedModule \<Rightarrow> bytes \<times> json \<Rightarrow> downloadedModule option" where
  "into_module x wv = do {
     ms \<leftarrow> struct_members (snd wv);
     k \<leftarrow> get_field into_str ''Key'' ms (ModKey x);
     s \<leftarrow> get_field into_str ''Source'' ms (ModSource x);
     v \<leftarrow> get_field into_str ''Version'' ms (ModVersion x);
     d \<leftarrow> get_field into_str ''Dir'' ms (ModDir x);
     Some \<lparr>ModKey = k, ModSource = s, ModVersion = v, ModDir = d\<rparr> }"

definition unmarshal_modules :: "bytes \<Rightarrow> downloadedModule list option" where
  "unmarshal_modules bs = Option.bind (decode_struct bs) (\<lambda>ms. get_field (into_list into_module no_module) ''Modules'' ms [])"

subsection \<open>Verifying\<close>

definition lower_hex :: "char \<Rightarrow> bool" where
  "lower_hex c \<longleftrightarrow> c \<in> set ''0123456789abcdef''"

text \<open>The pattern \<open>^sha256:[0-9a-f]{64}$\<close>.\<close>

definition artifactDigestPattern :: "string \<Rightarrow> bool" where
  "artifactDigestPattern d \<longleftrightarrow> take 7 d = ''sha256:'' \<and> length d = 71 \<and> list_all lower_hex (drop 7 d)"

definition splitRegistrySource :: "string \<Rightarrow> string \<times> string" where
  "splitRegistrySource source = (case last_cut CHR ''@'' source of None \<Rightarrow> (source, [])
     | Some (a, b) \<Rightarrow> if prefix ''/'' source \<or> prefix ''git::'' source then (source, []) else (a, b))"

text \<open>The notation of a URL with scheme \<open>file\<close> and this path.\<close>

definition file_url :: "string \<Rightarrow> string" where
  "file_url p = ''file://'' @ concat (map (\<lambda>c. if alnum c \<or> c \<in> set ''-_.~$&+,/:;=@'' then [c]
     else [CHR ''%'', upper_hex (of_char c div 16), upper_hex (of_char c mod 16)]) p)"

definition module_directory :: "string \<Rightarrow> downloadedModule \<Rightarrow> string" where
  "module_directory root m = (if rooted (ModDir m) then ModDir m else path_join root (ModDir m))"

definition artifactDirectories :: "folder \<Rightarrow> string \<Rightarrow> artifactRequirement \<Rightarrow> downloadedModule list \<Rightarrow> string list" where
  "artifactDirectories fd root r downloaded =
     (let (source, version) = splitRegistrySource (ReqSource r); source = (if rooted source then file_url source else source) in
      sort (filter (is_directory fd) (map (module_directory root) (filter (\<lambda>m. \<not> (ModKey m = [] \<or> ModSource m \<noteq> source
        \<or> (version \<noteq> [] \<and> ModVersion m \<noteq> version))) downloaded))))"

definition requirement_error :: "artifactRequirement \<Rightarrow> string \<Rightarrow> string \<Rightarrow> goerr" where
  "requirement_error r code reason = artifact_error \<lparr>ModuleID = ReqModuleID r, ModuleVersion = ReqVersion r, CodeValue = code, AReason = reason\<rparr>"

definition verify_requirement :: "folder \<Rightarrow> string \<Rightarrow> downloadedModule list \<Rightarrow> artifactRequirement \<Rightarrow> goerr option" where
  "verify_requirement fd root downloaded r =
     (if MigrationGeneration r = ''v0'' \<and> (SemanticVersion r \<noteq> [] \<or> ArtifactDigest r \<noteq> [])
      then Some (requirement_error r ''ARTIFACT_MANIFEST_INVALID'' ''migrated v0 must not declare invented SemVer or artifact digest metadata'')
      else if ReqSource r = ''inline''
      then if ArtifactDigest r \<noteq> []
        then Some (requirement_error r ''ARTIFACT_MANIFEST_INVALID'' ''inline source must not declare an external artifact digest'')
        else None
      else if ArtifactDigest r \<noteq> [] \<and> \<not> artifactDigestPattern (ArtifactDigest r)
      then Some (requirement_error r ''ARTIFACT_MANIFEST_INVALID''
        ''external artifact digest must be sha256 followed by 64 lowercase hexadecimal characters'')
      else if artifactDirectories fd root r downloaded = []
      then Some (requirement_error r ''ARTIFACT_UNAVAILABLE'' ''artifact was not downloaded by the IaC initializer'')
      else None)"

fun verify_requirements :: "folder \<Rightarrow> string \<Rightarrow> downloadedModule list \<Rightarrow> artifactRequirement list \<Rightarrow> goerr option" where
  "verify_requirements fd root downloaded [] = None"
| "verify_requirements fd root downloaded (r # rs) = (case verify_requirement fd root downloaded r of
     Some e \<Rightarrow> Some e | None \<Rightarrow> verify_requirements fd root downloaded rs)"

definition modules_path :: "string \<Rightarrow> string" where
  "modules_path root = path_join (path_join (path_join root ''.terraform'') ''modules'') ''modules.json''"

definition downloaded_modules :: "folder \<Rightarrow> string \<Rightarrow> downloadedModule list result" where
  "downloaded_modules fd root = (case file_at fd (modules_path root) of
     Inl e \<Rightarrow> if errors_is e ErrNotExist then Inr [] else Inl e
   | Inr modulesJSON \<Rightarrow> (case unmarshal_modules modulesJSON of
       None \<Rightarrow> Inl (ErrNew ''decode downloaded module manifest'') | Some ms \<Rightarrow> Inr ms))"

definition verifyArtifactManifest :: "folder \<Rightarrow> string \<Rightarrow> goerr option" where
  "verifyArtifactManifest fd root = (case file_at fd (path_join root artifactManifestName) of
     Inl e \<Rightarrow> if errors_is e ErrNotExist then None else Some e
   | Inr encoded \<Rightarrow> (case unmarshal_manifest encoded of None \<Rightarrow> Some (ErrNew ''decode module artifact manifest'')
     | Some manifest \<Rightarrow>
       if ManifestVersion manifest \<noteq> 1
       then Some (ErrNew (''unsupported module artifact manifest version '' @ int_str (ManifestVersion manifest)))
       else (case downloaded_modules fd root of Inl e \<Rightarrow> Some e
         | Inr downloaded \<Rightarrow> verify_requirements fd root downloaded (ManifestArtifacts manifest))))"

subsection \<open>What passes\<close>

text \<open>A module that was downloaded for a requirement.\<close>

definition provides :: "folder \<Rightarrow> string \<Rightarrow> artifactRequirement \<Rightarrow> downloadedModule \<Rightarrow> bool" where
  "provides fd root r m \<longleftrightarrow> (\<exists>source version. splitRegistrySource (ReqSource r) = (source, version)
     \<and> ModKey m \<noteq> [] \<and> ModSource m = (if rooted source then file_url source else source)
     \<and> (version = [] \<or> ModVersion m = version) \<and> is_directory fd (module_directory root m))"

definition satisfied :: "folder \<Rightarrow> string \<Rightarrow> downloadedModule list \<Rightarrow> artifactRequirement \<Rightarrow> bool" where
  "satisfied fd root downloaded r \<longleftrightarrow> (MigrationGeneration r = ''v0'' \<longrightarrow> SemanticVersion r = [] \<and> ArtifactDigest r = [])
     \<and> (if ReqSource r = ''inline'' then ArtifactDigest r = []
        else (ArtifactDigest r = [] \<or> artifactDigestPattern (ArtifactDigest r)) \<and> (\<exists>m\<in>set downloaded. provides fd root r m))"

lemma artifactDirectories_empty: "artifactDirectories fd root r ms = [] \<longleftrightarrow> \<not> (\<exists>m\<in>set ms. provides fd root r m)"
proof -
  obtain source version where s: "splitRegistrySource (ReqSource r) = (source, version)" by fastforce
  have "sort xs = [] \<longleftrightarrow> xs = []" for xs :: "string list" by (metis length_0_conv length_sort)
  then show ?thesis unfolding artifactDirectories_def s Let_def prod.case provides_def by (auto simp: filter_empty_conv)
qed

lemma verify_requirement_None: "verify_requirement fd root ms r = None \<longleftrightarrow> satisfied fd root ms r"
  by (auto simp: verify_requirement_def satisfied_def artifactDirectories_empty)

lemma verify_requirements_None: "verify_requirements fd root ms rs = None \<longleftrightarrow> (\<forall>r\<in>set rs. satisfied fd root ms r)"
  by (induction rs) (auto simp: verify_requirement_None [symmetric] split: option.splits)

text \<open>C32: a folder passes exactly when it has no manifest, or a readable one of version 1, a list of
  downloaded modules that is absent or decodes, and every requirement satisfied: no invented metadata for migrated modules, no digest for inline
  ones, and for any other a well-formed digest if there is one and a downloaded module of this
  source and version whose directory exists.\<close>

theorem artifacts_verified_iff:
  "verifyArtifactManifest fd root = None \<longleftrightarrow>
     (\<exists>e. file_at fd (path_join root artifactManifestName) = Inl e \<and> errors_is e ErrNotExist)
     \<or> (\<exists>bs manifest ms. file_at fd (path_join root artifactManifestName) = Inr bs \<and> unmarshal_manifest bs = Some manifest
        \<and> ManifestVersion manifest = 1 \<and> downloaded_modules fd root = Inr ms
        \<and> (\<forall>r\<in>set (ManifestArtifacts manifest). satisfied fd root ms r))"
  by (auto simp: verifyArtifactManifest_def verify_requirements_None split: sum.splits option.splits)

definition demo_folder :: folder where
  "demo_folder = \<lparr>file_at = (\<lambda>p. if p = ''/w/.stellwerk-artifacts.json''
       then Inr (encode_struct [member ''version'' (jint 1), member ''artifacts'' (JArr [JObj [member ''source'' (JStr ''inline'')]])])
       else Inl ErrNotExist),
     is_directory = (\<lambda>_. False)\<rparr>"

lemma demo_manifest: "path_join ''/w'' artifactManifestName = ''/w/.stellwerk-artifacts.json''"
  by (simp add: artifactManifestName_def path_join_def path_clean_def elements_def rooted_def from_elements_def)

definition demo_requirement :: artifactRequirement where
  "demo_requirement = no_requirement\<lparr>ReqSource := ''inline''\<rparr>"

theorem artifacts_verified_iff_witness: "verifyArtifactManifest demo_folder ''/w'' = None"
proof -
  let ?ms = "[member ''version'' (jint 1), member ''artifacts'' (JArr [JObj [member ''source'' (JStr ''inline'')]])]"
  have "decode_struct (encode_struct ?ms) = Some ?ms" by (rule decode_encode_struct) (simp add: fits_int64_def)
  then have "unmarshal_manifest (encode_struct ?ms) = Some \<lparr>ManifestVersion = 1, ManifestArtifacts = [demo_requirement]\<rparr>"
    by (simp add: unmarshal_manifest_def get_field_member equal_fold_def to_lower_def into_requirement_def fits_int64_def
        demo_requirement_def no_requirement_def)
  moreover have "downloaded_modules demo_folder ''/w'' = Inr []"
    by (simp add: downloaded_modules_def demo_folder_def modules_path_def path_join_def path_clean_def elements_def rooted_def from_elements_def)
  moreover have "file_at demo_folder (path_join ''/w'' artifactManifestName) = Inr (encode_struct ?ms)"
    by (simp add: demo_manifest) (simp add: demo_folder_def)
  moreover have "satisfied demo_folder ''/w'' [] demo_requirement" by (simp add: satisfied_def demo_requirement_def no_requirement_def)
  ultimately show ?thesis unfolding artifacts_verified_iff by auto
qed

end
