(* ===== verification/Observation.thy ===== *)
theory Observation
  imports Artifacts
begin

section \<open>Observing an environment (internal/runner/observation.go)\<close>

text \<open>
  An observation runs a plan, reads it and reports only what is known to be harmless. The programs
  it starts, their output and the folder are arguments on a world of type \<open>'w\<close>.
\<close>

definition maxObservationPlanBytes :: nat where
  "maxObservationPlanBytes = 32 * 2 ^ 20"

definition maxObservationChanges :: nat where
  "maxObservationChanges = 2000"

record ObservationChange =
  ObsId :: string
  ObsResourceType :: string
  ObsActions :: "string list"

record ObservationResult =
  SchemaVersion :: string
  ObsComplete :: bool
  ObsTool :: string
  ToolVersion :: string
  ObservedChanges :: "ObservationChange list"
  ProposedChanges :: "ObservationChange list"
  OutputChangeCount :: nat

subsection \<open>Patterns\<close>

definition letter :: "char \<Rightarrow> bool" where
  "letter c \<longleftrightarrow> alnum c \<and> \<not> is_digit c"

text \<open>\<open>^[0-9]+\.[0-9]+\.[0-9]+(?:[-+][0-9A-Za-z.-]+)?$\<close>: a run of digits that starts a string is maximal,
  because no digit can follow it.\<close>

definition digits_then :: "string \<Rightarrow> (string \<times> string) option" where
  "digits_then s = (let d = takeWhile is_digit s in if d = [] then None else Some (d, dropWhile is_digit s))"

definition observationVersion :: "string \<Rightarrow> bool" where
  "observationVersion s = (case digits_then s of Some (_, c # r) \<Rightarrow> c = CHR ''.'' \<and>
     (case digits_then r of Some (_, c # r) \<Rightarrow> c = CHR ''.'' \<and>
       (case digits_then r of Some (_, []) \<Rightarrow> True
        | Some (_, c # r) \<Rightarrow> c \<in> set ''-+'' \<and> r \<noteq> [] \<and> list_all (\<lambda>x. alnum x \<or> x \<in> set ''.-'') r
        | None \<Rightarrow> False)
     | _ \<Rightarrow> False)
   | _ \<Rightarrow> False)"

definition observationResourceType :: "string \<Rightarrow> bool" where
  "observationResourceType s = (case s of [] \<Rightarrow> False
     | c # r \<Rightarrow> letter c \<and> length r \<le> 127 \<and> list_all (\<lambda>x. alnum x \<or> x = CHR ''_'') r)"

subsection \<open>The plan\<close>

record plan_change =
  PActions :: "string list"
  PImporting :: bytes

record observationPlanChange =
  PType :: string
  PChange :: "plan_change option"

record observationPlan =
  PlanFormat :: string
  PlanVersion :: string
  PlanComplete :: "bool option"
  PlanErrored :: "bool option"
  PlanConfiguration :: bytes
  PlannedValues :: bytes
  PlanDeferred :: bytes
  PlanChecks :: "string list"
  PlanDrift :: "observationPlanChange list"
  PlanChanges :: "observationPlanChange list"
  PlanOutputs :: "(string \<times> string list) list"

definition into_strs :: "string list \<Rightarrow> bytes \<times> json \<Rightarrow> string list option" where
  "into_strs = into_list into_str []"

definition into_plan_change :: "plan_change option \<Rightarrow> bytes \<times> json \<Rightarrow> plan_change option option" where
  "into_plan_change x wv = (if snd wv = JNull then Some None else do {
     let old = (case x of None \<Rightarrow> \<lparr>PActions = [], PImporting = []\<rparr> | Some c \<Rightarrow> c);
     ms \<leftarrow> struct_members (snd wv);
     a \<leftarrow> get_field into_strs ''actions'' ms (PActions old);
     i \<leftarrow> get_field into_raw ''importing'' ms (PImporting old);
     Some (Some \<lparr>PActions = a, PImporting = i\<rparr>) })"

definition into_resource :: "observationPlanChange \<Rightarrow> bytes \<times> json \<Rightarrow> observationPlanChange option" where
  "into_resource x wv = do {
     ms \<leftarrow> struct_members (snd wv);
     t \<leftarrow> get_field into_str ''type'' ms (PType x);
     c \<leftarrow> get_field into_plan_change ''change'' ms (PChange x);
     Some \<lparr>PType = t, PChange = c\<rparr> }"

definition into_resources :: "observationPlanChange list \<Rightarrow> bytes \<times> json \<Rightarrow> observationPlanChange list option" where
  "into_resources = into_list into_resource \<lparr>PType = [], PChange = None\<rparr>"

definition into_check :: "string \<Rightarrow> bytes \<times> json \<Rightarrow> string option" where
  "into_check x wv = Option.bind (struct_members (snd wv)) (\<lambda>ms. get_field into_str ''status'' ms x)"

text \<open>A map: every member is stored under its key, in a fresh value.\<close>

fun put_key :: "string \<Rightarrow> 'a \<Rightarrow> (string \<times> 'a) list \<Rightarrow> (string \<times> 'a) list" where
  "put_key k v [] = [(k, v)]"
| "put_key k v ((k', v') # xs) = (if k = k' then (k, v) # xs else (k', v') # put_key k v xs)"

fun into_outputs :: "(string \<times> string list) list \<Rightarrow> (string \<times> bytes \<times> json) list \<Rightarrow> (string \<times> string list) list option" where
  "into_outputs x [] = Some x"
| "into_outputs x ((k, w, v) # ms) = (case Option.bind (struct_members v) (\<lambda>fs. get_field into_strs ''actions'' fs []) of
     None \<Rightarrow> None | Some a \<Rightarrow> into_outputs (put_key k a x) ms)"

definition into_output_map :: "(string \<times> string list) list \<Rightarrow> bytes \<times> json \<Rightarrow> (string \<times> string list) list option" where
  "into_output_map x wv = (case snd wv of JNull \<Rightarrow> Some [] | JObj ms \<Rightarrow> into_outputs x ms | _ \<Rightarrow> None)"

definition unmarshal_plan :: "bytes \<Rightarrow> observationPlan option" where
  "unmarshal_plan bs = do {
     ms \<leftarrow> decode_struct bs;
     f \<leftarrow> get_field into_str ''format_version'' ms [];
     v \<leftarrow> get_field into_str ''terraform_version'' ms [];
     c \<leftarrow> get_field into_bool_ptr ''complete'' ms None;
     e \<leftarrow> get_field into_bool_ptr ''errored'' ms None;
     g \<leftarrow> get_field into_raw ''configuration'' ms [];
     p \<leftarrow> get_field into_raw ''planned_values'' ms [];
     d \<leftarrow> get_field into_raw ''deferred_changes'' ms [];
     k \<leftarrow> get_field (into_list into_check []) ''checks'' ms [];
     r \<leftarrow> get_field into_resources ''resource_drift'' ms [];
     h \<leftarrow> get_field into_resources ''resource_changes'' ms [];
     u \<leftarrow> get_field into_output_map ''output_changes'' ms [];
     Some \<lparr>PlanFormat = f, PlanVersion = v, PlanComplete = c, PlanErrored = e, PlanConfiguration = g, PlannedValues = p,
       PlanDeferred = d, PlanChecks = k, PlanDrift = r, PlanChanges = h, PlanOutputs = u\<rparr> }"

subsection \<open>Reading a plan\<close>

text \<open>No object of the document has a key twice.\<close>

fun validateObservationJSON :: "json \<Rightarrow> bool"
  and validate_members :: "string list \<Rightarrow> (string \<times> bytes \<times> json) list \<Rightarrow> bool" where
  "validateObservationJSON (JObj ms) = validate_members [] ms"
| "validateObservationJSON (JArr vs) = list_all validateObservationJSON vs"
| "validateObservationJSON _ = True"
| "validate_members seen [] = True"
| "validate_members seen ((name, w, v) # ms) =
     (name \<notin> set seen \<and> validateObservationJSON v \<and> validate_members (name # seen) ms)"

definition jsonObject :: "bytes \<Rightarrow> bool" where
  "jsonObject data \<longleftrightarrow> length data > 1 \<and> hd data = CHR ''{''"

definition validObservationActions :: "string list \<Rightarrow> bool" where
  "validObservationActions actions =
     (case actions of [a, b] \<Rightarrow> (a = ''create'' \<and> b = ''delete'') \<or> (a = ''delete'' \<and> b = ''create'')
      | [a] \<Rightarrow> a \<in> set [''create'', ''read'', ''update'', ''delete'', ''no-op'', ''forget'']
      | _ \<Rightarrow> False)"

text \<open>The id of the next change counts the changes before it.\<close>

fun sanitize :: "string \<Rightarrow> observationPlanChange list \<Rightarrow> ObservationChange list \<Rightarrow> ObservationChange list option" where
  "sanitize pre [] result = Some result"
| "sanitize pre (c # cs) result = (case PChange c of None \<Rightarrow> None
   | Some ch \<Rightarrow>
     if \<not> observationResourceType (PType c) \<or> \<not> validObservationActions (PActions ch) \<or> (PImporting ch \<noteq> [] \<and> PImporting ch \<noteq> ''null'')
     then None
     else if PActions ch = [''no-op''] then sanitize pre cs result
     else sanitize pre cs (result @ [\<lparr>ObsId = pre @ CHR ''_'' # nat_str (length result + 1), ObsResourceType = PType c, ObsActions = PActions ch\<rparr>]))"

definition sanitizeObservationChanges :: "observationPlanChange list \<Rightarrow> string \<Rightarrow> ObservationChange list option" where
  "sanitizeObservationChanges changes pre = (if length changes > maxObservationChanges then None else sanitize pre changes [])"

definition plan_supported :: "observationPlan \<Rightarrow> string \<Rightarrow> bool" where
  "plan_supported p tool \<longleftrightarrow> \<not> (PlanFormat p \<noteq> ''1.2'' \<or> length (PlanVersion p) > 64 \<or> \<not> observationVersion (PlanVersion p)
       \<or> PlanErrored p \<noteq> Some False \<or> \<not> jsonObject (PlanConfiguration p) \<or> \<not> jsonObject (PlannedValues p))
     \<and> \<not> ((tool = ''terraform'' \<and> PlanComplete p = None) \<or> PlanComplete p = Some False)
     \<and> \<not> (PlanDeferred p \<noteq> [] \<and> PlanDeferred p \<noteq> ''[]'' \<and> PlanDeferred p \<noteq> ''null'')
     \<and> list_all (\<lambda>s. s = ''pass'') (PlanChecks p)"

definition observation_invalid :: goerr where
  "observation_invalid = ErrNew ''observation plan is invalid or unsupported''"

definition parseObservationPlan :: "bytes \<Rightarrow> string \<Rightarrow> ObservationResult result" where
  "parseObservationPlan data tool =
     (if data = [] \<or> length data > maxObservationPlanBytes \<or> (tool \<noteq> ''terraform'' \<and> tool \<noteq> ''opentofu'') then Inl observation_invalid
      else (case json_decode data of None \<Rightarrow> Inl observation_invalid
      | Some v \<Rightarrow> if \<not> validateObservationJSON v then Inl observation_invalid
      else (case unmarshal_plan data of None \<Rightarrow> Inl observation_invalid
      | Some p \<Rightarrow> if \<not> plan_supported p tool then Inl observation_invalid
      else (case sanitizeObservationChanges (PlanDrift p) ''observed'' of None \<Rightarrow> Inl observation_invalid
      | Some ob \<Rightarrow> (case sanitizeObservationChanges (PlanChanges p) ''proposed'' of None \<Rightarrow> Inl observation_invalid
      | Some pr \<Rightarrow>
        if length (PlanOutputs p) > 1000000 \<or> \<not> list_all (\<lambda>ka. validObservationActions (snd ka)) (PlanOutputs p) then Inl observation_invalid
        else Inr \<lparr>SchemaVersion = ''1'', ObsComplete = True, ObsTool = tool, ToolVersion = PlanVersion p, ObservedChanges = ob,
          ProposedChanges = pr, OutputChangeCount = length (filter (\<lambda>ka. snd ka \<noteq> [''no-op'']) (PlanOutputs p))\<rparr>)))))"

subsection \<open>Running the tools\<close>

record boundedObservationBuffer =
  obuffer :: bytes
  oremaining :: nat
  oexceeded :: bool

definition obs_Write :: "bytes \<Rightarrow> boundedObservationBuffer \<Rightarrow> goerr option \<times> boundedObservationBuffer" where
  "obs_Write p b = (if length p > oremaining b then (Some (ErrNew ''observation size limit exceeded''), b\<lparr>oexceeded := True\<rparr>)
     else (None, b\<lparr>oremaining := oremaining b - length p, obuffer := obuffer b @ p\<rparr>))"

text \<open>The output of a program is copied piece by piece until a write fails.\<close>

fun copy_output :: "bytes list \<Rightarrow> boundedObservationBuffer \<Rightarrow> goerr option \<times> boundedObservationBuffer" where
  "copy_output [] b = (None, b)"
| "copy_output (p # ps) b = (case obs_Write p b of (Some e, b) \<Rightarrow> (Some e, b) | (None, b) \<Rightarrow> copy_output ps b)"

record 'w tools =
  run_tool :: "string \<Rightarrow> string list \<Rightarrow> string list \<Rightarrow> 'w \<Rightarrow> (bytes list \<times> goerr option) \<times> 'w"
  tool_environ :: "'w \<Rightarrow> string list"
  cancelled :: "'w \<Rightarrow> bool"
  mkdir_temp :: "string \<Rightarrow> string \<Rightarrow> 'w \<Rightarrow> string result \<times> 'w"
  remove_all :: "string \<Rightarrow> 'w \<Rightarrow> goerr option \<times> 'w"
  tool_folder :: "'w \<Rightarrow> folder"

definition hidden_variable :: "string \<Rightarrow> bool" where
  "hidden_variable env = (let key = takeWhile (\<lambda>c. c \<noteq> CHR ''='') env in
     prefix ''TF_CLI_ARGS'' key \<or> prefix ''TF_LOG'' key \<or> prefix ''TOFU_LOG'' key)"

text \<open>The variables the program is started with. A command that is given no variable inherits all of
  them.\<close>

definition command_environ :: "'w tools \<Rightarrow> 'w \<Rightarrow> string list" where
  "command_environ ts w = (let vs = filter (\<lambda>e. \<not> hidden_variable e) (tool_environ ts w) in if vs = [] then tool_environ ts w else vs)"

definition observationCommand :: "'w tools \<Rightarrow> string \<Rightarrow> nat \<Rightarrow> string list \<Rightarrow> 'w \<Rightarrow> bytes result \<times> 'w" where
  "observationCommand ts binary limit args w =
     (case run_tool ts binary args (command_environ ts w) w of ((chunks, e), w) \<Rightarrow>
       (let out = \<lparr>obuffer = [], oremaining = limit, oexceeded = False\<rparr>;
            (copyErr, out) = (if limit > 0 then copy_output chunks out else (None, out)) in
        if e \<noteq> None \<or> copyErr \<noteq> None \<or> cancelled ts w \<or> oexceeded out then (Inl (ErrNew ''observation command failed''), w)
        else (Inr (obuffer out), w)))"

definition observe_commands :: "'w tools \<Rightarrow> string \<Rightarrow> string \<Rightarrow> string \<Rightarrow> string \<Rightarrow> 'w \<Rightarrow> ObservationResult result \<times> 'w" where
  "observe_commands ts binary tool folder planFile w =
     (let flags = (if tool = ''opentofu'' then [''-consolidate-errors''] else []) in
      case observationCommand ts binary 0 ([''-chdir='' @ folder, ''init'', ''-input=false'', ''-no-color'', ''-json'', ''-compact-warnings''] @ flags) w of
        (Inl e, w) \<Rightarrow> (Inl (ErrNew ''observation initialization failed''), w)
      | (Inr _, w) \<Rightarrow> if verifyArtifactManifest (tool_folder ts w) folder \<noteq> None
          then (Inl (ErrNew ''observation artifact verification failed''), w)
          else (case observationCommand ts binary 0 ([''-chdir='' @ folder, ''plan'', ''-input=false'', ''-refresh=true'', ''-lock=true'',
              ''-lock-timeout=0s'', ''-no-color'', ''-json'', ''-compact-warnings'', ''-out='' @ planFile] @ flags) w of
            (Inl e, w) \<Rightarrow> (Inl (ErrNew ''observation plan failed''), w)
          | (Inr _, w) \<Rightarrow> (case observationCommand ts binary maxObservationPlanBytes [''-chdir='' @ folder, ''show'', ''-no-color'', ''-json'', planFile] w of
              (Inl e, w) \<Rightarrow> (Inl (ErrNew ''observation plan inspection failed''), w)
            | (Inr data, w) \<Rightarrow> if cancelled ts w then (Inl (ErrNew ''observation canceled''), w) else (parseObservationPlan data tool, w))))"

text \<open>\<open>Observe\<close>; the deferred cleanup decides over the result.\<close>

definition Observe :: "'w tools \<Rightarrow> bool \<Rightarrow> string \<Rightarrow> string \<Rightarrow> string \<Rightarrow> 'w \<Rightarrow> ObservationResult result \<times> 'w" where
  "Observe ts observationOnly tool binary folder w =
     (if \<not> observationOnly \<or> (tool \<noteq> ''terraform'' \<and> tool \<noteq> ''opentofu'') then (Inl (ErrNew ''observation mode is unsupported''), w)
      else (case mkdir_temp ts folder ''.observation-'' w of
        (Inl e, w) \<Rightarrow> (Inl (ErrNew ''observation plan storage unavailable''), w)
      | (Inr planDir, w) \<Rightarrow> (case observe_commands ts binary tool folder (path_join planDir ''plan.tfplan'') w of (r, w) \<Rightarrow>
          (case remove_all ts planDir w of (Some e, w) \<Rightarrow> (Inl (ErrNew ''observation plan cleanup failed''), w)
           | (None, w) \<Rightarrow> (r, w)))))"

subsection \<open>What is reported\<close>

text \<open>A change that may be reported, and what is reported of a list of changes: those that do something, in
  their order and numbered, each with nothing but its resource type and its actions.\<close>

definition reportable :: "observationPlanChange \<Rightarrow> bool" where
  "reportable c \<longleftrightarrow> (\<exists>ch. PChange c = Some ch \<and> observationResourceType (PType c) \<and> validObservationActions (PActions ch)
     \<and> PImporting ch \<in> {[], ''null''})"

definition change_actions :: "observationPlanChange \<Rightarrow> string list" where
  "change_actions c = (case PChange c of None \<Rightarrow> [] | Some ch \<Rightarrow> PActions ch)"

definition numbered :: "string \<Rightarrow> nat \<Rightarrow> observationPlanChange list \<Rightarrow> ObservationChange list" where
  "numbered pre n cs = map (\<lambda>(i, c). \<lparr>ObsId = pre @ CHR ''_'' # nat_str i, ObsResourceType = PType c, ObsActions = change_actions c\<rparr>)
     (enumerate n (filter (\<lambda>c. change_actions c \<noteq> [''no-op'']) cs))"

lemma sanitize_numbered:
  "sanitize pre cs res = (if list_all reportable cs then Some (res @ numbered pre (length res + 1) cs) else None)"
proof (induction pre cs res rule: sanitize.induct)
  case (2 pre c cs res)
  show ?case
  proof (cases "reportable c")
    case True
    then obtain ch where ch: "PChange c = Some ch" "change_actions c = PActions ch"
        "\<not> (\<not> observationResourceType (PType c) \<or> \<not> validObservationActions (PActions ch) \<or> (PImporting ch \<noteq> [] \<and> PImporting ch \<noteq> ''null''))"
      by (auto simp: reportable_def change_actions_def)
    show ?thesis
    proof (cases "PActions ch = [''no-op'']")
      case no_op: True
      with 2(1) [OF ch(1,3)] ch True show ?thesis by (auto simp: numbered_def)
    next
      case False
      with 2(2) [OF ch(1,3)] ch True show ?thesis by (auto simp: numbered_def)
    qed
  next
    case False
    then show ?thesis by (auto simp: reportable_def split: option.splits)
  qed
qed (simp add: numbered_def)

text \<open>C33: an observation is reported exactly for a plan of at most 32 MiB whose objects have no key twice
  and that the decoder reads, of format 1.2, with a short version number, without errors, complete
  (Terraform must say so, OpenTofu must not deny it), without deferred changes and with all checks
  passing, with at most two thousand drifted and two thousand changed resources, none of them
  imported, all with plain resource types and known actions, and at most a million outputs. The
  report then holds, in their order, the changes that do something, and of each only a number, the
  resource type and the actions; of the outputs it holds only how many change. No value, name or
  address of the plan gets into it.\<close>

theorem observation_sanitized:
  "parseObservationPlan data tool = Inr r \<longleftrightarrow>
     data \<noteq> [] \<and> length data \<le> 32 * 2 ^ 20 \<and> tool \<in> {''terraform'', ''opentofu''}
     \<and> (\<exists>v p. json_decode data = Some v \<and> validateObservationJSON v \<and> unmarshal_plan data = Some p
        \<and> PlanFormat p = ''1.2'' \<and> observationVersion (PlanVersion p) \<and> length (PlanVersion p) \<le> 64
        \<and> PlanErrored p = Some False \<and> jsonObject (PlanConfiguration p) \<and> jsonObject (PlannedValues p)
        \<and> (if tool = ''terraform'' then PlanComplete p = Some True else PlanComplete p \<noteq> Some False)
        \<and> PlanDeferred p \<in> {[], ''[]'', ''null''} \<and> set (PlanChecks p) \<subseteq> {''pass''}
        \<and> length (PlanDrift p) \<le> 2000 \<and> list_all reportable (PlanDrift p)
        \<and> length (PlanChanges p) \<le> 2000 \<and> list_all reportable (PlanChanges p)
        \<and> length (PlanOutputs p) \<le> 1000000 \<and> list_all (\<lambda>(k, a). validObservationActions a) (PlanOutputs p)
        \<and> r = \<lparr>SchemaVersion = ''1'', ObsComplete = True, ObsTool = tool, ToolVersion = PlanVersion p,
             ObservedChanges = numbered ''observed'' 1 (PlanDrift p), ProposedChanges = numbered ''proposed'' 1 (PlanChanges p),
             OutputChangeCount = length (filter (\<lambda>(k, a). a \<noteq> [''no-op'']) (PlanOutputs p))\<rparr>)"
proof -
  have changes: "sanitizeObservationChanges cs pre = Some x \<longleftrightarrow> length cs \<le> 2000 \<and> list_all reportable cs \<and> x = numbered pre 1 cs"
    for cs pre x
    by (auto simp: sanitizeObservationChanges_def sanitize_numbered maxObservationChanges_def)
  have plan: "plan_supported p tool \<longleftrightarrow> PlanFormat p = ''1.2'' \<and> observationVersion (PlanVersion p) \<and> length (PlanVersion p) \<le> 64
      \<and> PlanErrored p = Some False \<and> jsonObject (PlanConfiguration p) \<and> jsonObject (PlannedValues p)
      \<and> (if tool = ''terraform'' then PlanComplete p = Some True else PlanComplete p \<noteq> Some False)
      \<and> PlanDeferred p \<in> {[], ''[]'', ''null''} \<and> set (PlanChecks p) \<subseteq> {''pass''}" for p
    by (cases "PlanComplete p") (auto simp: plan_supported_def list_all_iff not_less)
  have parse: "parseObservationPlan data tool = Inr r \<longleftrightarrow> data \<noteq> [] \<and> length data \<le> 32 * 2 ^ 20 \<and> tool \<in> {''terraform'', ''opentofu''}
     \<and> (\<exists>v p ob pr. json_decode data = Some v \<and> validateObservationJSON v \<and> unmarshal_plan data = Some p \<and> plan_supported p tool
        \<and> sanitizeObservationChanges (PlanDrift p) ''observed'' = Some ob \<and> sanitizeObservationChanges (PlanChanges p) ''proposed'' = Some pr
        \<and> length (PlanOutputs p) \<le> 1000000 \<and> list_all (\<lambda>ka. validObservationActions (snd ka)) (PlanOutputs p)
        \<and> r = \<lparr>SchemaVersion = ''1'', ObsComplete = True, ObsTool = tool, ToolVersion = PlanVersion p, ObservedChanges = ob,
             ProposedChanges = pr, OutputChangeCount = length (filter (\<lambda>ka. snd ka \<noteq> [''no-op'']) (PlanOutputs p))\<rparr>)"
    by (auto simp: parseObservationPlan_def maxObservationPlanBytes_def split: if_splits option.splits)
  show ?thesis unfolding parse plan changes by (auto simp: case_prod_beta')
qed

text \<open>The check for repeated keys compares them exactly, the decoder does not: a second spelling of a
  key decides.\<close>

lemma case_variant_hides_error:
  "validateObservationJSON (JObj [member ''errored'' (JBool True), member ''Errored'' (JBool False)])
   \<and> get_field into_bool_ptr ''errored'' [member ''errored'' (JBool True), member ''Errored'' (JBool False)] None = Some (Some False)"
  by code_simp

subsection \<open>What is run\<close>

datatype tool_call = Ran string "string list" "string list" | RemovedAll string

definition logged :: "'w tools \<Rightarrow> ('w \<times> tool_call list) tools" where
  "logged ts = \<lparr>run_tool = (\<lambda>b args env (w, l). case run_tool ts b args env w of (r, w) \<Rightarrow> (r, w, l @ [Ran b args env])),
     tool_environ = (\<lambda>(w, l). tool_environ ts w), cancelled = (\<lambda>(w, l). cancelled ts w),
     mkdir_temp = (\<lambda>d p (w, l). case mkdir_temp ts d p w of (r, w) \<Rightarrow> (r, w, l)),
     remove_all = (\<lambda>d (w, l). case remove_all ts d w of (r, w) \<Rightarrow> (r, w, l @ [RemovedAll d])),
     tool_folder = (\<lambda>(w, l). tool_folder ts w)\<rparr>"

text \<open>Commands that read state and write nothing but the plan file.\<close>

definition reading_call :: "string \<Rightarrow> tool_call \<Rightarrow> bool" where
  "reading_call binary c \<longleftrightarrow> (\<exists>args env. c = Ran binary args env \<and> length args > 1 \<and> args ! 1 \<in> {''init'', ''plan'', ''show''}
     \<and> (\<forall>v\<in>set env. \<not> hidden_variable v))"

lemma command_environ_logged: "command_environ (logged ts) (w, l) = command_environ ts w"
  by (simp add: command_environ_def logged_def Let_def)

lemma run_logged: "run_tool (logged ts) b args env (w, l) = (case run_tool ts b args env w of (r, w) \<Rightarrow> (r, w, l @ [Ran b args env]))"
  by (simp add: logged_def)

lemma observationCommand_logged:
  assumes "observationCommand (logged ts) binary limit args (w, l) = (r, w', l')"
  shows "l' = l @ [Ran binary args (command_environ ts w)]"
  using assms by (auto simp: observationCommand_def command_environ_logged run_logged Let_def split: prod.splits if_splits)

lemma command_environ_visible:
  assumes "list_ex (\<lambda>e. \<not> hidden_variable e) (tool_environ ts w)" and "v \<in> set (command_environ ts w)"
  shows "\<not> hidden_variable v"
  using assms by (auto simp: command_environ_def Let_def list_ex_iff filter_empty_conv split: if_splits)

lemma observe_commands_logged:
  assumes "observe_commands (logged ts) binary tool folder planFile (w, l) = (r, w', l')"
    and "\<And>w. list_ex (\<lambda>e. \<not> hidden_variable e) (tool_environ ts w)"
  shows "\<exists>cs. l' = l @ cs \<and> cs \<noteq> [] \<and> (\<forall>c\<in>set cs. reading_call binary c)"
proof -
  let ?f = "if tool = ''opentofu'' then [''-consolidate-errors''] else []"
  define init where "init = [''-chdir='' @ folder, ''init'', ''-input=false'', ''-no-color'', ''-json'', ''-compact-warnings''] @ ?f"
  define plan where "plan = [''-chdir='' @ folder, ''plan'', ''-input=false'', ''-refresh=true'', ''-lock=true'',
      ''-lock-timeout=0s'', ''-no-color'', ''-json'', ''-compact-warnings'', ''-out='' @ planFile] @ ?f"
  define show_plan where "show_plan = [''-chdir='' @ folder, ''show'', ''-no-color'', ''-json'', planFile]"
  obtain r1 w1 l1 where c1: "observationCommand (logged ts) binary 0 init (w, l) = (r1, w1, l1)" by (metis prod_cases3)
  obtain r2 w2 l2 where c2: "observationCommand (logged ts) binary 0 plan (w1, l1) = (r2, w2, l2)" by (metis prod_cases3)
  obtain r3 w3 l3 where c3: "observationCommand (logged ts) binary maxObservationPlanBytes show_plan (w2, l2) = (r3, w3, l3)" by (metis prod_cases3)
  note l = c1 [THEN observationCommand_logged] c2 [THEN observationCommand_logged] c3 [THEN observationCommand_logged]
  have ok: "reading_call binary (Ran binary a (command_environ ts v))" if "a \<in> {init, plan, show_plan}" for a v
    using that command_environ_visible [OF assms(2)] by (auto simp: reading_call_def init_def plan_def show_plan_def)
  have "l' \<in> {l1, l2, l3}"
    using assms(1) c1 c2 c3 unfolding observe_commands_def Let_def init_def [symmetric] plan_def [symmetric] show_plan_def [symmetric]
    by (auto split: sum.splits if_splits)
  then show ?thesis using l ok by auto
qed

text \<open>C34: an observation changes nothing: the only programs it starts are \<open>init\<close>, \<open>plan\<close> and \<open>show\<close> of its tool,
  with an environment that can neither add arguments nor turn on logging (provided the agent has
  any other variable), and whatever happens, it ends by removing the directory that held the plan.\<close>

theorem observation_only_reads:
  assumes "Observe (logged ts) observationOnly tool binary folder (w, []) = (r, w', calls)"
    and "\<And>w. list_ex (\<lambda>e. \<not> hidden_variable e) (tool_environ ts w)"
  shows "calls = [] \<or> (\<exists>cs d. calls = cs @ [RemovedAll d] \<and> (\<forall>c\<in>set cs. reading_call binary c) \<and> fst (mkdir_temp ts folder ''.observation-'' w) = Inr d)"
proof -
  obtain x w1 where x: "mkdir_temp ts folder ''.observation-'' w = (x, w1)" by fastforce
  show ?thesis
  proof (cases "\<not> observationOnly \<or> (tool \<noteq> ''terraform'' \<and> tool \<noteq> ''opentofu'') \<or> (\<exists>e. x = Inl e)")
    case True
    then have "calls = []" using assms(1) x by (auto simp: Observe_def logged_def split: if_splits)
    then show ?thesis by simp
  next
    case False
    then obtain d where d: "x = Inr d" by (cases x) auto
    obtain r2 w2 l2 where o: "observe_commands (logged ts) binary tool folder (path_join d ''plan.tfplan'') (w1, []) = (r2, w2, l2)" by (metis prod_cases3)
    have "mkdir_temp (logged ts) folder ''.observation-'' (w, []) = (Inr d, w1, [])" using x d by (simp add: logged_def)
    then have "calls = l2 @ [RemovedAll d]"
      using assms(1) False o unfolding Observe_def by (auto simp: logged_def split: prod.splits option.splits)
    with observe_commands_logged [OF o assms(2)] x d show ?thesis by auto
  qed
qed

subsection \<open>The theorems at work\<close>

definition demo_plan :: "(string \<times> bytes \<times> json) list" where
  "demo_plan = [member ''format_version'' (JStr ''1.2''), member ''terraform_version'' (JStr ''1.5.0''), member ''errored'' (JBool False),
     member ''configuration'' (JObj []), member ''planned_values'' (JObj []),
     member ''resource_changes'' (JArr [JObj [member ''type'' (JStr ''t''), member ''change'' (JObj [member ''actions'' (JArr [JStr ''create''])])]])]"

definition demo_parsed :: observationPlan where
  "demo_parsed = \<lparr>PlanFormat = ''1.2'', PlanVersion = ''1.5.0'', PlanComplete = None, PlanErrored = Some False, PlanConfiguration = ''{}'',
     PlannedValues = ''{}'', PlanDeferred = [], PlanChecks = [], PlanDrift = [],
     PlanChanges = [\<lparr>PType = ''t'', PChange = Some \<lparr>PActions = [''create''], PImporting = []\<rparr>\<rparr>], PlanOutputs = []\<rparr>"

lemma demo_plan_decodes: "json_decode (encode_struct demo_plan) = Some (JObj demo_plan)"
  unfolding encode_struct_def by (rule json_decode_encode) (simp add: demo_plan_def)

lemma demo_plan_parsed: "unmarshal_plan (encode_struct demo_plan) = Some demo_parsed"
  using demo_plan_decodes
  by (simp add: unmarshal_plan_def decode_struct_def)
     (simp add: demo_plan_def demo_parsed_def get_field_member equal_fold_def to_lower_def into_raw_def into_resources_def into_resource_def
        into_plan_change_def into_strs_def)

lemma demo_plan_small: "encode_struct demo_plan \<noteq> []" "length (encode_struct demo_plan) \<le> maxObservationPlanBytes"
proof -
  have e: "encode_struct demo_plan = ''{\"format_version\":\"1.2\",\"terraform_version\":\"1.5.0\",\"errored\":false,\"configuration\":{},\"planned_values\":{},\"resource_changes\":[{\"type\":\"t\",\"change\":{\"actions\":[\"create\"]}}]}''"
    by code_simp
  show "encode_struct demo_plan \<noteq> []" "length (encode_struct demo_plan) \<le> maxObservationPlanBytes"
    unfolding e by (simp_all add: maxObservationPlanBytes_def)
qed

lemma demo_plan_accepted: "\<exists>r. parseObservationPlan (encode_struct demo_plan) ''opentofu'' = Inr r"
proof -
  have v: "validateObservationJSON (JObj demo_plan)" by code_simp
  have s: "plan_supported demo_parsed ''opentofu''" by code_simp
  have "sanitizeObservationChanges (PlanDrift demo_parsed) ''observed'' = Some []"
    by (simp add: sanitizeObservationChanges_def demo_parsed_def)
  moreover have "sanitize ''proposed'' (PlanChanges demo_parsed) [] \<noteq> None" by code_simp
  then have "\<exists>x. sanitizeObservationChanges (PlanChanges demo_parsed) ''proposed'' = Some x"
    by (auto simp: sanitizeObservationChanges_def maxObservationChanges_def demo_parsed_def)
  ultimately show ?thesis using demo_plan_small demo_plan_decodes demo_plan_parsed v s
    by (auto simp: parseObservationPlan_def) (simp_all add: demo_parsed_def)
qed

theorem observation_sanitized_witness:
  "\<exists>r. parseObservationPlan (encode_struct demo_plan) ''opentofu'' = Inr r
     \<and> ProposedChanges r = [\<lparr>ObsId = ''proposed_1'', ObsResourceType = ''t'', ObsActions = [''create'']\<rparr>]"
proof -
  obtain r where r: "parseObservationPlan (encode_struct demo_plan) ''opentofu'' = Inr r" using demo_plan_accepted by blast
  then have "ProposedChanges r = numbered ''proposed'' 1 (PlanChanges demo_parsed)"
    using demo_plan_parsed by (auto simp: observation_sanitized)
  moreover have "numbered ''proposed'' 1 (PlanChanges demo_parsed) = [\<lparr>ObsId = ''proposed_1'', ObsResourceType = ''t'', ObsActions = [''create'']\<rparr>]"
    by code_simp
  ultimately show ?thesis using r by simp
qed

definition quiet_tools :: "unit tools" where
  "quiet_tools = \<lparr>run_tool = (\<lambda>_ _ _ w. (([], None), w)), tool_environ = (\<lambda>_. [''PATH=/bin'', ''TF_LOG=trace'']), cancelled = (\<lambda>_. False),
     mkdir_temp = (\<lambda>_ _ w. (Inr ''/w/.observation-1'', w)), remove_all = (\<lambda>_ w. (None, w)), tool_folder = (\<lambda>_. demo_folder)\<rparr>"

theorem observation_only_reads_witness:
  "\<exists>r calls. Observe (logged quiet_tools) True ''terraform'' ''tf'' ''/w'' ((), []) = (r, (), calls)
     \<and> (calls = [] \<or> (\<exists>cs d. calls = cs @ [RemovedAll d]))"
proof -
  obtain r w' calls where o: "Observe (logged quiet_tools) True ''terraform'' ''tf'' ''/w'' ((), []) = (r, w', calls)" by (metis prod_cases3)
  have "list_ex (\<lambda>e. \<not> hidden_variable e) (tool_environ quiet_tools w)" for w
    by (simp add: quiet_tools_def hidden_variable_def Let_def)
  from observation_only_reads [OF o this] o show ?thesis by auto
qed

end
