(* ===== verification/Bundle.thy ===== *)
theory Bundle
  imports Paths Encoding
begin

section \<open>Unpacking a bundle (internal/runner/utils.go)\<close>

text \<open>
  A deployment bundle is a compressed archive. What \<open>compress/gzip\<close> and \<open>archive/tar\<close> make of its
  bytes is an argument: the entries in their order, and how the archive ends. The disk is an
  argument too.
\<close>

datatype tar_kind = TypeDir | TypeReg | OtherType

record tar_entry =
  HName :: string
  HKind :: tar_kind
  HMode :: int
  HContent :: "bytes \<times> goerr option"

text \<open>A position without header is skipped, as in the source.\<close>

type_synonym archive = "tar_entry option list \<times> goerr option"

record 's disk =
  mkdir_all :: "string \<Rightarrow> 's \<Rightarrow> goerr option \<times> 's"
  create_file :: "string \<Rightarrow> int \<Rightarrow> 's \<Rightarrow> goerr option \<times> 's"
  copy_into :: "string \<Rightarrow> bytes \<times> goerr option \<Rightarrow> 's \<Rightarrow> goerr option \<times> 's"
  close_file :: "string \<Rightarrow> 's \<Rightarrow> goerr option \<times> 's"

definition up_path :: "string \<Rightarrow> bool" where
  "up_path p \<longleftrightarrow> p = dotdot \<or> prefix (dotdot @ ''/'') p"

text \<open>Where an entry goes.\<close>

definition entry_target :: "string \<Rightarrow> string \<Rightarrow> string result" where
  "entry_target destDir header_name =
     (let name = path_clean header_name; escapes = Inl (ErrNew (''bundle entry escapes destination: '' @ go_quote header_name)) in
      if name = dot \<or> rooted name \<or> up_path name then escapes
      else (let target = path_join destDir name in
        case path_rel destDir target of None \<Rightarrow> escapes
        | Some relative \<Rightarrow> if up_path relative then escapes else Inr target))"

text \<open>The directory of a target; \<open>filepath.Dir\<close> cleans what is before the last slash.\<close>

definition path_dir :: "string \<Rightarrow> string" where
  "path_dir p = (case last_cut CHR ''/'' p of None \<Rightarrow> dot | Some (d, _) \<Rightarrow> path_clean (d @ ''/''))"

definition unpack_file :: "'s disk \<Rightarrow> string \<Rightarrow> tar_entry \<Rightarrow> 's \<Rightarrow> goerr option \<times> 's" where
  "unpack_file dk target h s =
     (case mkdir_all dk (path_dir target) s of
        (Some e, s) \<Rightarrow> (Some (ErrWrap (''failed to create parent directories for: '' @ target) e), s)
      | (None, s) \<Rightarrow> (case create_file dk target (HMode h mod 512) s of
          (Some e, s) \<Rightarrow> (Some (ErrWrap (''failed to open output file: '' @ target) e), s)
        | (None, s) \<Rightarrow> (case copy_into dk target (HContent h) s of (copyErr, s) \<Rightarrow>
            (case close_file dk target s of (closeErr, s) \<Rightarrow>
              (case copyErr of Some e \<Rightarrow> (Some (ErrWrap (''failed to write content to: '' @ target) e), s)
               | None \<Rightarrow> (case closeErr of Some e \<Rightarrow> (Some (ErrWrap (''failed to close output file: '' @ target) e), s)
                   | None \<Rightarrow> (None, s)))))))"

definition unpack_entry :: "'s disk \<Rightarrow> string \<Rightarrow> tar_entry \<Rightarrow> 's \<Rightarrow> goerr option \<times> 's" where
  "unpack_entry dk destDir h s = (case entry_target destDir (HName h) of Inl e \<Rightarrow> (Some e, s)
   | Inr target \<Rightarrow> (case HKind h of
       TypeDir \<Rightarrow> (case mkdir_all dk target s of
           (Some e, s) \<Rightarrow> (Some (ErrWrap (''failed to create directory: '' @ target) e), s) | (None, s) \<Rightarrow> (None, s))
     | TypeReg \<Rightarrow> unpack_file dk target h s
     | OtherType \<Rightarrow> (None, s)))"

fun unpack_entries :: "'s disk \<Rightarrow> string \<Rightarrow> tar_entry option list \<Rightarrow> goerr option \<Rightarrow> 's \<Rightarrow> goerr option \<times> 's" where
  "unpack_entries dk destDir [] fate s =
     (case fate of None \<Rightarrow> (None, s) | Some e \<Rightarrow> (Some (ErrWrap ''failed to read tar header'' e), s))"
| "unpack_entries dk destDir (None # hs) fate s = unpack_entries dk destDir hs fate s"
| "unpack_entries dk destDir (Some h # hs) fate s = (case unpack_entry dk destDir h s of
     (Some e, s) \<Rightarrow> (Some e, s) | (None, s) \<Rightarrow> unpack_entries dk destDir hs fate s)"

definition unarchiveBundleToFolder :: "(bytes \<Rightarrow> archive result) \<Rightarrow> 's disk \<Rightarrow> bytes \<Rightarrow> string \<Rightarrow> 's \<Rightarrow> goerr option \<times> 's" where
  "unarchiveBundleToFolder untar dk gzipBuf destDir s = (case untar gzipBuf of
     Inl e \<Rightarrow> (Some (ErrWrap ''failed to create gzip reader'' e), s)
   | Inr (hs, fate) \<Rightarrow> unpack_entries dk destDir hs fate s)"

subsection \<open>Nothing outside the folder\<close>

lemma names_not_up:
  assumes "\<forall>e\<in>set es. proper e" and "es \<noteq> []"
  shows "\<not> up_path (join_char CHR ''/'' es)"
proof -
  have sp: "split_char CHR ''/'' (join_char CHR ''/'' es) = es" using assms by (simp add: proper_def)
  show ?thesis
  proof
    assume "up_path (join_char CHR ''/'' es)"
    then have "join_char CHR ''/'' es = dotdot \<or> (\<exists>r. join_char CHR ''/'' es = dotdot @ CHR ''/'' # r)"
      by (auto simp: up_path_def prefix_def)
    then have "hd (split_char CHR ''/'' (join_char CHR ''/'' es)) = dotdot"
      using split_char_append [of "CHR ''/''" dotdot] by (elim disjE exE) simp_all
    then have "hd es = dotdot" unfolding sp .
    with assms show False by (cases es) (auto simp: proper_def)
  qed
qed

text \<open>An accepted entry lies inside; the second check, on the joined path, never refuses what the first
  one accepted.\<close>

lemma entry_target_spec:
  "entry_target d n = (if path_clean n = dot \<or> rooted n \<or> up_path (path_clean n)
     then Inl (ErrNew (''bundle entry escapes destination: '' @ go_quote n)) else Inr (path_join d (path_clean n)))"
proof (cases "path_clean n = dot \<or> rooted n \<or> up_path (path_clean n)")
  case True
  then show ?thesis by (auto simp: entry_target_def Let_def)
next
  case False
  then have p: "\<forall>e\<in>set (elements n). proper e" using inside_elements [of n] by (auto simp: up_path_def)
  have ne: "elements n \<noteq> []" using False by (auto simp: path_clean_def from_elements_def)
  have c: "path_clean n = join_char CHR ''/'' (elements n)" using False ne by (simp add: path_clean_def from_elements_def)
  have "\<not> rooted (join_char CHR ''/'' (elements n))" using False c rooted_clean [of n] by simp
  then show ?thesis using False rel_join [OF p ne, of d] names_not_up [OF p ne] c by (simp add: entry_target_def Let_def)
qed

text \<open>\<open>p\<close> is the folder itself or lies in it.\<close>

definition inside :: "string \<Rightarrow> string \<Rightarrow> bool" where
  "inside d p \<longleftrightarrow> rooted p = rooted d \<and> (\<exists>es. elements p = elements d @ es \<and> (\<forall>e\<in>set es. proper e))"

lemma entry_target_inside:
  assumes "entry_target d n = Inr t"
  shows "rooted t = rooted d" "\<exists>es. elements t = elements d @ es \<and> es \<noteq> [] \<and> (\<forall>e\<in>set es. proper e)" "path_clean t = t"
proof -
  have n: "path_clean n \<noteq> dot" "\<not> rooted n" "\<not> up_path (path_clean n)" and t: "t = path_join d (path_clean n)"
    using assms by (auto simp: entry_target_spec split: if_splits)
  have p: "\<forall>e\<in>set (elements n). proper e" using n inside_elements [of n] by (auto simp: up_path_def)
  have ne: "elements n \<noteq> []" using n by (auto simp: path_clean_def from_elements_def)
  have c: "path_clean n = join_char CHR ''/'' (elements n)" using n(2) ne by (simp add: path_clean_def from_elements_def)
  show "rooted t = rooted d" "\<exists>es. elements t = elements d @ es \<and> es \<noteq> [] \<and> (\<forall>e\<in>set es. proper e)"
    using elements_join [OF p ne, of d] p ne t c by auto
  have "path_clean n \<noteq> []" using c join_head(2) [of "elements n"] p ne by (cases "elements n") (auto simp: proper_def)
  then show "path_clean t = t" unfolding t path_join_def by simp
qed

text \<open>The disk with a record of the paths it was asked to write to.\<close>

definition touching :: "'s disk \<Rightarrow> ('s \<times> string list) disk" where
  "touching dk = \<lparr>mkdir_all = (\<lambda>p (s, ps). case mkdir_all dk p s of (e, s) \<Rightarrow> (e, s, p # ps)),
     create_file = (\<lambda>p m (s, ps). case create_file dk p m s of (e, s) \<Rightarrow> (e, s, p # ps)),
     copy_into = (\<lambda>p c (s, ps). case copy_into dk p c s of (e, s) \<Rightarrow> (e, s, p # ps)),
     close_file = (\<lambda>p (s, ps). case close_file dk p s of (e, s) \<Rightarrow> (e, s, p # ps))\<rparr>"

lemma touching_calls:
  "fst (mkdir_all (touching dk) p (s, ps)) = fst (mkdir_all dk p s)"
  "snd (snd (mkdir_all (touching dk) p x)) = p # snd x" "snd (snd (create_file (touching dk) p m x)) = p # snd x"
  "snd (snd (copy_into (touching dk) p c x)) = p # snd x" "snd (snd (close_file (touching dk) p x)) = p # snd x"
  by (cases x; simp add: touching_def split: prod.splits)+

text \<open>The parent of a path inside is inside.\<close>

lemma parent_elements:
  assumes "path_clean t = t" and "elements t \<noteq> []"
  shows "elements (path_dir t) = butlast (elements t)" "rooted (path_dir t) = rooted t"
proof -
  let ?E = "elements t"
  have t: "t = from_elements (rooted t) ?E" using assms(1) by (simp add: path_clean_def)
  have sh: "ups_then_names (rooted t) ?E" by (rule elements_shape)
  have sp: "split_char CHR ''/'' t = (if rooted t then [] # ?E else ?E)"
    using split_from_elements [OF sh] t assms(2) by simp
  have bl: "norm (rooted t) [] (butlast ?E) = butlast ?E"
  proof -
    obtain k ns where k: "?E = replicate k dotdot @ ns" "\<forall>n\<in>set ns. proper n" "rooted t \<longrightarrow> k = 0"
      using sh unfolding ups_then_names_def by blast
    have "ups_then_names (rooted t) (butlast ?E)"
    proof (cases ns rule: rev_cases)
      case Nil
      have "butlast (replicate k dotdot) = replicate (k - 1) dotdot" by (simp add: butlast_conv_take min_def)
      with Nil have "butlast ?E = replicate (k - 1) dotdot" using k(1) by simp
      then show ?thesis using k(3) unfolding ups_then_names_def by (intro exI [of _ "k - 1"] exI [of _ "[]"]) auto
    next
      case (snoc ms m)
      then have "butlast ?E = replicate k dotdot @ ms" using k(1) by (simp add: butlast_append)
      then show ?thesis using k snoc unfolding ups_then_names_def by (intro exI [of _ k] exI [of _ ms]) auto
    qed
    then show ?thesis by (rule norm_shaped)
  qed
  have "elements (path_dir t) = butlast ?E \<and> rooted (path_dir t) = rooted t"
  proof (cases "last_cut CHR ''/'' t")
    case None
    then have "split_char CHR ''/'' t = [t]" by simp
    then have "\<not> rooted t" "?E = [t]" using sp assms(2) by (auto split: if_splits)
    moreover have "path_dir t = dot" using None unfolding path_dir_def by (simp only: option.case)
    moreover have "elements dot = []" "\<not> rooted dot" by (simp_all add: elements_def rooted_def)
    ultimately show ?thesis by simp
  next
    case (Some x)
    obtain a b where x: "x = (a, b)" by (cases x)
    have ab: "t = a @ CHR ''/'' # b" "CHR ''/'' \<notin> set b" using last_cut_Some Some x by blast+
    then have sa: "split_char CHR ''/'' a = butlast (split_char CHR ''/'' t)" by (simp add: split_char_sep butlast_append)
    have r: "rooted (a @ ''/'') = rooted t"
    proof (cases a)
      case Nil
      then have "rooted t" using ab by (simp add: rooted_def)
      with Nil show ?thesis by (simp add: rooted_def)
    qed (simp add: rooted_def ab)
    have "elements (a @ ''/'') = norm (rooted t) [] (split_char CHR ''/'' a @ [[]])"
      using r split_char_sep [of "CHR ''/''" a "[]"] by (simp add: elements_def)
    also have "\<dots> = norm (rooted t) [] (split_char CHR ''/'' a)" by (simp add: norm_append)
    also have "\<dots> = butlast ?E" using sa sp bl assms(2) by auto
    finally show ?thesis using Some x r by (simp add: path_dir_def)
  qed
  then show "elements (path_dir t) = butlast (elements t)" "rooted (path_dir t) = rooted t" by blast+
qed

lemma entry_paths_inside:
  assumes "entry_target d n = Inr t"
  shows "inside d t" "inside d (path_dir t)"
proof -
  note e = entry_target_inside [OF assms]
  obtain es where es: "elements t = elements d @ es" "es \<noteq> []" "\<forall>e\<in>set es. proper e" using e(2) by blast
  show "inside d t" unfolding inside_def using e(1) es by blast
  have "elements (path_dir t) = elements d @ butlast es" "rooted (path_dir t) = rooted d"
    using parent_elements [of t] e(1,3) es by (simp_all add: butlast_append)
  then show "inside d (path_dir t)" unfolding inside_def using es(3) by (metis in_set_butlastD)
qed

lemma unpack_entry_inside:
  assumes "unpack_entry (touching dk) d h st = (r, st')"
  shows "\<forall>p\<in>set (snd st'). p \<in> set (snd st) \<or> inside d p"
proof (cases "entry_target d (HName h)")
  case (Inl e)
  with assms show ?thesis by (simp add: unpack_entry_def)
next
  case (Inr t)
  note i = entry_paths_inside [OF Inr]
  obtain x1 s1 where 1: "mkdir_all (touching dk) (path_dir t) st = (x1, s1)" by (rule prod.exhaust)
  obtain x2 s2 where 2: "create_file (touching dk) t (HMode h mod 512) s1 = (x2, s2)" by (rule prod.exhaust)
  obtain x3 s3 where 3: "copy_into (touching dk) t (HContent h) s2 = (x3, s3)" by (rule prod.exhaust)
  obtain x4 s4 where 4: "close_file (touching dk) t s3 = (x4, s4)" by (rule prod.exhaust)
  obtain x5 s5 where 5: "mkdir_all (touching dk) t st = (x5, s5)" by (rule prod.exhaust)
  have sn: "snd s1 = path_dir t # snd st" "snd s2 = t # snd s1" "snd s3 = t # snd s2" "snd s4 = t # snd s3" "snd s5 = t # snd st"
    using touching_calls(2) [of dk "path_dir t" st] touching_calls(2) [of dk t st] touching_calls(3) [of dk t "HMode h mod 512" s1]
      touching_calls(4) [of dk t "HContent h" s2] touching_calls(5) [of dk t s3] 1 2 3 4 5 by simp_all
  have "st' \<in> {st, s1, s2, s4, s5}"
    using assms Inr 1 2 3 4 5
    by (cases "HKind h"; cases x1; cases x2; cases x3; cases x4; cases x5) (simp_all add: unpack_entry_def unpack_file_def)
  then show ?thesis using sn i by auto
qed

lemma unpack_entries_inside:
  "unpack_entries (touching dk) d hs fate st = (r, st') \<Longrightarrow> \<forall>p\<in>set (snd st'). p \<in> set (snd st) \<or> inside d p"
proof (induction "touching dk" d hs fate st rule: unpack_entries.induct)
  case (3 d h hs fate st)
  obtain x s1 where x: "unpack_entry (touching dk) d h st = (x, s1)" by (rule prod.exhaust)
  show ?case using "3.hyps" [OF x [symmetric]] "3.prems" x unpack_entry_inside [OF x] by (cases x) fastforce+
qed (auto split: option.splits)

text \<open>C30: unpacking stays in its folder: whatever names the entries of a bundle have, every directory
  that is made and every file that is opened, written or closed is the folder or lies inside it,
  and no link is ever made.\<close>

theorem bundle_confined:
  assumes "unarchiveBundleToFolder untar (touching dk) gzipBuf destDir (s, []) = (r, s', paths)"
  shows "\<forall>p\<in>set paths. rooted p = rooted destDir \<and> (\<exists>es. elements p = elements destDir @ es \<and> (\<forall>e\<in>set es. proper e))"
  using assms unpack_entries_inside [of dk destDir _ _ "(s, [])" r "(s', paths)"]
  by (auto simp: unarchiveBundleToFolder_def inside_def split: sum.splits prod.splits)

text \<open>C31: the check of an entry is exactly the check of its cleaned name: relative, not the folder
  itself and not starting upwards. The second check of the joined path refuses nothing more.\<close>

theorem entry_check_exact:
  "entry_target destDir name = (if path_clean name = dot \<or> rooted name \<or> up_path (path_clean name)
     then Inl (ErrNew (''bundle entry escapes destination: '' @ go_quote name)) else Inr (path_join destDir (path_clean name)))"
  by (rule entry_target_spec)

definition demo_disk :: "unit disk" where
  "demo_disk = \<lparr>mkdir_all = (\<lambda>_ s. (None, s)), create_file = (\<lambda>_ _ s. (None, s)), copy_into = (\<lambda>_ _ s. (None, s)), close_file = (\<lambda>_ s. (None, s))\<rparr>"

definition demo_bundle :: archive where
  "demo_bundle = ([Some \<lparr>HName = ''a/../b//c.tf'', HKind = TypeReg, HMode = 420, HContent = (''x'', None)\<rparr>,
     Some \<lparr>HName = ''a/../../etc/x'', HKind = TypeReg, HMode = 420, HContent = (''y'', None)\<rparr>], None)"

lemma demo_unpacked: "\<exists>e. unarchiveBundleToFolder (\<lambda>_. Inr demo_bundle) (touching demo_disk) [] ''/w'' ((), [])
    = (Some e, (), [''/w/b/c.tf'', ''/w/b/c.tf'', ''/w/b/c.tf'', ''/w/b''])"
  by (simp add: unarchiveBundleToFolder_def demo_bundle_def unpack_entry_def entry_target_spec path_clean_def elements_def rooted_def
      from_elements_def up_path_def path_join_def unpack_file_def touching_def demo_disk_def path_dir_def)

theorem bundle_confined_witness:
  "\<exists>e paths. unarchiveBundleToFolder (\<lambda>_. Inr demo_bundle) (touching demo_disk) [] ''/w'' ((), []) = (Some e, (), paths)
     \<and> ''/w/b/c.tf'' \<in> set paths \<and> (\<exists>es. elements ''/w/b/c.tf'' = elements ''/w'' @ es)"
proof -
  obtain e where e: "unarchiveBundleToFolder (\<lambda>_. Inr demo_bundle) (touching demo_disk) [] ''/w'' ((), [])
    = (Some e, (), [''/w/b/c.tf'', ''/w/b/c.tf'', ''/w/b/c.tf'', ''/w/b''])" using demo_unpacked by blast
  from bundle_confined [OF e] have "\<exists>es. elements ''/w/b/c.tf'' = elements ''/w'' @ es" by auto
  with e show ?thesis by auto
qed

end
