(* ===== verification/Runner.thy ===== *)
theory Runner
  imports Observation Bundle
begin

section \<open>Running the IaC tools (internal/runner)\<close>

text \<open>
  The local runners: how the tools are called, and what is read from their output. A value of
  type \<open>interface{}\<close> is a JSON value; its maps have every key once, in the order in which
  \<open>json.Marshal\<close> prints them. An operation that can panic returns an option, \<^const>\<open>None\<close> for a panic.
\<close>

subsection \<open>Values of any type\<close>

text \<open>Maps are association lists with ascending keys.\<close>

fun put_sorted :: "string \<Rightarrow> json \<Rightarrow> (string \<times> bytes \<times> json) list \<Rightarrow> (string \<times> bytes \<times> json) list" where
  "put_sorted k v [] = [member k v]"
| "put_sorted k v (m # ms) = (if fst m = k then member k v # ms else if k < fst m then member k v # m # ms
     else m # put_sorted k v ms)"

text \<open>Decoding into \<open>interface{}\<close>. A number becomes a \<open>float64\<close>: the argument gives its notation when it is
  printed again, and nothing for a number out of range, which is an error.\<close>

fun any_of :: "(string \<Rightarrow> string option) \<Rightarrow> json \<Rightarrow> json option"
  and any_elems :: "(string \<Rightarrow> string option) \<Rightarrow> json list \<Rightarrow> json list option"
  and any_members :: "(string \<Rightarrow> string option) \<Rightarrow> (string \<times> bytes \<times> json) list \<Rightarrow> (string \<times> bytes \<times> json) list
    \<Rightarrow> (string \<times> bytes \<times> json) list option" where
  "any_of num JNull = Some JNull"
| "any_of num (JBool b) = Some (JBool b)"
| "any_of num (JNum l) = map_option JNum (num l)"
| "any_of num (JStr s) = Some (JStr s)"
| "any_of num (JArr vs) = map_option JArr (any_elems num vs)"
| "any_of num (JObj ms) = map_option JObj (any_members num [] ms)"
| "any_elems num [] = Some []"
| "any_elems num (v # vs) = (case any_of num v of None \<Rightarrow> None | Some x \<Rightarrow> map_option ((#) x) (any_elems num vs))"
| "any_members num acc [] = Some acc"
| "any_members num acc ((k, w, v) # ms) = (case any_of num v of None \<Rightarrow> None
     | Some x \<Rightarrow> any_members num (put_sorted k x acc) ms)"

definition into_any :: "(string \<Rightarrow> string option) \<Rightarrow> json \<Rightarrow> bytes \<times> json \<Rightarrow> json option" where
  "into_any num x wv = any_of num (snd wv)"

fun into_bool :: "bool \<Rightarrow> bytes \<times> json \<Rightarrow> bool option" where
  "into_bool x (w, JBool b) = Some b"
| "into_bool x (w, JNull) = Some x"
| "into_bool x _ = None"

subsection \<open>Output changes (output_changes.go)\<close>

record OutputChange =
  OCActions :: "string list"
  After :: json
  AfterUnknown :: json
  AfterSensitive :: bool

definition known_later :: json where
  "known_later = JStr ''(known after apply)''"

definition member_value :: "(string \<times> bytes \<times> json) list \<Rightarrow> string \<Rightarrow> json" where
  "member_value ms k = (case map_of ms k of None \<Rightarrow> JNull | Some (_, v) \<Rightarrow> v)"

text \<open>The unknown part of a value is replaced. More unknown elements than elements are a panic.\<close>

fun compactUnknowns :: "json \<Rightarrow> json \<Rightarrow> json option"
  and compact_members :: "(string \<times> bytes \<times> json) list \<Rightarrow> (string \<times> bytes \<times> json) list \<Rightarrow> (string \<times> bytes \<times> json) list
    \<Rightarrow> (string \<times> bytes \<times> json) list option"
  and compact_elems :: "json list \<Rightarrow> json list \<Rightarrow> json list option" where
  "compactUnknowns after unknown = (case unknown of
       JObj us \<Rightarrow> (case after of JObj ms \<Rightarrow> map_option JObj (compact_members ms ms us) | _ \<Rightarrow> Some after)
     | JArr us \<Rightarrow> (case after of JArr xs \<Rightarrow> map_option JArr (compact_elems xs us) | _ \<Rightarrow> Some after)
     | JBool b \<Rightarrow> Some (if b \<and> \<not> (case after of JObj _ \<Rightarrow> True | JArr _ \<Rightarrow> True | _ \<Rightarrow> False) then known_later else after)
     | _ \<Rightarrow> Some after)"
| "compact_members ms out [] = Some out"
| "compact_members ms out ((k, w, u) # us) = (case compactUnknowns (member_value ms k) u of None \<Rightarrow> None
     | Some v \<Rightarrow> compact_members ms (put_sorted k v out) us)"
| "compact_elems xs [] = Some xs"
| "compact_elems [] (u # us) = None"
| "compact_elems (x # xs) (u # us) = (case compactUnknowns x u of None \<Rightarrow> None
     | Some v \<Rightarrow> map_option ((#) v) (compact_elems xs us))"

definition Compact :: "OutputChange \<Rightarrow> json option" where
  "Compact oc = (case OCActions oc of [] \<Rightarrow> Some known_later
     | a # _ \<Rightarrow> if a = ''no-op'' then Some (After oc) else if a = ''delete'' then Some JNull
         else compactUnknowns (After oc) (AfterUnknown oc))"

subsection \<open>Reading the output of the tools (base_runner.go)\<close>

text \<open>Outputs by name, as a map.\<close>

type_synonym outputs = "(string \<times> bytes \<times> json) list"

definition no_output_change :: OutputChange where
  "no_output_change = \<lparr>OCActions = [], After = JNull, AfterUnknown = JNull, AfterSensitive = False\<rparr>"

definition decode_output_change :: "(string \<Rightarrow> string option) \<Rightarrow> json \<Rightarrow> OutputChange option" where
  "decode_output_change num v = do {
     ms \<leftarrow> struct_members v;
     a \<leftarrow> get_field into_strs ''actions'' ms [];
     x \<leftarrow> get_field (into_any num) ''after'' ms JNull;
     u \<leftarrow> get_field (into_any num) ''after_unknown'' ms JNull;
     s \<leftarrow> get_field into_bool ''after_sensitive'' ms False;
     Some \<lparr>OCActions = a, After = x, AfterUnknown = u, AfterSensitive = s\<rparr> }"

fun into_changes :: "(string \<Rightarrow> string option) \<Rightarrow> (string \<times> OutputChange) list \<Rightarrow> (string \<times> bytes \<times> json) list
    \<Rightarrow> (string \<times> OutputChange) list option" where
  "into_changes num x [] = Some x"
| "into_changes num x ((k, w, v) # ms) = (case decode_output_change num v of None \<Rightarrow> None
     | Some c \<Rightarrow> into_changes num (put_key k c x) ms)"

definition into_change_map :: "(string \<Rightarrow> string option) \<Rightarrow> (string \<times> OutputChange) list \<Rightarrow> bytes \<times> json
    \<Rightarrow> (string \<times> OutputChange) list option" where
  "into_change_map num x wv = (case snd wv of JNull \<Rightarrow> Some [] | JObj ms \<Rightarrow> into_changes num x ms | _ \<Rightarrow> None)"

fun compact_all :: "(string \<times> OutputChange) list \<Rightarrow> outputs option" where
  "compact_all [] = Some []"
| "compact_all ((k, c) # cs) = (case Compact c of None \<Rightarrow> None | Some v \<Rightarrow> map_option (put_sorted k v) (compact_all cs))"

text \<open>What follows the last line break before an opening brace, unless that is the first byte.\<close>

fun last_object :: "string \<Rightarrow> string option" where
  "last_object [] = None"
| "last_object (c # cs) = (case last_object cs of Some r \<Rightarrow> Some r
     | None \<Rightarrow> if c = CHR 0x0A \<and> cs \<noteq> [] \<and> hd cs = CHR ''{'' then Some cs else None)"

definition plan_text :: "string \<Rightarrow> string" where
  "plan_text s = (case s of [] \<Rightarrow> [] | c # cs \<Rightarrow> (case last_object cs of Some r \<Rightarrow> r | None \<Rightarrow> s))"

definition parseShowPlanOutput :: "(string \<Rightarrow> string option) \<Rightarrow> string \<Rightarrow> outputs result option" where
  "parseShowPlanOutput num planOut =
     (case Option.bind (decode_struct (plan_text planOut)) (\<lambda>ms. get_field (into_change_map num) ''output_changes'' ms []) of
        None \<Rightarrow> Some (Inl (ErrNew ''failed to parse plan output_changes''))
      | Some changes \<Rightarrow> map_option Inr (compact_all changes))"

definition IaCLogsChangeSummaryType :: string where
  "IaCLogsChangeSummaryType = ''change_summary''"

record IaCChanges =
  Added :: int
  Changed :: int
  Imported :: int
  Removed :: int

record IaCLogs =
  LLevel :: string
  LMessage :: string
  LChanges :: IaCChanges
  LType :: string

definition no_changes :: IaCChanges where
  "no_changes = \<lparr>Added = 0, Changed = 0, Imported = 0, Removed = 0\<rparr>"

definition into_iac_changes :: "IaCChanges \<Rightarrow> bytes \<times> json \<Rightarrow> IaCChanges option" where
  "into_iac_changes x wv = do {
     ms \<leftarrow> struct_members (snd wv);
     a \<leftarrow> get_field (into_num fits_int64) ''add'' ms (Added x);
     c \<leftarrow> get_field (into_num fits_int64) ''change'' ms (Changed x);
     i \<leftarrow> get_field (into_num fits_int64) ''import'' ms (Imported x);
     r \<leftarrow> get_field (into_num fits_int64) ''remove'' ms (Removed x);
     Some \<lparr>Added = a, Changed = c, Imported = i, Removed = r\<rparr> }"

definition unmarshal_log :: "bytes \<Rightarrow> IaCLogs option" where
  "unmarshal_log bs = do {
     ms \<leftarrow> decode_struct bs;
     l \<leftarrow> get_field into_str ''@level'' ms [];
     m \<leftarrow> get_field into_str ''@message'' ms [];
     c \<leftarrow> get_field into_iac_changes ''changes'' ms no_changes;
     t \<leftarrow> get_field into_str ''type'' ms [];
     Some \<lparr>LLevel = l, LMessage = m, LChanges = c, LType = t\<rparr> }"

text \<open>The lines of a scanner: no line after the last line break, and a carriage return at the end of a
  line is dropped. A line of 64 kilobytes or more ends the scan with an error.\<close>

definition scan_lines :: "bytes \<Rightarrow> bytes list" where
  "scan_lines out = (let ls = split_char CHR 0x0A out in if last ls = [] then butlast ls else ls)"

definition drop_cr :: "bytes \<Rightarrow> bytes" where
  "drop_cr l = (if l \<noteq> [] \<and> last l = CHR 0x0D then butlast l else l)"

fun find_summary :: "bytes list \<Rightarrow> IaCChanges option result" where
  "find_summary [] = Inr None"
| "find_summary (l # ls) = (if length l \<ge> 65536 then Inl (ErrNew ''bufio.Scanner: token too long'')
     else (let line = drop_cr l in
       if prefix ''{'' line then (case unmarshal_log line of
           Some lg \<Rightarrow> if LType lg = IaCLogsChangeSummaryType then Inr (Some (LChanges lg)) else find_summary ls
         | None \<Rightarrow> find_summary ls)
       else find_summary ls))"

definition scanOutputs :: "bytes \<Rightarrow> IaCChanges result" where
  "scanOutputs out = (case find_summary (scan_lines out) of
     Inl e \<Rightarrow> Inl (ErrWrap ''failed to read apply output'' e)
   | Inr None \<Rightarrow> Inl (ErrNew ''failed to find change summary in apply output'')
   | Inr (Some c) \<Rightarrow> Inr c)"

subsection \<open>Errors of the tools (errors.go, base_runner.go)\<close>

record RunnerError =
  RAction :: string
  RSummary :: string
  RDetail :: string
  EntityType :: string
  EntityId :: string
  EntityVersion :: string
  CodeHint :: string

definition omit_empty :: "string \<Rightarrow> string \<Rightarrow> (string \<times> bytes \<times> json) list" where
  "omit_empty k v = (if v = [] then [] else [member k (JStr v)])"

definition runner_error :: "RunnerError \<Rightarrow> goerr" where
  "runner_error e = ErrCoded ''TF_DIAGNOSTIC_ERROR'' (encode_struct ([member ''action'' (JStr (RAction e)), member ''summary'' (JStr (RSummary e))]
     @ omit_empty ''detail'' (RDetail e) @ omit_empty ''entity_type'' (EntityType e) @ omit_empty ''entity_id'' (EntityId e)
     @ omit_empty ''entity_version'' (EntityVersion e) @ omit_empty ''code_hint'' (CodeHint e)))"

text \<open>A diagnostic of the tools' log. Its decoding is a library's.\<close>

record diagnostic =
  DLevelError :: bool
  DSummary :: string
  DDetail :: string
  DSnippet :: "(string option \<times> string) option"
  DRange :: "string option"

text \<open>\<open>strconv.Unquote\<close>: one character of a quoted string and what follows it, then the string.\<close>

definition unquote_escape :: "char \<Rightarrow> string \<Rightarrow> (string \<times> string) option" where
  "unquote_escape q cs = (case cs of [] \<Rightarrow> None
     | e # r \<Rightarrow>
       (case map_of (zip ''abfnrtv'' (map char_of [7, 8, 12, 10, 13, 9, 11 :: nat])) e of
          Some x \<Rightarrow> Some ([x], r)
        | None \<Rightarrow>
          if e = q \<or> e = CHR 0x5C then Some ([e], r)
          else if e = CHR ''x'' then (case r of h # l # t \<Rightarrow> (case (hex_val h, hex_val l) of
              (Some x, Some y) \<Rightarrow> Some ([char_of (x * 16 + y)], t) | _ \<Rightarrow> None) | _ \<Rightarrow> None)
          else if e = CHR ''u'' then (case hex4 r of
              Some n \<Rightarrow> if 0xD800 \<le> n \<and> n \<le> 0xDFFF then None else Some (utf8_encode n, drop 4 r)
            | None \<Rightarrow> None)
          else if e = CHR ''U'' then (case (hex4 r, hex4 (drop 4 r)) of
              (Some a, Some b) \<Rightarrow> (let n = a * 65536 + b in if n > 0x10FFFF \<or> (0xD800 \<le> n \<and> n \<le> 0xDFFF) then None
                else Some (utf8_encode n, drop 8 r))
            | _ \<Rightarrow> None)
          else (case (digit_val e, r) of
              (Some a, x # y # t) \<Rightarrow> (case (digit_val x, digit_val y) of
                  (Some b, Some c) \<Rightarrow> if a \<le> 3 \<and> b \<le> 7 \<and> c \<le> 7 then Some ([char_of (a * 64 + b * 8 + c)], t) else None
                | _ \<Rightarrow> None)
            | _ \<Rightarrow> None)))"

definition unquote_one :: "char \<Rightarrow> char \<Rightarrow> string \<Rightarrow> (string \<times> string) option" where
  "unquote_one q c cs = (if c = CHR 0x0A then None
     else if c = CHR 0x5C then unquote_escape q cs
     else (case utf8_len (c # cs) of 0 \<Rightarrow> Some (rune_error, cs) | Suc n \<Rightarrow> Some (c # take n cs, drop n cs)))"

lemma unquote_one_shorter: "unquote_one q c cs = Some (x, r) \<Longrightarrow> length r \<le> length cs"
  by (auto simp: unquote_one_def unquote_escape_def Let_def split: if_splits option.splits list.splits nat.splits)

function unquote_body :: "string \<Rightarrow> string option" where
  "unquote_body [] = None"
| "unquote_body (c # cs) = (if c = CHR 0x22 then (if cs = [] then Some [] else None)
     else (case unquote_one (CHR 0x22) c cs of None \<Rightarrow> None | Some (x, r) \<Rightarrow> map_option ((@) x) (unquote_body r)))"
  by pat_completeness auto
termination
  by (relation "measure length") (auto dest: unquote_one_shorter simp: less_Suc_eq_le)

definition unquote :: "string \<Rightarrow> string option" where
  "unquote s = (case s of c # r \<Rightarrow>
       if c = CHR 0x22 then unquote_body r
       else if c = CHR 0x27 then (case r of [] \<Rightarrow> None
         | d # t \<Rightarrow> if d = CHR 0x27 then (if t = [] then Some [] else None)
             else (case unquote_one (CHR 0x27) d t of Some (x, [e]) \<Rightarrow> if e = CHR 0x27 then Some x else None | _ \<Rightarrow> None))
       else if c = CHR ''`'' \<and> r \<noteq> [] \<and> last r = CHR ''`'' \<and> CHR ''`'' \<notin> set (butlast r) then Some (filter (\<lambda>x. x \<noteq> CHR 0x0D) (butlast r))
       else None
     | [] \<Rightarrow> None)"

text \<open>Type, id and version of the entity a diagnostic is about, from its context and its file.\<close>

definition entity :: "string \<Rightarrow> string option \<Rightarrow> string \<times> string \<times> string" where
  "entity context file =
     (let parts = split_char CHR 0x20 context; kind = hd parts;
          in_module = (case file of Some f \<Rightarrow> prefix ''modules/'' f | None \<Rightarrow> False);
          fileParts = (case file of Some f \<Rightarrow> split_char CHR ''/'' (drop 8 f) | None \<Rightarrow> []);
          (t, i, v) = (if kind \<in> set [''provider'', ''module'', ''output''] then (kind, [], [])
            else if in_module then (case fileParts of a # b # _ \<Rightarrow> (''module'', a, b) | _ \<Rightarrow> (''module'', [], []))
            else (kind, [], [])) in
      (t, (if length parts \<ge> 2 \<and> i = [] then (case unquote (parts ! 1) of Some u \<Rightarrow> u | None \<Rightarrow> parts ! 1) else i), v))"

definition diagnostic_error :: "string \<Rightarrow> diagnostic \<Rightarrow> RunnerError" where
  "diagnostic_error action d =
     (let base = \<lparr>RAction = action, RSummary = DSummary d, RDetail = DDetail d, EntityType = [], EntityId = [], EntityVersion = [], CodeHint = []\<rparr> in
      case DSnippet d of
        Some (Some context, code) \<Rightarrow> (case entity context (DRange d) of (t, i, v) \<Rightarrow>
          base\<lparr>EntityType := t, EntityId := i, EntityVersion := v, CodeHint := trim_space code\<rparr>)
      | _ \<Rightarrow> base)"

text \<open>The lines of a text from the last to the first; an empty line in front of everything is not looked
  at.\<close>

definition lines_back :: "string \<Rightarrow> string list" where
  "lines_back t = rev (let ls = split_char CHR 0x0A t in if hd ls = [] \<and> length ls > 1 then tl ls else ls)"

fun find_diagnostic :: "(bytes \<Rightarrow> diagnostic option) \<Rightarrow> string list \<Rightarrow> diagnostic option" where
  "find_diagnostic parse [] = None"
| "find_diagnostic parse (l # ls) = (case parse l of
     Some d \<Rightarrow> if DLevelError d \<and> (DSummary d \<noteq> [] \<or> DDetail d \<noteq> []) then Some d else find_diagnostic parse ls
   | None \<Rightarrow> find_diagnostic parse ls)"

definition parseError :: "(bytes \<Rightarrow> diagnostic option) \<Rightarrow> string \<Rightarrow> goerr \<Rightarrow> RunnerError option" where
  "parseError parse action e = map_option (diagnostic_error action) (find_diagnostic parse (lines_back (err_text e)))"

subsection \<open>The base runner\<close>

text \<open>What the runners use of the machine: starting a program and collecting its output, unpacking on a
  disk, and the tools of an observation.\<close>

text \<open>The outcome of an encryption: the stage that failed, or the encrypted bytes.\<close>

datatype age_outcome = AgeStart goerr | AgeWrite goerr | AgeClose goerr | AgeDone bytes

record 'w machine =
  combined_output :: "string \<Rightarrow> string list \<Rightarrow> 'w \<Rightarrow> (string \<times> goerr option) \<times> 'w"
  parse_diagnostic :: "bytes \<Rightarrow> diagnostic option"
  untar :: "bytes \<Rightarrow> archive result"
  disk_of :: "'w disk"
  tools_of :: "'w tools"
  age_encrypt :: "string \<Rightarrow> bytes \<Rightarrow> 'w \<Rightarrow> age_outcome \<times> 'w"
  float_notation :: "string \<Rightarrow> string option"

text \<open>The recipient is an interface value: none, or a pointer, which may be nil.\<close>

record 'w baseRunner =
  borgID :: string
  bdeploymentID :: string
  bfolder :: string
  binaryPath :: string
  btool :: string
  observationOnly :: bool
  recipient :: "string option option"
  bundleLoader :: "('w \<Rightarrow> bytes result \<times> 'w) option"

definition runCmd :: "'w machine \<Rightarrow> string \<Rightarrow> string list \<Rightarrow> 'w \<Rightarrow> (string \<times> goerr option) \<times> 'w" where
  "runCmd mc command args w = (case combined_output mc command args w of
     ((out, Some e), w) \<Rightarrow> ((out, Some (ErrWrap out e)), w) | ((out, None), w) \<Rightarrow> ((out, None), w))"

definition planFile :: "'w baseRunner \<Rightarrow> string" where
  "planFile r = path_join (bfolder r) ''plan.tfplan''"

text \<open>The error of a failed command: the diagnostic it printed, or the failure itself.\<close>

definition command_error :: "'w machine \<Rightarrow> 'w baseRunner \<Rightarrow> string \<Rightarrow> goerr \<Rightarrow> goerr" where
  "command_error mc r action e = (case parseError (parse_diagnostic mc) action e of
     Some d \<Rightarrow> runner_error d
   | None \<Rightarrow> ErrWrap (''failed to run `'' @ binaryPath r @ '' '' @ action @ ''`'') e)"

definition CreateIaCFolder :: "'w machine \<Rightarrow> 'w baseRunner \<Rightarrow> 'w \<Rightarrow> goerr option \<times> 'w" where
  "CreateIaCFolder mc r w = (case bundleLoader r of
     None \<Rightarrow> (Some (ErrNew ''runner gateway bundle loader is not configured''), w)
   | Some load \<Rightarrow> (case load w of
       (Inl e, w) \<Rightarrow> (Some (ErrWrap ''failed to obtain deployment bundle from runner gateway'' e), w)
     | (Inr bundle, w) \<Rightarrow> (case unarchiveBundleToFolder (untar mc) (disk_of mc) bundle (bfolder r) w of
         (Some e, w) \<Rightarrow> (Some (ErrWrap (''failed to unbundle the archive and store it in '' @ bfolder r) e), w)
       | (None, w) \<Rightarrow> (None, w))))"

definition base_Version :: "'w machine \<Rightarrow> 'w baseRunner \<Rightarrow> 'w \<Rightarrow> (string \<times> goerr option) \<times> 'w" where
  "base_Version mc r w = (if observationOnly r then (([], Some (ErrNew ''observation requires the safe observation executor'')), w)
     else (case runCmd mc (binaryPath r) [''version''] w of
       ((out, Some e), w) \<Rightarrow> ((out, Some (ErrWrap (''failed to run `'' @ binaryPath r @ '' version`'') e)), w)
     | ((out, None), w) \<Rightarrow> ((out, None), w)))"

definition base_OutputMetadata :: "'w machine \<Rightarrow> 'w baseRunner \<Rightarrow> string \<Rightarrow> 'w \<Rightarrow> (string \<times> goerr option) \<times> 'w" where
  "base_OutputMetadata mc r metadata w = (if observationOnly r then (([], Some (ErrNew ''observation outputs are unavailable'')), w)
     else (case runCmd mc (binaryPath r) [''-chdir='' @ bfolder r, ''output'', ''-json'', ''-no-color'', metadata] w of
       ((out, Some e), w) \<Rightarrow> ((out, Some (command_error mc r ''output'' e)), w)
     | ((out, None), w) \<Rightarrow> ((out, None), w)))"

text \<open>\<open>EncryptBytes\<close> of internal/utils. A nil recipient is a panic.\<close>

definition EncryptBytes :: "'w machine \<Rightarrow> bytes \<Rightarrow> string option \<Rightarrow> 'w \<Rightarrow> string result option \<times> 'w" where
  "EncryptBytes mc logs rcpt w = (case rcpt of None \<Rightarrow> (None, w)
   | Some key \<Rightarrow> (case age_encrypt mc key logs w of
       (AgeStart e, w) \<Rightarrow> (Some (Inl (ErrWrap ''failed to encrypt outputs with public key'' e)), w)
     | (AgeWrite e, w) \<Rightarrow> (Some (Inl (ErrWrap ''failed to write to encrypted file'' e)), w)
     | (AgeClose e, w) \<Rightarrow> (Some (Inl (ErrWrap ''failed to close encrypted file'' e)), w)
     | (AgeDone bs, w) \<Rightarrow> (Some (Inr (std_encode bs)), w)))"

definition base_EncryptString :: "'w machine \<Rightarrow> 'w baseRunner \<Rightarrow> string \<Rightarrow> 'w \<Rightarrow> string result option \<times> 'w" where
  "base_EncryptString mc r str w = (case recipient r of Some p \<Rightarrow> EncryptBytes mc str p w | None \<Rightarrow> (Some (Inr []), w))"

definition base_init :: "'w machine \<Rightarrow> 'w baseRunner \<Rightarrow> string list \<Rightarrow> 'w \<Rightarrow> (string \<times> goerr option) \<times> 'w" where
  "base_init mc r extraFlags w = (if observationOnly r then (([], Some (ErrNew ''observation requires the safe observation executor'')), w)
     else (case runCmd mc (binaryPath r) ([''-chdir='' @ bfolder r, ''init'', ''-no-color'', ''-json'', ''-compact-warnings''] @ extraFlags) w of
       ((out, Some e), w) \<Rightarrow> ((out, Some (command_error mc r ''init'' e)), w)
     | ((out, None), w) \<Rightarrow> ((out, verifyArtifactManifest (tool_folder (tools_of mc) w) (bfolder r)), w)))"

definition base_plan :: "'w machine \<Rightarrow> 'w baseRunner \<Rightarrow> string list \<Rightarrow> 'w
    \<Rightarrow> (string \<times> outputs option \<times> IaCChanges option \<times> goerr option) option \<times> 'w" where
  "base_plan mc r extraFlags w =
     (if observationOnly r then (Some ([], None, None, Some (ErrNew ''observation requires the safe observation executor'')), w)
      else (case runCmd mc (binaryPath r) ([''-chdir='' @ bfolder r, ''plan'', ''-no-color'', ''-json'', ''-compact-warnings'', ''-out'', planFile r] @ extraFlags) w of
        ((out, Some e), w) \<Rightarrow> (Some (out, None, None, Some (command_error mc r ''plan'' e)), w)
      | ((out, None), w) \<Rightarrow> (case runCmd mc (binaryPath r) [''-chdir='' @ bfolder r, ''show'', ''-no-color'', ''-json'', planFile r] w of
          ((_, Some e), w) \<Rightarrow> (Some (out, None, None, Some (ErrWrap (''failed to extract `'' @ binaryPath r @ '' plan`'') e)), w)
        | ((planOut, None), w) \<Rightarrow> (case parseShowPlanOutput (float_notation mc) planOut of None \<Rightarrow> (None, w)
          | Some (Inl e) \<Rightarrow> (Some (out, None, None, Some e), w)
          | Some (Inr planned) \<Rightarrow> (case scanOutputs out of
              Inl e \<Rightarrow> (Some (out, Some planned, None, Some e), w)
            | Inr changes \<Rightarrow> (Some (out, Some planned, Some changes, None), w))))))"

text \<open>Applying and destroying report like each other.\<close>

definition changing_command :: "'w machine \<Rightarrow> 'w baseRunner \<Rightarrow> string \<Rightarrow> string list \<Rightarrow> 'w \<Rightarrow> (string \<times> IaCChanges option \<times> goerr option) \<times> 'w" where
  "changing_command mc r action args w = (case runCmd mc (binaryPath r) args w of
     ((out, Some e), w) \<Rightarrow> ((out, None, Some (command_error mc r action e)), w)
   | ((out, None), w) \<Rightarrow> (case scanOutputs out of Inl e \<Rightarrow> (([], None, Some e), w) | Inr c \<Rightarrow> ((out, Some c, None), w)))"

definition base_apply :: "'w machine \<Rightarrow> 'w baseRunner \<Rightarrow> string list \<Rightarrow> 'w \<Rightarrow> (string \<times> IaCChanges option \<times> goerr option) \<times> 'w" where
  "base_apply mc r extraFlags w = (if observationOnly r then (([], None, Some (ErrNew ''observation cannot apply'')), w)
     else changing_command mc r ''apply'' ([''-chdir='' @ bfolder r, ''apply'', ''-auto-approve'', ''-no-color'', ''-json'', ''-compact-warnings'']
       @ extraFlags @ [planFile r]) w)"

definition base_destroy :: "'w machine \<Rightarrow> 'w baseRunner \<Rightarrow> string list \<Rightarrow> 'w \<Rightarrow> (string \<times> IaCChanges option \<times> goerr option) \<times> 'w" where
  "base_destroy mc r extraFlags w = (if observationOnly r then (([], None, Some (ErrNew ''observation cannot destroy'')), w)
     else changing_command mc r ''destroy'' ([''-chdir='' @ bfolder r, ''destroy'', ''-auto-approve'', ''-no-color'', ''-json'', ''-compact-warnings'']
       @ extraFlags) w)"

text \<open>The value of each output; an output that is not an object is a panic.\<close>

fun output_values :: "outputs \<Rightarrow> outputs option" where
  "output_values [] = Some []"
| "output_values ((k, w, JObj ms) # xs) = map_option ((#) (member k (member_value ms ''value''))) (output_values xs)"
| "output_values ((k, w, _) # xs) = None"

definition base_output :: "'w machine \<Rightarrow> 'w baseRunner \<Rightarrow> string list \<Rightarrow> 'w \<Rightarrow> outputs result option \<times> 'w" where
  "base_output mc r extraFlags w = (if observationOnly r then (Some (Inl (ErrNew ''observation outputs are unavailable'')), w)
     else (case runCmd mc (binaryPath r) ([''-chdir='' @ bfolder r, ''output'', ''-json'', ''-no-color''] @ extraFlags) w of
       ((out, Some e), w) \<Rightarrow> (Some (Inl (command_error mc r ''output'' e)), w)
     | ((out, None), w) \<Rightarrow> (case json_decode out of
         Some (JObj ms) \<Rightarrow> (case any_members (float_notation mc) [] ms of
             None \<Rightarrow> (Some (Inl (ErrNew ''failed to parse outputs'')), w)
           | Some outs \<Rightarrow> (map_option Inr (output_values outs), w))
       | Some JNull \<Rightarrow> (Some (Inr []), w)
       | _ \<Rightarrow> (Some (Inl (ErrNew ''failed to parse outputs'')), w))))"

definition base_Observe :: "'w machine \<Rightarrow> 'w baseRunner \<Rightarrow> 'w \<Rightarrow> ObservationResult result \<times> 'w" where
  "base_Observe mc r w = Observe (tools_of mc) (observationOnly r) (btool r) (binaryPath r) (bfolder r) w"

subsection \<open>Facts\<close>

text \<open>More unknown elements than elements make a plan's outputs unreadable, with a panic.\<close>

lemma compact_elems_longer: "length xs < length us \<Longrightarrow> compact_elems xs us = None"
proof (induction us arbitrary: xs)
  case (Cons u us)
  then show ?case by (cases xs) (auto split: option.splits)
qed simp

lemma compact_longer_panics: "length xs < length us \<Longrightarrow> compactUnknowns (JArr xs) (JArr us) = None"
  by (simp add: compact_elems_longer)

text \<open>The first element with a value.\<close>

fun first_some :: "('a \<Rightarrow> 'b option) \<Rightarrow> 'a list \<Rightarrow> 'b option" where
  "first_some f [] = None"
| "first_some f (x # xs) = (case f x of Some y \<Rightarrow> Some y | None \<Rightarrow> first_some f xs)"

lemma first_some_Some:
  "first_some f xs = Some y \<Longrightarrow> \<exists>pre x post. xs = pre @ x # post \<and> f x = Some y \<and> (\<forall>z\<in>set pre. f z = None)"
proof (induction xs)
  case (Cons a xs)
  show ?case
  proof (cases "f a")
    case None
    with Cons obtain pre x post where "xs = pre @ x # post" "f x = Some y" "\<forall>z\<in>set pre. f z = None" by auto
    with None have "a # xs = (a # pre) @ x # post \<and> f x = Some y \<and> (\<forall>z\<in>set (a # pre). f z = None)" by simp
    then show ?thesis by blast
  next
    case (Some z)
    with Cons.prems have "a # xs = [] @ a # xs \<and> f a = Some y \<and> (\<forall>z\<in>set []. f z = None)" by simp
    then show ?thesis by blast
  qed
qed simp

text \<open>The error that is reported is the last error diagnostic of the output.\<close>

definition line_error :: "(bytes \<Rightarrow> diagnostic option) \<Rightarrow> bytes \<Rightarrow> diagnostic option" where
  "line_error parse l = (case parse l of Some d \<Rightarrow> if DLevelError d \<and> (DSummary d \<noteq> [] \<or> DDetail d \<noteq> []) then Some d else None | None \<Rightarrow> None)"

lemma find_diagnostic_first: "find_diagnostic parse ls = first_some (line_error parse) ls"
  by (induction ls) (auto simp: line_error_def split: option.splits)

lemma parseError_last:
  assumes "parseError parse action e = Some x"
  shows "\<exists>pre l post d. lines_back (err_text e) = pre @ l # post \<and> line_error parse l = Some d \<and> (\<forall>z\<in>set pre. line_error parse z = None)
    \<and> x = diagnostic_error action d"
  using assms first_some_Some [of "line_error parse"] unfolding parseError_def find_diagnostic_first by blast

text \<open>The change summary of a line of the log, if it is one.\<close>

definition line_summary :: "bytes \<Rightarrow> IaCChanges option" where
  "line_summary l = (if prefix ''{'' (drop_cr l) then (case unmarshal_log (drop_cr l) of
       Some lg \<Rightarrow> if LType lg = IaCLogsChangeSummaryType then Some (LChanges lg) else None | None \<Rightarrow> None) else None)"

lemma find_summary_Cons:
  "find_summary (l # ls) = (if length l \<ge> 65536 then Inl (ErrNew ''bufio.Scanner: token too long'')
     else case line_summary l of Some c \<Rightarrow> Inr (Some c) | None \<Rightarrow> find_summary ls)"
  by (simp add: line_summary_def Let_def split: option.splits)

lemma find_summary_first: "find_summary ls = Inr (Some c) \<Longrightarrow> first_some line_summary ls = Some c"
proof (induction ls)
  case (Cons l ls)
  then show ?case unfolding find_summary_Cons by (auto split: option.splits if_splits)
qed simp

lemma changing_command_succeeds:
  assumes "changing_command mc r action args w = ((out, ch, None), w')"
  shows "combined_output mc (binaryPath r) args w = ((out, None), w')
    \<and> (\<exists>c pre l post. ch = Some c \<and> scan_lines out = pre @ l # post \<and> line_summary l = Some c \<and> (\<forall>x\<in>set pre. line_summary x = None))"
proof -
  obtain o1 e w1 where c: "combined_output mc (binaryPath r) args w = ((o1, e), w1)" by (metis prod.exhaust)
  then have e: "e = None" "w1 = w'" "o1 = out" "scanOutputs out = Inr (the ch)" "ch \<noteq> None"
    using assms by (auto simp: changing_command_def runCmd_def split: option.splits sum.splits)
  then have "find_summary (scan_lines out) = Inr (Some (the ch))"
    by (auto simp: scanOutputs_def split: sum.splits option.splits)
  from first_some_Some [OF find_summary_first [OF this]] c e show ?thesis by auto
qed

text \<open>C39: a change of the infrastructure is reported as done only when the tool was started with exactly
  its arguments, the saved plan among them, ended without error and logged a change summary; the
  first summary of its log is what is reported. A runner that only observes never gets there.\<close>

theorem apply_reported:
  assumes "base_apply mc r extraFlags w = ((out, ch, None), w')"
  shows "\<not> observationOnly r
    \<and> combined_output mc (binaryPath r) ([''-chdir='' @ bfolder r, ''apply'', ''-auto-approve'', ''-no-color'', ''-json'', ''-compact-warnings'']
        @ extraFlags @ [path_join (bfolder r) ''plan.tfplan'']) w = ((out, None), w')
    \<and> (\<exists>c pre l post. ch = Some c \<and> scan_lines out = pre @ l # post \<and> line_summary l = Some c \<and> (\<forall>x\<in>set pre. line_summary x = None))"
proof -
  have o: "\<not> observationOnly r" using assms by (auto simp: base_apply_def)
  with assms have "changing_command mc r ''apply'' ([''-chdir='' @ bfolder r, ''apply'', ''-auto-approve'', ''-no-color'', ''-json'', ''-compact-warnings'']
      @ extraFlags @ [planFile r]) w = ((out, ch, None), w')" by (simp add: base_apply_def)
  from changing_command_succeeds [OF this] o show ?thesis by (simp add: planFile_def)
qed

definition log_line :: string where
  "log_line = encode_struct [member ''type'' (JStr ''log'')]"

definition summary_line :: string where
  "summary_line = encode_struct [member ''type'' (JStr ''change_summary''), member ''changes'' (JObj [member ''add'' (jint 2)])]"

definition summary_output :: string where
  "summary_output = log_line @ CHR 0x0A # summary_line @ [CHR 0x0A]"

definition talking_machine :: "unit machine" where
  "talking_machine = \<lparr>combined_output = (\<lambda>_ _ w. ((summary_output, None), w)), parse_diagnostic = (\<lambda>_. None), untar = (\<lambda>_. Inl (ErrNew ''no gzip'')),
     disk_of = demo_disk, tools_of = quiet_tools, age_encrypt = (\<lambda>_ _ w. (AgeDone [], w)), float_notation = Some\<rparr>"

definition plain_runner :: "unit baseRunner" where
  "plain_runner = \<lparr>borgID = ''o'', bdeploymentID = ''d'', bfolder = ''/w'', binaryPath = ''tofu'', btool = ''opentofu'', observationOnly = False,
     recipient = None, bundleLoader = None\<rparr>"

lemma demo_lines: "scan_lines summary_output = [log_line, summary_line]" "length log_line < 100" "length summary_line < 100"
  "line_summary log_line = None" "line_summary summary_line = Some \<lparr>Added = 2, Changed = 0, Imported = 0, Removed = 0\<rparr>"
  by code_simp+

lemma demo_scanned: "scanOutputs summary_output = Inr \<lparr>Added = 2, Changed = 0, Imported = 0, Removed = 0\<rparr>"
proof -
  have "\<not> 65536 \<le> length log_line" "\<not> 65536 \<le> length summary_line" using demo_lines(2,3) by linarith+
  then show ?thesis by (simp add: scanOutputs_def demo_lines find_summary_Cons del: find_summary.simps)
qed

theorem apply_reported_witness:
  "\<exists>out pre l post. base_apply talking_machine plain_runner [] () = ((out, Some \<lparr>Added = 2, Changed = 0, Imported = 0, Removed = 0\<rparr>, None), ())
     \<and> scan_lines out = pre @ l # post \<and> line_summary l = Some \<lparr>Added = 2, Changed = 0, Imported = 0, Removed = 0\<rparr>"
proof -
  have "base_apply talking_machine plain_runner [] () = ((summary_output, Some \<lparr>Added = 2, Changed = 0, Imported = 0, Removed = 0\<rparr>, None), ())"
    by (simp add: base_apply_def plain_runner_def changing_command_def runCmd_def talking_machine_def demo_scanned)
  with apply_reported [OF this] show ?thesis by auto
qed

end
