(* ===== verification/RunnerFactory.thy ===== *)
theory RunnerFactory
  imports Runner Settings Client
begin

section \<open>Runners and their factory (runner_factory.go, opentofu_runner.go, terraform_runner.go)\<close>

text \<open>
  A runner is a record of operations. The two tools differ in the flags they are given and in
  their default binary.
\<close>

record 'w RunnerInterface =
  RiCreateIaCFolder :: "'w \<Rightarrow> goerr option \<times> 'w"
  RiVersion :: "'w \<Rightarrow> (string \<times> goerr option) \<times> 'w"
  RiInit :: "'w \<Rightarrow> (string \<times> goerr option) \<times> 'w"
  RiPlan :: "'w \<Rightarrow> (string \<times> outputs option \<times> IaCChanges option \<times> goerr option) option \<times> 'w"
  RiApply :: "'w \<Rightarrow> (string \<times> IaCChanges option \<times> goerr option) \<times> 'w"
  RiDestroy :: "'w \<Rightarrow> (string \<times> IaCChanges option \<times> goerr option) \<times> 'w"
  RiOutput :: "'w \<Rightarrow> outputs result option \<times> 'w"
  RiOutputMetadata :: "string \<Rightarrow> 'w \<Rightarrow> (string \<times> goerr option) \<times> 'w"
  RiEncryptString :: "string \<Rightarrow> 'w \<Rightarrow> string result option \<times> 'w"
  RiObserve :: "('w \<Rightarrow> (ObservationResult option \<times> goerr option) \<times> 'w) option"

text \<open>The last operation is the one of \<open>ObservationRunner\<close>, which a runner need not have.\<close>

definition observe_of :: "'w machine \<Rightarrow> 'w baseRunner \<Rightarrow> 'w \<Rightarrow> (ObservationResult option \<times> goerr option) \<times> 'w" where
  "observe_of mc r w = (case base_Observe mc r w of (Inl e, w) \<Rightarrow> ((None, Some e), w) | (Inr x, w) \<Rightarrow> ((Some x, None), w))"

definition runner_of :: "'w machine \<Rightarrow> 'w baseRunner \<Rightarrow> string list \<Rightarrow> string list \<Rightarrow> 'w RunnerInterface" where
  "runner_of mc r flags output_flags = \<lparr>RiCreateIaCFolder = CreateIaCFolder mc r, RiVersion = base_Version mc r, RiInit = base_init mc r flags,
     RiPlan = base_plan mc r flags, RiApply = base_apply mc r flags, RiDestroy = base_destroy mc r flags,
     RiOutput = base_output mc r output_flags, RiOutputMetadata = base_OutputMetadata mc r,
     RiEncryptString = base_EncryptString mc r, RiObserve = Some (observe_of mc r)\<rparr>"

subsection \<open>The two tools\<close>

definition defaultOpenTofuBinary :: string where
  "defaultOpenTofuBinary = ''tofu''"

definition defaultTerraformBinary :: string where
  "defaultTerraformBinary = ''terraform''"

definition newOpenTofuRunner :: "'w baseRunner \<Rightarrow> 'w baseRunner" where
  "newOpenTofuRunner base = (if binaryPath base = [] then base\<lparr>binaryPath := defaultOpenTofuBinary\<rparr> else base)"

definition newTerraformRunner :: "'w baseRunner \<Rightarrow> 'w baseRunner" where
  "newTerraformRunner base = (if binaryPath base = [] then base\<lparr>binaryPath := defaultTerraformBinary\<rparr> else base)"

definition OpenTofuRunner :: "'w machine \<Rightarrow> 'w baseRunner \<Rightarrow> 'w RunnerInterface" where
  "OpenTofuRunner mc r = runner_of mc r [''-consolidate-errors''] [''-show-sensitive'']"

definition TerraformRunner :: "'w machine \<Rightarrow> 'w baseRunner \<Rightarrow> 'w RunnerInterface" where
  "TerraformRunner mc r = runner_of mc r [] []"

subsection \<open>The factory\<close>

text \<open>What the client of a job is made of: parsing of URLs, the certificate files, the system's
  certificates and the network.\<close>

record 'w job_net =
  parse_url :: "string \<Rightarrow> parsed_url result"
  cert_files :: tls_files
  system_pool :: "bytes option"
  net :: "'w http"

definition job_client :: "'w job_net \<Rightarrow> StandardModeConfiguration \<Rightarrow> Client result" where
  "job_client jn cfg = NewClient (parse_url jn) (cert_files jn) (system_pool jn)
     \<lparr>CfgBaseURL = GwURL (SGateway cfg), CfgOrganizationID = SOrgID cfg, CfgRunnerID = SRunnerID cfg, CfgPrivateKey = [],
      CfgCAFile = GwCAFile (SGateway cfg), CfgClientCertFile = GwClientCertFile (SGateway cfg),
      CfgClientKeyFile = GwClientKeyFile (SGateway cfg), CfgTimeout = 0\<rparr>"

text \<open>A recipient that does not parse is a nil pointer.\<close>

definition recipient_of :: "config_lib \<Rightarrow> string \<Rightarrow> string option" where
  "recipient_of lib key = (if parse_recipient lib key = None then Some key else None)"

definition runner_base :: "config_lib \<Rightarrow> 'w job_net \<Rightarrow> StandardModeConfiguration \<Rightarrow> Client \<Rightarrow> 'w baseRunner" where
  "runner_base lib jn cfg client = \<lparr>borgID = SOrgID cfg, bdeploymentID = SDeploymentID cfg, bfolder = SIaCCodeDir cfg, binaryPath = [],
     btool = SIaCBackend cfg, observationOnly = IsObservation cfg,
     recipient = (if SEncryptingKey cfg = [] then None else Some (recipient_of lib (SEncryptingKey cfg))),
     bundleLoader = Some (\<lambda>w. ClientGetBundle (net jn) client (SDeploymentID cfg) (SDeploymentToken cfg) w)\<rparr>"

definition CreateRunner :: "'w machine \<Rightarrow> config_lib \<Rightarrow> 'w job_net \<Rightarrow> StandardModeConfiguration \<Rightarrow> 'w RunnerInterface result" where
  "CreateRunner mc lib jn cfg = (case ValidateObservationProtocol cfg of Some e \<Rightarrow> Inl e
   | None \<Rightarrow> if SMode cfg \<notin> {Deploy, Destroy, PlanOnly} then Inl (ErrNew ''unsupported runner mode'')
     else (case job_client jn cfg of Inl e \<Rightarrow> Inl e
       | Inr client \<Rightarrow>
         if SIaCBackend cfg = BackendTerraform then Inr (TerraformRunner mc (newTerraformRunner (runner_base lib jn cfg client)))
         else if SIaCBackend cfg = BackendOpenTofu then Inr (OpenTofuRunner mc (newOpenTofuRunner (runner_base lib jn cfg client)))
         else Inl (ErrNew ''unsupported IaC backend'')))"

subsection \<open>What a factory guarantees\<close>

text \<open>The runner of a configuration: a base runner for its folder and tool that only observes exactly
  when the configuration is an observation.\<close>

lemma CreateRunner_Inr:
  assumes "CreateRunner mc lib jn cfg = Inr rn"
  shows "\<exists>client bin flags out_flags. rn = runner_of mc ((runner_base lib jn cfg client)\<lparr>binaryPath := bin\<rparr>) flags out_flags
    \<and> bin \<noteq> [] \<and> SIaCBackend cfg \<in> {''terraform'', ''opentofu''} \<and> job_client jn cfg = Inr client"
proof -
  obtain client where c: "job_client jn cfg = Inr client"
      and r: "rn = TerraformRunner mc (newTerraformRunner (runner_base lib jn cfg client)) \<and> SIaCBackend cfg = BackendTerraform
        \<or> rn = OpenTofuRunner mc (newOpenTofuRunner (runner_base lib jn cfg client)) \<and> SIaCBackend cfg = BackendOpenTofu"
    using assms by (auto simp: CreateRunner_def split: option.splits if_splits sum.splits)
  have e: "binaryPath (runner_base lib jn cfg client) = []" by (simp add: runner_base_def)
  from r show ?thesis
  proof
    assume "rn = TerraformRunner mc (newTerraformRunner (runner_base lib jn cfg client)) \<and> SIaCBackend cfg = BackendTerraform"
    then have "rn = runner_of mc ((runner_base lib jn cfg client)\<lparr>binaryPath := ''terraform''\<rparr>) [] []" "SIaCBackend cfg = ''terraform''"
      using e by (auto simp: TerraformRunner_def newTerraformRunner_def defaultTerraformBinary_def BackendTerraform_def)
    with c show ?thesis by blast
  next
    assume "rn = OpenTofuRunner mc (newOpenTofuRunner (runner_base lib jn cfg client)) \<and> SIaCBackend cfg = BackendOpenTofu"
    then have "rn = runner_of mc ((runner_base lib jn cfg client)\<lparr>binaryPath := ''tofu''\<rparr>) [''-consolidate-errors''] [''-show-sensitive'']"
        "SIaCBackend cfg = ''opentofu''"
      using e by (auto simp: OpenTofuRunner_def newOpenTofuRunner_def defaultOpenTofuBinary_def BackendOpenTofu_def)
    with c show ?thesis by blast
  qed
qed

lemma CreateRunner_made:
  assumes "job_client jn cfg = Inr c" and "standard_ok cfg"
  shows "\<exists>rn. CreateRunner mc lib jn cfg = Inr rn"
  using assms observation_valid_iff [of cfg] by (auto simp: CreateRunner_def standard_ok_def mode_defs split: option.splits)

text \<open>A runner that only observes starts no command and changes nothing through any operation but
  fetching its bundle, encrypting and observing.\<close>

lemma observer_inert:
  assumes "observationOnly r"
  shows "snd (RiVersion (runner_of mc r fl ofl) w) = w" "snd (RiInit (runner_of mc r fl ofl) w) = w"
    "snd (RiPlan (runner_of mc r fl ofl) w) = w" "snd (RiApply (runner_of mc r fl ofl) w) = w"
    "snd (RiDestroy (runner_of mc r fl ofl) w) = w" "snd (RiOutput (runner_of mc r fl ofl) w) = w"
    "snd (RiOutputMetadata (runner_of mc r fl ofl) m w) = w"
  using assms by (simp_all add: runner_of_def base_Version_def base_init_def base_plan_def base_apply_def base_destroy_def
      base_output_def base_OutputMetadata_def)

end
