(* ===== verification/SshAgent.thy ===== *)
theory SshAgent
  imports Settings
begin

section \<open>The SSH agent (internal/sshagent/agent.go)\<close>

text \<open>
  The agent that serves the keys for fetching modules. A process has an environment, which the
  tools it starts inherit, and the rest of the world. Reading PEM blocks and private keys, the
  keyring, the socket and the goroutine that serves it are the operations of libraries.
\<close>

record 'o process =
  penv :: environ
  outer :: 'o

record ('b, 'k, 'o) agent_lib =
  pem_block :: "bytes \<Rightarrow> ('b \<times> bytes) option"
  raw_private_key :: "'b \<Rightarrow> 'k result"
  keyring_add :: "'k list \<Rightarrow> 'k \<Rightarrow> goerr option"
  listen_unix :: "string \<Rightarrow> 'o \<Rightarrow> goerr option \<times> 'o"
  chmod_600 :: "string \<Rightarrow> 'o \<Rightarrow> goerr option \<times> 'o"
  serve_agent :: "'k list \<Rightarrow> string \<Rightarrow> 'o \<Rightarrow> 'o"
  close_listener :: "string \<Rightarrow> 'o \<Rightarrow> goerr option \<times> 'o"

definition sshKeysVar :: string where
  "sshKeysVar = ''RUNNER_GIT_SSH_KEYS''"

definition authSockVar :: string where
  "authSockVar = ''SSH_AUTH_SOCK''"

definition gitSshCommand :: string where
  "gitSshCommand = ''GIT_SSH_COMMAND''"

definition defaultGitSshCommand :: string where
  "defaultGitSshCommand = ''ssh -o StrictHostKeyChecking=accept-new -o UserKnownHostsFile=/dev/null''"

lemmas agent_vars = sshKeysVar_def authSockVar_def gitSshCommand_def defaultGitSshCommand_def

subsection \<open>Keys\<close>

text \<open>Key after key; without a block the rest must be blank. The loop ends because every block
  shortens the rest, which is a fact about the decoder: the first argument bounds the rounds.\<close>

fun parse_keys :: "('b, 'k, 'o) agent_lib \<Rightarrow> nat \<Rightarrow> nat \<Rightarrow> bytes \<Rightarrow> 'k list \<Rightarrow> 'k list result option" where
  "parse_keys lib 0 i rest out = None"
| "parse_keys lib (Suc n) i rest out = (case pem_block lib rest of
     None \<Rightarrow> Some (if trim_space rest \<noteq> [] then Inl (ErrNew (''failed to parse key '' @ nat_str i @ '': invalid PEM'')) else Inr out)
   | Some (b, rest) \<Rightarrow> (case raw_private_key lib b of
       Inl e \<Rightarrow> Some (Inl (ErrWrap (''failed to parse key '' @ nat_str i) e))
     | Inr pk \<Rightarrow> parse_keys lib n (Suc i) rest (out @ [pk])))"

definition parseSshKeys :: "('b, 'k, 'o) agent_lib \<Rightarrow> bytes \<Rightarrow> 'k list result option" where
  "parseSshKeys lib raw = parse_keys lib (Suc (length raw)) 0 raw []"

lemma parse_keys_returns:
  assumes "\<And>bs b r. pem_block lib bs = Some (b, r) \<Longrightarrow> length r < length bs" and "length rest < n"
  shows "\<exists>r. parse_keys lib n i rest out = Some r"
  using assms(2)
proof (induction n arbitrary: i rest out)
  case (Suc n)
  show ?case
  proof (cases "pem_block lib rest")
    case (Some p)
    obtain b r where p: "p = (b, r)" by (cases p)
    then have "length r < n" using assms(1) Some Suc.prems by fastforce
    then show ?thesis using Some p Suc.IH by (cases "raw_private_key lib b") auto
  qed simp
qed simp

lemma parseSshKeys_returns:
  assumes "\<And>bs b r. pem_block lib bs = Some (b, r) \<Longrightarrow> length r < length bs"
  shows "\<exists>r. parseSshKeys lib raw = Some r"
  unfolding parseSshKeys_def by (rule parse_keys_returns [OF assms]) auto

subsection \<open>Launching\<close>

fun add_keys :: "('b, 'k, 'o) agent_lib \<Rightarrow> nat \<Rightarrow> 'k list \<Rightarrow> 'k list \<Rightarrow> 'k list result" where
  "add_keys lib i ring [] = Inr ring"
| "add_keys lib i ring (k # ks) = (case keyring_add lib ring k of
     Some e \<Rightarrow> Inl (ErrWrap (''failed to add key '' @ nat_str i @ '' from '' @ sshKeysVar) e)
   | None \<Rightarrow> add_keys lib (Suc i) (ring @ [k]) ks)"

text \<open>The keys are taken from the environment, and out of it.\<close>

definition load_keys :: "('b, 'k, 'o) agent_lib \<Rightarrow> environ \<Rightarrow> ('k list \<times> environ) result option" where
  "load_keys lib env = (case env sshKeysVar of None \<Rightarrow> Some (Inr ([], env))
   | Some v \<Rightarrow> (case parseSshKeys lib v of None \<Rightarrow> None
     | Some (Inl e) \<Rightarrow> Some (Inl (ErrWrap (''failed to load keys from '' @ sshKeysVar) e))
     | Some (Inr keys) \<Rightarrow> (case add_keys lib 0 [] keys of Inl e \<Rightarrow> Some (Inl e)
       | Inr ring \<Rightarrow> Some (Inr (ring, os_Unsetenv sshKeysVar env)))))"

definition agent_environ :: "string \<Rightarrow> environ \<Rightarrow> environ result \<times> environ" where
  "agent_environ socketPath env = (case os_Setenv authSockVar socketPath env of
     Inl e \<Rightarrow> (Inl (ErrWrap (''failed to set '' @ authSockVar) e), env)
   | Inr env \<Rightarrow> if getenv env gitSshCommand = [] then (case os_Setenv gitSshCommand defaultGitSshCommand env of
         Inl e \<Rightarrow> (Inl (ErrWrap (''failed to set '' @ gitSshCommand) e), env) | Inr env \<Rightarrow> (Inr env, env))
       else (Inr env, env))"

text \<open>What stops the agent again.\<close>

definition agent_closer :: "('b, 'k, 'o) agent_lib \<Rightarrow> string \<Rightarrow> 'o process \<Rightarrow> 'o process" where
  "agent_closer lib socketPath p = p\<lparr>outer := snd (close_listener lib socketPath (outer p))\<rparr>"

definition Launch :: "('b, 'k, 'o) agent_lib \<Rightarrow> string \<Rightarrow> 'o process \<Rightarrow> ('o process \<Rightarrow> 'o process) result option \<times> 'o process" where
  "Launch lib socketPath p = (case load_keys lib (penv p) of None \<Rightarrow> (None, p)
   | Some (Inl e) \<Rightarrow> (Some (Inl e), p)
   | Some (Inr (ring, env)) \<Rightarrow> (case listen_unix lib socketPath (outer p) of
       (Some e, x) \<Rightarrow> (Some (Inl (ErrWrap (''failed to listen on '' @ socketPath) e)), \<lparr>penv = env, outer = x\<rparr>)
     | (None, x) \<Rightarrow> (case chmod_600 lib socketPath x of
         (Some e, x) \<Rightarrow> (Some (Inl (ErrWrap (''failed to chmod '' @ socketPath) e)), \<lparr>penv = env, outer = x\<rparr>)
       | (None, x) \<Rightarrow> (let x = serve_agent lib ring socketPath x in
           case agent_environ socketPath env of
             (Inl e, env) \<Rightarrow> (Some (Inl e), \<lparr>penv = env, outer = x\<rparr>)
           | (Inr _, env) \<Rightarrow> (Some (Inr (agent_closer lib socketPath)), \<lparr>penv = env, outer = x\<rparr>)))))"

subsection \<open>The keys do not reach the tools\<close>

lemma agent_environ_Inr:
  assumes "agent_environ socketPath env = (Inr x, env')"
  shows "env' authSockVar = Some socketPath" "getenv env' gitSshCommand \<noteq> []"
    "\<And>k. k \<noteq> authSockVar \<Longrightarrow> k \<noteq> gitSshCommand \<Longrightarrow> env' k = env k"
  using assms by (auto simp: agent_environ_def os_Setenv_def getenv_def agent_vars split: if_splits sum.splits)

lemma load_keys_unset: "load_keys lib env = Some (Inr (ring, env')) \<Longrightarrow> env' sshKeysVar = None"
  by (auto simp: load_keys_def os_Unsetenv_def split: option.splits sum.splits)

lemma Launch_Inr:
  assumes "Launch lib socketPath p = (Some (Inr close), p')"
  obtains ring env x x' where "load_keys lib (penv p) = Some (Inr (ring, env))" "chmod_600 lib socketPath x = (None, x')"
    "agent_environ socketPath env = (Inr (penv p'), penv p')" "close = agent_closer lib socketPath"
  using assms by (auto simp: Launch_def Let_def agent_environ_def split: option.splits sum.splits prod.splits if_splits)

text \<open>Once the agent runs, the private keys are no longer in the environment the tools inherit, and
  git is pointed to the agent's socket.\<close>

lemma launched_environment:
  assumes "Launch lib socketPath p = (Some (Inr close), p')"
  shows "penv p' sshKeysVar = None" "penv p' authSockVar = Some socketPath" "getenv (penv p') gitSshCommand \<noteq> []"
proof -
  from assms obtain ring env where l: "load_keys lib (penv p) = Some (Inr (ring, env))"
      and e: "agent_environ socketPath env = (Inr (penv p'), penv p')" by (rule Launch_Inr)
  show "penv p' authSockVar = Some socketPath" "getenv (penv p') gitSshCommand \<noteq> []" using agent_environ_Inr [OF e] by auto
  show "penv p' sshKeysVar = None" using agent_environ_Inr(3) [OF e] load_keys_unset [OF l] by (simp add: agent_vars)
qed

end
