(* ===== verification/LogsBuffer.thy ===== *)
theory LogsBuffer
  imports Prelude
begin

section \<open>The limited log buffer (internal/limitedlogsbuffer/limitedlogsbuffer.go)\<close>

text \<open>
  A writer that passes on a limited number of bytes. The wrapped writer is an argument: it takes
  some of the bytes and may fail. A call holds the lock, so calls are sequential.
\<close>

type_synonym 'u writer = "bytes \<Rightarrow> 'u \<Rightarrow> (nat \<times> goerr option) \<times> 'u"

record LimitedLogsBuffer =
  lw_limit :: int
  lw_n :: int

definition NewLimitedLogsBuffer :: "int \<Rightarrow> LimitedLogsBuffer" where
  "NewLimitedLogsBuffer limit = \<lparr>lw_limit = limit, lw_n = 0\<rparr>"

definition lw_Write :: "'u writer \<Rightarrow> bytes \<Rightarrow> LimitedLogsBuffer \<times> 'u \<Rightarrow> (nat \<times> goerr option) \<times> LimitedLogsBuffer \<times> 'u" where
  "lw_Write wr p st = (let lw = fst st in
     if lw_n lw \<ge> lw_limit lw then ((length p, None), st)
     else (let remaining = lw_limit lw - lw_n lw;
               p = (if int (length p) > remaining then take (nat remaining) p else p) in
       case wr p (snd st) of ((n, e), u) \<Rightarrow> ((length p, e), lw\<lparr>lw_n := lw_n lw + int n\<rparr>, u)))"

fun lw_writes :: "'u writer \<Rightarrow> bytes list \<Rightarrow> LimitedLogsBuffer \<times> 'u \<Rightarrow> LimitedLogsBuffer \<times> 'u" where
  "lw_writes wr [] st = st"
| "lw_writes wr (p # ps) st = lw_writes wr ps (snd (lw_Write wr p st))"

text \<open>The writer of the program is a \<open>bytes.Buffer\<close>, which takes everything.\<close>

definition buffer_write :: "bytes writer" where
  "buffer_write p u = ((length p, None), u @ p)"

subsection \<open>The buffer holds the first bytes\<close>

lemma lw_Write_buffer:
  assumes "0 \<le> lw_n lw" and "lw_n lw \<le> lw_limit lw"
  shows "snd (lw_Write buffer_write p (lw, u)) = (lw\<lparr>lw_n := lw_n lw + int (length (take (nat (lw_limit lw - lw_n lw)) p))\<rparr>,
    u @ take (nat (lw_limit lw - lw_n lw)) p)"
  using assms by (auto simp: lw_Write_def buffer_write_def Let_def)

lemma lw_writes_buffer:
  assumes "0 \<le> lw_n lw" and "lw_n lw \<le> lw_limit lw"
  shows "snd (lw_writes buffer_write ps (lw, u)) = u @ take (nat (lw_limit lw - lw_n lw)) (concat ps)"
  using assms
proof (induction ps arbitrary: lw u)
  case (Cons p ps)
  let ?k = "nat (lw_limit lw - lw_n lw)"
  let ?lw = "lw\<lparr>lw_n := lw_n lw + int (length (take ?k p))\<rparr>"
  have "snd (lw_writes buffer_write ps (?lw, u @ take ?k p)) = (u @ take ?k p) @ take (nat (lw_limit ?lw - lw_n ?lw)) (concat ps)"
    using Cons.prems by (intro Cons.IH) auto
  moreover have "nat (lw_limit ?lw - lw_n ?lw) = ?k - length p" using Cons.prems by (auto simp: min_def)
  ultimately show ?case by (simp add: lw_Write_buffer [OF Cons.prems])
qed simp

text \<open>C29: whatever is written in whatever pieces, the buffer holds exactly the first bytes of it, up to
  the limit.\<close>

theorem logs_buffer_prefix:
  "snd (lw_writes buffer_write ps (NewLimitedLogsBuffer limit, [])) = take (nat limit) (concat ps)"
proof (cases "0 \<le> limit")
  case True
  then show ?thesis using lw_writes_buffer [of "NewLimitedLogsBuffer limit" ps "[]"] by (simp add: NewLimitedLogsBuffer_def)
next
  case False
  have "snd (lw_Write buffer_write p (NewLimitedLogsBuffer limit, u)) = (NewLimitedLogsBuffer limit, u)" for p u
    using False by (simp add: lw_Write_def NewLimitedLogsBuffer_def)
  then have "lw_writes buffer_write ps (NewLimitedLogsBuffer limit, []) = (NewLimitedLogsBuffer limit, [])" by (induction ps) auto
  then show ?thesis using False by simp
qed

text \<open>The number returned for a call that reaches the limit is the length of what was kept, for a call
  after it the length of what was given.\<close>

lemma lw_Write_count:
  "0 \<le> lw_n lw \<Longrightarrow> lw_n lw < lw_limit lw \<Longrightarrow> fst (fst (lw_Write buffer_write p (lw, u))) = min (length p) (nat (lw_limit lw - lw_n lw))"
  "lw_limit lw \<le> lw_n lw \<Longrightarrow> fst (fst (lw_Write buffer_write p (lw, u))) = length p"
  by (auto simp: lw_Write_def buffer_write_def Let_def min_def)

end
