(* ===== verification/StandardExecutor.thy ===== *)
theory StandardExecutor
  imports RunnerFactory SshAgent LogsBuffer
begin

section \<open>The standard executor (standard_executor.go, observation.go and utils.go of internal/executor)\<close>

text \<open>
  One deployment: the bundle is fetched, the tool of the configuration runs, and its outcome
  becomes the results the orchestrator gets. The state is the buffer of logs and the process. The
  factory of runners is an argument, as in the source. The program's own log lines are left out.
  \<^const>\<open>None\<close> as outcome is a panic.
\<close>

subsection \<open>Results\<close>

record Error =
  ErrorCode :: string
  ErrorMessage :: string

record DeploymentTFResourceCounts =
  NumResources :: int
  NumResourcesAdded :: int
  NumResourcesChanged :: int
  NumResourcesRemoved :: int

record DeploymentResultMetadataPerNode =
  NodeId :: string
  NodeMetadata :: json

record DeploymentResultsUpdateBody =
  BError :: "Error option"
  BMetadata :: "DeploymentResultMetadataPerNode list"
  BObservationResult :: "ObservationResult option"
  BOutputs :: "string option"
  BStatus :: string
  BTfResourceCounts :: DeploymentTFResourceCounts

definition Success :: string where
  "Success = ''success''"

definition Failure :: string where
  "Failure = ''failure''"

definition no_counts :: DeploymentTFResourceCounts where
  "no_counts = \<lparr>NumResources = 0, NumResourcesAdded = 0, NumResourcesChanged = 0, NumResourcesRemoved = 0\<rparr>"

definition fromIaCChangesToTFResourceCounts :: "IaCChanges option \<Rightarrow> DeploymentTFResourceCounts" where
  "fromIaCChangesToTFResourceCounts changes = (case changes of None \<Rightarrow> no_counts
     | Some c \<Rightarrow> no_counts\<lparr>NumResourcesAdded := Added c, NumResourcesChanged := Changed c, NumResourcesRemoved := Removed c\<rparr>)"

definition failed :: "string \<Rightarrow> string \<Rightarrow> DeploymentResultsUpdateBody" where
  "failed code message = \<lparr>BError = Some \<lparr>ErrorCode = code, ErrorMessage = message\<rparr>, BMetadata = [], BObservationResult = None,
     BOutputs = None, BStatus = Failure, BTfResourceCounts = no_counts\<rparr>"

definition succeeded :: "IaCChanges option \<Rightarrow> DeploymentResultsUpdateBody" where
  "succeeded changes = \<lparr>BError = None, BMetadata = [], BObservationResult = None, BOutputs = None, BStatus = Success,
     BTfResourceCounts = fromIaCChangesToTFResourceCounts changes\<rparr>"

definition getIaCErrorCode :: "goerr \<Rightarrow> string" where
  "getIaCErrorCode e = (case err_code e of Some c \<Rightarrow> c | None \<Rightarrow> ''IAC_COMMAND_ERROR'')"

type_synonym verdict = "DeploymentResultsUpdateBody \<times> goerr option"

definition iac_failure :: "string \<Rightarrow> goerr \<Rightarrow> verdict" where
  "iac_failure stage e = (failed (getIaCErrorCode e) (err_text e), Some (ErrWrap (''[IAC]'' @ stage) e))"

definition runner_failure :: "string \<Rightarrow> goerr \<Rightarrow> verdict" where
  "runner_failure m e = (failed ''RUNNER'' (err_text (ErrWrap m e)), Some (ErrWrap (''[RUNNER]'' @ m) e))"

definition plain_failure :: "goerr \<Rightarrow> verdict" where
  "plain_failure e = (failed ''RUNNER'' (err_text e), Some e)"

subsection \<open>Logs\<close>

record ('b, 'k, 'o) executor_env =
  agent :: "('b, 'k, 'o) agent_lib"
  stat_error :: "string \<Rightarrow> 'o process \<Rightarrow> goerr option"
  stdout_write :: "bytes \<Rightarrow> 'o \<Rightarrow> (nat \<times> goerr option) \<times> 'o"
  number_text :: "string \<Rightarrow> string option"
  ctx_err :: "'o process \<Rightarrow> bool"

type_synonym logs = "LimitedLogsBuffer \<times> bytes"

text \<open>\<open>io.MultiWriter\<close> over the standard output and the buffer: a writer that fails or writes less than
  it was given ends the call.\<close>

definition logs_write :: "('b, 'k, 'o) executor_env \<Rightarrow> bytes \<Rightarrow> logs \<times> 'o process \<Rightarrow> logs \<times> 'o process" where
  "logs_write env p st = (case stdout_write env p (outer (snd st)) of ((n, e), x) \<Rightarrow>
     ((if e \<noteq> None \<or> n \<noteq> length p then fst st else snd (lw_Write buffer_write p (fst st))), (snd st)\<lparr>outer := x\<rparr>))"

definition writeOutputWithNewline :: "('b, 'k, 'o) executor_env \<Rightarrow> string \<Rightarrow> logs \<times> 'o process \<Rightarrow> logs \<times> 'o process" where
  "writeOutputWithNewline env content st = (if content = [] then st
     else (let st = logs_write env content st in if last content = CHR 0x0A then st else logs_write env [CHR 0x0A] st))"

subsection \<open>Outputs and metadata\<close>

text \<open>\<open>json.Marshal\<close> of the outputs without the metadata; a nil map is printed as null.\<close>

definition public_outputs :: "string \<Rightarrow> outputs option \<Rightarrow> bytes" where
  "public_outputs key outs = (case outs of None \<Rightarrow> ''null'' | Some ms \<Rightarrow> encode_struct (filter (\<lambda>m. fst m \<noteq> key) ms))"

definition encrypt_outputs :: "'w RunnerInterface \<Rightarrow> StandardModeConfiguration \<Rightarrow> outputs option \<Rightarrow> DeploymentResultsUpdateBody \<Rightarrow> 'w
    \<Rightarrow> verdict option \<times> 'w" where
  "encrypt_outputs rn cfg outs body w = (case RiEncryptString rn (public_outputs (SMetadataKey cfg) outs) w of
     (None, w) \<Rightarrow> (None, w)
   | (Some (Inl e), w) \<Rightarrow> (Some (failed ''RUNNER'' (err_text (ErrWrap ''failed to encrypt plan outputs'' e)),
       Some (ErrWrap ''[RUNNER]results encryption error'' e)), w)
   | (Some (Inr s), w) \<Rightarrow> (Some (body\<lparr>BOutputs := Some s\<rparr>, None), w))"

text \<open>The metadata of the nodes, in the order of the document; the order of the map is open.\<close>

fun into_nodes :: "(string \<Rightarrow> string option) \<Rightarrow> (string \<times> json) list \<Rightarrow> (string \<times> bytes \<times> json) list \<Rightarrow> (string \<times> json) list option" where
  "into_nodes num acc [] = Some acc"
| "into_nodes num acc ((k, w, JNull) # ms) = into_nodes num (put_key k JNull acc) ms"
| "into_nodes num acc ((k, w, JObj os) # ms) = (case any_members num [] os of None \<Rightarrow> None
     | Some x \<Rightarrow> into_nodes num (put_key k (JObj x) acc) ms)"
| "into_nodes num acc ((k, w, _) # ms) = None"

definition unmarshal_metadata :: "(string \<Rightarrow> string option) \<Rightarrow> bytes \<Rightarrow> DeploymentResultMetadataPerNode list option" where
  "unmarshal_metadata num bs = (case json_decode bs of Some (JObj ms) \<Rightarrow> map_option (map (\<lambda>(h, m). \<lparr>NodeId = h, NodeMetadata = m\<rparr>)) (into_nodes num [] ms)
     | Some JNull \<Rightarrow> Some [] | _ \<Rightarrow> None)"

subsection \<open>The workflow\<close>

definition report_apply :: "('b, 'k, 'o) executor_env \<Rightarrow> 'o process RunnerInterface \<Rightarrow> StandardModeConfiguration \<Rightarrow> IaCChanges option \<Rightarrow> 'o process
    \<Rightarrow> verdict option \<times> 'o process" where
  "report_apply env rn cfg changes w = (case RiOutputMetadata rn (SMetadataKey cfg) w of
     ((_, Some e), w) \<Rightarrow> (Some (iac_failure ''fetch metadata error'' e), w)
   | ((metadataOut, None), w) \<Rightarrow> (case unmarshal_metadata (number_text env) metadataOut of
       None \<Rightarrow> (Some (failed ''RUNNER'' ''failed to parse metadata output'', Some (ErrNew ''[IAC]apply error'')), w)
     | Some metadata \<Rightarrow> (let body = (succeeded changes)\<lparr>BMetadata := metadata, BOutputs := Some []\<rparr> in
         if SEncryptingKey cfg = [] then (Some (body, None), w)
         else (case RiOutput rn w of (None, w) \<Rightarrow> (None, w)
           | (Some (Inl e), w) \<Rightarrow> (Some (iac_failure ''outputs error'' e), w)
           | (Some (Inr outs), w) \<Rightarrow> encrypt_outputs rn cfg (Some outs) body w))))"

definition execute_apply :: "('b, 'k, 'o) executor_env \<Rightarrow> 'o process RunnerInterface \<Rightarrow> StandardModeConfiguration \<Rightarrow> logs \<times> 'o process
    \<Rightarrow> verdict option \<times> logs \<times> 'o process" where
  "execute_apply env rn cfg st = (case RiApply rn (snd st) of ((out, changes, e), w) \<Rightarrow>
     (case writeOutputWithNewline env out (fst st, w) of (l, w) \<Rightarrow>
       (case e of Some e \<Rightarrow> (Some (iac_failure ''apply error'' e), l, w)
        | None \<Rightarrow> (case report_apply env rn cfg changes w of (r, w) \<Rightarrow> (r, l, w)))))"

definition execute_plan :: "('b, 'k, 'o) executor_env \<Rightarrow> 'o process RunnerInterface \<Rightarrow> StandardModeConfiguration \<Rightarrow> logs \<times> 'o process
    \<Rightarrow> verdict option \<times> logs \<times> 'o process" where
  "execute_plan env rn cfg st = (case RiPlan rn (snd st) of (None, w) \<Rightarrow> (None, fst st, w)
   | (Some (out, planned, changes, e), w) \<Rightarrow>
     (case writeOutputWithNewline env out (fst st, w) of (l, w) \<Rightarrow>
       (case e of Some e \<Rightarrow> (Some (iac_failure ''plan error'' e), l, w)
        | None \<Rightarrow> if SMode cfg = PlanOnly
            then (let body = (succeeded changes)\<lparr>BOutputs := Some []\<rparr> in
              if SEncryptingKey cfg = [] then (Some (body, None), l, w)
              else (case encrypt_outputs rn cfg planned body w of (r, w) \<Rightarrow> (r, l, w)))
            else execute_apply env rn cfg (l, w))))"

definition execute_destroy :: "('b, 'k, 'o) executor_env \<Rightarrow> 'o process RunnerInterface \<Rightarrow> logs \<times> 'o process
    \<Rightarrow> verdict option \<times> logs \<times> 'o process" where
  "execute_destroy env rn st = (case RiDestroy rn (snd st) of ((out, changes, e), w) \<Rightarrow>
     (case writeOutputWithNewline env out (fst st, w) of (l, w) \<Rightarrow>
       (Some (case e of Some e \<Rightarrow> iac_failure ''destroy error'' e | None \<Rightarrow> (succeeded changes, None)), l, w)))"

definition DestroyMode :: string where
  "DestroyMode = ''destroy''"

definition execute_tool :: "('b, 'k, 'o) executor_env \<Rightarrow> 'o process RunnerInterface \<Rightarrow> StandardModeConfiguration \<Rightarrow> logs \<times> 'o process
    \<Rightarrow> verdict option \<times> logs \<times> 'o process" where
  "execute_tool env rn cfg st = (case stat_error env (path_join (SIaCCodeDir cfg) ''main.tf'') (snd st) of
     Some e \<Rightarrow> (Some (runner_failure ''failed to check content of the folder with IaC files'' e), st)
   | None \<Rightarrow> (case RiVersion rn (snd st) of
       ((_, Some e), w) \<Rightarrow> (Some (iac_failure ''version error'' e), fst st, w)
     | ((_, None), w) \<Rightarrow> (case RiInit rn w of ((out, e), w) \<Rightarrow>
         (case writeOutputWithNewline env out (fst st, w) of (l, w) \<Rightarrow>
           (case e of Some e \<Rightarrow> (Some (iac_failure ''init error'' e), l, w)
            | None \<Rightarrow> if SMode cfg = DestroyMode then execute_destroy env rn (l, w) else execute_plan env rn cfg (l, w))))))"

text \<open>The agent for SSH keys runs around the tool and is stopped in any case.\<close>

definition execute_with_agent :: "('b, 'k, 'o) executor_env \<Rightarrow> 'o process RunnerInterface \<Rightarrow> StandardModeConfiguration \<Rightarrow> logs \<times> 'o process
    \<Rightarrow> verdict option \<times> logs \<times> 'o process" where
  "execute_with_agent env rn cfg st = (case RiCreateIaCFolder rn (snd st) of
     (Some e, w) \<Rightarrow> (Some (runner_failure ''failed to create a folder with IaC files'' e), fst st, w)
   | (None, w) \<Rightarrow> (case Launch (agent env) (path_join (SIaCCodeDir cfg) ''.ssh-agent'') w of
       (None, w) \<Rightarrow> (None, fst st, w)
     | (Some (Inl e), w) \<Rightarrow> (Some (runner_failure ''failed to launch ssh-agent'' e), fst st, w)
     | (Some (Inr closer), w) \<Rightarrow> (case execute_tool env rn cfg (fst st, w) of (r, l, w) \<Rightarrow> (r, l, closer w))))"

definition observation_failure :: "string \<Rightarrow> verdict" where
  "observation_failure stage = (failed ''OBSERVATION_UNAVAILABLE'' (''observation '' @ stage @ '' failed''),
     Some (ErrNew (''observation '' @ stage @ '' failed'')))"

definition executeObservation :: "('b, 'k, 'o) executor_env \<Rightarrow> StandardModeConfiguration
    \<Rightarrow> (StandardModeConfiguration \<Rightarrow> 'o process RunnerInterface result) \<Rightarrow> 'o process \<Rightarrow> verdict option \<times> 'o process" where
  "executeObservation env cfg factory w =
     (if \<not> IsObservation cfg then (Some (observation_failure ''protocol validation''), w)
      else (case factory cfg of Inl e \<Rightarrow> (Some (observation_failure ''runner creation''), w)
      | Inr rn \<Rightarrow> (case RiObserve rn of None \<Rightarrow> (Some (observation_failure ''unsupported runner''), w)
      | Some observe \<Rightarrow> (case RiCreateIaCFolder rn w of (Some e, w) \<Rightarrow> (Some (observation_failure ''bundle preparation''), w)
      | (None, w) \<Rightarrow> if stat_error env (path_join (SIaCCodeDir cfg) ''main.tf'') w \<noteq> None
          then (Some (observation_failure ''configuration validation''), w)
          else (case Launch (agent env) (path_join (SIaCCodeDir cfg) ''.ssh-agent'') w of (None, w) \<Rightarrow> (None, w)
          | (Some (Inl e), w) \<Rightarrow> (Some (observation_failure ''credential preparation''), w)
          | (Some (Inr closer), w) \<Rightarrow> (case observe w of ((result, e), w) \<Rightarrow>
              (Some (case result of None \<Rightarrow> observation_failure ''execution''
                 | Some r \<Rightarrow> if e \<noteq> None \<or> \<not> ObsComplete r \<or> ctx_err env w then observation_failure ''execution''
                     else ((succeeded None)\<lparr>BObservationResult := Some r\<rparr>, None)), closer w)))))))"

definition ExecuteStandardMode :: "('b, 'k, 'o) executor_env \<Rightarrow> StandardModeConfiguration
    \<Rightarrow> (StandardModeConfiguration \<Rightarrow> 'o process RunnerInterface result) \<Rightarrow> logs \<times> 'o process \<Rightarrow> verdict option \<times> logs \<times> 'o process" where
  "ExecuteStandardMode env cfg factory st = (case ValidateObservationProtocol cfg of Some e \<Rightarrow> (Some (plain_failure e), st)
   | None \<Rightarrow> if IsObservation cfg then (case executeObservation env cfg factory (snd st) of (r, w) \<Rightarrow> (r, fst st, w))
     else if SMode cfg \<notin> {Deploy, Destroy, PlanOnly} then (Some (plain_failure (ErrNew ''unsupported runner mode'')), st)
     else (case factory cfg of Inl e \<Rightarrow> (Some (runner_failure ''failed to create runner'' e), st)
       | Inr rn \<Rightarrow> execute_with_agent env rn cfg st))"

end
