(* ===== verification/Workflow.thy ===== *)
theory Workflow
  imports StandardExecutor
begin

section \<open>What a deployment does: an abstract workflow and its implementation\<close>

text \<open>
  The abstract workflow of a mode is a list of stages. The executor is shown to run its stages in
  order, to stop at the first one that fails, and to report success exactly for a complete run.
  The contract between the executor and whatever records the stages is a locale; it is interpreted
  on the runners of the model with a record of their calls.
\<close>

subsection \<open>The abstract workflow\<close>

datatype stage = StFolder | StVersion | StInit | StPlan | StApply | StDestroy | StMetadata | StOutputs | StEncrypt

type_synonym history = "(stage \<times> bool) list"

definition plan_tail :: "StandardModeConfiguration \<Rightarrow> stage list" where
  "plan_tail cfg = (if SEncryptingKey cfg = [] then [] else [StEncrypt])"

definition apply_tail :: "StandardModeConfiguration \<Rightarrow> stage list" where
  "apply_tail cfg = StApply # StMetadata # (if SEncryptingKey cfg = [] then [] else [StOutputs, StEncrypt])"

definition workflow :: "StandardModeConfiguration \<Rightarrow> stage list" where
  "workflow cfg = [StFolder, StVersion, StInit] @ (if SMode cfg = Destroy then [StDestroy]
     else StPlan # (if SMode cfg = PlanOnly then plan_tail cfg else apply_tail cfg))"

text \<open>A run of a workflow: its stages from the start, all but the last one successful; complete
  and successful throughout when the run is reported as a success.\<close>

definition follows :: "stage list \<Rightarrow> history \<Rightarrow> bool \<Rightarrow> bool" where
  "follows ss tr success \<longleftrightarrow> prefix (map fst tr) ss \<and> list_all snd (butlast tr) \<and> (success \<longrightarrow> map fst tr = ss \<and> list_all snd tr)"

lemma follows_Nil [simp]: "follows ss [] False" "follows [] [] b"
  by (simp_all add: follows_def)

lemma follows_stop [simp]: "follows (s # ss) [(s, b)] False"
  by (simp add: follows_def)

lemma follows_last [simp]: "follows [s] [(s, True)] b"
  by (simp add: follows_def)

lemma follows_Cons [simp]: "follows (s # ss) ((s, True) # tr) b \<longleftrightarrow> follows ss tr b"
  by (cases tr) (auto simp: follows_def)

definition success :: "verdict option \<Rightarrow> bool" where
  "success r \<longleftrightarrow> (\<exists>b. r = Some (b, None))"

lemma success_simps [simp]: "\<not> success None" "success (Some (b, None))" "\<not> success (Some (b, Some e))"
  "\<not> success (Some (iac_failure s x))" "\<not> success (Some (runner_failure s x))" "\<not> success (Some (plain_failure x))"
  by (auto simp: success_def iac_failure_def runner_failure_def plain_failure_def)

text \<open>What is reported agrees with what is returned.\<close>

definition consistent :: "verdict option \<Rightarrow> bool" where
  "consistent r = (case r of None \<Rightarrow> True
     | Some (b, e) \<Rightarrow> (if e = None then BStatus b = Success \<and> BError b = None else BStatus b = Failure \<and> BError b \<noteq> None))"

lemma consistent_simps [simp]: "consistent None" "consistent (Some (iac_failure s x))" "consistent (Some (runner_failure s x))"
  "consistent (Some (plain_failure x))" "consistent (Some (failed c m, Some y))" "consistent (Some (observation_failure z))"
  "consistent (Some (succeeded ch, None))" "consistent (Some ((succeeded ch)\<lparr>BOutputs := o1\<rparr>, None))"
  "consistent (Some ((succeeded ch)\<lparr>BMetadata := md, BOutputs := o1\<rparr>, None))"
  "consistent (Some ((succeeded ch)\<lparr>BObservationResult := ob\<rparr>, None))"
  by (auto simp: consistent_def iac_failure_def runner_failure_def plain_failure_def failed_def succeeded_def observation_failure_def)

subsection \<open>The contract of a recorded execution\<close>

locale recorded_execution =
  fixes env :: "('b, 'k, 'o) executor_env" and rn :: "'o process RunnerInterface" and hist :: "'o process \<Rightarrow> history"
  assumes folder: "RiCreateIaCFolder rn w = (e, w') \<Longrightarrow> hist w' = hist w @ [(StFolder, e = None)]"
    and version: "RiVersion rn w = ((s, e), w') \<Longrightarrow> hist w' = hist w @ [(StVersion, e = None)]"
    and init: "RiInit rn w = ((s, e), w') \<Longrightarrow> hist w' = hist w @ [(StInit, e = None)]"
    and plan: "RiPlan rn w = (p, w') \<Longrightarrow> hist w' = hist w @ [(StPlan, \<exists>a b c. p = Some (a, b, c, None))]"
    and apply_stage: "RiApply rn w = ((s, c, e), w') \<Longrightarrow> hist w' = hist w @ [(StApply, e = None)]"
    and destroy: "RiDestroy rn w = ((s, c, e), w') \<Longrightarrow> hist w' = hist w @ [(StDestroy, e = None)]"
    and outputs: "RiOutput rn w = (u, w') \<Longrightarrow> hist w' = hist w @ [(StOutputs, \<exists>x. u = Some (Inr x))]"
    and metadata: "RiOutputMetadata rn m w = ((s, e), w') \<Longrightarrow> hist w' = hist w @ [(StMetadata, e = None)]"
    and encrypt: "RiEncryptString rn t w = (v, w') \<Longrightarrow> hist w' = hist w @ [(StEncrypt, \<exists>x. v = Some (Inr x))]"
    and launch: "Launch (agent env) d w = (l, w') \<Longrightarrow> hist w' = hist w"
    and closer: "Launch (agent env) d w = (Some (Inr k), w') \<Longrightarrow> hist (k x) = hist x"
    and stdout: "hist (w\<lparr>outer := snd (stdout_write env t (outer w))\<rparr>) = hist w"
begin

lemma logs_keep: "hist (snd (writeOutputWithNewline env c st)) = hist (snd st)"
proof -
  have "hist (snd (logs_write env p st)) = hist (snd st)" for p st
    using stdout [of p "snd st"] by (auto simp: logs_write_def split: prod.splits)
  then show ?thesis by (simp add: writeOutputWithNewline_def Let_def)
qed

lemma logs_kept: "writeOutputWithNewline env c (l, w) = (l', w') \<Longrightarrow> hist w' = hist w"
  using logs_keep [of c "(l, w)"] by simp

lemma encrypt_follows:
  assumes "encrypt_outputs rn cfg outs body w = (r, w')"
  shows "\<exists>tr. hist w' = hist w @ tr \<and> follows [StEncrypt] tr (success r)"
  using assms encrypt [of _ w] by (auto simp: encrypt_outputs_def split: prod.splits option.splits sum.splits)

lemma report_follows:
  assumes "report_apply env rn cfg changes w = (r, w')"
  shows "\<exists>tr. hist w' = hist w @ tr \<and> follows (StMetadata # (if SEncryptingKey cfg = [] then [] else [StOutputs, StEncrypt])) tr (success r)"
proof -
  obtain s e w1 where m: "RiOutputMetadata rn (SMetadataKey cfg) w = ((s, e), w1)" by (metis prod.exhaust)
  note h1 = metadata [OF m]
  obtain u w2 where o: "RiOutput rn w1 = (u, w2)" by (rule prod.exhaust)
  note h2 = outputs [OF o]
  show ?thesis
  proof (cases "e = None \<and> unmarshal_metadata (number_text env) s \<noteq> None \<and> SEncryptingKey cfg \<noteq> []")
    case False
    then show ?thesis using assms m h1
      by (auto simp: report_apply_def Let_def split: option.splits if_splits)
  next
    case True
    then obtain md where md: "unmarshal_metadata (number_text env) s = Some md" by blast
    show ?thesis
    proof (cases "\<exists>x. u = Some (Inr x)")
      case False
      then show ?thesis using assms m md o h1 h2 True
        by (auto simp: report_apply_def Let_def split: option.splits sum.splits)
    next
      case True
      then obtain x where x: "u = Some (Inr x)" by blast
      then have "encrypt_outputs rn cfg (Some x) ((succeeded changes)\<lparr>BMetadata := md, BOutputs := Some []\<rparr>) w2 = (r, w')"
        using assms m md o \<open>e = None \<and> _ \<and> _\<close> by (simp add: report_apply_def Let_def)
      from encrypt_follows [OF this] show ?thesis using h1 h2 x \<open>e = None \<and> _ \<and> _\<close> by auto
    qed
  qed
qed

lemma apply_follows:
  assumes "execute_apply env rn cfg (l, w) = (r, l', w')"
  shows "\<exists>tr. hist w' = hist w @ tr \<and> follows (apply_tail cfg) tr (success r)"
proof -
  obtain s c e w1 where a: "RiApply rn w = ((s, c, e), w1)" by (metis prod.exhaust)
  obtain l2 w2 where o: "writeOutputWithNewline env s (l, w1) = (l2, w2)" by (rule prod.exhaust)
  have h: "hist w2 = hist w @ [(StApply, e = None)]" using apply_stage [OF a] logs_kept [OF o] by simp
  show ?thesis
  proof (cases e)
    case None
    obtain r3 w3 where r: "report_apply env rn cfg c w2 = (r3, w3)" by (rule prod.exhaust)
    from report_follows [OF r] show ?thesis using assms a o None r h by (auto simp: execute_apply_def apply_tail_def)
  next
    case (Some x)
    then show ?thesis using assms a o h by (auto simp: execute_apply_def apply_tail_def)
  qed
qed

lemma plan_follows:
  assumes "execute_plan env rn cfg (l, w) = (r, l', w')"
  shows "\<exists>tr. hist w' = hist w @ tr \<and> follows (StPlan # (if SMode cfg = PlanOnly then plan_tail cfg else apply_tail cfg)) tr (success r)"
proof -
  obtain p w1 where a: "RiPlan rn w = (p, w1)" by (rule prod.exhaust)
  note h1 = plan [OF a]
  show ?thesis
  proof (cases p)
    case None
    then show ?thesis using assms a h1 by (auto simp: execute_plan_def)
  next
    case (Some q)
    obtain s u c e where q: "q = (s, u, c, e)" by (rule prod_cases4)
    obtain l2 w2 where o: "writeOutputWithNewline env s (l, w1) = (l2, w2)" by (rule prod.exhaust)
    have h: "hist w2 = hist w @ [(StPlan, e = None)]" using h1 logs_kept [OF o] Some q by simp
    obtain r3 w3 where enc: "encrypt_outputs rn cfg u ((succeeded c)\<lparr>BOutputs := Some []\<rparr>) w2 = (r3, w3)" by (rule prod.exhaust)
    obtain r4 l4 w4 where ap: "execute_apply env rn cfg (l2, w2) = (r4, l4, w4)" by (rule prod_cases3)
    show ?thesis using assms a Some q o h enc ap encrypt_follows [OF enc] apply_follows [OF ap]
      by (auto simp: execute_plan_def Let_def plan_tail_def split: option.splits if_splits)
  qed
qed

lemma destroy_follows:
  assumes "execute_destroy env rn (l, w) = (r, l', w')"
  shows "\<exists>tr. hist w' = hist w @ tr \<and> follows [StDestroy] tr (success r)"
proof -
  obtain s c e w1 where a: "RiDestroy rn w = ((s, c, e), w1)" by (metis prod.exhaust)
  obtain l2 w2 where o: "writeOutputWithNewline env s (l, w1) = (l2, w2)" by (rule prod.exhaust)
  have "hist w2 = hist w @ [(StDestroy, e = None)]" using destroy [OF a] logs_kept [OF o] by simp
  then show ?thesis using assms a o by (auto simp: execute_destroy_def split: option.splits)
qed

lemma tool_follows:
  assumes "execute_tool env rn cfg (l, w) = (r, l', w')"
  shows "\<exists>tr. hist w' = hist w @ tr \<and> follows (tl (workflow cfg)) tr (success r)"
proof -
  obtain s e w1 where v: "RiVersion rn w = ((s, e), w1)" by (metis prod.exhaust)
  obtain s2 e2 w2 where i: "RiInit rn w1 = ((s2, e2), w2)" by (metis prod.exhaust)
  obtain l3 w3 where o: "writeOutputWithNewline env s2 (l, w2) = (l3, w3)" by (rule prod.exhaust)
  have h: "hist w3 = hist w @ [(StVersion, e = None), (StInit, e2 = None)]" using version [OF v] init [OF i] logs_kept [OF o] by simp
  obtain r4 l4 w4 where d: "execute_destroy env rn (l3, w3) = (r4, l4, w4)" by (rule prod_cases3)
  obtain r5 l5 w5 where p: "execute_plan env rn cfg (l3, w3) = (r5, l5, w5)" by (rule prod_cases3)
  show ?thesis using assms v i o h d p version [OF v] destroy_follows [OF d] plan_follows [OF p]
    by (auto simp: execute_tool_def workflow_def DestroyMode_def Destroy_def split: option.splits if_splits)
qed

lemma executor_follows:
  assumes "execute_with_agent env rn cfg (l, w) = (r, l', w')"
  shows "\<exists>tr. hist w' = hist w @ tr \<and> follows (workflow cfg) tr (success r)"
proof -
  obtain e w1 where f: "RiCreateIaCFolder rn w = (e, w1)" by (rule prod.exhaust)
  obtain a w2 where a: "Launch (agent env) (path_join (SIaCCodeDir cfg) ''.ssh-agent'') w1 = (a, w2)" by (rule prod.exhaust)
  obtain r3 l3 w3 where t: "execute_tool env rn cfg (l, w2) = (r3, l3, w3)" by (rule prod_cases3)
  have w: "workflow cfg = StFolder # tl (workflow cfg)" by (simp add: workflow_def)
  show ?thesis
  proof (cases "e = None \<and> (\<exists>c. a = Some (Inr c))")
    case True
    then obtain c where c: "a = Some (Inr c)" by blast
    then have "r = r3" "w' = c w3" using assms f a t True by (auto simp: execute_with_agent_def)
    with tool_follows [OF t] closer [of _ w1 c w2 w3] launch [OF a] folder [OF f] a c True show ?thesis by (subst w) auto
  next
    case False
    then have "\<not> success r" "hist w' = hist w @ [(StFolder, e = None)]"
      using assms f a launch [OF a] folder [OF f] by (auto simp: execute_with_agent_def split: option.splits sum.splits)
    then show ?thesis by (subst w) simp
  qed
qed

end

subsection \<open>The runners of the model, recorded\<close>

definition plain :: "('o \<times> history) process \<Rightarrow> 'o process" where
  "plain p = \<lparr>penv = penv p, outer = fst (outer p)\<rparr>"

definition recording :: "stage \<Rightarrow> ('a \<Rightarrow> bool) \<Rightarrow> ('o process \<Rightarrow> 'a \<times> 'o process) \<Rightarrow> ('o \<times> history) process \<Rightarrow> 'a \<times> ('o \<times> history) process" where
  "recording s ok f p = (case f (plain p) of (r, w) \<Rightarrow> (r, \<lparr>penv = penv w, outer = (outer w, snd (outer p) @ [(s, ok r)])\<rparr>))"

definition unrecorded :: "('o process \<Rightarrow> 'a \<times> 'o process) \<Rightarrow> ('o \<times> history) process \<Rightarrow> 'a \<times> ('o \<times> history) process" where
  "unrecorded f p = (case f (plain p) of (r, w) \<Rightarrow> (r, \<lparr>penv = penv w, outer = (outer w, snd (outer p))\<rparr>))"

definition recorded_runner :: "'o process RunnerInterface \<Rightarrow> ('o \<times> history) process RunnerInterface" where
  "recorded_runner rn = \<lparr>RiCreateIaCFolder = recording StFolder (\<lambda>e. e = None) (RiCreateIaCFolder rn),
     RiVersion = recording StVersion (\<lambda>(_, e). e = None) (RiVersion rn), RiInit = recording StInit (\<lambda>(_, e). e = None) (RiInit rn),
     RiPlan = recording StPlan (\<lambda>p. case p of Some (_, _, _, e) \<Rightarrow> e = None | None \<Rightarrow> False) (RiPlan rn),
     RiApply = recording StApply (\<lambda>(_, _, e). e = None) (RiApply rn), RiDestroy = recording StDestroy (\<lambda>(_, _, e). e = None) (RiDestroy rn),
     RiOutput = recording StOutputs (\<lambda>u. case u of Some (Inr _) \<Rightarrow> True | _ \<Rightarrow> False) (RiOutput rn),
     RiOutputMetadata = (\<lambda>m. recording StMetadata (\<lambda>(_, e). e = None) (RiOutputMetadata rn m)),
     RiEncryptString = (\<lambda>t. recording StEncrypt (\<lambda>v. case v of Some (Inr _) \<Rightarrow> True | _ \<Rightarrow> False) (RiEncryptString rn t)),
     RiObserve = map_option unrecorded (RiObserve rn)\<rparr>"

definition beside :: "('o \<Rightarrow> 'a \<times> 'o) \<Rightarrow> 'o \<times> history \<Rightarrow> 'a \<times> 'o \<times> history" where
  "beside f x = (case f (fst x) of (r, y) \<Rightarrow> (r, y, snd x))"

definition recorded_agent :: "('b, 'k, 'o) agent_lib \<Rightarrow> ('b, 'k, 'o \<times> history) agent_lib" where
  "recorded_agent lib = \<lparr>pem_block = pem_block lib, raw_private_key = raw_private_key lib, keyring_add = keyring_add lib,
     listen_unix = (\<lambda>s. beside (listen_unix lib s)), chmod_600 = (\<lambda>s. beside (chmod_600 lib s)),
     serve_agent = (\<lambda>ks s x. (serve_agent lib ks s (fst x), snd x)), close_listener = (\<lambda>s. beside (close_listener lib s))\<rparr>"

definition recorded_env :: "('b, 'k, 'o) executor_env \<Rightarrow> ('b, 'k, 'o \<times> history) executor_env" where
  "recorded_env env = \<lparr>agent = recorded_agent (agent env), stat_error = (\<lambda>f p. stat_error env f (plain p)),
     stdout_write = (\<lambda>t. beside (stdout_write env t)), number_text = number_text env, ctx_err = (\<lambda>p. ctx_err env (plain p))\<rparr>"

lemma recording_history: "recording s ok f p = (r, p') \<Longrightarrow> snd (outer p') = snd (outer p) @ [(s, ok r)]"
  by (auto simp: recording_def split: prod.splits)

lemma beside_snd: "beside f x = (r, y) \<Longrightarrow> snd y = snd x"
  by (auto simp: beside_def split: prod.splits)

lemma Launch_history: "Launch (recorded_agent lib) d p = (l, p') \<Longrightarrow> snd (outer p') = snd (outer p)"
  by (auto simp: Launch_def recorded_agent_def Let_def dest!: beside_snd split: option.splits sum.splits prod.splits)

lemma closer_history:
  assumes "Launch (recorded_agent lib) d p = (Some (Inr k), p')"
  shows "snd (outer (k q)) = snd (outer q)"
proof -
  have "k = agent_closer (recorded_agent lib) d" using assms by (rule Launch_Inr)
  then show ?thesis by (auto simp: agent_closer_def recorded_agent_def beside_def split: prod.splits)
qed

interpretation recorded: recorded_execution "recorded_env env" "recorded_runner rn" "\<lambda>p. snd (outer p)" for env rn
proof
  show "snd (outer (w\<lparr>outer := snd (stdout_write (recorded_env env) t (outer w))\<rparr>)) = snd (outer w)" for t w
    by (simp add: recorded_env_def beside_def split: prod.splits)
  show "Launch (agent (recorded_env env)) d w = (l, w') \<Longrightarrow> snd (outer w') = snd (outer w)" for d w l w'
    by (simp add: recorded_env_def Launch_history)
  show "Launch (agent (recorded_env env)) d w = (Some (Inr k), w') \<Longrightarrow> snd (outer (k x)) = snd (outer x)" for d w k w' x
    by (rule closer_history) (simp add: recorded_env_def)
qed (auto simp: recorded_runner_def dest!: recording_history split: option.splits sum.splits)

subsection \<open>Properties\<close>

lemma encrypt_consistent:
  "consistent (Some (body, None)) \<Longrightarrow> encrypt_outputs rn cfg outs body w = (r, w') \<Longrightarrow> consistent r"
  by (auto simp: encrypt_outputs_def consistent_def failed_def split: prod.splits option.splits sum.splits if_splits)

lemma encrypt_succeeded_consistent:
  "encrypt_outputs rn cfg outs ((succeeded c)\<lparr>BOutputs := o1\<rparr>) w = (r, w') \<Longrightarrow> consistent r"
  "encrypt_outputs rn cfg outs ((succeeded c)\<lparr>BMetadata := md, BOutputs := o1\<rparr>) w = (r, w') \<Longrightarrow> consistent r"
  by (erule encrypt_consistent [rotated], simp)+

lemma report_consistent: "report_apply env rn cfg ch w = (r, w') \<Longrightarrow> consistent r"
  by (auto simp: report_apply_def Let_def intro: encrypt_succeeded_consistent split: prod.splits option.splits sum.splits if_splits)

lemma execute_apply_consistent: "execute_apply env rn cfg st = (r, st') \<Longrightarrow> consistent r"
  by (auto simp: execute_apply_def intro: report_consistent split: prod.splits option.splits)

lemma execute_plan_consistent: "execute_plan env rn cfg st = (r, st') \<Longrightarrow> consistent r"
  by (auto simp: execute_plan_def Let_def intro: encrypt_succeeded_consistent execute_apply_consistent split: prod.splits option.splits if_splits)

lemma execute_destroy_consistent: "execute_destroy env rn st = (r, st') \<Longrightarrow> consistent r"
  by (auto simp: execute_destroy_def split: prod.splits option.splits)

lemma execute_tool_consistent: "execute_tool env rn cfg st = (r, st') \<Longrightarrow> consistent r"
  by (auto simp: execute_tool_def intro: execute_plan_consistent execute_destroy_consistent split: prod.splits option.splits if_splits)

lemma execute_with_agent_consistent: "execute_with_agent env rn cfg st = (r, st') \<Longrightarrow> consistent r"
  by (auto simp: execute_with_agent_def intro: execute_tool_consistent split: prod.splits option.splits sum.splits)

lemma executeObservation_consistent: "executeObservation env cfg factory w = (r, w') \<Longrightarrow> consistent r"
  by (auto simp: executeObservation_def split: prod.splits option.splits sum.splits if_splits)

lemma ExecuteStandardMode_consistent: "ExecuteStandardMode env cfg factory st = (r, st') \<Longrightarrow> consistent r"
  by (auto simp: ExecuteStandardMode_def intro: executeObservation_consistent execute_with_agent_consistent
      split: prod.splits option.splits sum.splits if_splits)

text \<open>C35: the executor implements the workflow of its mode: it runs the stages in their order, stops at
  the first one that fails, and reports success only when all of them have succeeded, with a
  status that agrees with the error it returns. So nothing is applied without a successful plan,
  and planning and destroying never apply.\<close>

theorem workflow_refined:
  assumes "ExecuteStandardMode (recorded_env env) cfg (\<lambda>c. map_sum id recorded_runner (factory c))
      (l, \<lparr>penv = e, outer = (x, [])\<rparr>) = (r, l', p')"
    and "\<not> IsObservation cfg"
  shows "follows (workflow cfg) (snd (outer p')) (success r) \<and> consistent r"
proof
  show "consistent r" using assms(1) by (rule ExecuteStandardMode_consistent)
  show "follows (workflow cfg) (snd (outer p')) (success r)"
  proof (cases "ValidateObservationProtocol cfg = None \<and> SMode cfg \<in> {Deploy, Destroy, PlanOnly} \<and> (\<exists>rn. factory cfg = Inr rn)")
    case True
    then obtain rn where "factory cfg = Inr rn" by blast
    with True assms have "execute_with_agent (recorded_env env) (recorded_runner rn) cfg (l, \<lparr>penv = e, outer = (x, [])\<rparr>) = (r, l', p')"
      by (auto simp: ExecuteStandardMode_def)
    from recorded.executor_follows [OF this] show ?thesis by simp
  next
    case False
    then have "\<not> success r \<and> p' = \<lparr>penv = e, outer = (x, [])\<rparr>"
      using assms by (cases "factory cfg") (auto simp: ExecuteStandardMode_def split: option.splits sum.splits if_splits)
    then show ?thesis by simp
  qed
qed

text \<open>C36: an observation never starts a command that changes anything: with the runners of the factory,
  what it does and reports is independent of what starting a command outside the observation's
  own would do.\<close>

theorem observation_starts_no_command:
  assumes "IsObservation cfg"
  shows "ExecuteStandardMode env cfg (CreateRunner (mc\<lparr>combined_output := f\<rparr>) lib jn) st = ExecuteStandardMode env cfg (CreateRunner mc lib jn) st"
proof -
  let ?mc = "mc\<lparr>combined_output := f\<rparr>"
  have o: "RiObserve (runner_of ?mc r fl ofl) = RiObserve (runner_of mc r fl ofl)" for r fl ofl
    by (simp add: runner_of_def observe_of_def base_Observe_def fun_eq_iff)
  have m: "untar ?mc = untar mc" "disk_of ?mc = disk_of mc" by simp_all
  have c: "RiCreateIaCFolder (runner_of ?mc r fl ofl) = RiCreateIaCFolder (runner_of mc r fl ofl)" for r fl ofl
    unfolding runner_of_def RunnerInterface.simps CreateIaCFolder_def [abs_def] m ..
  have "executeObservation env cfg (CreateRunner ?mc lib jn) w = executeObservation env cfg (CreateRunner mc lib jn) w" for w
    by (simp add: executeObservation_def CreateRunner_def TerraformRunner_def OpenTofuRunner_def o c split: option.splits sum.splits)
  then show ?thesis using assms by (simp add: ExecuteStandardMode_def split: option.splits)
qed

subsection \<open>The theorems at work\<close>

definition quiet_agent :: "(unit, unit, unit) agent_lib" where
  "quiet_agent = \<lparr>pem_block = (\<lambda>_. None), raw_private_key = (\<lambda>_. Inr ()), keyring_add = (\<lambda>_ _. None), listen_unix = (\<lambda>_ x. (None, x)),
     chmod_600 = (\<lambda>_ x. (None, x)), serve_agent = (\<lambda>_ _ x. x), close_listener = (\<lambda>_ x. (None, x))\<rparr>"

definition quiet_executor :: "(unit, unit, unit) executor_env" where
  "quiet_executor = \<lparr>agent = quiet_agent, stat_error = (\<lambda>_ _. None), stdout_write = (\<lambda>p x. ((length p, None), x)), number_text = Some,
     ctx_err = (\<lambda>_. False)\<rparr>"

definition quiet_runner :: "unit process RunnerInterface" where
  "quiet_runner = \<lparr>RiCreateIaCFolder = (\<lambda>w. (None, w)), RiVersion = (\<lambda>w. ((''v1'', None), w)), RiInit = (\<lambda>w. ((''init'', None), w)),
     RiPlan = (\<lambda>w. (Some (''plan'', Some [], None, None), w)), RiApply = (\<lambda>w. ((''apply'', None, None), w)),
     RiDestroy = (\<lambda>w. ((''destroy'', None, None), w)), RiOutput = (\<lambda>w. (Some (Inr []), w)),
     RiOutputMetadata = (\<lambda>_ w. ((''null'', None), w)), RiEncryptString = (\<lambda>_ w. (Some (Inr ''x''), w)), RiObserve = None\<rparr>"

definition demo_deployment :: "RunnerMode \<Rightarrow> string \<Rightarrow> StandardModeConfiguration" where
  "demo_deployment mode protocol = \<lparr>SLogLevel = ''info'', SOrgID = ''o'', SRunnerID = ''r'', SDeploymentID = ''d'', SDeploymentEnvUUID = [],
     SMode = mode, SObservationProtocol = protocol, SEncryptingKey = [], SMetadataKey = ''m'', SIaCCodeDir = ''/w'', SIaCBackend = BackendOpenTofu,
     SEncryptingLogsKey = [], SDeploymentToken = ''t'',
     SGateway = \<lparr>GwURL = ''https://g'', GwCAFile = [], GwClientCertFile = [], GwClientKeyFile = [], GwOutboxDir = []\<rparr>\<rparr>"

definition demo_start :: "logs \<times> (unit \<times> history) process" where
  "demo_start = ((NewLimitedLogsBuffer 100, []), \<lparr>penv = (\<lambda>_. None), outer = ((), [])\<rparr>)"

definition demo_run :: "verdict option \<times> logs \<times> (unit \<times> history) process" where
  "demo_run = ExecuteStandardMode (recorded_env quiet_executor) (demo_deployment Deploy []) (\<lambda>c. map_sum id recorded_runner (Inr quiet_runner)) demo_start"

lemma demo_reported: "map_option snd (fst demo_run) = Some None" "snd (fst (snd demo_run)) = ''init\<newline>plan\<newline>apply\<newline>''"
  by code_simp+

theorem workflow_refined_witness:
  "snd (outer (snd (snd demo_run))) = map (\<lambda>s. (s, True)) [StFolder, StVersion, StInit, StPlan, StApply, StMetadata]"
proof -
  obtain r l p where d: "demo_run = (r, l, p)" by (rule prod_cases3)
  have "\<not> IsObservation (demo_deployment Deploy [])" by (simp add: IsObservation_def demo_deployment_def mode_defs)
  moreover have "success r" using demo_reported(1) unfolding d by (auto simp: success_def)
  ultimately have f: "follows (workflow (demo_deployment Deploy [])) (snd (outer p)) True"
    using workflow_refined [OF d [unfolded demo_run_def demo_start_def]] by simp
  have "workflow (demo_deployment Deploy []) = [StFolder, StVersion, StInit, StPlan, StApply, StMetadata]"
    by (simp add: workflow_def demo_deployment_def apply_tail_def mode_defs)
  with f show ?thesis unfolding d by (auto simp: follows_def list_all_iff)
qed

theorem observation_starts_no_command_witness:
  "\<forall>mc f lib jn st. ExecuteStandardMode quiet_executor (demo_deployment PlanOnly ObservationProtocolV1) (CreateRunner (mc\<lparr>combined_output := f\<rparr>) lib jn) st
     = ExecuteStandardMode quiet_executor (demo_deployment PlanOnly ObservationProtocolV1) (CreateRunner mc lib jn) st"
proof -
  have "IsObservation (demo_deployment PlanOnly ObservationProtocolV1)" by (simp add: IsObservation_def demo_deployment_def)
  then show ?thesis by (simp add: observation_starts_no_command)
qed

end
