(* ===== verification/Outbox.thy ===== *)
theory Outbox
  imports Files Client
begin

section \<open>The outbox (internal/gatewayapi/outbox.go)\<close>

text \<open>
  Results and logs that the gateway does not take are spooled to a directory and sent again
  later. The state is the network and the file system. The outbox holds its lock during
  \<open>store\<close> and \<open>Flush\<close>, so both are sequential.
\<close>

record outboxOperation =
  Kind :: string
  OpOrganizationID :: string
  OpRunnerID :: string
  OpDeploymentID :: string
  OpEnvironmentID :: string
  OpDeploymentToken :: string
  OpContent :: bytes

record Outbox =
  directory :: string
  client :: Client

definition NewOutbox :: "string \<Rightarrow> Client option \<Rightarrow> fs \<Rightarrow> Outbox result \<times> fs" where
  "NewOutbox dir c s = (if trim_space dir = [] then (Inl (ErrNew ''outbox directory and gateway client are required''), s)
     else (case c of None \<Rightarrow> (Inl (ErrNew ''outbox directory and gateway client are required''), s)
       | Some c \<Rightarrow> (case sys_noop s of
           (Inl e, s) \<Rightarrow> (Inl (ErrWrap ''create gateway outbox'' e), s)
         | (Inr _, s) \<Rightarrow> (Inr \<lparr>directory = dir, client = c\<rparr>, s))))"

subsection \<open>The operations on disk\<close>

text \<open>\<open>json.Marshal\<close> of a raw message checks and compacts it.\<close>

definition marshal_raw :: "bytes \<Rightarrow> bytes result" where
  "marshal_raw bs = (if bs = [] then Inr ''null'' else if json_decode bs = None then Inl (ErrNew ''invalid raw message'')
     else Inr (json_compact Outside bs))"

definition marshal_operation :: "outboxOperation \<Rightarrow> bytes result" where
  "marshal_operation op = (case marshal_raw (OpContent op) of Inl e \<Rightarrow> Inl e
     | Inr raw \<Rightarrow> Inr (''{\"kind\":'' @ json_quote (Kind op) @ '',\"organization_id\":'' @ json_quote (OpOrganizationID op)
         @ '',\"runner_id\":'' @ json_quote (OpRunnerID op) @ '',\"deployment_id\":'' @ json_quote (OpDeploymentID op)
         @ (if OpEnvironmentID op = [] then [] else '',\"environment_id\":'' @ json_quote (OpEnvironmentID op))
         @ '',\"deployment_token\":'' @ json_quote (OpDeploymentToken op) @ '',\"content\":'' @ raw @ ''}''))"

definition unmarshal_operation :: "bytes \<Rightarrow> outboxOperation option" where
  "unmarshal_operation bs = do {
     ms \<leftarrow> decode_struct bs;
     k \<leftarrow> get_field into_str ''kind'' ms [];
     g \<leftarrow> get_field into_str ''organization_id'' ms [];
     r \<leftarrow> get_field into_str ''runner_id'' ms [];
     d \<leftarrow> get_field into_str ''deployment_id'' ms [];
     e \<leftarrow> get_field into_str ''environment_id'' ms [];
     t \<leftarrow> get_field into_str ''deployment_token'' ms [];
     c \<leftarrow> get_field into_raw ''content'' ms [];
     Some \<lparr>Kind = k, OpOrganizationID = g, OpRunnerID = r, OpDeploymentID = d, OpEnvironmentID = e,
       OpDeploymentToken = t, OpContent = c\<rparr> }"

definition operation_name :: "crypto \<Rightarrow> outboxOperation \<Rightarrow> string" where
  "operation_name cr op = hex_encode (sha256 cr (Kind op @ CHR 0x00 # OpOrganizationID op @ CHR 0x00 # OpRunnerID op
     @ CHR 0x00 # OpDeploymentID op)) @ ''.json''"

text \<open>Opening a directory and closing it have no effect of their own; an empty path does not open;
  the close is deferred.\<close>

definition syncOutboxDirectory :: "string \<Rightarrow> unit sys" where
  "syncOutboxDirectory dir s = (case sys_noop s of (Inl e, s) \<Rightarrow> (Inl e, s)
     | (Inr _, s) \<Rightarrow> if dir = [] then (Inl ErrNotExist, s) else (case sys_sync_dir dir s of (r, s) \<Rightarrow> (r, snd (sys_noop s))))"

definition store :: "crypto \<Rightarrow> Outbox \<Rightarrow> outboxOperation \<Rightarrow> unit sys" where
  "store cr ob op s = (case marshal_operation op of Inl e \<Rightarrow> (Inl e, s)
     | Inr bs \<Rightarrow> replace_file (directory ob) ''.pending-'' (join_path (directory ob) (operation_name cr op)) bs
         (syncOutboxDirectory (directory ob)) s)"

subsection \<open>Sending or spooling\<close>

definition as_error :: "'a result \<Rightarrow> goerr option" where
  "as_error r = (case r of Inl e \<Rightarrow> Some e | Inr _ \<Rightarrow> None)"

definition result_operation :: "Outbox \<Rightarrow> string \<Rightarrow> string \<Rightarrow> bytes \<Rightarrow> outboxOperation" where
  "result_operation ob deploymentID token content = \<lparr>Kind = ''result'', OpOrganizationID = organizationID (client ob),
     OpRunnerID = runnerID (client ob), OpDeploymentID = deploymentID, OpEnvironmentID = [],
     OpDeploymentToken = token, OpContent = content\<rparr>"

definition logs_operation :: "Outbox \<Rightarrow> string \<Rightarrow> string \<Rightarrow> string \<Rightarrow> bytes \<Rightarrow> outboxOperation" where
  "logs_operation ob environmentID deploymentID token content = \<lparr>Kind = ''logs'', OpOrganizationID = organizationID (client ob),
     OpRunnerID = runnerID (client ob), OpDeploymentID = deploymentID, OpEnvironmentID = environmentID,
     OpDeploymentToken = token, OpContent = content\<rparr>"

definition PostResults :: "crypto \<Rightarrow> 'h http \<Rightarrow> Outbox \<Rightarrow> string \<Rightarrow> string \<Rightarrow> bytes result \<Rightarrow> 'h \<times> fs \<Rightarrow> goerr option \<times> 'h \<times> fs" where
  "PostResults cr http_do ob deploymentID token results hs =
     (case ClientPostResults http_do (client ob) deploymentID token results (fst hs) of
        (None, h) \<Rightarrow> (None, h, snd hs)
      | (Some _, h) \<Rightarrow> (case results of Inl e \<Rightarrow> (Some e, h, snd hs)
          | Inr content \<Rightarrow> (case store cr ob (result_operation ob deploymentID token content) (snd hs) of
              (r, s) \<Rightarrow> (as_error r, h, s))))"

definition PutLogs :: "crypto \<Rightarrow> 'h http \<Rightarrow> Outbox \<Rightarrow> string \<Rightarrow> string \<Rightarrow> string \<Rightarrow> string \<Rightarrow> 'h \<times> fs \<Rightarrow> goerr option \<times> 'h \<times> fs" where
  "PutLogs cr http_do ob environmentID deploymentID token encryptedLogs hs =
     (case ClientPutLogs http_do (client ob) environmentID deploymentID token (Reader [encryptedLogs] None) (fst hs) of
        (None, h) \<Rightarrow> (None, h, snd hs)
      | (Some _, h) \<Rightarrow>
        (case store cr ob (logs_operation ob environmentID deploymentID token (json_quote encryptedLogs)) (snd hs) of
           (r, s) \<Rightarrow> (as_error r, h, s)))"

subsection \<open>Flushing\<close>

text \<open>\<open>json.Unmarshal\<close> into a string.\<close>

definition unmarshal_string :: "bytes \<Rightarrow> string option" where
  "unmarshal_string bs = Option.bind (json_decode bs) (\<lambda>v. into_str [] (bs, v))"

definition send_operation :: "'h http \<Rightarrow> Outbox \<Rightarrow> string \<Rightarrow> outboxOperation \<Rightarrow> 'h \<Rightarrow> goerr option \<times> 'h" where
  "send_operation http_do ob name op h =
     (if OpOrganizationID op \<noteq> organizationID (client ob) \<or> OpRunnerID op \<noteq> runnerID (client ob)
      then (Some (ErrNew (''gateway outbox operation '' @ name @ '' belongs to another runner'')), h)
      else if Kind op = ''result''
      then ClientPostResults http_do (client ob) (OpDeploymentID op) (OpDeploymentToken op) (marshal_raw (OpContent op)) h
      else if Kind op = ''logs''
      then (case unmarshal_string (OpContent op) of
          None \<Rightarrow> (Some (ErrNew ''decode spooled encrypted logs''), h)
        | Some logs \<Rightarrow> ClientPutLogs http_do (client ob) (OpEnvironmentID op) (OpDeploymentID op) (OpDeploymentToken op)
            (Reader [logs] None) h)
      else (Some (ErrNew (''gateway outbox operation '' @ name @ '' has unknown kind '' @ go_quote (Kind op))), h))"

definition flush_entry :: "'h http \<Rightarrow> Outbox \<Rightarrow> string \<Rightarrow> 'h \<times> fs \<Rightarrow> goerr option \<times> 'h \<times> fs" where
  "flush_entry http_do ob name hs = (let path = join_path (directory ob) name in
     case sys_read_file path (snd hs) of (Inl e, s) \<Rightarrow> (Some e, fst hs, s)
   | (Inr bs, s) \<Rightarrow> (case unmarshal_operation bs of
       None \<Rightarrow> (Some (ErrNew (''decode gateway outbox operation '' @ name)), fst hs, s)
     | Some op \<Rightarrow> (case send_operation http_do ob name op (fst hs) of
         (Some e, h) \<Rightarrow> (Some e, h, s)
       | (None, h) \<Rightarrow> (case sys_remove path s of (Inl e, s) \<Rightarrow> (Some e, h, s)
         | (Inr _, s) \<Rightarrow> (case syncOutboxDirectory (directory ob) s of (r, s) \<Rightarrow> (as_error r, h, s))))))"

definition json_name :: "string \<Rightarrow> bool" where
  "json_name name \<longleftrightarrow> suffix ''.json'' name"

fun flush_entries :: "'h http \<Rightarrow> Outbox \<Rightarrow> (string \<times> bool) list \<Rightarrow> 'h \<times> fs \<Rightarrow> goerr option \<times> 'h \<times> fs" where
  "flush_entries http_do ob [] hs = (None, hs)"
| "flush_entries http_do ob ((name, is_dir) # es) hs =
     (if is_dir \<or> \<not> json_name name then flush_entries http_do ob es hs
      else (case flush_entry http_do ob name hs of (Some e, hs) \<Rightarrow> (Some e, hs)
        | (None, hs) \<Rightarrow> flush_entries http_do ob es hs))"

definition Flush :: "'h http \<Rightarrow> Outbox \<Rightarrow> 'h \<times> fs \<Rightarrow> goerr option \<times> 'h \<times> fs" where
  "Flush http_do ob hs = (case sys_read_dir (directory ob) (snd hs) of
     (Inl e, s) \<Rightarrow> (Some e, fst hs, s)
   | (Inr entries, s) \<Rightarrow> flush_entries http_do ob (sort_key fst entries) (fst hs, s))"

subsection \<open>The file of an operation\<close>

lemma settles_syncOutboxDirectory: "settles d (syncOutboxDirectory dir)" if "dir \<noteq> [] \<Longrightarrow> d = dir"
  using that unfolding settles_def
  by (auto simp: syncOutboxDirectory_def sys_noop_def sys_sync_dir_def syscall_def Let_def split: option.splits if_splits)

lemma operation_name_facts: "CHR ''/'' \<notin> set (operation_name cr op)" "operation_name cr op \<noteq> ''.pending-'' @ x"
proof -
  have h: "c \<in> set (hex_encode bs) \<Longrightarrow> c \<noteq> CHR ''/'' \<and> c \<noteq> CHR ''.''" for c bs
    by (rule hex_encode_plain)
  then show "CHR ''/'' \<notin> set (operation_name cr op)" unfolding operation_name_def by auto
  obtain bs where n: "operation_name cr op = hex_encode bs @ ''.json''" unfolding operation_name_def by blast
  show "operation_name cr op \<noteq> ''.pending-'' @ x"
  proof (cases "hex_encode bs")
    case (Cons c cs)
    then show ?thesis using n h [of c bs] by auto
  qed (simp add: n)
qed

interpretation outbox_file: atomic_store
  "\<lambda>bs. replace_file (directory ob) ''.pending-'' (join_path (directory ob) (operation_name cr op)) bs
     (syncOutboxDirectory (directory ob))" "join_path (directory ob) (operation_name cr op)" for cr ob op
proof unfold_locales
  let ?t = "join_path (directory ob) (operation_name cr op)" and ?d = "directory ob"
  have f: "settles (dir_of ?t) (syncOutboxDirectory ?d)"
    by (rule settles_syncOutboxDirectory) (simp add: dir_of_join operation_name_facts)
  show "fs_wf (snd (replace_file ?d ''.pending-'' ?t bs (syncOutboxDirectory ?d) s))" if "fs_wf s" for s bs
    using that f by (rule replace_file_wf)
  have "?t \<noteq> temp_path s ?d ''.pending-''" for s
    using operation_name_facts(2) by (auto simp: temp_path_def join_path_def)
  then show "survivors s' ?t \<subseteq> survivors s ?t \<union> {Some bs}
      \<and> (r = Inr () \<longrightarrow> survivors s' ?t = {Some bs} \<and> lookup s' ?t = Some bs)"
    if "fs_wf s" "replace_file ?d ''.pending-'' ?t bs (syncOutboxDirectory ?d) s = (r, s')" for s bs r s'
    using replace_file_atomic [OF that(1) f _ that(2)] by blast
qed

subsection \<open>Operations survive the disk\<close>

lemma compact_esc:
  assumes "byte_in 0 0x7F c"
  shows "json_compact InString (esc_ascii c @ r) = esc_ascii c @ json_compact InString r"
proof -
  have "(of_char c :: nat) div 16 < 16" "(of_char c :: nat) mod 16 < 16" using assms by auto
  note h = this [THEN hex_char_plain]
  have "c \<noteq> CHR 0xE2" using assms by auto
  with h show ?thesis by (auto simp: esc_ascii_def next_mode_def)
qed

lemma compact_quote: "ascii t \<Longrightarrow> json_compact Outside (json_quote t) = json_quote t"
proof -
  have "ascii t \<Longrightarrow> json_compact InString (json_escape t @ [CHR 0x22]) = json_escape t @ [CHR 0x22]"
  proof (induction t)
    case (Cons c cs)
    then show ?case using compact_esc [of c] by simp
  qed (simp add: next_mode_def)
  then show "ascii t \<Longrightarrow> json_compact Outside (json_quote t) = json_quote t"
    by (simp add: json_quote_def next_mode_def json_ws_def)
qed

text \<open>An operation whose content is printed in the plain form is read back as it was stored, with the
  content compacted.\<close>

definition operation_members :: "json \<Rightarrow> outboxOperation \<Rightarrow> (string \<times> bytes \<times> json) list" where
  "operation_members v op = [member ''kind'' (JStr (Kind op)), member ''organization_id'' (JStr (OpOrganizationID op)),
     member ''runner_id'' (JStr (OpRunnerID op)), member ''deployment_id'' (JStr (OpDeploymentID op))]
     @ (if OpEnvironmentID op = [] then [] else [member ''environment_id'' (JStr (OpEnvironmentID op))])
     @ [member ''deployment_token'' (JStr (OpDeploymentToken op)), member ''content'' v]"

definition operation_ascii :: "outboxOperation \<Rightarrow> bool" where
  "operation_ascii op \<longleftrightarrow> ascii (Kind op) \<and> ascii (OpOrganizationID op) \<and> ascii (OpRunnerID op) \<and> ascii (OpDeploymentID op)
     \<and> ascii (OpEnvironmentID op) \<and> ascii (OpDeploymentToken op)"

lemma marshal_operation_members:
  assumes "marshal_raw (OpContent op) = Inr (json_encode v)"
  shows "marshal_operation op = Inr (encode_struct (operation_members v op))"
proof -
  have "json_quote ''kind'' = ''\"kind\"''" "json_quote ''organization_id'' = ''\"organization_id\"''"
      "json_quote ''runner_id'' = ''\"runner_id\"''" "json_quote ''deployment_id'' = ''\"deployment_id\"''"
      "json_quote ''environment_id'' = ''\"environment_id\"''" "json_quote ''deployment_token'' = ''\"deployment_token\"''"
      "json_quote ''content'' = ''\"content\"''"
    by code_simp+
  then show ?thesis using assms
    by (simp add: marshal_operation_def operation_members_def encode_struct_def member_def)
qed

lemma unmarshal_marshal_operation:
  assumes "marshal_raw (OpContent op) = Inr (json_encode v)" and "json_wf v" and "operation_ascii op"
  shows "\<exists>bs. marshal_operation op = Inr bs \<and> unmarshal_operation bs = Some (op\<lparr>OpContent := json_encode v\<rparr>)"
proof -
  have "members_wf (operation_members v op)" using assms(2,3) by (simp add: operation_members_def operation_ascii_def)
  then have "decode_struct (encode_struct (operation_members v op)) = Some (operation_members v op)" by simp
  then show ?thesis using marshal_operation_members [OF assms(1)]
    by (simp add: unmarshal_operation_def operation_members_def get_field_member equal_fold_def to_lower_def into_raw_def)
qed

lemma marshal_raw_quote: "ascii t \<Longrightarrow> marshal_raw (json_quote t) = Inr (json_encode (JStr t))"
  using json_decode_encode [of "JStr t"] by (simp add: marshal_raw_def compact_quote) (simp add: json_quote_def)

lemma unmarshal_quote: "ascii t \<Longrightarrow> unmarshal_string (json_quote t) = Some t"
  using json_decode_encode [of "JStr t"] by (simp add: unmarshal_string_def)

subsection \<open>Flushing loses nothing\<close>

text \<open>The transport with a history of the requests that were answered, and their status.\<close>

type_synonym history = "(client_request \<times> nat) list"

definition recorded :: "'h http \<Rightarrow> ('h \<times> history) http" where
  "recorded http_do q hl = (case http_do q (fst hl) of
     (Inl e, h) \<Rightarrow> (Inl e, h, snd hl) | (Inr r, h) \<Rightarrow> (Inr r, h, (q, StatusCode r) # snd hl))"

definition operation_request :: "Outbox \<Rightarrow> outboxOperation \<Rightarrow> client_request option" where
  "operation_request ob op =
     (if Kind op = ''result'' then (case marshal_raw (OpContent op) of Inl e \<Rightarrow> None
        | Inr body \<Rightarrow> Some \<lparr>ReqMethod = ''POST'', ReqURL = runnerURL (client ob) (''/deployments/'' @ path_escape (OpDeploymentID op) @ ''/results''),
            ReqHeaders = [(''Content-Type'', ''application/json''), (DeploymentTokenHeader, OpDeploymentToken op)],
            ReqContent = Reader [body] None\<rparr>)
      else if Kind op = ''logs'' then (case unmarshal_string (OpContent op) of None \<Rightarrow> None
        | Some logs \<Rightarrow> Some \<lparr>ReqMethod = ''PUT'', ReqURL = runnerURL (client ob) (''/environments/'' @ path_escape (OpEnvironmentID op)
              @ ''/deployments/'' @ path_escape (OpDeploymentID op) @ ''/logs''),
            ReqHeaders = [(''Content-Type'', ''application/octet-stream''), (DeploymentTokenHeader, OpDeploymentToken op)],
            ReqContent = Reader [logs] None\<rparr>)
      else None)"

definition accepted :: "Outbox \<Rightarrow> bytes \<Rightarrow> history \<Rightarrow> bool" where
  "accepted ob bs log \<longleftrightarrow> (\<exists>op q. unmarshal_operation bs = Some op \<and> operation_request ob op = Some q \<and> (q, 202) \<in> set log)"

lemma recorded_grows: "recorded http_do q hl = (r, hl') \<Longrightarrow> set (snd hl) \<subseteq> set (snd hl')"
  by (auto simp: recorded_def split: prod.splits sum.splits)

lemma expectStatus_grows: "expectStatus (recorded http_do) q n x hl = (r, hl') \<Longrightarrow> set (snd hl) \<subseteq> set (snd hl')"
  using recorded_grows [of http_do q hl] by (auto simp: expectStatus_def split: prod.splits sum.splits)

lemma expectStatus_recorded: "expectStatus (recorded http_do) q n x hl = (None, hl') \<Longrightarrow> (q, n) \<in> set (snd hl')"
  by (auto simp: expectStatus_def recorded_def split: prod.splits sum.splits if_splits)

lemma send_operation_recorded:
  assumes "send_operation (recorded http_do) ob name op hl = (r, hl')"
  shows "set (snd hl) \<subseteq> set (snd hl')"
    and "r = None \<Longrightarrow> \<exists>q. operation_request ob op = Some q \<and> (q, 202) \<in> set (snd hl')"
  using assms
  by (auto simp: send_operation_def operation_request_def ClientPostResults_def ClientPutLogs_def
      dest: expectStatus_grows expectStatus_recorded split: if_splits sum.splits option.splits)

lemma kept_sync: "fs_wf s \<Longrightarrow> syncOutboxDirectory dir s = (r, s') \<Longrightarrow> kept p s s' \<and> fs_wf s'"
proof -
  assume wf: "fs_wf s" and s': "syncOutboxDirectory dir s = (r, s')"
  have "settles dir (syncOutboxDirectory dir)" by (rule settles_syncOutboxDirectory) simp
  with s' obtain n where "s' = s\<lparr>ticks := n\<rparr> \<or> s' = (settle dir s)\<lparr>ticks := n\<rparr>" unfolding settles_def by blast
  then show ?thesis using wf kept_settle fs_wf_settle by auto
qed

lemma flush_entry_kept:
  assumes "fs_wf s" and "flush_entry (recorded http_do) ob name (hl, s) = (r, hl', s')"
  shows "fs_wf s'" "set (snd hl) \<subseteq> set (snd hl')"
    and "kept p s s' \<or> (\<exists>bs. lookup s p = Some bs \<and> accepted ob bs (snd hl'))"
proof -
  let ?path = "join_path (directory ob) name"
  obtain x s1 where rd: "sys_read_file ?path s = (x, s1)" by fastforce
  have s1: "s1 = s\<lparr>ticks := Suc (ticks s)\<rparr>" and x: "\<And>bs. x = Inr bs \<Longrightarrow> lookup s ?path = Some bs"
    using rd by (auto simp: sys_read_file_def syscall_def Let_def split: option.splits)
  have wf1: "fs_wf s1" using assms(1) s1 by simp
  have "fs_wf s' \<and> set (snd hl) \<subseteq> set (snd hl') \<and> (kept p s s' \<or> (\<exists>bs. lookup s p = Some bs \<and> accepted ob bs (snd hl')))"
  proof (cases "\<exists>bs op. x = Inr bs \<and> unmarshal_operation bs = Some op \<and> fst (send_operation (recorded http_do) ob name op hl) = None")
    case False
    then have "s' = s1" "hl' = hl \<or> (\<exists>op e. send_operation (recorded http_do) ob name op hl = (Some e, hl'))"
      using assms(2) rd by (auto simp: flush_entry_def Let_def split: sum.splits option.splits prod.splits)
    moreover from this have "set (snd hl) \<subseteq> set (snd hl')" using send_operation_recorded(1) by blast
    ultimately show ?thesis using wf1 s1 by simp
  next
    case True
    then obtain bs op hl1 where o: "x = Inr bs" "unmarshal_operation bs = Some op"
        "send_operation (recorded http_do) ob name op hl = (None, hl1)" by (metis prod.collapse)
    have acc: "accepted ob bs (snd hl1)" "set (snd hl) \<subseteq> set (snd hl1)"
      using send_operation_recorded [OF o(3)] o(2) unfolding accepted_def by blast+
    obtain y s2 where rm: "sys_remove ?path s1 = (y, s2)" by fastforce
    have wf2: "fs_wf s2" using fs_wf_remove [OF wf1, of ?path] rm by simp
    have "hl' = hl1 \<and> (s' = s2 \<or> (\<exists>z. syncOutboxDirectory (directory ob) s2 = (z, s')))"
      using assms(2) rd o rm by (auto simp: flush_entry_def Let_def split: sum.splits prod.splits)
    moreover have "kept p s s2" if "p \<noteq> ?path" using kept_remove [OF that, of s1] rm s1 by (auto intro: kept_trans [OF kept_tick])
    ultimately show ?thesis using wf2 kept_sync [OF wf2] acc x [OF o(1)] kept_trans by (cases "p = ?path") blast+
  qed
  then show "fs_wf s'" "set (snd hl) \<subseteq> set (snd hl')"
    and "kept p s s' \<or> (\<exists>bs. lookup s p = Some bs \<and> accepted ob bs (snd hl'))" by blast+
qed

lemma flush_entries_kept:
  assumes "fs_wf s" and "flush_entries (recorded http_do) ob es (hl, s) = (r, hl', s')"
  shows "set (snd hl) \<subseteq> set (snd hl') \<and> (kept p s s' \<or> (\<exists>bs. lookup s p = Some bs \<and> accepted ob bs (snd hl')))"
  using assms
proof (induction es arbitrary: hl s)
  case (Cons e es)
  obtain name is_dir where e: "e = (name, is_dir)" by fastforce
  show ?case
  proof (cases "is_dir \<or> \<not> json_name name")
    case True
    with Cons e show ?thesis by simp
  next
    case False
    obtain r1 hl1 s1 where f: "flush_entry (recorded http_do) ob name (hl, s) = (r1, hl1, s1)" by (metis prod_cases3)
    note k = flush_entry_kept(1,2) [OF Cons.prems(1) f] flush_entry_kept(3) [OF Cons.prems(1) f, of p]
    show ?thesis
    proof (cases r1)
      case (Some x)
      then have "hl' = hl1" "s' = s1" using Cons.prems(2) e False f by auto
      with k show ?thesis by simp
    next
      case None
      then have "flush_entries (recorded http_do) ob es (hl1, s1) = (r, hl', s')" using Cons.prems(2) e False f by simp
      note ih = Cons.IH [OF k(1) this]
      have mono: "accepted ob bs (snd hl1) \<Longrightarrow> accepted ob bs (snd hl')" for bs using ih unfolding accepted_def by blast
      show ?thesis using k(2,3) ih mono kept_trans [of p s s1 s'] unfolding kept_def by (metis subset_trans)
    qed
  qed
qed simp

subsection \<open>Properties\<close>

text \<open>C16: storing an operation is atomic and durable. Whatever call fails and whenever the machine
  loses power, the operation's file holds what it held before or the complete new operation;
  once \<open>store\<close> has reported success, it holds the new operation after every crash.\<close>

theorem store_atomic_durable:
  assumes "fs_wf s" and "marshal_operation op = Inr bs" and "store cr ob op s = (r, s')"
  shows "survivors s' (join_path (directory ob) (operation_name cr op))
      \<subseteq> survivors s (join_path (directory ob) (operation_name cr op)) \<union> {Some bs}
    \<and> (r = Inr () \<longrightarrow> survivors s' (join_path (directory ob) (operation_name cr op)) = {Some bs}
        \<and> lookup s' (join_path (directory ob) (operation_name cr op)) = Some bs)"
  using outbox_file.put_atomic [OF assms(1), of ob cr op bs r s'] assms(2,3) by (simp add: store_def)

text \<open>C17: results are never lost silently: when posting succeeds, the gateway has accepted exactly this
  request, or the outbox durably holds an operation that decodes to this deployment, token and
  content and belongs to this runner.\<close>

theorem posted_results_kept:
  assumes "fs_wf s" and "marshal_raw content = Inr (json_encode v)" and "json_wf v"
    and "operation_ascii (result_operation ob d token content)"
    and "PostResults cr http_do ob d token (Inr content) (h, s) = (None, h', s')"
  shows "(ClientPostResults http_do (client ob) d token (Inr content) h = (None, h') \<and> s' = s)
    \<or> (\<exists>bs. survivors s' (join_path (directory ob) (operation_name cr (result_operation ob d token content))) = {Some bs}
        \<and> unmarshal_operation bs = Some (result_operation ob d token (json_encode v)))"
proof (cases "ClientPostResults http_do (client ob) d token (Inr content) h")
  case (Pair x h1)
  show ?thesis
  proof (cases x)
    case None
    with Pair assms(5) show ?thesis by (simp add: PostResults_def)
  next
    case (Some e)
    let ?op = "result_operation ob d token content"
    obtain bs where bs: "marshal_operation ?op = Inr bs" "unmarshal_operation bs = Some (?op\<lparr>OpContent := json_encode v\<rparr>)"
      using unmarshal_marshal_operation [of ?op v] assms(2-4) by (auto simp: result_operation_def)
    have "store cr ob ?op s = (Inr (), s')"
      using assms(5) Pair Some by (auto simp: PostResults_def as_error_def split: prod.splits sum.splits)
    then have "survivors s' (join_path (directory ob) (operation_name cr ?op)) = {Some bs}"
      using outbox_file.put_atomic [OF assms(1), of ob cr ?op bs "Inr ()" s'] bs(1) by (simp add: store_def)
    with bs(2) show ?thesis by (auto simp: result_operation_def)
  qed
qed

text \<open>C18: flushing loses nothing, whatever fails on the way. Every path keeps its contents, for a crash
  too, unless it held an operation whose request the gateway has answered with 202.\<close>

theorem flush_loses_nothing:
  assumes "fs_wf s" and "Flush (recorded http_do) ob (hl, s) = (r, hl', s')"
  shows "(lookup s' p = lookup s p \<and> survivors s' p \<subseteq> survivors s p)
    \<or> (\<exists>bs. lookup s p = Some bs \<and> accepted ob bs (snd hl'))"
proof -
  let ?s = "s\<lparr>ticks := Suc (ticks s)\<rparr>"
  have "s' = ?s \<or> (\<exists>es. flush_entries (recorded http_do) ob es (hl, ?s) = (r, hl', s'))"
    using assms(2) by (auto simp: Flush_def sys_read_dir_def syscall_def Let_def split: option.splits)
  then show ?thesis
    using flush_entries_kept [of ?s http_do ob _ hl r hl' s' p] assms(1) by (auto simp: kept_def)
qed

subsection \<open>The theorems at work\<close>

definition demo_box :: Outbox where
  "demo_box = \<lparr>directory = ''/box'', client = \<lparr>clientURL = ''https://gw'', organizationID = ''o'', runnerID = ''r'',
     privateKey = [], clientTLS = \<lparr>RootCAs = None, Certificates = []\<rparr>, clientTimeout = 40 * second\<rparr>\<rparr>"

definition no_network :: "unit http" where
  "no_network q h = (Inl ErrTimeout, h)"

definition good_network :: "unit http" where
  "good_network q h = (Inr \<lparr>StatusCode = 202, StatusText = ''202'', Content = Reader [] None\<rparr>, h)"

definition demo_operation :: outboxOperation where
  "demo_operation = result_operation demo_box ''d'' ''t'' ''true''"

lemma demo_raw: "marshal_raw ''true'' = Inr (json_encode (JBool True))"
  by code_simp

lemma sync_calm: "calm s \<Longrightarrow> dir \<noteq> [] \<Longrightarrow> fst (syncOutboxDirectory dir s) = Inr ()"
  by (simp add: syncOutboxDirectory_def calm_calls)

lemma demo_marshalled: "\<exists>bs. marshal_operation demo_operation = Inr bs"
  using marshal_operation_members [of demo_operation "JBool True"] demo_raw by (auto simp: demo_operation_def result_operation_def)

lemma demo_stored: "fst (store test_crypto demo_box demo_operation empty_disk) = Inr ()"
proof -
  have "calm empty_disk" by (simp add: calm_def empty_disk_def)
  moreover obtain bs where "marshal_operation demo_operation = Inr bs" using demo_marshalled by blast
  ultimately show ?thesis using replace_file_calm [OF empty_disk_wf] sync_calm by (simp add: store_def demo_box_def)
qed

theorem store_atomic_durable_witness:
  "\<exists>bs s'. store test_crypto demo_box demo_operation empty_disk = (Inr (), s')
     \<and> survivors s' (join_path ''/box'' (operation_name test_crypto demo_operation)) = {Some bs}"
proof -
  obtain s' where s: "store test_crypto demo_box demo_operation empty_disk = (Inr (), s')"
    using demo_stored by (cases "store test_crypto demo_box demo_operation empty_disk") simp
  obtain bs where bs: "marshal_operation demo_operation = Inr bs"
    using marshal_operation_members [of demo_operation "JBool True"] demo_raw by (auto simp: demo_operation_def result_operation_def)
  from store_atomic_durable [OF empty_disk_wf bs s] show ?thesis using s by (auto simp: demo_box_def)
qed

lemma demo_posted: "fst (PostResults test_crypto no_network demo_box ''d'' ''t'' (Inr ''true'') ((), empty_disk)) = None"
  using demo_stored
  by (cases "store test_crypto demo_box demo_operation empty_disk")
     (simp add: PostResults_def ClientPostResults_def expectStatus_def no_network_def as_error_def demo_operation_def)

theorem posted_results_kept_witness:
  "\<exists>s' bs. survivors s' (join_path ''/box'' (operation_name test_crypto demo_operation)) = {Some bs}
     \<and> unmarshal_operation bs = Some demo_operation"
proof -
  obtain h' s' where p: "PostResults test_crypto no_network demo_box ''d'' ''t'' (Inr ''true'') ((), empty_disk) = (None, h', s')"
    using demo_posted by (metis fst_conv prod_cases3)
  have "operation_ascii (result_operation demo_box ''d'' ''t'' ''true'')"
    by (simp add: operation_ascii_def result_operation_def demo_box_def)
  from posted_results_kept [OF empty_disk_wf demo_raw _ this p]
  show ?thesis by (auto simp: ClientPostResults_def expectStatus_def no_network_def demo_operation_def demo_box_def)
qed

definition spooled_disk :: fs where
  "spooled_disk = snd (store test_crypto demo_box demo_operation empty_disk)"

theorem flush_loses_nothing_witness:
  "\<exists>bs r hl' s'. lookup spooled_disk (join_path ''/box'' (operation_name test_crypto demo_operation)) = Some bs
     \<and> Flush (recorded good_network) demo_box (((), []), spooled_disk) = (r, hl', s')
     \<and> (lookup s' (join_path ''/box'' (operation_name test_crypto demo_operation)) = Some bs \<or> accepted demo_box bs (snd hl'))"
proof -
  let ?p = "join_path ''/box'' (operation_name test_crypto demo_operation)"
  obtain bs where bs: "marshal_operation demo_operation = Inr bs" using demo_marshalled by blast
  have st: "store test_crypto demo_box demo_operation empty_disk = (Inr (), spooled_disk)"
    using demo_stored by (cases "store test_crypto demo_box demo_operation empty_disk") (simp add: spooled_disk_def)
  have "fs_wf spooled_disk" "lookup spooled_disk ?p = Some bs"
    using outbox_file.put_wf [OF empty_disk_wf, of demo_box test_crypto demo_operation bs]
      outbox_file.put_atomic [OF empty_disk_wf, of demo_box test_crypto demo_operation bs "Inr ()" spooled_disk] st bs
    by (simp_all add: store_def demo_box_def)
  moreover obtain r hl' s' where "Flush (recorded good_network) demo_box (((), []), spooled_disk) = (r, hl', s')" by (metis prod_cases3)
  ultimately show ?thesis using flush_loses_nothing [of spooled_disk good_network demo_box "((), [])" r hl' s' ?p] by force
qed

end
