(* ===== verification/Program.thy ===== *)
theory Program
  imports Workflow Server Outbox Diode RemoteExecutor
begin

section \<open>The program (cmd/runner/main.go)\<close>

text \<open>
  Choosing a mode, and what connects the components in each of them. The remote agent, the diode
  relay and the gateway's handlers are the components of other theories. The network of a job and
  the file system of its outbox are the outer world of the process.
\<close>

definition StandardMode :: string where
  "StandardMode = ''standard''"

definition RemoteMode :: string where
  "RemoteMode = ''remote''"

definition DiodeExportMode :: string where
  "DiodeExportMode = ''diode-export''"

definition DiodeImportMode :: string where
  "DiodeImportMode = ''diode-import''"

definition OutboxFlushMode :: string where
  "OutboxFlushMode = ''outbox-flush''"

definition GatewayMode :: string where
  "GatewayMode = ''gateway''"

definition maxLogsBufferSize :: int where
  "maxLogsBufferSize = 10 * 1024 * 1024"


subsection \<open>Results as JSON\<close>

definition json_change :: "ObservationChange \<Rightarrow> json" where
  "json_change c = JObj [member ''actions'' (JArr (map JStr (ObsActions c))), member ''id'' (JStr (ObsId c)),
     member ''resource_type'' (JStr (ObsResourceType c))]"

definition json_observation :: "ObservationResult \<Rightarrow> json" where
  "json_observation r = JObj [member ''complete'' (JBool (ObsComplete r)), member ''observed_changes'' (JArr (map json_change (ObservedChanges r))),
     member ''output_change_count'' (jint (int (OutputChangeCount r))), member ''proposed_changes'' (JArr (map json_change (ProposedChanges r))),
     member ''schema_version'' (JStr (SchemaVersion r)), member ''tool'' (JStr (ObsTool r)), member ''tool_version'' (JStr (ToolVersion r))]"

definition json_counts :: "DeploymentTFResourceCounts \<Rightarrow> json" where
  "json_counts c = JObj [member ''num_resources'' (jint (NumResources c)), member ''num_resources_added'' (jint (NumResourcesAdded c)),
     member ''num_resources_changed'' (jint (NumResourcesChanged c)), member ''num_resources_removed'' (jint (NumResourcesRemoved c))]"

definition marshal_results :: "DeploymentResultsUpdateBody \<Rightarrow> bytes" where
  "marshal_results b = encode_struct
     ((case BError b of None \<Rightarrow> [] | Some e \<Rightarrow> [member ''error'' (JObj [member ''error'' (JStr (ErrorCode e)), member ''message'' (JStr (ErrorMessage e))])])
      @ (if BMetadata b = [] then [] else [member ''metadata'' (JArr (map (\<lambda>n. JObj [member ''metadata'' (NodeMetadata n), member ''node_id'' (JStr (NodeId n))]) (BMetadata b)))])
      @ (case BObservationResult b of None \<Rightarrow> [] | Some r \<Rightarrow> [member ''observation_result'' (json_observation r)])
      @ (case BOutputs b of None \<Rightarrow> [] | Some s \<Rightarrow> [member ''outputs'' (JStr s)])
      @ [member ''status'' (JStr (BStatus b)), member ''tf_resource_counts'' (json_counts (BTfResourceCounts b))])"

subsection \<open>Publishing from a job\<close>

definition standardGatewayClient :: "'h job_net \<Rightarrow> StandardModeConfiguration \<Rightarrow> Client result" where
  "standardGatewayClient jn cfg = job_client jn cfg"

definition publishDeploymentResultToGateway :: "crypto \<Rightarrow> 'h job_net \<Rightarrow> StandardModeConfiguration \<Rightarrow> DeploymentResultsUpdateBody \<Rightarrow> 'h \<times> fs
    \<Rightarrow> goerr option \<times> 'h \<times> fs" where
  "publishDeploymentResultToGateway cy jn cfg result hs = (case standardGatewayClient jn cfg of Inl e \<Rightarrow> (Some e, hs)
   | Inr clnt \<Rightarrow>
     if GwOutboxDir (SGateway cfg) = []
     then (case ClientPostResults (net jn) clnt (SDeploymentID cfg) (SDeploymentToken cfg) (Inr (marshal_results result)) (fst hs) of
         (e, h) \<Rightarrow> (e, h, snd hs))
     else (case NewOutbox (GwOutboxDir (SGateway cfg)) (Some clnt) (snd hs) of
         (Inl e, s) \<Rightarrow> (Some e, fst hs, s)
       | (Inr outbox, s) \<Rightarrow> PostResults cy (net jn) outbox (SDeploymentID cfg) (SDeploymentToken cfg) (Inr (marshal_results result)) (fst hs, s)))"

text \<open>Uploading the logs; nothing when no key is configured. The outcome \<^const>\<open>None\<close> is a panic.\<close>

type_synonym 'h uploader = "bytes \<Rightarrow> ('h \<times> fs) process \<Rightarrow> goerr option option \<times> ('h \<times> fs) process"

definition put_encrypted_logs :: "crypto \<Rightarrow> 'h job_net \<Rightarrow> StandardModeConfiguration \<Rightarrow> string \<Rightarrow> 'h \<times> fs \<Rightarrow> goerr option \<times> 'h \<times> fs" where
  "put_encrypted_logs cy jn cfg encryptedLogs hs = (case standardGatewayClient jn cfg of Inl e \<Rightarrow> (Some e, hs)
   | Inr clnt \<Rightarrow>
     if GwOutboxDir (SGateway cfg) = []
     then (case ClientPutLogs (net jn) clnt (SDeploymentEnvUUID cfg) (SDeploymentID cfg) (SDeploymentToken cfg) (Reader [encryptedLogs] None) (fst hs) of
         (e, h) \<Rightarrow> (e, h, snd hs))
     else (case NewOutbox (GwOutboxDir (SGateway cfg)) (Some clnt) (snd hs) of
         (Inl e, s) \<Rightarrow> (Some e, fst hs, s)
       | (Inr outbox, s) \<Rightarrow> PutLogs cy (net jn) outbox (SDeploymentEnvUUID cfg) (SDeploymentID cfg) (SDeploymentToken cfg) encryptedLogs (fst hs, s)))"

definition uploadLogsToGateway :: "('h \<times> fs) process machine \<Rightarrow> config_lib \<Rightarrow> crypto \<Rightarrow> 'h job_net \<Rightarrow> StandardModeConfiguration \<Rightarrow> 'h uploader option" where
  "uploadLogsToGateway mc lib cy jn cfg = (if SEncryptingLogsKey cfg = [] then None
     else Some (\<lambda>logsBuffer p.
       if SDeploymentEnvUUID cfg = [] then (Some (Some (ErrNew ''DEPLOYMENT_ENV_UUID is required to upload encrypted logs'')), p)
       else (case EncryptBytes mc logsBuffer (recipient_of lib (SEncryptingLogsKey cfg)) p of
           (None, p) \<Rightarrow> (None, p)
         | (Some (Inl e), p) \<Rightarrow> (Some (Some e), p)
         | (Some (Inr encryptedLogs), p) \<Rightarrow> (case put_encrypted_logs cy jn cfg encryptedLogs (outer p) of
             (e, hs) \<Rightarrow> (Some e, p\<lparr>outer := hs\<rparr>)))))"

subsection \<open>The standard mode\<close>

definition process_net :: "'h job_net \<Rightarrow> ('h \<times> fs) process job_net" where
  "process_net jn = \<lparr>parse_url = parse_url jn, cert_files = cert_files jn, system_pool = system_pool jn,
     net = (\<lambda>q p. case net jn q (fst (outer p)) of (r, h) \<Rightarrow> (r, p\<lparr>outer := (h, snd (outer p))\<rparr>))\<rparr>"

definition run_standard :: "('b, 'k, 'h \<times> fs) executor_env \<Rightarrow> ('h \<times> fs) process machine \<Rightarrow> config_lib \<Rightarrow> crypto \<Rightarrow> 'h job_net
    \<Rightarrow> StandardModeConfiguration \<Rightarrow> logs \<times> ('h \<times> fs) process
    \<Rightarrow> ('h uploader option \<times> goerr option) option \<times> logs \<times> ('h \<times> fs) process" where
  "run_standard env mc lib cy jn cfg st = (case ExecuteStandardMode env cfg (CreateRunner mc lib (process_net jn)) st of
     (None, l, p) \<Rightarrow> (None, l, p)
   | (Some (apiUpdates, standardModeErr), l, p) \<Rightarrow>
     (case publishDeploymentResultToGateway cy jn cfg apiUpdates (outer p) of (resultErr, hs) \<Rightarrow>
       (let logsUploader = uploadLogsToGateway mc lib cy jn cfg;
            e = (case resultErr of Some x \<Rightarrow> Some (ErrWrap ''failed to publish deployment results'' x)
              | None \<Rightarrow> map_option (ErrWrap ''failed to execute standard mode'') standardModeErr) in
        (Some (logsUploader, e), l, p\<lparr>outer := hs\<rparr>))))"

text \<open>\<open>main\<close> for this mode: the exit code, after the logs have been uploaded.\<close>

definition main_standard :: "('b, 'k, 'h \<times> fs) executor_env \<Rightarrow> ('h \<times> fs) process machine \<Rightarrow> config_lib \<Rightarrow> crypto \<Rightarrow> 'h job_net
    \<Rightarrow> StandardModeConfiguration \<Rightarrow> ('h \<times> fs) process \<Rightarrow> nat option \<times> ('h \<times> fs) process" where
  "main_standard env mc lib cy jn cfg p =
     (case run_standard env mc lib cy jn cfg ((NewLimitedLogsBuffer maxLogsBufferSize, []), p) of
        (None, l, p) \<Rightarrow> (None, p)
      | (Some (uploader, e), l, p) \<Rightarrow> (let code = (if e = None then 0 else 1) in
          case uploader of None \<Rightarrow> (Some code, p)
          | Some up \<Rightarrow> (case up (snd l) p of (None, p) \<Rightarrow> (None, p) | (Some _, p) \<Rightarrow> (Some code, p))))"

subsection \<open>The gateway\<close>

definition natsConfig :: "NATSConfiguration \<Rightarrow> string \<Rightarrow> Config" where
  "natsConfig cfg name = \<lparr>URL = NcURL cfg, Token = NcToken cfg, CredentialsFile = NcCredentialsFile cfg, CAFile = NcCAFile cfg,
     ClientCertFile = NcClientCertFile cfg, ClientKeyFile = NcClientKeyFile cfg, ConnName = name, ConnectTimeout = 0\<rparr>"

definition diodeNATSConfig :: "environ \<Rightarrow> Config" where
  "diodeNATSConfig env = \<lparr>URL = getenv env ''NATS_URL'', Token = getenv env ''NATS_TOKEN'', CredentialsFile = getenv env ''NATS_CREDS_FILE'',
     CAFile = getenv env ''NATS_CA_FILE'', ClientCertFile = getenv env ''NATS_CLIENT_CERT_FILE'', ClientKeyFile = getenv env ''NATS_CLIENT_KEY_FILE'',
     ConnName = ''platform-orchestrator-diode-relay'', ConnectTimeout = 0\<rparr>"

definition decodeGatewayKey :: "string \<Rightarrow> bytes result" where
  "decodeGatewayKey encoded =
     (case (if rawurl_decode encoded = None then std_decode encoded else rawurl_decode encoded) of
        None \<Rightarrow> Inl (ErrNew ''RUNNER_GATEWAY_RECEIPT_KEY must be base64 encoded'')
      | Some key \<Rightarrow> if length key \<noteq> 32 then Inl (ErrNew ''RUNNER_GATEWAY_RECEIPT_KEY must decode to exactly 32 bytes'') else Inr key)"

text \<open>The state of the gateway: the backend's and, with a control plane, the resolver's.\<close>

type_synonym 'w gateway_state = "'w NATSBackend \<times> controlPlanePublicKeyResolver option"

definition on_backend :: "('w NATSBackend \<Rightarrow> 'a \<times> 'w NATSBackend) \<Rightarrow> 'w gateway_state \<Rightarrow> 'a \<times> 'w gateway_state" where
  "on_backend f st = (case f (fst st) of (r, b) \<Rightarrow> (r, b, snd st))"

definition gateway_backend :: "'w NATSBackend Backend \<Rightarrow> 'w gateway_state Backend" where
  "gateway_backend b = \<lparr>FetchCommand = (\<lambda>c g r. on_backend (FetchCommand b c g r)), Acknowledge = (\<lambda>c a. on_backend (Acknowledge b c a)),
     Retry = (\<lambda>c a d. on_backend (Retry b c a d)), Reject = (\<lambda>c d e. on_backend (Reject b c d e)),
     RejectReceipt = (\<lambda>c a q e. on_backend (RejectReceipt b c a q e)), GetBundle = (\<lambda>k. on_backend (GetBundle b k)),
     PutLog = (\<lambda>k x. on_backend (PutLog b k x)), DeleteLog = (\<lambda>k. on_backend (DeleteLog b k)), Publish = (\<lambda>m. on_backend (Publish b m))\<rparr>"

datatype serve_end = ServerClosed | ServerFailed goerr | ContextDone "goerr option"

record http_server =
  Addr :: string
  ReadHeaderTimeout :: duration
  ReadTimeout :: duration
  WriteTimeout :: duration
  IdleTimeout :: duration

record 'w gateway_env =
  gtls :: tls_files
  gconnect :: "ConnectionConfig \<Rightarrow> 'w \<Rightarrow> goerr option \<times> 'w"
  gns :: "'w nats"
  glib :: gwlib
  gparse :: "string \<Rightarrow> parsed_url result"
  gfetch :: "'w \<Rightarrow> string \<Rightarrow> (nat \<times> bytes) result"
  gread :: "string \<Rightarrow> bytes result"
  gnow :: "'w \<Rightarrow> gtime"
  gcm :: "bytes \<Rightarrow> aead"
  serve :: "http_server \<Rightarrow> 'w gateway_state Server \<Rightarrow> 'w gateway_state \<Rightarrow> serve_end \<times> 'w gateway_state"

definition static_keys :: "StaticPublicKeyResolver \<Rightarrow> string \<Rightarrow> string \<Rightarrow> 'w gateway_state \<Rightarrow> bytes result \<times> 'w gateway_state" where
  "static_keys r org runner st = (static_Resolve r org runner, st)"

definition control_plane_keys :: "'w gateway_env \<Rightarrow> string \<Rightarrow> string \<Rightarrow> 'w gateway_state \<Rightarrow> bytes result \<times> 'w gateway_state" where
  "control_plane_keys env org runner st = (case snd st of None \<Rightarrow> (Inl (ErrNew ''no resolver''), st)
   | Some r \<Rightarrow> (case Resolve (gfetch env (world (fst st))) r org runner (gnow env (world (fst st))) of (k, r) \<Rightarrow> (k, fst st, Some r)))"

definition gateway_keys :: "'w gateway_env \<Rightarrow> GatewayModeConfiguration
    \<Rightarrow> ((string \<Rightarrow> string \<Rightarrow> 'w gateway_state \<Rightarrow> bytes result \<times> 'w gateway_state) \<times> controlPlanePublicKeyResolver option) result" where
  "gateway_keys env cfg =
     (if GControlPlaneURL cfg \<noteq> []
      then (case NewControlPlanePublicKeyResolver (gparse env) (GControlPlaneURL cfg) (GPublicKeyCacheTTL cfg) of Inl e \<Rightarrow> Inl e
        | Inr r \<Rightarrow> Inr (control_plane_keys env, Some r))
      else (case NewStaticPublicKeyResolver (gread env) (GStaticOrganizationID cfg) (GStaticRunnerID cfg) (GStaticPublicKeyFile cfg) of Inl e \<Rightarrow> Inl e
        | Inr r \<Rightarrow> Inr (static_keys r, None)))"

definition gateway_server :: "GatewayModeConfiguration \<Rightarrow> http_server" where
  "gateway_server cfg = \<lparr>Addr = CHR '':'' # int_str (GPort cfg), ReadHeaderTimeout = 5 * second, ReadTimeout = 30 * second,
     WriteTimeout = wrap_int64 (GFetchWait cfg + 10 * second), IdleTimeout = 60 * second\<rparr>"

definition runGateway :: "'w gateway_env \<Rightarrow> GatewayModeConfiguration \<Rightarrow> 'w \<Rightarrow> goerr option \<times> 'w" where
  "runGateway env cfg w = (case Connect (gtls env) (gconnect env) (natsConfig (GNATS cfg) ''platform-orchestrator-runner-gateway'') w of
     (Some e, w) \<Rightarrow> (Some e, w)
   | (None, w) \<Rightarrow> (case NewNATSBackend (gns env) True w of (Inl e, w) \<Rightarrow> (Some e, w)
   | (Inr b, w) \<Rightarrow> (case gateway_keys env cfg of Inl e \<Rightarrow> (Some e, w)
   | Inr (keys, resolver) \<Rightarrow> (case decodeGatewayKey (GReceiptKey cfg) of Inl e \<Rightarrow> (Some e, w)
   | Inr receiptKey \<Rightarrow> (case NewServer (\<lambda>st. gnow env (world (fst st))) (gcm env)
         \<lparr>cfgBasePath = GBasePath cfg, cfgBackend = Some (gateway_backend (nats_backend (cr (glib env)) (hm (glib env)) (gns env))),
          cfgPublicKeys = Some keys, cfgReceiptKey = receiptKey, cfgRunnerTokenSalt = GRunnerTokenSalt cfg,
          cfgFetchWait = GFetchWait cfg, cfgMaxLogBytes = GMaxLogBytes cfg, cfgNow = None\<rparr> of
       Inl e \<Rightarrow> (Some e, w)
     | Inr handler \<Rightarrow> (case serve env (gateway_server cfg) handler (b, resolver) of
         (ServerClosed, st) \<Rightarrow> (None, world (fst st))
       | (ServerFailed e, st) \<Rightarrow> (Some e, world (fst st))
       | (ContextDone e, st) \<Rightarrow> (e, world (fst st))))))))"

subsection \<open>The outbox flusher\<close>

text \<open>A failed flush is only logged. The argument tells whether the context ended before the next
  tick; the loop runs for a given number of rounds.\<close>

fun flush_loop :: "'h http \<Rightarrow> Outbox \<Rightarrow> ('h \<times> fs \<Rightarrow> bool \<times> 'h \<times> fs) \<Rightarrow> nat \<Rightarrow> 'h \<times> fs \<Rightarrow> outcome \<times> 'h \<times> fs" where
  "flush_loop http_do ob await 0 hs = (Running, hs)"
| "flush_loop http_do ob await (Suc n) hs = (case Flush http_do ob hs of (_, hs) \<Rightarrow>
     (case await hs of (True, hs) \<Rightarrow> (Returned (Some ErrCanceled), hs) | (False, hs) \<Rightarrow> flush_loop http_do ob await n hs))"

definition runOutboxFlusher :: "'h job_net \<Rightarrow> OutboxModeConfiguration \<Rightarrow> ('h \<times> fs \<Rightarrow> bool \<times> 'h \<times> fs) \<Rightarrow> nat \<Rightarrow> 'h \<times> fs \<Rightarrow> outcome \<times> 'h \<times> fs" where
  "runOutboxFlusher jn cfg await n hs = (case NewClient (parse_url jn) (cert_files jn) (system_pool jn)
       \<lparr>CfgBaseURL = GwURL (OGateway cfg), CfgOrganizationID = OOrganizationID cfg, CfgRunnerID = ORunnerID cfg, CfgPrivateKey = [],
        CfgCAFile = GwCAFile (OGateway cfg), CfgClientCertFile = GwClientCertFile (OGateway cfg),
        CfgClientKeyFile = GwClientKeyFile (OGateway cfg), CfgTimeout = 0\<rparr> of
     Inl e \<Rightarrow> (Returned (Some e), hs)
   | Inr clnt \<Rightarrow> (case NewOutbox (GwOutboxDir (OGateway cfg)) (Some clnt) (snd hs) of
       (Inl e, s) \<Rightarrow> (Returned (Some e), fst hs, s)
     | (Inr outbox, s) \<Rightarrow> flush_loop (net jn) outbox await n (fst hs, s)))"

subsection \<open>Choosing the mode\<close>

text \<open>Only letters of ASCII matter for the level names: a letter outside it can only turn into one of
  \<open>INFO\<close>, which is the default as well. The levels are those of \<open>slog\<close>.\<close>

definition ascii_upper :: "char \<Rightarrow> char" where
  "ascii_upper c = (if CHR ''a'' \<le> c \<and> c \<le> CHR ''z'' then char_of (of_char c - 32 :: nat) else c)"

definition setLogLevel :: "string \<Rightarrow> int" where
  "setLogLevel logLevel = (let u = map ascii_upper logLevel in
     if u = ''DEBUG'' then - 4 else if u = ''INFO'' then 0 else if u = ''WARN'' then 4 else if u = ''ERROR'' then 8 else 0)"

datatype run_mode = RunStandard StandardModeConfiguration | RunRemote RemoteModeConfiguration | RunExport ExportConfig
  | RunImport ImportConfig | RunOutbox OutboxModeConfiguration | RunGateway GatewayModeConfiguration

definition export_config :: "environ \<Rightarrow> ExportConfig" where
  "export_config env = \<lparr>XNATS = diodeNATSConfig env, XStream = getenv env ''DIODE_STREAM'', XSubject = getenv env ''DIODE_SUBJECT'',
     XDurable = getenv env ''DIODE_DURABLE'', OutputDir = getenv env ''DIODE_OUTPUT_DIR'', XLedgerPath = getenv env ''DIODE_LEDGER_PATH'',
     SigningKey = getenv env ''DIODE_SIGNING_KEY_FILE'', AttachObject = getenv env ''DIODE_ATTACH_OBJECT'',
     BundleBucket = getenv env ''NATS_BUNDLE_BUCKET'', XMaxAttachmentBytes = 0\<rparr>"

definition import_config :: "environ \<Rightarrow> ImportConfig" where
  "import_config env = \<lparr>INATS = diodeNATSConfig env, InputDir = getenv env ''DIODE_INPUT_DIR'', ProcessedDir = getenv env ''DIODE_PROCESSED_DIR'',
     QuarantineDir = getenv env ''DIODE_QUARANTINE_DIR'', ILedgerPath = getenv env ''DIODE_LEDGER_PATH'',
     VerifyKey = getenv env ''DIODE_VERIFY_KEY_FILE'', PollInterval = 0, IMaxAttachmentBytes = 0,
     ExpectedAttachment = getenv env ''DIODE_EXPECT_ATTACHMENT''\<rparr>"

definition quoted_mode :: "string \<Rightarrow> string" where
  "quoted_mode m = CHR 0x27 # m @ [CHR 0x27]"

definition mode_argument :: "string list \<Rightarrow> string result" where
  "mode_argument args = (case args of [] \<Rightarrow> Inr StandardMode | [m] \<Rightarrow> Inr m
     | _ \<Rightarrow> Inl (ErrNew (''invalid number of positional arguments, expected 0 or 1, got '' @ nat_str (length args))))"

text \<open>What \<open>mainInner\<close> is going to run, from the flag, the arguments and the environment.\<close>

definition select_mode :: "config_lib \<Rightarrow> string \<Rightarrow> string list \<Rightarrow> environ \<Rightarrow> run_mode result \<times> environ" where
  "select_mode lib gatewayURL args env = (case mode_argument args of Inl e \<Rightarrow> (Inl e, env)
   | Inr mode \<Rightarrow>
     if mode = StandardMode then
       (if gatewayURL \<noteq> [] then (Inl (ErrNew ''standard mode does not allow --gateway-url parameter''), env)
        else (case GetStandardModeConfiguration lib env of
            (Inl e, env) \<Rightarrow> (Inl (ErrWrap ''failed to read standard mode config'' e), env) | (Inr cfg, env) \<Rightarrow> (Inr (RunStandard cfg), env)))
     else if mode = RemoteMode then
       (case GetRemoteModeConfiguration lib env [gatewayURL] of
          Inl e \<Rightarrow> (Inl (ErrWrap ''failed to read remote mode config'' e), env) | Inr cfg \<Rightarrow> (Inr (RunRemote cfg), env))
     else if mode = DiodeExportMode then (Inr (RunExport (export_config env)), env)
     else if mode = DiodeImportMode then (Inr (RunImport (import_config env)), env)
     else if mode = OutboxFlushMode then
       (case GetOutboxModeConfiguration lib env of
          Inl e \<Rightarrow> (Inl (ErrWrap ''failed to read outbox mode config'' e), env) | Inr cfg \<Rightarrow> (Inr (RunOutbox cfg), env))
     else if mode = GatewayMode then
       (case GetGatewayModeConfiguration lib env of
          Inl e \<Rightarrow> (Inl (ErrWrap ''failed to read gateway mode config'' e), env) | Inr cfg \<Rightarrow> (Inr (RunGateway cfg), env))
     else (Inl (ErrNew (''invalid mode: '' @ mode @ ''. Must be '' @ quoted_mode StandardMode @ '', '' @ quoted_mode RemoteMode @ '', ''
       @ quoted_mode DiodeExportMode @ '', '' @ quoted_mode DiodeImportMode @ '', '' @ quoted_mode OutboxFlushMode @ '', or '' @ quoted_mode GatewayMode)), env))"

text \<open>\<open>mainInner\<close>: the mode that was selected, run in its part of the world: the process of a job with
  its logs, the world of the agent or gateway, the file system and network of the relay. Endless modes
  run for a number of rounds.\<close>

record ('b, 'k, 'h, 'w) program_env =
  pexecutor :: "('b, 'k, 'h \<times> fs) executor_env"
  pmachine :: "('h \<times> fs) process machine"
  pconfig :: config_lib
  pcrypto :: crypto
  pjob :: "'h job_net"
  pawait :: "'h \<times> fs \<Rightarrow> bool \<times> 'h \<times> fs"
  premote :: "'w remote_env"
  pin_cluster :: "goerr option"
  pclientset :: "'w clientset result"
  phttp :: "'w http"
  pdiode :: "'w diode_env"
  pgateway :: "'w gateway_env"

definition run_remote :: "('b, 'k, 'h, 'w) program_env \<Rightarrow> RemoteModeConfiguration \<Rightarrow> nat \<Rightarrow> 'w
    \<Rightarrow> outcome \<times> (CommandEnvelope \<times> CreateJobCommand) list \<times> 'w" where
  "run_remote pe cfg n w = ExecuteRemoteMode (premote pe) (pcrypto pe) (pin_cluster pe) (pclientset pe) (parse_url (pjob pe)) (cert_files (pjob pe))
     (system_pool (pjob pe)) (phttp pe) cfg n w"

definition ended :: "goerr option \<Rightarrow> outcome" where
  "ended e = (case e of None \<Rightarrow> Running | Some x \<Rightarrow> Returned (Some x))"

definition mainInner :: "('b, 'k, 'h, 'w) program_env \<Rightarrow> string \<Rightarrow> string list \<Rightarrow> nat \<Rightarrow> logs \<times> ('h \<times> fs) process \<times> 'w
    \<Rightarrow> ('h uploader option \<times> outcome) option \<times> logs \<times> ('h \<times> fs) process \<times> 'w" where
  "mainInner pe gatewayURL args n st = (case st of (l, p, w) \<Rightarrow>
     (case select_mode (pconfig pe) gatewayURL args (penv p) of
        (Inl e, env) \<Rightarrow> (Some (None, Returned (Some e)), l, p\<lparr>penv := env\<rparr>, w)
      | (Inr m, env) \<Rightarrow> (let p = p\<lparr>penv := env\<rparr> in
          case m of
            RunStandard cfg \<Rightarrow> (case run_standard (pexecutor pe) (pmachine pe) (pconfig pe) (pcrypto pe) (pjob pe) cfg (l, p) of
                (r, l, p) \<Rightarrow> (map_option (\<lambda>(up, e). (up, Returned e)) r, l, p, w))
          | RunRemote cfg \<Rightarrow> (case run_remote pe cfg n w of (r, _, w) \<Rightarrow> (Some (None, r), l, p, w))
          | RunExport cfg \<Rightarrow> (case RunExporter (pdiode pe) cfg n (snd (outer p), w) of
                (e, s, w) \<Rightarrow> (Some (None, ended e), l, p\<lparr>outer := (fst (outer p), s)\<rparr>, w))
          | RunImport cfg \<Rightarrow> (case RunImporter (pdiode pe) cfg n (snd (outer p), w) of
                (e, s, w) \<Rightarrow> (Some (None, ended e), l, p\<lparr>outer := (fst (outer p), s)\<rparr>, w))
          | RunOutbox cfg \<Rightarrow> (case runOutboxFlusher (pjob pe) cfg (pawait pe) n (outer p) of
                (r, hs) \<Rightarrow> (Some (None, r), l, p\<lparr>outer := hs\<rparr>, w))
          | RunGateway cfg \<Rightarrow> (case runGateway (pgateway pe) cfg w of (e, w) \<Rightarrow> (Some (None, Returned e), l, p, w)))))"

subsection \<open>Properties\<close>

text \<open>Only a deployment gets to the infrastructure and only it has logs to upload: the other modes leave
  the log buffer as it is.\<close>

lemma only_standard_logs:
  assumes "mainInner pe gatewayURL args n (l, p, w) = (r, l', p', w')" and "l' \<noteq> l \<or> (\<exists>up o1. r = Some (Some up, o1))"
  shows "args = [] \<or> args = [StandardMode]"
proof -
  obtain m env where m: "select_mode (pconfig pe) gatewayURL args (penv p) = (m, env)" by (rule prod.exhaust)
  have "\<exists>cfg. m = Inr (RunStandard cfg)"
    using assms m by (auto simp: mainInner_def Let_def split: sum.splits run_mode.splits prod.splits)
  then obtain cfg where "m = Inr (RunStandard cfg)" by blast
  with m have "mode_argument args = Inr StandardMode"
    by (auto simp: select_mode_def split: sum.splits if_splits prod.splits)
  then show ?thesis by (auto simp: mode_argument_def split: list.splits)
qed

text \<open>The results are with the gateway, or the outbox holds them whatever crash follows.\<close>

definition delivered :: "crypto \<Rightarrow> 'h job_net \<Rightarrow> StandardModeConfiguration \<Rightarrow> DeploymentResultsUpdateBody \<Rightarrow> 'h \<times> fs \<Rightarrow> 'h \<times> fs \<Rightarrow> bool" where
  "delivered cy jn cfg b hs hs' \<longleftrightarrow> (\<exists>c. job_client jn cfg = Inr c \<and>
     (ClientPostResults (net jn) c (SDeploymentID cfg) (SDeploymentToken cfg) (Inr (marshal_results b)) (fst hs) = (None, fst hs')
      \<or> (let ob = \<lparr>directory = GwOutboxDir (SGateway cfg), client = c\<rparr>;
              op = result_operation ob (SDeploymentID cfg) (SDeploymentToken cfg) (marshal_results b) in
           \<exists>bs. marshal_operation op = Inr bs \<and> survivors (snd hs') (join_path (directory ob) (operation_name cy op)) = {Some bs})))"

lemma NewOutbox_Inr:
  "NewOutbox dir (Some c) s = (Inr ob, s') \<Longrightarrow> ob = \<lparr>directory = dir, client = c\<rparr> \<and> (fs_wf s \<longrightarrow> fs_wf s')"
  by (auto simp: NewOutbox_def sys_noop_def syscall_def Let_def split: if_splits sum.splits prod.splits option.splits)

lemma PostResults_delivered:
  assumes "fs_wf s" and "PostResults cy http_do ob d token (Inr content) (h, s) = (None, h', s')"
  shows "ClientPostResults http_do (client ob) d token (Inr content) h = (None, h')
    \<or> (\<exists>bs. marshal_operation (result_operation ob d token content) = Inr bs
        \<and> survivors s' (join_path (directory ob) (operation_name cy (result_operation ob d token content))) = {Some bs})"
proof -
  let ?op = "result_operation ob d token content"
  have "(\<exists>bs. marshal_operation ?op = Inr bs \<and> survivors s' (join_path (directory ob) (operation_name cy ?op)) = {Some bs})"
    if st: "store cy ob ?op s = (Inr (), s')"
  proof -
    obtain bs where "marshal_operation ?op = Inr bs" using st by (auto simp: store_def split: sum.splits)
    with st outbox_file.put_atomic [OF assms(1), of ob cy ?op bs "Inr ()" s'] show ?thesis by (auto simp: store_def)
  qed
  then show ?thesis using assms(2) by (auto simp: PostResults_def as_error_def split: prod.splits option.splits sum.splits)
qed

lemma published_delivered:
  assumes "fs_wf (snd hs)" and "publishDeploymentResultToGateway cy jn cfg b hs = (None, hs')"
  shows "delivered cy jn cfg b hs hs'"
proof -
  obtain c where c: "job_client jn cfg = Inr c"
    using assms(2) by (auto simp: publishDeploymentResultToGateway_def standardGatewayClient_def split: sum.splits)
  show ?thesis
  proof (cases "GwOutboxDir (SGateway cfg) = []")
    case True
    then show ?thesis using assms(2) c
      by (auto simp: publishDeploymentResultToGateway_def standardGatewayClient_def delivered_def split: prod.splits)
  next
    case False
    obtain ob s where o: "NewOutbox (GwOutboxDir (SGateway cfg)) (Some c) (snd hs) = (Inr ob, s)"
        and p: "PostResults cy (net jn) ob (SDeploymentID cfg) (SDeploymentToken cfg) (Inr (marshal_results b)) (fst hs, s) = (None, hs')"
      using assms(2) c False
      by (auto simp: publishDeploymentResultToGateway_def standardGatewayClient_def split: prod.splits sum.splits)
    obtain h2 s2 where hs': "hs' = (h2, s2)" by (cases hs')
    from NewOutbox_Inr [OF o] assms(1) have "fs_wf s" and ob: "ob = \<lparr>directory = GwOutboxDir (SGateway cfg), client = c\<rparr>" by auto
    from PostResults_delivered [OF this(1) p [unfolded hs']] c show ?thesis
      by (auto simp: delivered_def hs' ob Let_def)
  qed
qed

text \<open>C37: no outcome of a deployment is lost silently: unless the program reports that publishing failed,
  the results of the execution, of a failed one as well, are with the gateway or durably in the
  outbox; and it reports no error only for a deployment that succeeded.\<close>

theorem results_published:
  assumes "ExecuteStandardMode env cfg (CreateRunner mc lib (process_net jn)) st = (Some (b, e), l, p)" and "fs_wf (snd (outer p))"
    and "run_standard env mc lib cy jn cfg st = (Some (up, err), l', p')"
  shows "(delivered cy jn cfg b (outer p) (outer p') \<or> (\<exists>x. err = Some (ErrWrap ''failed to publish deployment results'' x)))
    \<and> (err = None \<longrightarrow> BStatus b = Success \<and> delivered cy jn cfg b (outer p) (outer p'))"
proof -
  obtain r hs where pub: "publishDeploymentResultToGateway cy jn cfg b (outer p) = (r, hs)" by (rule prod.exhaust)
  have p': "outer p' = hs" and err: "err = (case r of Some x \<Rightarrow> Some (ErrWrap ''failed to publish deployment results'' x)
      | None \<Rightarrow> map_option (ErrWrap ''failed to execute standard mode'') e)"
    using assms(1,3) pub by (auto simp: run_standard_def Let_def)
  have "BStatus b = Success" if "e = None" using ExecuteStandardMode_consistent [OF assms(1)] that by (simp add: consistent_def)
  then show ?thesis using published_delivered [OF assms(2)] pub p' err by (cases r) auto
qed






text \<open>Reading changes nothing on the disk.\<close>

definition only_read :: "fs \<Rightarrow> fs \<Rightarrow> bool" where
  "only_read s s' \<longleftrightarrow> (\<exists>k. s' = s\<lparr>ticks := k\<rparr>)"

lemma only_read_refl [simp]: "only_read s s"
  unfolding only_read_def by (rule exI [of _ "ticks s"]) simp









subsection \<open>The theorems at work\<close>

definition offline_lib :: config_lib where
  "offline_lib = \<lparr>process_standard = (\<lambda>_. Inr (demo_deployment Deploy [])), process_remote = (\<lambda>_. Inl (ErrNew ''missing'')),
     process_gateway = (\<lambda>_. Inl (ErrNew ''missing'')), process_outbox = (\<lambda>_. Inl (ErrNew ''missing'')), validate_standard = (\<lambda>_. None),
     validate_remote = (\<lambda>_. None), uuid_parse = (\<lambda>_. None), parse_recipient = (\<lambda>_. None)\<rparr>"

definition offline_net :: "unit job_net" where
  "offline_net = \<lparr>parse_url = (\<lambda>_. Inr \<lparr>Scheme = ''https'', Host = ''g'', URLString = ''https://g''\<rparr>),
     cert_files = \<lparr>read_file = (\<lambda>_. Inl ErrNotExist), has_pem_certificate = (\<lambda>_. False), load_key_pair = (\<lambda>_ _. Inl ErrNotExist)\<rparr>,
     system_pool = None, net = no_network\<rparr>"

definition still_machine :: "(unit \<times> fs) process machine" where
  "still_machine = \<lparr>combined_output = (\<lambda>_ _ w. (([], Some ErrNotExist), w)), parse_diagnostic = (\<lambda>_. None), untar = (\<lambda>_. Inl (ErrNew ''no gzip'')),
     disk_of = \<lparr>mkdir_all = (\<lambda>_ s. (None, s)), create_file = (\<lambda>_ _ s. (None, s)), copy_into = (\<lambda>_ _ s. (None, s)), close_file = (\<lambda>_ s. (None, s))\<rparr>,
     tools_of = \<lparr>run_tool = (\<lambda>_ _ _ w. (([], None), w)), tool_environ = (\<lambda>_. []), cancelled = (\<lambda>_. False), mkdir_temp = (\<lambda>_ _ w. (Inl ErrIO, w)),
       remove_all = (\<lambda>_ w. (None, w)), tool_folder = (\<lambda>_. demo_folder)\<rparr>,
     age_encrypt = (\<lambda>_ _ w. (AgeDone [], w)), float_notation = Some\<rparr>"

definition still_executor :: "(unit, unit, unit \<times> fs) executor_env" where
  "still_executor = \<lparr>agent = \<lparr>pem_block = (\<lambda>_. None), raw_private_key = (\<lambda>_. Inr ()), keyring_add = (\<lambda>_ _. None), listen_unix = (\<lambda>_ x. (None, x)),
       chmod_600 = (\<lambda>_ x. (None, x)), serve_agent = (\<lambda>_ _ x. x), close_listener = (\<lambda>_ x. (None, x))\<rparr>,
     stat_error = (\<lambda>_ _. None), stdout_write = (\<lambda>p x. ((length p, None), x)), number_text = Some, ctx_err = (\<lambda>_. False)\<rparr>"

definition boxed_deployment :: StandardModeConfiguration where
  "boxed_deployment = (demo_deployment Deploy [])\<lparr>SGateway := \<lparr>GwURL = ''https://g'', GwCAFile = [], GwClientCertFile = [], GwClientKeyFile = [],
     GwOutboxDir = ''/box''\<rparr>\<rparr>"

definition boxed_start :: "logs \<times> (unit \<times> fs) process" where
  "boxed_start = ((NewLimitedLogsBuffer 100, []), \<lparr>penv = (\<lambda>_. None), outer = ((), empty_disk)\<rparr>)"

text \<open>Without a network the bundle cannot be fetched; the deployment fails, and its results are spooled.\<close>

lemma boxed_client: "\<exists>c. job_client offline_net boxed_deployment = Inr c"
  by (simp add: job_client_def offline_net_def boxed_deployment_def demo_deployment_def NewClient_def gatewayTLSConfig_def)

lemma boxed_executed:
  "\<exists>b e. ExecuteStandardMode still_executor boxed_deployment (CreateRunner still_machine offline_lib (process_net offline_net)) boxed_start
     = (Some (b, Some e), boxed_start)"
proof -
  obtain c where "job_client (process_net offline_net) boxed_deployment = Inr c"
    using boxed_client by (auto simp: job_client_def process_net_def)
  then have "CreateRunner still_machine offline_lib (process_net offline_net) boxed_deployment
      = Inr (OpenTofuRunner still_machine (newOpenTofuRunner (runner_base offline_lib (process_net offline_net) boxed_deployment c)))"
    by (simp add: CreateRunner_def boxed_deployment_def demo_deployment_def ValidateObservationProtocol_def mode_defs)
  then show ?thesis
    by (simp add: ExecuteStandardMode_def boxed_deployment_def demo_deployment_def ValidateObservationProtocol_def IsObservation_def mode_defs
        execute_with_agent_def OpenTofuRunner_def newOpenTofuRunner_def runner_base_def runner_of_def CreateIaCFolder_def ClientGetBundle_def
        process_net_def offline_net_def no_network_def boxed_start_def runner_failure_def)
qed

theorem results_published_witness:
  "\<exists>b up err l p. run_standard still_executor still_machine offline_lib test_crypto offline_net boxed_deployment boxed_start = (Some (up, err), l, p)
     \<and> (delivered test_crypto offline_net boxed_deployment b ((), empty_disk) (outer p)
         \<or> (\<exists>x. err = Some (ErrWrap ''failed to publish deployment results'' x)))"
proof -
  obtain b e where x: "ExecuteStandardMode still_executor boxed_deployment (CreateRunner still_machine offline_lib (process_net offline_net)) boxed_start
      = (Some (b, Some e), boxed_start)" using boxed_executed by blast
  obtain l0 p0 where s: "boxed_start = (l0, p0)" "outer p0 = ((), empty_disk)" by (simp add: boxed_start_def)
  obtain pe hs where "publishDeploymentResultToGateway test_crypto offline_net boxed_deployment b (outer p0) = (pe, hs)" by (rule prod.exhaust)
  then obtain up err l p where r: "run_standard still_executor still_machine offline_lib test_crypto offline_net boxed_deployment boxed_start
      = (Some (up, err), l, p)"
    using x by (simp add: run_standard_def Let_def s(1))
  have "fs_wf (snd (outer p0))" using s empty_disk_wf by simp
  from results_published [OF x [unfolded s(1)] this r [unfolded s(1)]] r s show ?thesis by auto
qed


end
