(* ===== verification/VendorCheck.thy ===== *)
theory VendorCheck
  imports Runner Crypto "HOL-Library.Multiset"
begin

section \<open>The check of the vendor's binary (scripts/vendorcheck/main.go)\<close>

text \<open>
  A release is built with an official binary whose scanner findings have been reviewed. The check
  compares binary and findings with the reviewed inventory. Files, ELF headers and the hash are
  arguments.
\<close>

subsection \<open>A stream of JSON values\<close>

lemma prepend_Some: "prepend x q = Some (t, r) \<longleftrightarrow> (\<exists>u. q = Some (u, r) \<and> t = x @ u)"
  by (cases q) (auto simp: prepend_def)

lemma parse_str_shorter: "parse_str s = Some (t, r) \<Longrightarrow> length r < length s"
proof (induction "length s" arbitrary: s t r rule: less_induct)
  case less
  have ih: "length r < n" if "parse_str u = Some (x, r)" "length u < length s" "length u \<le> n" for u x n
    using less.hyps [OF that(2,1)] that(3) by simp
  show ?case using less.prems
    by (cases s) (auto simp: prepend_Some split: if_splits list.splits option.splits prod.splits nat.splits intro: ih)
qed

lemma num_digits_shorter: "num_digits s = Some (d, r) \<Longrightarrow> length r < length s"
  by (cases s) (auto simp: num_digits_def Let_def split: if_splits)

lemma parse_num_shorter: "parse_num s = Some (l, r) \<Longrightarrow> length r < length s"
proof -
  have i: "length r < length s" if "num_int s = Some (d, r)" for s d r
    using that by (cases s) (auto simp: num_int_def dest: num_digits_shorter split: if_splits)
  have f: "length r \<le> length s" if "num_frac s = Some (d, r)" for s d r
    using that by (cases s) (auto simp: num_frac_def prepend_Some dest!: num_digits_shorter split: if_splits)
  have e: "length r \<le> length s" if "num_exp s = Some (d, r)" for s d r
    using that by (cases s; cases "tl s") (auto simp: num_exp_def prepend_Some Let_def dest!: num_digits_shorter split: if_splits)
  assume "parse_num s = Some (l, r)"
  then obtain d1 r1 d2 r2 d3 where "num_int (if s \<noteq> [] \<and> hd s = CHR ''-'' then tl s else s) = Some (d1, r1)" "num_frac r1 = Some (d2, r2)" "num_exp r2 = Some (d3, r)"
    by (auto simp: parse_num_def Let_def split: option.splits)
  with i [OF this(1)] f [OF this(2)] e [OF this(3)] show ?thesis by (cases s) (auto split: if_splits)
qed

lemma skip_ws_shorter: "length (skip_ws s) \<le> length s"
  by (rule length_dropWhile_le)

lemma parse_shorter:
  "parse_value n s = Some (v, r) \<Longrightarrow> length r < length s"
  "parse_elems n s = Some (vs, r) \<Longrightarrow> length r < length s"
  "parse_members n s = Some (ms, r) \<Longrightarrow> length r < length s"
proof (induction n arbitrary: s v vs ms r)
  case (Suc n)
  note w = skip_ws_shorter
  {
    case 1
    obtain c u where cu: "skip_ws s = c # u" using 1 by (cases "skip_ws s") auto
    have "length r \<le> length u"
      using 1 cu w [of u] parse_num_shorter [of "c # u" _ r] parse_str_shorter [of u _ r] Suc.IH(2,3) [of "skip_ws u" _ r]
      by (auto split: if_splits list.splits)
    then show ?case using w [of s] cu by simp
  next
    case 2
    then obtain v1 r1 where v: "parse_value n s = Some (v1, r1)" by (auto split: option.splits)
    show ?case using 2 v Suc.IH(1) [OF v] w [of r1] Suc.IH(2) [of "tl (skip_ws r1)" _ r]
      by (auto split: list.splits if_splits)
  next
    case 3
    obtain q r0 where q: "skip_ws s = q # r0" using 3 by (cases "skip_ws s") auto
    obtain k r1 where k: "parse_str r0 = Some (k, r1)" using 3 q by (auto split: if_splits option.splits)
    obtain c r2 where c: "skip_ws r1 = c # r2" using 3 q k by (auto split: if_splits list.splits)
    obtain v1 r3 where v: "parse_value n (skip_ws r2) = Some (v1, r3)" using 3 q k c by (auto simp: Let_def split: if_splits option.splits)
    have l: "length r3 < length s" using Suc.IH(1) [OF v] w [of r2] w [of r1] w [of s] parse_str_shorter [OF k] q c by simp
    show ?case using 3 q k c v l w [of r3] Suc.IH(3) [of "tl (skip_ws r3)" _ r]
      by (auto simp: Let_def split: list.splits if_splits)
  }
qed simp_all

text \<open>The values a decoder reads one after the other; it stops where it finds none.\<close>

function json_stream :: "string \<Rightarrow> json option list" where
  "json_stream s = (if skip_ws s = [] then []
     else (case parse_value (Suc (length s)) s of None \<Rightarrow> [None] | Some (v, r) \<Rightarrow> Some v # json_stream r))"
  by pat_completeness auto
termination
  by (relation "measure length") (auto simp del: parse_value.simps dest: parse_shorter(1))

declare json_stream.simps [simp del]

subsection \<open>The policy\<close>

record artifact =
  ArSHA256 :: string
  GoVersion :: string
  Advisories :: "string list"
  FindingCount :: int
  FindingsSHA256 :: string

record policy =
  PSchemaVersion :: int
  ReleaseFamily :: string
  Vendor :: string
  Scanner :: string
  ScannerVersion :: string
  PArtifacts :: "(string \<times> artifact) list"

definition decode_artifact :: "json \<Rightarrow> artifact option" where
  "decode_artifact v = do {
     ms \<leftarrow> struct_members v;
     h \<leftarrow> get_field into_str ''sha256'' ms [];
     g \<leftarrow> get_field into_str ''goVersion'' ms [];
     a \<leftarrow> get_field into_strs ''advisories'' ms [];
     n \<leftarrow> get_field (into_num fits_int64) ''findingCount'' ms 0;
     f \<leftarrow> get_field into_str ''findingsSHA256'' ms [];
     Some \<lparr>ArSHA256 = h, GoVersion = g, Advisories = a, FindingCount = n, FindingsSHA256 = f\<rparr> }"

fun into_artifacts :: "(string \<times> artifact) list \<Rightarrow> (string \<times> bytes \<times> json) list \<Rightarrow> (string \<times> artifact) list option" where
  "into_artifacts x [] = Some x"
| "into_artifacts x ((k, w, v) # ms) = (case decode_artifact v of None \<Rightarrow> None | Some a \<Rightarrow> into_artifacts (put_key k a x) ms)"

definition into_artifact_map :: "(string \<times> artifact) list \<Rightarrow> bytes \<times> json \<Rightarrow> (string \<times> artifact) list option" where
  "into_artifact_map x wv = (case snd wv of JNull \<Rightarrow> Some [] | JObj ms \<Rightarrow> into_artifacts x ms | _ \<Rightarrow> None)"

definition unmarshal_policy :: "bytes \<Rightarrow> policy option" where
  "unmarshal_policy bs = do {
     ms \<leftarrow> decode_struct bs;
     s \<leftarrow> get_field (into_num fits_int64) ''schemaVersion'' ms 0;
     r \<leftarrow> get_field into_str ''releaseFamily'' ms [];
     v \<leftarrow> get_field into_str ''vendor'' ms [];
     c \<leftarrow> get_field into_str ''scanner'' ms [];
     cv \<leftarrow> get_field into_str ''scannerVersion'' ms [];
     a \<leftarrow> get_field into_artifact_map ''artifacts'' ms [];
     Some \<lparr>PSchemaVersion = s, ReleaseFamily = r, Vendor = v, Scanner = c, ScannerVersion = cv, PArtifacts = a\<rparr> }"

subsection \<open>Values without duplicate keys\<close>

text \<open>\<open>uniqueValue\<close> reads tokens; here it is given the value they spell, so of two faults in one message a
  syntax error is the one reported. An empty array is a nil slice, which is printed as null.\<close>

definition too_deep :: goerr where
  "too_deep = ErrNew ''scanner JSON exceeds nesting bound''"

fun uniqueValue :: "nat \<Rightarrow> json \<Rightarrow> json result"
  and unique_elems :: "nat \<Rightarrow> json list \<Rightarrow> json list result"
  and unique_members :: "nat \<Rightarrow> (string \<times> bytes \<times> json) list \<Rightarrow> (string \<times> bytes \<times> json) list \<Rightarrow> (string \<times> bytes \<times> json) list result" where
  "uniqueValue depth (JObj ms) = (if depth > 64 then Inl too_deep else (case unique_members (Suc depth) [] ms of Inl e \<Rightarrow> Inl e | Inr x \<Rightarrow> Inr (JObj x)))"
| "uniqueValue depth (JArr vs) = (if depth > 64 then Inl too_deep else (case unique_elems (Suc depth) vs of Inl e \<Rightarrow> Inl e
     | Inr [] \<Rightarrow> Inr JNull | Inr xs \<Rightarrow> Inr (JArr xs)))"
| "uniqueValue depth JNull = (if depth > 64 then Inl too_deep else Inr JNull)"
| "uniqueValue depth (JBool b) = (if depth > 64 then Inl too_deep else Inr (JBool b))"
| "uniqueValue depth (JNum l) = (if depth > 64 then Inl too_deep else Inr (JNum l))"
| "uniqueValue depth (JStr t) = (if depth > 64 then Inl too_deep else Inr (JStr t))"
| "unique_elems depth [] = Inr []"
| "unique_elems depth (v # vs) = (case uniqueValue depth v of Inl e \<Rightarrow> Inl e
     | Inr x \<Rightarrow> (case unique_elems depth vs of Inl e \<Rightarrow> Inl e | Inr xs \<Rightarrow> Inr (x # xs)))"
| "unique_members depth acc [] = Inr acc"
| "unique_members depth acc ((k, w, v) # ms) = (if k \<in> fst ` set acc then Inl (ErrNew ''duplicate JSON object key'')
     else (case uniqueValue depth v of Inl e \<Rightarrow> Inl e | Inr x \<Rightarrow> unique_members depth (put_sorted k x acc) ms))"

subsection \<open>The report\<close>

record scan =
  configs :: nat
  sboms :: nat
  findings :: "string list"
  ids :: "string set"
  osvs :: "string set"

definition no_scan :: scan where
  "no_scan = \<lparr>configs = 0, sboms = 0, findings = [], ids = {}, osvs = {}\<rparr>"

definition text_at :: "(string \<times> bytes \<times> json) list \<Rightarrow> string \<Rightarrow> string option" where
  "text_at b k = (case member_value b k of JStr t \<Rightarrow> Some t | _ \<Rightarrow> None)"

definition reviewed_config :: "policy \<Rightarrow> (string \<times> bytes \<times> json) list \<Rightarrow> bool" where
  "reviewed_config p b \<longleftrightarrow> text_at b ''protocol_version'' = Some ''v1.0.0'' \<and> text_at b ''scanner_name'' = Some (Scanner p)
     \<and> text_at b ''scanner_version'' = Some (ScannerVersion p) \<and> text_at b ''db'' = Some ''https://vuln.go.dev''
     \<and> text_at b ''scan_mode'' = Some ''binary'' \<and> text_at b ''scan_level'' = Some ''symbol''"

definition scan_body :: "policy \<Rightarrow> artifact \<Rightarrow> string \<Rightarrow> (string \<times> bytes \<times> json) list \<Rightarrow> scan \<Rightarrow> scan result" where
  "scan_body p want kind b st =
     (if kind = ''config'' then
        (let st = st\<lparr>configs := Suc (configs st)\<rparr> in
         if configs st \<noteq> 1 \<or> sboms st \<noteq> 0 \<or> findings st \<noteq> [] \<or> \<not> reviewed_config p b then Inl (ErrNew ''unreviewed scanner configuration'') else Inr st)
      else if kind = ''SBOM'' then
        (let st = st\<lparr>sboms := Suc (sboms st)\<rparr> in
         if configs st \<noteq> 1 \<or> sboms st \<noteq> 1 \<or> text_at b ''go_version'' \<noteq> Some (GoVersion want) then Inl (ErrNew ''missing or changed scanner SBOM'') else Inr st)
      else if kind = ''finding'' then
        (case text_at b ''osv'' of
           Some i \<Rightarrow> if i = [] \<or> configs st \<noteq> 1 \<or> sboms st \<noteq> 1 then Inl (ErrNew ''malformed scanner finding'')
             else Inr (st\<lparr>ids := insert i (ids st), findings := findings st @ [encode_struct b]\<rparr>)
         | None \<Rightarrow> Inl (ErrNew ''malformed scanner finding''))
      else if kind = ''osv'' then
        (case text_at b ''id'' of Some i \<Rightarrow> if i = [] then Inl (ErrNew ''malformed advisory record'') else Inr (st\<lparr>osvs := insert i (osvs st)\<rparr>)
         | None \<Rightarrow> Inl (ErrNew ''malformed advisory record''))
      else if kind = ''progress'' then
        (if text_at b ''message'' = None then Inl (ErrNew ''malformed scanner progress'') else Inr st)
      else Inl (ErrNew (''unknown scanner message '' @ go_quote kind)))"

definition scan_message :: "policy \<Rightarrow> artifact \<Rightarrow> json \<Rightarrow> scan \<Rightarrow> scan result" where
  "scan_message p want v st = (case v of
     JObj [(kind, w, body)] \<Rightarrow>
       if configs st = 0 \<and> kind \<noteq> ''config'' then Inl (ErrNew ''scanner configuration must be first'')
       else (case body of JObj b \<Rightarrow> scan_body p want kind b st | _ \<Rightarrow> Inl (ErrNew ''malformed scanner message body''))
   | _ \<Rightarrow> Inl (ErrNew ''malformed scanner message''))"

fun scan_messages :: "policy \<Rightarrow> artifact \<Rightarrow> json option list \<Rightarrow> scan \<Rightarrow> scan result" where
  "scan_messages p want [] st = Inr st"
| "scan_messages p want (None # vs) st = Inl (ErrNew ''invalid scanner report'')"
| "scan_messages p want (Some v # vs) st = (case uniqueValue 0 v of Inl e \<Rightarrow> Inl e
     | Inr x \<Rightarrow> (case scan_message p want x st of Inl e \<Rightarrow> Inl e | Inr st \<Rightarrow> scan_messages p want vs st))"

definition inventory :: "string list \<Rightarrow> string" where
  "inventory fs = join_char CHR 0x0A (sort fs) @ [CHR 0x0A]"

definition checkReport :: "crypto \<Rightarrow> bytes \<Rightarrow> policy \<Rightarrow> artifact \<Rightarrow> goerr option" where
  "checkReport cr data p want = (case scan_messages p want (json_stream data) no_scan of Inl e \<Rightarrow> Some e
   | Inr st \<Rightarrow>
     if configs st \<noteq> 1 \<or> sboms st \<noteq> 1 \<or> int (length (findings st)) \<noteq> FindingCount want \<or> card (ids st) \<noteq> length (Advisories want)
     then Some (ErrNew ''incomplete or changed finding inventory'')
     else (case find (\<lambda>i. i \<notin> ids st \<or> i \<notin> osvs st) (Advisories want) of
         Some i \<Rightarrow> Some (ErrNew (''missing reviewed advisory '' @ i))
       | None \<Rightarrow> if hex_encode (sha256 cr (inventory (findings st))) \<noteq> FindingsSHA256 want
           then Some (ErrNew ''finding tuples differ from the reviewed inventory'') else None))"

subsection \<open>The whole check\<close>

definition ends_with :: "string \<Rightarrow> string \<Rightarrow> bool" where
  "ends_with e t \<longleftrightarrow> suffix e t"

definition checkText :: "bytes \<Rightarrow> string \<Rightarrow> goerr option" where
  "checkText txt status = (if status \<noteq> ''1'' \<or> \<not> ends_with (''exit status 3'' @ [CHR 0x0A]) txt \<or> \<not> sublist ''=== Symbol Results ==='' txt
     then Some (ErrNew ''text scanner did not finish with its known finding status'') else None)"

text \<open>The pattern \<open>^v3\.2\.0(-rc\.[1-9][0-9]*)?$\<close>.\<close>

definition reviewed_release :: "string \<Rightarrow> bool" where
  "reviewed_release r \<longleftrightarrow> take 6 r = ''v3.2.0'' \<and> (let s = drop 6 r in
     s = [] \<or> (take 4 s = ''-rc.'' \<and> drop 4 s \<noteq> [] \<and> hd (drop 4 s) \<noteq> CHR ''0'' \<and> list_all is_digit (drop 4 s)))"

datatype elf_machine = EM_X86_64 | EM_AARCH64 | OtherMachine

record elf_file =
  Machine :: elf_machine
  Class64 :: bool
  LittleEndian :: bool

record vendor_files =
  is_regular :: "string \<Rightarrow> bool"
  elf_open :: "string \<Rightarrow> elf_file result"
  vread :: "string \<Rightarrow> bytes result"

fun arch_of :: "elf_machine \<Rightarrow> string" where
  "arch_of EM_X86_64 = ''amd64''"
| "arch_of EM_AARCH64 = ''arm64''"
| "arch_of OtherMachine = []"

definition vendor_check :: "crypto \<Rightarrow> vendor_files \<Rightarrow> bytes \<Rightarrow> string \<Rightarrow> string \<Rightarrow> string \<Rightarrow> string \<Rightarrow> string \<Rightarrow> goerr option" where
  "vendor_check cr vf policyJSON release binary textPath textExit jsonPath =
     (case unmarshal_policy policyJSON of None \<Rightarrow> Some (ErrNew ''invalid policy'')
      | Some p \<Rightarrow>
        if PSchemaVersion p \<noteq> 1 \<or> ReleaseFamily p \<noteq> ''v3.2.0'' \<or> \<not> reviewed_release release
        then Some (ErrNew ''release is outside the reviewed v3.2.0 family'')
        else if \<not> is_regular vf binary then Some (ErrNew ''vendor executable must be a regular file'')
        else (case elf_open vf binary of Inl e \<Rightarrow> Some e
      | Inr f \<Rightarrow> (case map_of (PArtifacts p) (arch_of (Machine f)) of None \<Rightarrow> Some (ErrNew ''unreviewed ELF platform'')
      | Some want \<Rightarrow>
        if \<not> Class64 f \<or> \<not> LittleEndian f then Some (ErrNew ''unreviewed ELF platform'')
        else (case vread vf binary of Inl e \<Rightarrow> Some e
      | Inr contents \<Rightarrow>
        if hex_encode (sha256 cr contents) \<noteq> ArSHA256 want then Some (ErrNew ''official vendor executable hash differs'')
        else (case vread vf textPath of Inl e \<Rightarrow> Some e
      | Inr txt \<Rightarrow> (case checkText txt textExit of Some e \<Rightarrow> Some e
      | None \<Rightarrow> (case vread vf jsonPath of Inl e \<Rightarrow> Some e
      | Inr data \<Rightarrow> if length data > 32 * 2 ^ 20 then Some (ErrNew ''scanner report exceeds bound'') else checkReport cr data p want)))))))"

text \<open>\<open>main\<close>: the exit status, and the line that is printed.\<close>

definition vendor_main :: "crypto \<Rightarrow> vendor_files \<Rightarrow> bytes \<Rightarrow> string list \<Rightarrow> nat \<times> string" where
  "vendor_main cr vf policyJSON args = (case args of
     [prog, release, binary, textPath, textExit, jsonPath] \<Rightarrow> (case vendor_check cr vf policyJSON release binary textPath textExit jsonPath of
         Some e \<Rightarrow> (1, ''vendor disposition rejected: '' @ err_text e)
       | None \<Rightarrow> (0, ''Accepted reviewed official OpenTofu residual findings for '' @ release @ '' only; raw reports remain above.''))
   | _ \<Rightarrow> (2, ''usage: vendorcheck RELEASE BINARY TEXT_REPORT TEXT_EXIT JSON_REPORT''))"

subsection \<open>A line of the inventory is one finding\<close>

fun numerals :: "json \<Rightarrow> string set"
  and numerals_elems :: "json list \<Rightarrow> string set"
  and numerals_members :: "(string \<times> bytes \<times> json) list \<Rightarrow> string set" where
  "numerals JNull = {}"
| "numerals (JBool b) = {}"
| "numerals (JNum l) = {l}"
| "numerals (JStr t) = {}"
| "numerals (JArr vs) = numerals_elems vs"
| "numerals (JObj ms) = numerals_members ms"
| "numerals_elems [] = {}"
| "numerals_elems (v # vs) = numerals v \<union> numerals_elems vs"
| "numerals_members [] = {}"
| "numerals_members ((k, w, v) # ms) = numerals v \<union> numerals_members ms"

abbreviation one_line :: "string \<Rightarrow> bool" where
  "one_line t \<equiv> CHR 0x0A \<notin> set t"

lemma digits_one_line: "num_digits s = Some (d, r) \<Longrightarrow> one_line d"
  by (auto simp: num_digits_def Let_def is_digit_def digit_val_def dest!: set_takeWhileD split: if_splits)

lemma parse_num_one_line:
  assumes "parse_num s = Some (l, r)"
  shows "one_line l"
proof -
  have i: "one_line d" if "num_int s = Some (d, r)" for s d r
    using that by (auto simp: num_int_def dest: digits_one_line split: if_splits)
  have f: "one_line d" if "num_frac s = Some (d, r)" for s d r
    using that by (auto simp: num_frac_def prepend_Some dest!: digits_one_line split: if_splits)
  have e: "one_line d" if "num_exp s = Some (d, r)" for s d r
    using that by (auto simp: num_exp_def prepend_Some Let_def dest!: digits_one_line split: if_splits)
  obtain d1 r1 d2 r2 d3 where d: "num_int (if s \<noteq> [] \<and> hd s = CHR ''-'' then tl s else s) = Some (d1, r1)" "num_frac r1 = Some (d2, r2)" "num_exp r2 = Some (d3, r)"
      "l = (if s \<noteq> [] \<and> hd s = CHR ''-'' then ''-'' else []) @ d1 @ d2 @ d3"
    using assms by (auto simp: parse_num_def Let_def split: option.splits)
  show ?thesis using i [OF d(1)] f [OF d(2)] e [OF d(3)] d(4) by simp
qed

lemma parse_one_line:
  "parse_value n s = Some (v, r) \<Longrightarrow> l \<in> numerals v \<Longrightarrow> one_line l"
  "parse_elems n s = Some (vs, r) \<Longrightarrow> l \<in> numerals_elems vs \<Longrightarrow> one_line l"
  "parse_members n s = Some (ms, r) \<Longrightarrow> l \<in> numerals_members ms \<Longrightarrow> one_line l"
proof (induction n arbitrary: s v vs ms r)
  case (Suc n)
  {
    case 1
    then show ?case using Suc.IH(2,3) by (auto dest: parse_num_one_line split: list.splits if_splits)
  next
    case 2
    then show ?case using Suc.IH(1,2) by (auto split: list.splits if_splits option.splits prod.splits)
  next
    case 3
    then show ?case using Suc.IH(1,3) by (auto simp: Let_def split: list.splits if_splits option.splits prod.splits)
  }
qed simp_all

lemma numerals_put: "numerals_members (put_sorted k v ms) \<subseteq> numerals v \<union> numerals_members ms"
  by (induction k v ms rule: put_sorted.induct) (auto simp: member_def)

lemma unique_numerals:
  "uniqueValue depth v = Inr x \<Longrightarrow> numerals x \<subseteq> numerals v"
  "unique_elems depth vs = Inr xs \<Longrightarrow> numerals_elems xs \<subseteq> numerals_elems vs"
  "unique_members depth acc ms = Inr ys \<Longrightarrow> numerals_members ys \<subseteq> numerals_members acc \<union> numerals_members ms"
proof (induction depth v and depth vs and depth acc ms arbitrary: x and xs and ys
    rule: uniqueValue_unique_elems_unique_members.induct)
  case (10 depth acc k w v ms)
  then obtain x where x: "uniqueValue depth v = Inr x" "unique_members depth (put_sorted k x acc) ms = Inr ys" and new: "k \<notin> fst ` set acc"
    by (auto split: if_splits sum.splits)
  show ?case using "10.IH"(1) [OF new x(1)] "10.IH"(2) [OF new x] numerals_put [of k x acc] by auto
next
  case (8 depth v vs)
  then obtain x ys where x: "uniqueValue depth v = Inr x" "unique_elems depth vs = Inr ys" "xs = x # ys"
    by (auto split: sum.splits)
  show ?case using "8.IH"(1) [OF x(1)] "8.IH"(2) [OF x(1,2)] x(3) by auto
qed (auto split: if_splits sum.splits list.splits)

lemma utf8_continuation:
  assumes "utf8_len (c # cs) = Suc n" and "z \<in> set (take n cs)"
  shows "(0x80::nat) \<le> of_char z"
  using assms by (auto simp: utf8_len_def split: if_splits list.splits)

lemma escape_one_line: "one_line (json_escape s)"
proof (induction s rule: json_escape.induct)
  case (2 c cs)
  have hex: "CHR 0x0A \<noteq> hex_char k" if "k < 16" for k
  proof -
    have "hex_val CHR 0x0A = None" by (simp add: hex_val_def)
    then show ?thesis using hex_val_char [OF that] by auto
  qed
  have "(of_char c :: nat) < 256" by (rule of_char_lt_256)
  then have esc: "one_line (esc_ascii c)" using hex [of "of_char c div 16"] hex [of "of_char c mod 16"] by (auto simp: esc_ascii_def)
  have "one_line (take n cs)" if "utf8_len (c # cs) = Suc n" for n
    using utf8_continuation [OF that, of "CHR 0x0A"] by auto
  then show ?case using 2 esc by (auto split: nat.splits)
qed simp

lemma encode_one_line:
  "\<forall>l \<in> numerals v. one_line l \<Longrightarrow> one_line (json_encode v)"
  "\<forall>l \<in> numerals_elems vs. one_line l \<Longrightarrow> one_line (encode_elems vs)"
  "\<forall>l \<in> numerals_members ms. one_line l \<Longrightarrow> one_line (encode_members ms)"
  by (induction v and vs and ms rule: json_encode_encode_elems_encode_members.induct)
    (auto simp: json_quote_def escape_one_line)

subsection \<open>What an accepted report holds\<close>

text \<open>The findings a report holds, in the order of its messages.\<close>

definition finding_of :: "json option \<Rightarrow> string list" where
  "finding_of m = (case m of Some v \<Rightarrow> (case uniqueValue 0 v of
       Inr (JObj [(kind, w, JObj b)]) \<Rightarrow> if kind = ''finding'' then [encode_struct b] else [] | _ \<Rightarrow> []) | None \<Rightarrow> [])"

definition reported :: "bytes \<Rightarrow> string list" where
  "reported data = concat (map finding_of (json_stream data))"

lemma scan_message_findings:
  assumes "uniqueValue 0 v = Inr x" and "scan_message p want x st = Inr st'"
  shows "findings st' = findings st @ finding_of (Some v)"
  using assms by (auto simp: scan_message_def scan_body_def finding_of_def Let_def split: json.splits list.splits if_splits option.splits)

lemma scan_messages_findings:
  "scan_messages p want vs st = Inr st' \<Longrightarrow> findings st' = findings st @ concat (map finding_of vs)"
proof (induction p want vs st rule: scan_messages.induct)
  case (3 p want v vs st)
  from "3.prems" obtain x st1 where x: "uniqueValue 0 v = Inr x" "scan_message p want x st = Inr st1" "scan_messages p want vs st1 = Inr st'"
    by (auto split: sum.splits)
  then show ?case using "3.IH" scan_message_findings [OF x(1,2)] by simp
qed simp_all

lemma json_stream_one_line: "Some v \<in> set (json_stream s) \<Longrightarrow> l \<in> numerals v \<Longrightarrow> one_line l"
proof (induction s rule: json_stream.induct)
  case (1 s)
  show ?case
  proof (cases "skip_ws s = [] \<or> parse_value (Suc (length s)) s = None")
    case True
    then show ?thesis using "1.prems"(1) by (auto simp: json_stream.simps [of s] simp del: parse_value.simps split: if_splits)
  next
    case False
    then obtain u r where u: "parse_value (Suc (length s)) s = Some (u, r)" by auto
    then have "v = u \<or> Some v \<in> set (json_stream r)" using "1.prems"(1) False by (auto simp: json_stream.simps [of s] simp del: parse_value.simps split: if_splits)
    then show ?thesis using "1.IH" [OF _ u] False "1.prems"(2) parse_one_line(1) [OF u] by auto
  qed
qed

lemma reported_one_line:
  assumes "f \<in> set (reported data)"
  shows "f \<noteq> [] \<and> one_line f"
proof -
  obtain v where v: "Some v \<in> set (json_stream data)" "f \<in> set (finding_of (Some v))"
    using assms by (auto simp: reported_def finding_of_def split: option.splits)
  then obtain kind w b where b: "uniqueValue 0 v = Inr (JObj [(kind, w, JObj b)])" "f = encode_struct b"
    by (auto simp: finding_of_def split: sum.splits json.splits list.splits if_splits dest: sym)
  have "\<forall>l \<in> numerals (JObj b). one_line l" using unique_numerals(1) [OF b(1)] json_stream_one_line [OF v(1)] by auto
  then show ?thesis using encode_one_line(1) [of "JObj b"] b(2) by (simp add: encode_struct_def)
qed

lemma join_inject:
  assumes "\<forall>x \<in> set xs \<union> set ys. x \<noteq> [] \<and> c \<notin> set x" and "join_char c xs = join_char c ys"
  shows "xs = ys"
proof -
  have e: "join_char c zs = [] \<longleftrightarrow> zs = []" if "\<forall>z \<in> set zs. z \<noteq> []" for zs
    using that by (cases "(c, zs)" rule: join_char.cases) auto
  have "xs = [] \<longleftrightarrow> ys = []" using e [of xs] e [of ys] assms by auto
  moreover have "split_char c (join_char c zs) = zs" if "zs \<noteq> []" "set zs \<subseteq> set xs \<union> set ys" for zs
    using that assms(1) by (intro split_join) auto
  ultimately show ?thesis by (metis assms(2) inf_sup_ord(3,4))
qed

lemma inventory_inject:
  assumes "\<forall>f \<in> set fs \<union> set gs. f \<noteq> [] \<and> one_line f" and "inventory fs = inventory gs"
  shows "mset fs = mset gs"
proof -
  have "sort fs = sort gs" by (rule join_inject [of _ _ "CHR 0x0A"]) (use assms in \<open>simp_all add: inventory_def\<close>)
  then show ?thesis by (metis mset_sort)
qed

text \<open>The order in which the findings were written does not matter.\<close>

lemma inventory_order: "mset fs = mset gs \<Longrightarrow> inventory fs = inventory gs"
  using properties_for_sort [of "sort gs" fs] by (simp add: inventory_def)

lemma accepted_report:
  assumes "checkReport cr data p want = None"
  obtains st where "scan_messages p want (json_stream data) no_scan = Inr st" and "findings st = reported data"
    and "configs st = 1" and "sboms st = 1" and "int (length (reported data)) = FindingCount want"
    and "card (ids st) = length (Advisories want)" and "set (Advisories want) \<subseteq> ids st \<inter> osvs st"
    and "hex_encode (sha256 cr (inventory (reported data))) = FindingsSHA256 want"
proof -
  obtain st where st: "scan_messages p want (json_stream data) no_scan = Inr st"
    using assms by (auto simp: checkReport_def split: sum.splits)
  have f: "findings st = reported data" using scan_messages_findings [OF st] by (simp add: reported_def no_scan_def)
  show ?thesis using assms st f by (intro that) (auto simp: checkReport_def find_None_iff split: if_splits option.splits)
qed

text \<open>A report cannot bring an advisory that was not reviewed: the advisories of its findings are the reviewed
  ones, when none of these is listed twice.\<close>

lemma accepted_advisories:
  assumes "scan_messages p want vs no_scan = Inr st" and "set (Advisories want) \<subseteq> ids st" and "card (ids st) = length (Advisories want)"
    and "distinct (Advisories want)"
  shows "ids st = set (Advisories want)"
proof -
  have keeps: "finite (ids st')" if "finite (ids st)" "scan_message p want x st = Inr st'" for p want x st st'
    using that by (auto simp: scan_message_def scan_body_def Let_def split: json.splits list.splits if_splits option.splits)
  have "finite (ids st')" if "finite (ids st)" "scan_messages p want vs st = Inr st'" for p want vs st st'
    using that(2,1)
  proof (induction p want vs st rule: scan_messages.induct)
    case (3 p want v vs st)
    from "3.prems"(1) obtain x st1 where x: "uniqueValue 0 v = Inr x" "scan_message p want x st = Inr st1" "scan_messages p want vs st1 = Inr st'"
      by (auto split: sum.splits)
    show ?case by (rule "3.IH" [OF x keeps [OF "3.prems"(2) x(2)]])
  qed simp_all
  then have "finite (ids st)" using assms(1) by (force simp: no_scan_def)
  then show ?thesis using assms(2-4) by (metis card_subset_eq distinct_card)
qed

text \<open>C40: the check of a report accepts one inventory only: two reports accepted for the same artifact hold the
  same findings, each as often, unless SHA-256 collides on their inventories; the order of the findings is free.\<close>

theorem reviewed_findings:
  assumes "checkReport cr data p want = None" and "checkReport cr data' p want = None"
    and "inj_on (sha256 cr) {inventory (reported data), inventory (reported data')}"
  shows "mset (reported data) = mset (reported data')"
proof -
  have "hex_encode (sha256 cr (inventory (reported data))) = hex_encode (sha256 cr (inventory (reported data')))"
    using assms(1,2) by (metis accepted_report)
  then have "sha256 cr (inventory (reported data)) = sha256 cr (inventory (reported data'))" by (metis hex_decode_encode option.inject)
  then have "inventory (reported data) = inventory (reported data')" by (rule inj_onD [OF assms(3)]) (rule insertI1, rule insertI2, rule insertI1)
  then show ?thesis using reported_one_line by (intro inventory_inject) blast+
qed

subsection \<open>A small report\<close>

definition demo_policy :: policy where
  "demo_policy = \<lparr>PSchemaVersion = 1, ReleaseFamily = ''v3.2.0'', Vendor = ''tofu'', Scanner = ''s'', ScannerVersion = ''v1'', PArtifacts = []\<rparr>"

definition demo_findings :: "string list" where
  "demo_findings = [encode_struct [member ''osv'' (JStr ''G1''), member ''x'' (JBool True)], encode_struct [member ''osv'' (JStr ''G1'')]]"

definition demo_artifact :: artifact where
  "demo_artifact = \<lparr>ArSHA256 = [], GoVersion = ''go'', Advisories = [''G1''], FindingCount = 2,
     FindingsSHA256 = hex_encode (inventory demo_findings)\<rparr>"

definition demo_start :: "json list" where
  "demo_start = [JObj [member ''config'' (JObj [member ''protocol_version'' (JStr ''v1.0.0''), member ''scanner_name'' (JStr ''s''), member ''scanner_version'' (JStr ''v1''),
       member ''db'' (JStr ''https://vuln.go.dev''), member ''scan_mode'' (JStr ''binary''), member ''scan_level'' (JStr ''symbol'')])],
     JObj [member ''SBOM'' (JObj [member ''go_version'' (JStr ''go'')])], JObj [member ''osv'' (JObj [member ''id'' (JStr ''G1'')])]]"

definition demo_messages :: "json list" where
  "demo_messages = demo_start @ [JObj [member ''finding'' (JObj [member ''x'' (JBool True), member ''osv'' (JStr ''G1'')])], JObj [member ''finding'' (JObj [member ''osv'' (JStr ''G1'')])]]"

definition demo_messages' :: "json list" where
  "demo_messages' = demo_start @ [JObj [member ''finding'' (JObj [member ''osv'' (JStr ''G1'')])], JObj [member ''finding'' (JObj [member ''osv'' (JStr ''G1''), member ''x'' (JBool True)])]]"

definition report_of :: "json list \<Rightarrow> bytes" where
  "report_of vs = concat (map json_encode vs)"

text \<open>Objects written one after the other are read back one by one.\<close>

lemma json_stream_objects: "\<forall>v \<in> set vs. json_wf v \<and> (\<exists>ms. v = JObj ms) \<Longrightarrow> json_stream (report_of vs) = map Some vs"
proof (induction vs)
  case Nil
  then show ?case by (simp add: report_of_def json_stream.simps)
next
  case (Cons v vs)
  have stop: "num_stop (report_of vs)"
    using Cons.prems by (cases vs) (auto simp: report_of_def num_stop_def is_digit_def digit_val_def)
  have "parse_value (Suc (length (json_encode v @ report_of vs))) (json_encode v @ report_of vs) = Some (v, report_of vs)"
    using Cons.prems stop by (intro roundtrip_parse(1)) auto
  moreover obtain ms where "v = JObj ms" using Cons.prems by force
  then have "skip_ws (json_encode v @ report_of vs) \<noteq> []" by (simp add: json_ws_def)
  moreover have "json_stream (report_of vs) = map Some vs" using Cons by simp
  moreover have "report_of (v # vs) = json_encode v @ report_of vs" by (simp add: report_of_def)
  ultimately show ?case by (simp only: json_stream.simps [of "json_encode v @ report_of vs"] if_False option.case prod.case list.map)
qed

lemma demo_stream: "json_stream (report_of demo_messages) = map Some demo_messages" "json_stream (report_of demo_messages') = map Some demo_messages'"
  by (rule json_stream_objects, simp add: demo_messages_def demo_messages'_def demo_start_def member_def ascii_def)+

lemma demo_scan:
  "scan_messages demo_policy demo_artifact (map Some demo_messages) no_scan
     = Inr \<lparr>configs = 1, sboms = 1, findings = demo_findings, ids = {''G1''}, osvs = {''G1''}\<rparr>"
  "scan_messages demo_policy demo_artifact (map Some demo_messages') no_scan
     = Inr \<lparr>configs = 1, sboms = 1, findings = rev demo_findings, ids = {''G1''}, osvs = {''G1''}\<rparr>"
  by (simp_all add: demo_messages_def demo_messages'_def demo_start_def demo_findings_def no_scan_def scan_message_def scan_body_def
      reviewed_config_def text_at_def member_value_def demo_policy_def demo_artifact_def member_def)

lemma demo_accepted:
  "checkReport (test_crypto\<lparr>sha256 := \<lambda>x. x\<rparr>) (report_of demo_messages) demo_policy demo_artifact = None"
  "checkReport (test_crypto\<lparr>sha256 := \<lambda>x. x\<rparr>) (report_of demo_messages') demo_policy demo_artifact = None"
  using inventory_order [of "rev demo_findings" demo_findings]
  by (simp_all add: checkReport_def demo_stream demo_scan) (simp_all add: demo_artifact_def demo_findings_def)

theorem reviewed_findings_witness:
  "mset (reported (report_of demo_messages)) = mset (reported (report_of demo_messages')) \<and> reported (report_of demo_messages) \<noteq> reported (report_of demo_messages')"
proof -
  have "reported (report_of demo_messages) = demo_findings" "reported (report_of demo_messages') = rev demo_findings"
    using scan_messages_findings [OF demo_scan(1)] scan_messages_findings [OF demo_scan(2)]
    by (simp_all add: reported_def demo_stream no_scan_def)
  moreover have "demo_findings \<noteq> rev demo_findings" by (simp add: demo_findings_def encode_struct_def member_def)
  ultimately show ?thesis using reviewed_findings [OF demo_accepted] by simp
qed

end
