(* ===== verification/NoticeCheck.thy ===== *)
theory NoticeCheck
  imports VendorCheck Paths
begin

section \<open>The check of the notices (scripts/noticecheck/main.go)\<close>

text \<open>
  A release carries the licenses of everything that is linked into it. The check compares the notices with
  the modules the Go toolchain reports. Files, the toolchain, the hashes and the order in which Go visits the
  entries of a map are arguments.
\<close>

datatype entry_type = RegularEntry | SymlinkEntry | OtherEntry

text \<open>One call of the function \<open>filepath.WalkDir\<close> is given: an error, or an entry with its name.\<close>

datatype visit = WalkErr | Visit string entry_type

record notice_world =
  nw_regular :: "string \<Rightarrow> bool"
  nw_read :: "string \<Rightarrow> bytes result"
  nw_walk :: "string \<Rightarrow> visit list"
  nw_environ :: "string list"
  nw_go :: "string \<Rightarrow> string list \<Rightarrow> string list \<Rightarrow> bytes option"
  nw_version :: string
  nw_goroot :: string
  nw_sha256 :: "bytes \<Rightarrow> bytes"
  nw_sha1 :: "bytes \<Rightarrow> bytes"
  nw_order :: "(string \<times> string) list \<Rightarrow> (string \<times> string) list"

definition hash :: "notice_world \<Rightarrow> bytes \<Rightarrow> string" where
  "hash w data = hex_encode (nw_sha256 w data)"

definition gitBlob :: "notice_world \<Rightarrow> bytes \<Rightarrow> string" where
  "gitBlob w data = hex_encode (nw_sha1 w (''blob '' @ nat_str (length data) @ [CHR 0x00] @ data))"

definition regular :: "notice_world \<Rightarrow> string \<Rightarrow> bytes result" where
  "regular w path = (if \<not> nw_regular w path then Inl (ErrNew ''required regular notice missing'') else nw_read w path)"

definition same :: "notice_world \<Rightarrow> string \<Rightarrow> string \<Rightarrow> goerr option" where
  "same w one other = (case regular w one of Inl e \<Rightarrow> Some e
   | Inr a \<Rightarrow> (case regular w other of Inl e \<Rightarrow> Some e
   | Inr b \<Rightarrow> if a \<noteq> b then Some (ErrNew ''notice differs from authoritative input'') else None))"

subsection \<open>The toolchain\<close>

text \<open>Every setting of the environment that could change what is built is replaced.\<close>

definition forced_settings :: "string \<Rightarrow> string list" where
  "forced_settings arch = [''GOOS=linux'', ''GOARCH='' @ arch, ''CGO_ENABLED=0'', ''GOWORK=off'', ''GOENV=off'', ''GOTOOLCHAIN=go1.26.10'', ''GOFLAGS='', ''GOEXPERIMENT='']"

definition force_setting :: "string list \<Rightarrow> string \<Rightarrow> string list" where
  "force_setting env item = (let key = hd (split_char CHR ''='' item) @ ''='' in filter (\<lambda>old. \<not> prefix key old) env @ [item])"

definition go_environ :: "string \<Rightarrow> string list \<Rightarrow> string list" where
  "go_environ arch env = foldl force_setting env (forced_settings arch)"

definition command :: "notice_world \<Rightarrow> string \<Rightarrow> string \<Rightarrow> string list \<Rightarrow> bytes result" where
  "command w root arch args = (case nw_go w root (go_environ arch (nw_environ w)) args of
     None \<Rightarrow> Inl (ErrNew ''authoritative Go metadata failed'') | Some data \<Rightarrow> Inr data)"

subsection \<open>The receipt of a license\<close>

text \<open>The tokens are read off the value they spell; \<open>null\<close> leaves a string empty.\<close>

fun receipt_members :: "(string \<times> string) list \<Rightarrow> (string \<times> bytes \<times> json) list \<Rightarrow> (string \<times> string) list result" where
  "receipt_members acc [] = Inr acc"
| "receipt_members acc ((k, w, v) # ms) = (if k \<in> fst ` set acc then Inl (ErrNew ''duplicate provenance key'')
     else (case into_str [] (w, v) of None \<Rightarrow> Inl (ErrNew ''json: cannot unmarshal into a string'')
       | Some t \<Rightarrow> receipt_members (acc @ [(k, t)]) ms))"

definition receipt :: "bytes \<Rightarrow> (string \<times> string) list result" where
  "receipt data = (case json_stream data of
     Some (JObj ms) # rest \<Rightarrow> (case receipt_members [] ms of Inl e \<Rightarrow> Inl e
       | Inr r \<Rightarrow> if rest \<noteq> [] then Inl (ErrNew ''trailing provenance JSON'') else Inr r)
   | _ \<Rightarrow> Inl (ErrNew ''invalid provenance JSON''))"

subsection \<open>What the check reads\<close>

record vendor_source =
  VSVersion :: string
  VSSourceCommit :: string
  VSSourceURL :: string
  NoticeSHA256 :: "(string \<times> string) list"

fun into_string_map :: "(string \<times> string) list \<Rightarrow> (string \<times> bytes \<times> json) list \<Rightarrow> (string \<times> string) list option" where
  "into_string_map x [] = Some x"
| "into_string_map x ((k, w, v) # ms) = (case into_str [] (w, v) of None \<Rightarrow> None | Some t \<Rightarrow> into_string_map (put_key k t x) ms)"

definition into_strings :: "(string \<times> string) list \<Rightarrow> bytes \<times> json \<Rightarrow> (string \<times> string) list option" where
  "into_strings x wv = (case snd wv of JNull \<Rightarrow> Some [] | JObj ms \<Rightarrow> into_string_map x ms | _ \<Rightarrow> None)"

definition unmarshal_vendor_source :: "bytes \<Rightarrow> vendor_source option" where
  "unmarshal_vendor_source bs = do {
     ms \<leftarrow> decode_struct bs;
     v \<leftarrow> get_field into_str ''version'' ms [];
     c \<leftarrow> get_field into_str ''sourceCommit'' ms [];
     u \<leftarrow> get_field into_str ''sourceURL'' ms [];
     n \<leftarrow> get_field into_strings ''noticeSHA256'' ms [];
     Some \<lparr>VSVersion = v, VSSourceCommit = c, VSSourceURL = u, NoticeSHA256 = n\<rparr> }"

record module_origin =
  MOPath :: string
  MOVersion :: string
  MOSum :: string
  MOReplace :: "json option"
  MOOrigin :: "string option"

definition into_any :: "(string \<Rightarrow> string option) \<Rightarrow> json option \<Rightarrow> bytes \<times> json \<Rightarrow> json option option" where
  "into_any num x wv = (case any_of num (snd wv) of None \<Rightarrow> None | Some JNull \<Rightarrow> Some None | Some v \<Rightarrow> Some (Some v))"

definition into_origin :: "string option \<Rightarrow> bytes \<times> json \<Rightarrow> string option option" where
  "into_origin x wv = (case snd wv of JNull \<Rightarrow> Some None
     | JObj ms \<Rightarrow> map_option Some (get_field into_str ''Hash'' ms (case x of None \<Rightarrow> [] | Some h \<Rightarrow> h)) | _ \<Rightarrow> None)"

definition unmarshal_origin :: "(string \<Rightarrow> string option) \<Rightarrow> bytes \<Rightarrow> module_origin option" where
  "unmarshal_origin num bs = do {
     ms \<leftarrow> decode_struct bs;
     p \<leftarrow> get_field into_str ''Path'' ms [];
     v \<leftarrow> get_field into_str ''Version'' ms [];
     s \<leftarrow> get_field into_str ''Sum'' ms [];
     r \<leftarrow> get_field (into_any num) ''Replace'' ms None;
     g \<leftarrow> get_field into_origin ''Origin'' ms None;
     Some \<lparr>MOPath = p, MOVersion = v, MOSum = s, MOReplace = r, MOOrigin = g\<rparr> }"

text \<open>The modules of the graph, and where their sources are.\<close>

fun module_graph :: "string list \<Rightarrow> (string \<times> string) list \<Rightarrow> (string \<times> string) list \<Rightarrow> ((string \<times> string) list \<times> (string \<times> string) list) result" where
  "module_graph [] modules dirs = Inr (modules, dirs)"
| "module_graph (line # ls) modules dirs = (if line = [] then module_graph ls modules dirs
     else (case split_char CHR ''|'' line of
         [m, v, d] \<Rightarrow> module_graph ls (put_key m v modules) (put_key m d dirs)
       | _ \<Rightarrow> Inl (ErrNew ''invalid Go graph'')))"

definition hex_of :: "nat \<Rightarrow> string \<Rightarrow> bool" where
  "hex_of n t \<longleftrightarrow> length t = n \<and> list_all (\<lambda>c. is_digit c \<or> c \<in> set ''abcdef'') t"

type_synonym license_decl = "string \<times> string \<times> string"

fun declared_licenses :: "string list \<Rightarrow> (string \<times> license_decl) list \<Rightarrow> (string \<times> license_decl) list result" where
  "declared_licenses [] declared = Inr declared"
| "declared_licenses (line # ls) declared = (if line = [] \<or> prefix ''#'' line then declared_licenses ls declared
     else (case split_char CHR ''|'' line of
         [m, spdx, sha, blob] \<Rightarrow>
           if m \<in> fst ` set declared \<or> spdx \<noteq> ''EUPL-1.2'' \<or> \<not> hex_of 64 sha \<or> \<not> hex_of 40 blob then Inl (ErrNew ''invalid license declaration'')
           else declared_licenses ls ((m, spdx, sha, blob) # declared)
       | _ \<Rightarrow> Inl (ErrNew ''invalid license declaration'')))"

subsection \<open>The notice of a module\<close>

text \<open>Upper case, as far as a prefix of ASCII letters can tell: beside the letters of ASCII only the dotless i and the
  long s have a capital in ASCII.\<close>

fun upper :: "string \<Rightarrow> string" where
  "upper [] = []"
| "upper (c # cs) = (case cs of
       d # r \<Rightarrow> if c = CHR 0xC4 \<and> d = CHR 0xB1 then CHR ''I'' # upper r else if c = CHR 0xC5 \<and> d = CHR 0xBF then CHR ''S'' # upper r
         else (if byte_in 97 122 c then char_of (of_char c - (32 :: nat)) else c) # upper cs
     | [] \<Rightarrow> [if byte_in 97 122 c then char_of (of_char c - (32 :: nat)) else c])"

definition notice_name :: "string \<Rightarrow> bool" where
  "notice_name n \<longleftrightarrow> prefix ''LICENSE'' (upper n) \<or> prefix ''LICENCE'' (upper n) \<or> prefix ''COPYING'' (upper n)"

text \<open>Whether the walk ended without an error, and found a notice.\<close>

fun walk_notices :: "visit list \<Rightarrow> bool \<Rightarrow> bool option" where
  "walk_notices [] found = Some found"
| "walk_notices (WalkErr # vs) found = None"
| "walk_notices (Visit n t # vs) found = (if t = SymlinkEntry then None else walk_notices vs (found \<or> t = RegularEntry \<and> notice_name n))"

text \<open>The pattern \<open>^h1:[A-Za-z0-9+/]{43}=$\<close>.\<close>

definition module_sum :: "string \<Rightarrow> bool" where
  "module_sum t \<longleftrightarrow> length t = 47 \<and> take 3 t = ''h1:'' \<and> last t = CHR ''=''
     \<and> list_all (\<lambda>c. byte_in 65 90 c \<or> byte_in 97 122 c \<or> is_digit c \<or> c \<in> {CHR ''+'', CHR ''/''}) (take 43 (drop 3 t))"

definition wanted_receipt :: "string \<Rightarrow> string \<Rightarrow> string \<Rightarrow> string \<Rightarrow> license_decl \<Rightarrow> (string \<times> string) list" where
  "wanted_receipt m version commit h1 decl = (case decl of (spdx, sha, blob) \<Rightarrow>
     [(''module'', m), (''version'', version), (''sourceCommit'', commit), (''moduleSum'', h1), (''licenseBlob'', blob), (''licenseSHA256'', sha), (''spdx'', spdx)])"

definition or_empty :: "string option \<Rightarrow> string" where
  "or_empty x = (case x of None \<Rightarrow> [] | Some t \<Rightarrow> t)"

definition verified_origin :: "bytes \<Rightarrow> string \<Rightarrow> string \<Rightarrow> module_origin \<Rightarrow> bool" where
  "verified_origin sums m version g \<longleftrightarrow> MOPath g = m \<and> MOVersion g = version \<and> MOReplace g = None
     \<and> (case MOOrigin g of None \<Rightarrow> False | Some h \<Rightarrow> hex_of 40 h) \<and> module_sum (MOSum g)
     \<and> sublist ([CHR 0x0A] @ m @ '' '' @ version @ '' '' @ MOSum g @ [CHR 0x0A]) ([CHR 0x0A] @ sums)"

definition check_receipt :: "(string \<times> string) list \<Rightarrow> (string \<times> string) list \<Rightarrow> goerr option" where
  "check_receipt actual want = (if length actual \<noteq> length want then Some (ErrNew ''provenance field set differs'')
     else if \<exists>(k, v) \<in> set want. or_empty (map_of actual k) \<noteq> v then Some (ErrNew ''declared module provenance differs'') else None)"

definition check_declared :: "notice_world \<Rightarrow> (string \<Rightarrow> string option) \<Rightarrow> string \<Rightarrow> string \<Rightarrow> string \<Rightarrow> bytes \<Rightarrow> string
    \<Rightarrow> string \<Rightarrow> string \<Rightarrow> license_decl \<Rightarrow> goerr option" where
  "check_declared w num bundle root arch sums dir m version decl = (case decl of (spdx, sha, blob) \<Rightarrow>
     let path = path_join (path_join bundle m) ''LICENSE'' in
     (case regular w path of Inl e \<Rightarrow> Some (ErrNew ''declared license bytes differ'')
      | Inr license \<Rightarrow>
        if hash w license \<noteq> sha \<or> gitBlob w license \<noteq> blob then Some (ErrNew ''declared license bytes differ'')
        else (case same w path (path_join dir ''LICENSE'') of Some e \<Rightarrow> Some e
      | None \<Rightarrow> (case command w root arch [''mod'', ''download'', ''-json'', m @ ''@'' @ version] of Inl e \<Rightarrow> Some e
      | Inr metadata \<Rightarrow> (case unmarshal_origin num metadata of None \<Rightarrow> Some (ErrNew ''unverified declared module provenance'')
      | Some g \<Rightarrow>
        if \<not> verified_origin sums m version g then Some (ErrNew ''unverified declared module provenance'')
        else (case regular w (path_join (path_join bundle m) ''LICENSE.provenance'') of Inl e \<Rightarrow> Some e
      | Inr data \<Rightarrow> (case receipt data of Inl e \<Rightarrow> Some e
      | Inr actual \<Rightarrow> check_receipt actual (wanted_receipt m version (or_empty (MOOrigin g)) (MOSum g) decl))))))))"

abbreviation own_module :: string where
  "own_module \<equiv> ''github.com/stellwerk-labs/platform-orchestrator-runner''"

definition check_module :: "notice_world \<Rightarrow> (string \<Rightarrow> string option) \<Rightarrow> string \<Rightarrow> string \<Rightarrow> string \<Rightarrow> bytes
    \<Rightarrow> (string \<times> license_decl) list \<Rightarrow> (string \<times> string) list \<Rightarrow> string \<times> string \<Rightarrow> goerr option" where
  "check_module w num bundle root arch sums declared dirs mv = (case mv of (m, version) \<Rightarrow>
     if m = own_module then None
     else if walk_notices (nw_walk w (path_join bundle m)) False \<noteq> Some True then Some (ErrNew ''production dependency notice missing'')
     else (case map_of declared m of None \<Rightarrow> None
       | Some decl \<Rightarrow> check_declared w num bundle root arch sums (or_empty (map_of dirs m)) m version decl))"

subsection \<open>The whole check\<close>

fun first_failure :: "('a \<Rightarrow> goerr option) \<Rightarrow> 'a list \<Rightarrow> goerr option" where
  "first_failure f [] = None"
| "first_failure f (x # xs) = (case f x of Some e \<Rightarrow> Some e | None \<Rightarrow> first_failure f xs)"

definition copied_notices :: "notice_world \<Rightarrow> string \<Rightarrow> (string \<times> string) list" where
  "copied_notices w root = [(''application/LICENSE'', path_join root ''LICENSE''), (''go/LICENSE'', path_join (nw_goroot w) ''LICENSE''),
     (''go/PATENTS'', path_join (nw_goroot w) ''PATENTS''), (''opentofu/SOURCE.json'', path_join root ''scripts/release-notices/opentofu-source.json'')]"

definition reviewed_source :: "vendor_source \<Rightarrow> bool" where
  "reviewed_source v \<longleftrightarrow> VSVersion v = ''1.13.2'' \<and> VSSourceCommit v = ''765062032c46cacab116b36d714db098b806dede''
     \<and> VSSourceURL v = ''https://github.com/opentofu/opentofu/tree/'' @ VSSourceCommit v \<and> length (NoticeSHA256 v) = 3"

definition check_vendor :: "notice_world \<Rightarrow> string \<Rightarrow> goerr option" where
  "check_vendor w bundle = (case regular w (path_join bundle ''opentofu/SOURCE.json'') of Inl e \<Rightarrow> Some e
   | Inr source \<Rightarrow> (case unmarshal_vendor_source source of None \<Rightarrow> Some (ErrNew ''invalid vendor source binding'')
   | Some v \<Rightarrow>
     if \<not> reviewed_source v then Some (ErrNew ''invalid vendor source binding'')
     else first_failure (\<lambda>name. case regular w (path_join (path_join bundle ''opentofu'') name) of
         Inl e \<Rightarrow> Some (ErrNew ''vendor notice differs from authenticated archive'')
       | Inr data \<Rightarrow> if hash w data \<noteq> or_empty (map_of (NoticeSHA256 v) name)
           then Some (ErrNew ''vendor notice differs from authenticated archive'') else None)
       [''LICENSE'', ''README.md'', ''CHANGELOG.md'']))"

definition module_list :: "(string \<times> string) list \<Rightarrow> bytes" where
  "module_list modules = join_char CHR 0x0A (sort (map (\<lambda>(m, v). m @ ''|'' @ v) modules)) @ [CHR 0x0A]"

definition graph_args :: "string list" where
  "graph_args = [''list'', ''-mod=readonly'', ''-deps'', ''-f'', ''{{with .Module}}{{.Path}}|{{.Version}}|{{.Dir}}{{end}}'', ''./cmd/runner'']"

definition check_modules :: "notice_world \<Rightarrow> (string \<Rightarrow> string option) \<Rightarrow> string \<Rightarrow> string \<Rightarrow> string \<Rightarrow> goerr option" where
  "check_modules w num bundle root arch =
     (case command w root arch graph_args of Inl e \<Rightarrow> Some e
      | Inr graph \<Rightarrow> (case module_graph (split_char CHR 0x0A graph) [] [] of Inl e \<Rightarrow> Some e
      | Inr (modules, dirs) \<Rightarrow>
        if regular w (path_join bundle ''modules.txt'') \<noteq> Inr (module_list (nw_order w modules)) then Some (ErrNew ''production module closure differs'')
        else (case nw_read w (path_join root ''scripts/declared-licenses.tsv'') of Inl e \<Rightarrow> Some e
      | Inr declarations \<Rightarrow> (case declared_licenses (split_char CHR 0x0A declarations) [] of Inl e \<Rightarrow> Some e
      | Inr declared \<Rightarrow> (case nw_read w (path_join root ''go.sum'') of Inl e \<Rightarrow> Some e
      | Inr sums \<Rightarrow> first_failure (check_module w num bundle root arch sums declared dirs) (nw_order w modules))))))"

definition notice_check :: "notice_world \<Rightarrow> (string \<Rightarrow> string option) \<Rightarrow> string \<Rightarrow> string \<Rightarrow> string \<Rightarrow> goerr option" where
  "notice_check w num bundle root arch =
     (if arch \<noteq> ''amd64'' \<and> arch \<noteq> ''arm64'' then Some (ErrNew ''unsupported target'')
      else if nw_version w \<noteq> ''go1.26.10'' then Some (ErrNew ''unexpected notice verifier compiler'')
      else (case first_failure (\<lambda>(target, source). same w (path_join bundle target) source) (nw_order w (copied_notices w root)) of Some e \<Rightarrow> Some e
      | None \<Rightarrow> (case check_vendor w bundle of Some e \<Rightarrow> Some e
      | None \<Rightarrow>
        if regular w (path_join bundle ''target.txt'') \<noteq> Inr (''linux/'' @ arch @ [CHR 0x0A]) then Some (ErrNew ''wrong notice target'')
        else check_modules w num bundle root arch)))"

text \<open>\<open>main\<close>: the exit status, and the line that is printed.\<close>

definition notice_main :: "notice_world \<Rightarrow> (string \<Rightarrow> string option) \<Rightarrow> string list \<Rightarrow> nat \<times> string" where
  "notice_main w num args = (case args of
     [prog, bundle, root, arch] \<Rightarrow> (case notice_check w num bundle root arch of
         Some e \<Rightarrow> (1, ''notice validation rejected: '' @ err_text e) | None \<Rightarrow> (0, []))
   | _ \<Rightarrow> (2, ''usage: noticecheck BUNDLE SOURCE_ROOT amd64|arm64''))"

subsection \<open>What an accepted bundle holds\<close>

lemma first_failure_None: "first_failure f xs = None \<longleftrightarrow> (\<forall>x \<in> set xs. f x = None)"
  by (induction xs) (auto split: option.splits)

text \<open>The order in which Go visits the entries of a map decides at most which error is reported.\<close>

lemma order_free_reads:
  "hash (w\<lparr>nw_order := ord\<rparr>) = hash w" "gitBlob (w\<lparr>nw_order := ord\<rparr>) = gitBlob w" "regular (w\<lparr>nw_order := ord\<rparr>) = regular w"
  "command (w\<lparr>nw_order := ord\<rparr>) = command w" "copied_notices (w\<lparr>nw_order := ord\<rparr>) = copied_notices w"
  by (simp_all add: fun_eq_iff hash_def gitBlob_def regular_def command_def copied_notices_def)

lemma order_free_parts:
  "same (w\<lparr>nw_order := ord\<rparr>) = same w" "check_vendor (w\<lparr>nw_order := ord\<rparr>) = check_vendor w"
  "check_declared (w\<lparr>nw_order := ord\<rparr>) = check_declared w"
proof -
  show same: "same (w\<lparr>nw_order := ord\<rparr>) = same w" unfolding fun_eq_iff same_def order_free_reads by simp
  show "check_vendor (w\<lparr>nw_order := ord\<rparr>) = check_vendor w" unfolding fun_eq_iff check_vendor_def order_free_reads by simp
  show "check_declared (w\<lparr>nw_order := ord\<rparr>) = check_declared w" unfolding fun_eq_iff check_declared_def order_free_reads same by simp
qed

lemma order_free_module: "check_module (w\<lparr>nw_order := ord\<rparr>) = check_module w"
  unfolding fun_eq_iff check_module_def order_free_parts by simp

lemmas order_free = order_free_reads order_free_parts order_free_module

lemma module_list_order: "mset xs = mset ys \<Longrightarrow> module_list xs = module_list ys"
proof -
  assume "mset xs = mset ys"
  then have "mset (map (\<lambda>(m, v). m @ ''|'' @ v) xs) = mset (map (\<lambda>(m, v). m @ ''|'' @ v) ys)" by (metis mset_map)
  then have "sort (map (\<lambda>(m, v). m @ ''|'' @ v) xs) = sort (map (\<lambda>(m, v). m @ ''|'' @ v) ys)"
    by (intro properties_for_sort) (simp_all only: mset_sort sorted_sort)
  then show ?thesis by (simp only: module_list_def)
qed

lemma first_failure_order: "mset xs = mset ys \<Longrightarrow> first_failure f xs = None \<longleftrightarrow> first_failure f ys = None"
  by (metis first_failure_None set_mset_mset)

theorem notice_order_irrelevant:
  assumes "\<And>xs. mset (nw_order w xs) = mset xs" and "\<And>xs. mset (ord xs) = mset xs"
  shows "notice_check (w\<lparr>nw_order := ord\<rparr>) num bundle root arch = None \<longleftrightarrow> notice_check w num bundle root arch = None"
proof -
  have o: "mset (ord xs) = mset (nw_order w xs)" for xs using assms by simp
  have f: "first_failure f (ord xs) = None \<longleftrightarrow> first_failure f (nw_order w xs) = None" for f xs by (rule first_failure_order [OF o])
  have "check_modules (w\<lparr>nw_order := ord\<rparr>) num bundle root arch = None \<longleftrightarrow> check_modules w num bundle root arch = None"
    unfolding check_modules_def order_free by (auto simp: module_list_order [OF o] f split: sum.splits if_splits)
  then show ?thesis using f [of "\<lambda>(target, source). same w (path_join bundle target) source" "copied_notices w root"]
    unfolding notice_check_def order_free by (auto split: option.splits if_splits)
qed

text \<open>The list of modules in an accepted bundle is the closure the toolchain reports, and every module of it but the
  program's own has a notice; a declared license has the declared bytes.\<close>

theorem accepted_notices:
  assumes "notice_check w num bundle root arch = None" and "\<And>xs. mset (nw_order w xs) = mset xs"
  shows "\<exists>graph modules dirs. command w root arch graph_args = Inr graph \<and> module_graph (split_char CHR 0x0A graph) [] [] = Inr (modules, dirs)
    \<and> regular w (path_join bundle ''modules.txt'') = Inr (module_list modules)
    \<and> (\<forall>(m, v) \<in> set modules. m \<noteq> own_module \<longrightarrow> walk_notices (nw_walk w (path_join bundle m)) False = Some True)"
proof -
  have c: "check_modules w num bundle root arch = None" using assms(1) by (auto simp: notice_check_def split: if_splits option.splits)
  then obtain graph modules dirs where g: "command w root arch graph_args = Inr graph" "module_graph (split_char CHR 0x0A graph) [] [] = Inr (modules, dirs)"
    by (auto simp: check_modules_def split: sum.splits)
  have "regular w (path_join bundle ''modules.txt'') = Inr (module_list modules)"
    using c module_list_order [OF assms(2)] by (auto simp: check_modules_def g split: if_splits)
  moreover have "walk_notices (nw_walk w (path_join bundle m)) False = Some True" if "(m, v) \<in> set modules" "m \<noteq> own_module" for m v
  proof -
    have "(m, v) \<in> set (nw_order w modules)" using that(1) assms(2) by (metis set_mset_mset)
    then show ?thesis using c that(2) by (auto simp: check_modules_def g first_failure_None check_module_def split: if_splits sum.splits)
  qed
  ultimately show ?thesis using g by blast
qed

text \<open>A found notice is a regular file of the walk, and the walk met no link.\<close>

lemma walk_found: "walk_notices vs found = Some True \<Longrightarrow> found \<or> (\<exists>n. Visit n RegularEntry \<in> set vs \<and> notice_name n)"
  by (induction vs found rule: walk_notices.induct) (auto split: if_splits)

lemma walk_no_link: "walk_notices vs found = Some b \<Longrightarrow> Visit n SymlinkEntry \<notin> set vs \<and> WalkErr \<notin> set vs"
  by (induction vs found rule: walk_notices.induct) (auto split: if_splits)

text \<open>The toolchain sees the forced settings, no other value of theirs, and every other variable as it was.\<close>

definition setting_key :: "string \<Rightarrow> string" where
  "setting_key item = hd (split_char CHR ''='' item) @ ''=''"

lemma setting_keys: "map setting_key (forced_settings arch)
    = [''GOOS='', ''GOARCH='', ''CGO_ENABLED='', ''GOWORK='', ''GOENV='', ''GOTOOLCHAIN='', ''GOFLAGS='', ''GOEXPERIMENT='']"
  by (simp add: forced_settings_def setting_key_def)

lemma go_environ_keeps:
  assumes "\<forall>k \<in> set (map setting_key (forced_settings arch)). \<not> prefix k x"
  shows "x \<in> set (go_environ arch env) \<longleftrightarrow> x \<in> set env"
proof -
  have "x \<in> set (foldl force_setting e items) \<longleftrightarrow> x \<in> set e"
    if "\<forall>item \<in> set items. \<not> prefix (setting_key item) x" "\<forall>item \<in> set items. prefix (setting_key item) item" for e items
    using that by (induction items arbitrary: e) (auto simp: force_setting_def setting_key_def Let_def)
  moreover have "\<forall>item \<in> set (forced_settings arch). prefix (setting_key item) item" by (simp add: forced_settings_def setting_key_def)
  ultimately show ?thesis using assms by (simp add: go_environ_def)
qed

lemma go_environ_forced:
  assumes "k \<in> set (map setting_key (forced_settings arch))" and "x \<in> set (go_environ arch env)" and "prefix k x"
  shows "x \<in> set (forced_settings arch)"
proof -
  have "x \<in> set items" if "x \<in> set (foldl force_setting e items)" "\<exists>item \<in> set items. prefix (setting_key item) x" for e items
    using that by (induction items rule: rev_induct) (auto simp: force_setting_def setting_key_def Let_def)
  then show ?thesis using assms by (fastforce simp: go_environ_def)
qed

lemma go_environ_has: "item \<in> set (forced_settings arch) \<Longrightarrow> item \<in> set (go_environ arch env)"
  by (auto simp: go_environ_def forced_settings_def force_setting_def Let_def)

end
