(* ===== verification/Spec2Isabelle.thy ===== *)
theory Spec2Isabelle
  imports System DiodeProofs Program NoticeCheck
begin

text \<open>
  A verification library for the Platform Orchestrator runner, the Go program under
  \<open>src/cmd/runner\<close> with the packages of \<open>src/internal\<close>.

  \<^bold>\<open>The program.\<close> The orchestrator's control plane puts commands for remote runners on NATS streams. A
  \<^emph>\<open>gateway\<close> (\<open>internal/gateway\<close>) serves them over HTTP: it authenticates the runner's agent by a
  signed token, hands out one command at a time together with a sealed receipt, and takes back
  acknowledgements, retries, rejections, events, results and logs. The \<^emph>\<open>agent\<close>
  (\<open>internal/executor/remote_executor.go\<close>) asks the gateway for commands through the client of
  \<open>internal/gatewayapi\<close>, creates a Kubernetes job for each and watches it being scheduled. The job
  runs the same program in its \<^emph>\<open>standard mode\<close> (\<open>internal/executor\<close>, \<open>internal/runner\<close>): it fetches
  the deployment's bundle, unpacks it, runs OpenTofu or Terraform and reports the results, with an
  \<^emph>\<open>outbox\<close> on disk for what the gateway does not take. A \<^emph>\<open>diode relay\<close> (\<open>internal/diode\<close>) carries
  messages across one-way links as signed files. \<open>cmd/runner/main.go\<close> chooses between the modes.

  \<^bold>\<open>How it is modelled.\<close> Every operation is an executable function; state is passed explicitly, a Go
  struct is a record, an error a value of type \<open>goerr\<close>, a panic the value \<^const>\<open>None\<close> where one is
  possible. Code outside the repository is an argument: records such as \<open>crypto\<close>, \<open>nats\<close>, \<open>clientset\<close>
  or \<open>machine\<close> hold its operations, over worlds of arbitrary type, and every law about them is a
  hypothesis of the theorem that needs it. The Go standard library is modelled where the sources
  depend on it: base64, percent and hex encoding, JSON with Go's quirks (keys matched regardless
  of case, replaced invalid UTF-8, HTML escapes), RFC 3339, path cleaning, a file system with
  faults and crashes. Texts that a library puts into its own errors are left out.

  \<^item> \<^theory_text>\<open>Prelude\<close>, \<^theory_text>\<open>Strings\<close>, \<^theory_text>\<open>Encoding\<close>, \<^theory_text>\<open>Json\<close>, \<^theory_text>\<open>Rfc3339\<close>, \<^theory_text>\<open>Paths\<close>: errors, time, strings and
    the encodings of the standard library. Locales: \<open>byte_codec\<close> (what is encoded decodes again),
    \<open>b64_alphabet\<close>, \<open>transition_invariant\<close>; all are interpreted on the codecs and systems below.
  \<^item> \<^theory_text>\<open>Crypto\<close>, \<^theory_text>\<open>Auth\<close> (\<open>gatewayapi/auth.go\<close>): agent tokens. Tokens are accepted in their window
    and only for the runner they name.
  \<^item> \<^theory_text>\<open>Receipt\<close> (\<open>gateway/receipt.go\<close>), \<^theory_text>\<open>Keys\<close> (\<open>gateway/keys.go\<close>): receipts, and the resolvers of public
    keys with their cache; interleaved resolutions are a step relation with an invariant.
  \<^item> \<^theory_text>\<open>Messaging\<close>, \<^theory_text>\<open>Transport\<close> (\<open>natstransport/transport.go\<close>), \<^theory_text>\<open>Backend\<close> (\<open>gateway/backend.go\<close>),
    \<^theory_text>\<open>Protocol\<close> (\<open>gatewayapi/types.go\<close>), \<^theory_text>\<open>Server\<close> (\<open>gateway/server.go\<close>): the gateway. What is delivered,
    settled and stored is authorized; requests are answered; uploads are bounded.
  \<^item> \<^theory_text>\<open>Client\<close> (\<open>gatewayapi/client.go\<close>), \<^theory_text>\<open>EndToEnd\<close>: the agent's client, and its requests against the
    gateway's handlers.
  \<^item> \<^theory_text>\<open>Files\<close>, \<^theory_text>\<open>Outbox\<close> (\<open>gatewayapi/outbox.go\<close>): a file system in which every call can fail and a crash
    loses what was not synced; the locale \<open>atomic_store\<close> is the contract of writing a file by rename, and
    the outbox is an interpretation of it.
  \<^item> \<^theory_text>\<open>Frames\<close>, \<^theory_text>\<open>Diode\<close>, \<^theory_text>\<open>DiodeProofs\<close> (\<open>diode/relay.go\<close>): signed frames, exporter and importer. Nothing is
    acknowledged before it is durable, nothing is published twice or unsigned.
  \<^item> \<^theory_text>\<open>Settings\<close> (\<open>config/config.go\<close>), \<^theory_text>\<open>K8sJobs\<close> (\<open>kubernetesjob/client.go\<close>), \<^theory_text>\<open>RemoteExecutor\<close>
    (\<open>executor/remote_executor.go\<close>): the agent. Each command is settled exactly once; a monitor, with its timer
    and ticker on the runtime's monotonic clock, ends; the agent does not.
  \<^item> \<^theory_text>\<open>LogsBuffer\<close> (\<open>limitedlogsbuffer\<close>), \<^theory_text>\<open>Bundle\<close> (\<open>runner/utils.go\<close>), \<^theory_text>\<open>Artifacts\<close>
    (\<open>runner/artifact_verification.go\<close>), \<^theory_text>\<open>Observation\<close> (\<open>runner/observation.go\<close>), \<^theory_text>\<open>Runner\<close>
    (\<open>runner/base_runner.go\<close>, \<open>output_changes.go\<close>, \<open>errors.go\<close>), \<^theory_text>\<open>RunnerFactory\<close> (\<open>runner_factory.go\<close> and
    the two tools), \<^theory_text>\<open>SshAgent\<close> (\<open>sshagent/agent.go\<close>): what a job uses. Unpacking stays in its folder,
    observations only read and report nothing of a plan's values, the keys leave the environment
    before a tool starts.
  \<^item> \<^theory_text>\<open>StandardExecutor\<close> (\<open>executor/standard_executor.go\<close>, \<open>observation.go\<close>, \<open>utils.go\<close>), \<^theory_text>\<open>Workflow\<close>: a
    deployment. The abstract workflow of a mode is a list of stages; the executor refines it. The
    contract between the executor and the record of stages is the locale \<open>recorded_execution\<close>.
  \<^item> \<^theory_text>\<open>Program\<close> (\<open>cmd/runner/main.go\<close>): mode selection, and the components put together. No result is lost
    silently; no mode runs on a configuration that is not well-formed.
  \<^item> \<^theory_text>\<open>System\<close>: agent, client, gateway and cluster together. A command runs through the whole system in one
    round; over a network that loses requests and answers, no command is acknowledged in the stream without its
    job; bundle and results of a deployment arrive.
  \<^item> \<^theory_text>\<open>VendorCheck\<close> (\<open>scripts/vendorcheck/main.go\<close>), \<^theory_text>\<open>NoticeCheck\<close> (\<open>scripts/noticecheck/main.go\<close>): the two checks of
    a release. An accepted scanner report holds the reviewed findings and no others, in any order; an
    accepted bundle of notices covers the modules the toolchain reports, in whatever order Go visits its maps.

  \<^bold>\<open>Bounds.\<close> Endless loops take the number of rounds as an argument (\<open>remote_loop\<close>, \<open>export_loop\<close>,
  \<open>import_loop\<close>, \<open>flush_loop\<close>), so that a theorem about them holds for every number of rounds. Loops that
  end take fuel and are proved to return with enough of it: \<open>command_loop\<close> when the backend holds
  finitely many commands, \<open>monitor_loop\<close> with the first wait after its 720th tick in which the random choice
  between a ready timeout and a ready tick falls on the timeout, \<open>parse_keys\<close> with the length of its
  input, because every block shortens the rest; the JSON parser gets one more than the length of its input.

  \<^bold>\<open>Not modelled.\<close> The clients generated from OpenAPI documents (\<open>platformorchestratorapi/client.gen.go\<close>
  but for the results of a deployment, and the client of the integration tests): no code of the
  program calls them. Log lines, closing connections and response bodies, flag parsing, signals, the
  accept loops of the HTTP server and of the SSH agent, and the deadlines of contexts, other than the
  ones handlers set, have no counterpart. The order in which Go walks a map is fixed where the program
  depends on none; the check of the notices takes it as an argument.
\<close>

end
